(* ===== verification/P2P_Prelude.thy ===== *)
theory P2P_Prelude
  imports Complex_Main "HOL-Library.Word"
begin

text \<open>
  Shared vocabulary of the development: byte strings, the opaque identifiers of \<^verbatim>\<open>libp2p\<close>
  (\<^verbatim>\<open>PeerId\<close>, \<^verbatim>\<open>PublicKey\<close>, \<^verbatim>\<open>Multiaddr\<close>), Rust's \<^verbatim>\<open>u64\<close> arithmetic, \<^verbatim>\<open>std::time\<close>
  durations and time points, and the generic lemmas on options, maps and words that the component
  theories share. The collections \<open>p2p_ops\<close> (operation definitions) and \<open>p2p_time\<close>
  (time and word conversions) are what the component proofs hand to the simplifier.
\<close>

named_theorems p2p_ops \<open>definitions of the operations of a component\<close>
named_theorems p2p_time \<open>conversions between words, durations and natural numbers\<close>

section \<open>Bytes and identifiers\<close>

type_synonym u8 = "8 word"
type_synonym u32 = "32 word"
type_synonym u64 = "64 word"
type_synonym bytes = "u8 list"

text \<open>
  \<^verbatim>\<open>libp2p\<close> identifiers are only compared, hashed and passed to library functions; a value is a
  label. What the library computes from them (peer id of a key, byte forms, signature checks) is a
  parameter, see \<open>P2P_Messages\<close>.
\<close>

datatype peer_id = PeerId bytes
datatype public_key = PublicKey bytes
datatype multiaddr = Multiaddr bytes

type_synonym connection_id = nat
type_synonym query_id = nat
type_synonym message_id = bytes

section \<open>Unsigned 64-bit arithmetic\<close>

text \<open>
  \<^verbatim>\<open>a + b\<close> on \<^verbatim>\<open>u64\<close>: with overflow checks (debug builds) an overflow panics, which is
  \<^term>\<open>None\<close>; without them (release builds) the sum wraps.
\<close>

definition u64_add :: "bool \<Rightarrow> u64 \<Rightarrow> u64 \<Rightarrow> u64 option" where
  "u64_add overflow_checks a b =
     (if overflow_checks \<and> 2 ^ 64 \<le> unat a + unat b then None else Some (a + b))"

definition saturating_sub :: "u64 \<Rightarrow> u64 \<Rightarrow> u64" where
  "saturating_sub a b = (if a < b then 0 else a - b)"

lemma unat_u64_lt: "unat (a :: u64) < 2 ^ 64"
  using unsigned_less [of a, where ?'a = nat] by simp

lemma unat_u64_add_exact:
  "unat a + unat b < 2 ^ 64 \<Longrightarrow> unat ((a :: u64) + b) = unat a + unat b"
  by (simp add: unat_word_ariths)

lemma u64_add_exact:
  "unat a + unat b < 2 ^ 64 \<Longrightarrow> u64_add oc a b = Some (a + b)"
  by (simp add: u64_add_def)

lemma u64_add_overflow_panics:
  "2 ^ 64 \<le> unat a + unat b \<Longrightarrow> u64_add True a b = None"
  by (simp add: u64_add_def)

lemma u64_add_release: "u64_add False a b = Some (a + b)"
  by (simp add: u64_add_def)

lemma unat_saturating_sub [p2p_time]: "unat (saturating_sub a b) = unat a - unat b"
  by (auto simp: saturating_sub_def word_less_nat_alt unat_sub word_le_nat_alt)

lemma word_greater_unat [p2p_time]: "(a :: u64) > b \<longleftrightarrow> unat b < unat a"
  by (simp add: word_less_nat_alt)

section \<open>Durations and time points\<close>

text \<open>
  A \<^verbatim>\<open>std::time::Duration\<close> is a number of nanoseconds, a \<^verbatim>\<open>SystemTime\<close> the signed number of
  nanoseconds since the Unix epoch. Rust bounds the seconds of a duration by \<^verbatim>\<open>u64::MAX\<close>
  (\<open>valid_duration\<close>) and those of a time point by \<^verbatim>\<open>i64::MAX\<close>; adding a duration to a time point
  panics beyond that bound.
\<close>

type_synonym duration = nat
type_synonym system_time = int

abbreviation nanos_per_sec :: nat where
  "nanos_per_sec \<equiv> 1000000000"

definition valid_duration :: "duration \<Rightarrow> bool" where
  "valid_duration d \<longleftrightarrow> d div nanos_per_sec < 2 ^ 64"

definition as_secs :: "duration \<Rightarrow> u64" where
  "as_secs d = word_of_nat (d div nanos_per_sec)"

definition from_secs :: "u64 \<Rightarrow> duration" where
  "from_secs n = unat n * nanos_per_sec"

definition system_time_limit :: system_time where
  "system_time_limit = 2 ^ 63 * 1000000000"

definition system_time_add :: "system_time \<Rightarrow> duration \<Rightarrow> system_time option" where
  "system_time_add t d = (if t + int d < system_time_limit then Some (t + int d) else None)"

text \<open>\<^verbatim>\<open>a.duration_since(b)\<close>: an error when \<^verbatim>\<open>b\<close> is later.\<close>

definition duration_since :: "system_time \<Rightarrow> system_time \<Rightarrow> duration option" where
  "duration_since a b = (if b \<le> a then Some (nat (a - b)) else None)"

text \<open>\<^verbatim>\<open>SystemTime::now().duration_since(UNIX_EPOCH).unwrap_or_default().as_secs()\<close>.\<close>

definition unix_secs :: "system_time \<Rightarrow> u64" where
  "unix_secs now = as_secs (case duration_since now 0 of None \<Rightarrow> 0 | Some d \<Rightarrow> d)"

lemma unat_as_secs [p2p_time]: "valid_duration d \<Longrightarrow> unat (as_secs d) = d div nanos_per_sec"
  by (simp add: as_secs_def valid_duration_def unat_of_nat)

lemma as_secs_from_secs [simp]: "as_secs (from_secs n) = n"
  by (simp add: as_secs_def from_secs_def)

lemma valid_from_secs [simp]: "valid_duration (from_secs n)"
  using unat_u64_lt [of n] by (simp add: valid_duration_def from_secs_def)

lemma from_secs_greater [p2p_time]: "from_secs n > d \<longleftrightarrow> d div nanos_per_sec < unat n"
proof -
  have "d < unat n * nanos_per_sec \<longleftrightarrow> d div nanos_per_sec < unat n"
    by (rule div_less_iff_less_mult [symmetric]) simp
  then show ?thesis by (simp add: from_secs_def)
qed

lemma system_time_add_Some_iff:
  "system_time_add t d = Some u \<longleftrightarrow> u = t + int d \<and> u < system_time_limit"
  by (auto simp: system_time_add_def)

section \<open>Options and maps\<close>

text \<open>\<^verbatim>\<open>Option::is_some_and(p)\<close>.\<close>

definition is_some_and :: "('a \<Rightarrow> bool) \<Rightarrow> 'a option \<Rightarrow> bool" where
  "is_some_and p x = (case x of None \<Rightarrow> False | Some a \<Rightarrow> p a)"

definition unwrap_or :: "'a \<Rightarrow> 'a option \<Rightarrow> 'a" where
  "unwrap_or d x = (case x of None \<Rightarrow> d | Some a \<Rightarrow> a)"

lemma is_some_and_simps [simp]:
  "is_some_and p None = False"
  "is_some_and p (Some a) = p a"
  by (simp_all add: is_some_and_def)

lemma unwrap_or_simps [simp]:
  "unwrap_or d None = d"
  "unwrap_or d (Some a) = a"
  by (simp_all add: unwrap_or_def)

lemma is_some_and_iff: "is_some_and p x \<longleftrightarrow> (\<exists>a. x = Some a \<and> p a)"
  by (cases x) auto

text \<open>\<^verbatim>\<open>HashMap::remove\<close> and \<^verbatim>\<open>HashMap::insert\<close> return the previous value.\<close>

definition map_remove :: "'k \<Rightarrow> ('k \<rightharpoonup> 'v) \<Rightarrow> ('k \<rightharpoonup> 'v) \<times> 'v option" where
  "map_remove k m = (m(k := None), m k)"

definition map_insert :: "'k \<Rightarrow> 'v \<Rightarrow> ('k \<rightharpoonup> 'v) \<Rightarrow> ('k \<rightharpoonup> 'v) \<times> 'v option" where
  "map_insert k v m = (m(k \<mapsto> v), m k)"

lemma fst_case_pair [simp]: "fst (case x of (a, b) \<Rightarrow> (a, f a b)) = fst x"
  by (cases x) simp

lemma ran_map_upd_subset: "ran (m(k \<mapsto> v)) \<subseteq> insert v (ran m)"
  by (auto simp: ran_def split: if_splits)

lemma ran_map_remove_subset: "ran (m(k := None)) \<subseteq> ran m"
  by (auto simp: ran_def split: if_splits)

lemma inj_on_map_upd_fresh:
  assumes "inj_on m (dom m)" and "v \<notin> ran m"
  shows "inj_on (m(k \<mapsto> v)) (dom (m(k \<mapsto> v)))"
  using assms by (auto simp: inj_on_def ran_def domIff split: if_splits)

lemma inj_on_map_remove:
  "inj_on m (dom m) \<Longrightarrow> inj_on (m(k := None)) (dom (m(k := None)))"
  by (auto simp: inj_on_def domIff split: if_splits)

end
