(* ===== verification/P2P_Errors.thy ===== *)
theory P2P_Errors
  imports P2P_Prelude
begin

text \<open>
  The error types of \<^verbatim>\<open>swarm/errors.rs\<close>. A \<^verbatim>\<open>Box<dyn Error>\<close> or \<^verbatim>\<open>io::Error\<close> payload is an opaque
  \<open>boxed_error\<close>: no handler looks inside one. \<open>status\<close> is what a handler of the event loop ends
  with: \<^verbatim>\<open>Ok(())\<close>, an \<^verbatim>\<open>Err\<close> that stops the loop, or a panic that unwinds the task.
\<close>

datatype boxed_error = BoxedError string

datatype setup_error =
    SetupSignatureVerificationFailed
  | AppPublicKeyInvalid boxed_error
  | OutboundError boxed_error
  | InboundError boxed_error
  | TransportIdMismatch
  | StaleMessage
  | FutureMessage

datatype setup_upgrade_error =
    SetupSignedMessageCreation boxed_error
  | SetupCodec boxed_error
  | UnexpectedStreamClose

datatype signed_message_error =
    SignedCodec boxed_error
  | SignatureVerificationFailed
  | SignedMessageCreation boxed_error

datatype protocol_error =
    Listen boxed_error
  | GossipEventsChannelClosed boxed_error
  | ReqRespEventChannelClosed boxed_error
  | TransportInitialization boxed_error
  | BehaviourInitialization boxed_error
  | ResponseError string

datatype swarm_error = Protocol protocol_error

datatype status = Ok | Err swarm_error | Panicked

end
