(* ===== verification/P2P_Messages.thy ===== *)
theory P2P_Messages
  imports P2P_Errors
begin

text \<open>
  The wire messages of \<^verbatim>\<open>swarm/message/*.rs\<close> and \<^verbatim>\<open>signer.rs\<close>: protocol identifiers, the five
  message structs with their constructors, the signed envelope with \<^verbatim>\<open>SignedMessage::new\<close> and
  \<^verbatim>\<open>SignedMessage::verify\<close>, the \<^verbatim>\<open>serde\<close> helper modules and the transport-key signer.

  The \<^verbatim>\<open>flexbuffers\<close> encoding of a message type and the key operations of \<^verbatim>\<open>libp2p\<close> are
  parameters: a \<open>codec\<close> holds the three functions the code calls for one message type, \<open>key_ops\<close> the
  key and peer-id functions. What the code relies on of them is stated by \<open>codec_roundtrip\<close>,
  \<open>signer_matches\<close> and \<open>key_encoding_lawful\<close>. The locale \<open>message_type\<close> is the \<^verbatim>\<open>HasPublicKey\<close>
  contract with the constructors' promises; it is interpreted on all five message types.
\<close>

section \<open>Parameters: encodings and keys\<close>

record 'm signed_message =
  sm_message :: 'm
  sm_signature :: bytes

record 'm codec =
  to_vec :: "'m \<Rightarrow> bytes option"
  signed_to_vec :: "'m signed_message \<Rightarrow> bytes option"
  signed_from_slice :: "bytes \<Rightarrow> 'm signed_message option"

record key_ops =
  pk_to_peer_id :: "public_key \<Rightarrow> peer_id"
  pk_encode_protobuf :: "public_key \<Rightarrow> bytes"
  pk_try_decode_protobuf :: "bytes \<Rightarrow> public_key option"
  pk_verify :: "public_key \<Rightarrow> bytes \<Rightarrow> bytes \<Rightarrow> bool"
  pid_to_bytes :: "peer_id \<Rightarrow> bytes"
  pid_from_bytes :: "bytes \<Rightarrow> peer_id option"

text \<open>Decoding an encoded envelope gives it back.\<close>

definition codec_roundtrip :: "'m codec \<Rightarrow> bool" where
  "codec_roundtrip c \<longleftrightarrow> (\<forall>m b. signed_to_vec c m = Some b \<longrightarrow> signed_from_slice c b = Some m)"

text \<open>\<^verbatim>\<open>PublicKey\<close> and \<^verbatim>\<open>PeerId\<close> survive their byte forms.\<close>

definition key_encoding_lawful :: "key_ops \<Rightarrow> bool" where
  "key_encoding_lawful ko \<longleftrightarrow>
     (\<forall>k. pk_try_decode_protobuf ko (pk_encode_protobuf ko k) = Some k) \<and>
     (\<forall>p. pid_from_bytes ko (pid_to_bytes ko p) = Some p)"

section \<open>Signers\<close>

text \<open>\<^verbatim>\<open>ApplicationSigner::sign\<close>; \<^term>\<open>None\<close> is an error.\<close>

type_synonym signer = "bytes \<Rightarrow> bytes option"

text \<open>
  The contract of \<^verbatim>\<open>ApplicationSigner\<close>: what it signs verifies under the public key it belongs to.
\<close>

definition signer_matches :: "key_ops \<Rightarrow> signer \<Rightarrow> public_key \<Rightarrow> bool" where
  "signer_matches ko sg k \<longleftrightarrow> (\<forall>b sig. sg b = Some sig \<longrightarrow> pk_verify ko k b sig)"

text \<open>\<^verbatim>\<open>TransportKeypairSigner::sign\<close>: \<open>keypair_sign\<close> is \<^verbatim>\<open>Keypair::sign\<close>.\<close>

definition transport_keypair_signer_sign :: "(bytes \<Rightarrow> bytes option) \<Rightarrow> signer" where
  "transport_keypair_signer_sign keypair_sign msg =
     (case keypair_sign msg of
        None \<Rightarrow> None
      | Some sig \<Rightarrow> if length sig \<noteq> 64 then None else Some sig)"

lemma transport_signer_length:
  "transport_keypair_signer_sign ks b = Some sig \<Longrightarrow> length sig = 64"
  by (auto simp: transport_keypair_signer_sign_def split: option.splits if_splits)

section \<open>Protocol identifiers\<close>

datatype protocol_id = Setup | Gossip | RequestResponse

fun protocol_id_into_u8 :: "protocol_id \<Rightarrow> u8" where
  "protocol_id_into_u8 Setup = 1"
| "protocol_id_into_u8 Gossip = 2"
| "protocol_id_into_u8 RequestResponse = 3"

definition protocol_id_try_from :: "u8 \<Rightarrow> string + protocol_id" where
  "protocol_id_try_from v =
     (if v = 1 then Inr Setup
      else if v = 2 then Inr Gossip
      else if v = 3 then Inr RequestResponse
      else Inl ''Invalid protocol ID'')"

text \<open>\<^verbatim>\<open>get_timestamp\<close>: the \<^verbatim>\<open>expect\<close> panics before the Unix epoch.\<close>

definition get_timestamp :: "system_time \<Rightarrow> u64 option" where
  "get_timestamp now = map_option as_secs (duration_since now 0)"

lemma get_timestamp_eq: "get_timestamp now = (if 0 \<le> now then Some (unix_secs now) else None)"
  by (simp add: get_timestamp_def unix_secs_def duration_since_def)

section \<open>The message structs\<close>

datatype gossip_version = GossipV1 | GossipV2
datatype req_resp_version = ReqRespV1 | ReqRespV2
datatype setup_version = SetupV1
datatype dht_version = DhtV1

record gossip_message =
  gm_version :: gossip_version
  gm_protocol :: protocol_id
  gm_message :: bytes
  gm_public_key :: public_key
  gm_date :: u64

record request_message =
  rq_version :: req_resp_version
  rq_protocol :: protocol_id
  rq_message :: bytes
  rq_public_key :: public_key
  rq_date :: u64
  rq_destination_peer_id :: peer_id

record response_message =
  rs_version :: req_resp_version
  rs_protocol :: protocol_id
  rs_message :: bytes
  rs_app_public_key :: public_key
  rs_date :: u64

record setup_message =
  st_version :: setup_version
  st_app_public_key :: public_key
  st_local_transport_id :: peer_id
  st_remote_transport_id :: peer_id
  st_date :: u64

record record_data =
  rd_version :: dht_version
  rd_public_key :: public_key
  rd_multiaddresses :: "multiaddr list"
  rd_date :: u64

text \<open>The constructors; \<^term>\<open>None\<close> is the panic of \<^verbatim>\<open>get_timestamp\<close>.\<close>

definition gossip_message_new :: "system_time \<Rightarrow> public_key \<Rightarrow> bytes \<Rightarrow> gossip_message option" where
  "gossip_message_new now app_public_key msg =
     (case get_timestamp now of None \<Rightarrow> None | Some t \<Rightarrow>
        Some \<lparr>gm_version = GossipV2, gm_protocol = Gossip, gm_message = msg,
              gm_public_key = app_public_key, gm_date = t\<rparr>)"

definition request_message_new ::
  "system_time \<Rightarrow> public_key \<Rightarrow> bytes \<times> peer_id \<Rightarrow> request_message option" where
  "request_message_new now app_public_key = (\<lambda>(msg, destination).
     (case get_timestamp now of None \<Rightarrow> None | Some t \<Rightarrow>
        Some \<lparr>rq_version = ReqRespV2, rq_protocol = RequestResponse, rq_message = msg,
              rq_public_key = app_public_key, rq_date = t, rq_destination_peer_id = destination\<rparr>))"

definition response_message_new :: "system_time \<Rightarrow> public_key \<Rightarrow> bytes \<Rightarrow> response_message option" where
  "response_message_new now app_public_key msg =
     (case get_timestamp now of None \<Rightarrow> None | Some t \<Rightarrow>
        Some \<lparr>rs_version = ReqRespV2, rs_protocol = RequestResponse, rs_message = msg,
              rs_app_public_key = app_public_key, rs_date = t\<rparr>)"

definition setup_message_new ::
  "system_time \<Rightarrow> public_key \<Rightarrow> peer_id \<times> peer_id \<Rightarrow> setup_message option" where
  "setup_message_new now app_public_key = (\<lambda>(local_tid, remote_tid).
     (case get_timestamp now of None \<Rightarrow> None | Some t \<Rightarrow>
        Some \<lparr>st_version = SetupV1, st_app_public_key = app_public_key,
              st_local_transport_id = local_tid, st_remote_transport_id = remote_tid,
              st_date = t\<rparr>))"

definition record_data_new :: "system_time \<Rightarrow> public_key \<Rightarrow> multiaddr list \<Rightarrow> record_data option" where
  "record_data_new now pk addrs =
     (case get_timestamp now of None \<Rightarrow> None | Some t \<Rightarrow>
        Some \<lparr>rd_version = DhtV1, rd_public_key = pk, rd_multiaddresses = addrs, rd_date = t\<rparr>)"

section \<open>The signed envelope\<close>

datatype sign_error = SerializeError | SignerError

definition signed_message_new ::
  "'m codec \<Rightarrow> signer \<Rightarrow> 'm \<Rightarrow> sign_error + 'm signed_message" where
  "signed_message_new c sg m =
     (case to_vec c m of
        None \<Rightarrow> Inl SerializeError
      | Some b \<Rightarrow> (case sg b of
            None \<Rightarrow> Inl SignerError
          | Some sig \<Rightarrow> Inr \<lparr>sm_message = m, sm_signature = sig\<rparr>))"

definition signed_message_verify ::
  "'m codec \<Rightarrow> key_ops \<Rightarrow> ('m \<Rightarrow> public_key) \<Rightarrow> 'm signed_message \<Rightarrow> sign_error + bool" where
  "signed_message_verify c ko public_key sm =
     (case to_vec c (sm_message sm) of
        None \<Rightarrow> Inl SerializeError
      | Some serialized \<Rightarrow>
          Inr (pk_verify ko (public_key (sm_message sm)) serialized (sm_signature sm)))"

text \<open>\<^verbatim>\<open>verify().unwrap_or(false)\<close>.\<close>

definition verify_or_false ::
  "'m codec \<Rightarrow> key_ops \<Rightarrow> ('m \<Rightarrow> public_key) \<Rightarrow> 'm signed_message \<Rightarrow> bool" where
  "verify_or_false c ko pk sm = (case signed_message_verify c ko pk sm of Inl _ \<Rightarrow> False | Inr v \<Rightarrow> v)"

text \<open>What a successful verification says about an envelope.\<close>

definition authentic :: "'m codec \<Rightarrow> key_ops \<Rightarrow> ('m \<Rightarrow> public_key) \<Rightarrow> 'm signed_message \<Rightarrow> bool" where
  "authentic c ko pk sm \<longleftrightarrow>
     (\<exists>b. to_vec c (sm_message sm) = Some b \<and> pk_verify ko (pk (sm_message sm)) b (sm_signature sm))"

lemma signed_message_verify_authentic:
  "signed_message_verify c ko pk sm = Inr True \<longleftrightarrow> authentic c ko pk sm"
  by (auto simp: signed_message_verify_def authentic_def split: option.splits)

lemma verify_or_false_authentic [simp]: "verify_or_false c ko pk sm \<longleftrightarrow> authentic c ko pk sm"
  by (auto simp: verify_or_false_def signed_message_verify_def authentic_def split: option.splits)

lemma signed_message_new_message:
  "signed_message_new c sg m = Inr sm \<Longrightarrow> sm_message sm = m"
  by (auto simp: signed_message_new_def split: option.splits)

lemma signed_message_new_authentic:
  assumes "signed_message_new c sg m = Inr sm" and "signer_matches ko sg (pk m)"
  shows "authentic c ko pk sm"
  using assms
  by (auto simp: signed_message_new_def authentic_def signer_matches_def split: option.splits)

subsection \<open>The message-type contract\<close>

text \<open>
  A message type of the protocol: its \<^verbatim>\<open>HasPublicKey\<close> accessor, its date and its constructor. The
  laws are what the senders rely on: the key and the current second are embedded, and the
  constructor returns on every clock at or after the Unix epoch.
\<close>

locale message_type =
  fixes key :: "'m \<Rightarrow> public_key"
    and date :: "'m \<Rightarrow> u64"
    and new :: "system_time \<Rightarrow> public_key \<Rightarrow> 'a \<Rightarrow> 'm option"
  assumes new_key: "new now k a = Some m \<Longrightarrow> key m = k"
    and new_date: "new now k a = Some m \<Longrightarrow> date m = unix_secs now"
    and new_total: "0 \<le> now \<Longrightarrow> \<exists>m. new now k a = Some m"
begin

lemma signed_new_authentic:
  assumes "new now k a = Some m" and "signed_message_new c sg m = Inr sm"
    and "signer_matches ko sg k"
  shows "authentic c ko key sm" and "sm_message sm = m" and "date (sm_message sm) = unix_secs now"
proof -
  from assms(1) have "key m = k" by (rule new_key)
  with assms(2,3) show "authentic c ko key sm"
    by (auto intro: signed_message_new_authentic)
  from assms(2) show m: "sm_message sm = m" by (rule signed_message_new_message)
  with assms(1) show "date (sm_message sm) = unix_secs now" by (simp add: new_date)
qed

lemma sign_encode_decode_verifies:
  assumes "new now k a = Some m" and "signed_message_new c sg m = Inr sm"
    and "signer_matches ko sg k" and "codec_roundtrip c" and "signed_to_vec c sm = Some b"
  shows "\<exists>sm'. signed_from_slice c b = Some sm' \<and> sm_message sm' = m \<and>
               signed_message_verify c ko key sm' = Inr True"
  using assms signed_new_authentic [OF assms(1-3)]
  by (auto simp: codec_roundtrip_def signed_message_verify_authentic)

end

interpretation gossip_type: message_type gm_public_key gm_date gossip_message_new
  by unfold_locales
    (auto simp: gossip_message_new_def get_timestamp_eq split: if_splits)

interpretation request_type: message_type rq_public_key rq_date request_message_new
  by unfold_locales
    (auto simp: request_message_new_def get_timestamp_eq split: if_splits)

interpretation response_type: message_type rs_app_public_key rs_date response_message_new
  by unfold_locales
    (auto simp: response_message_new_def get_timestamp_eq split: if_splits)

interpretation setup_type: message_type st_app_public_key st_date setup_message_new
  by unfold_locales
    (auto simp: setup_message_new_def get_timestamp_eq split: if_splits)

interpretation record_type: message_type rd_public_key rd_date record_data_new
  by unfold_locales
    (auto simp: record_data_new_def get_timestamp_eq split: if_splits)

section \<open>Serde helpers\<close>

text \<open>
  The modules \<^verbatim>\<open>pubkey_serializer\<close>, \<^verbatim>\<open>signature_serializer\<close> and \<^verbatim>\<open>bytes_serializer\<close>: \<open>put\<close> is the
  serializer's \<^verbatim>\<open>serialize_bytes\<close>, \<open>get\<close> the deserializer's reading of a byte slice.
\<close>

definition pubkey_serialize :: "key_ops \<Rightarrow> (bytes \<Rightarrow> 'o option) \<Rightarrow> public_key \<Rightarrow> 'o option" where
  "pubkey_serialize ko put data = put (pk_encode_protobuf ko data)"

definition pubkey_deserialize :: "key_ops \<Rightarrow> ('o \<Rightarrow> bytes option) \<Rightarrow> 'o \<Rightarrow> string + public_key" where
  "pubkey_deserialize ko get d =
     (case get d of
        None \<Rightarrow> Inl ''deserializer''
      | Some b \<Rightarrow> (case pk_try_decode_protobuf ko b of
            None \<Rightarrow> Inl ''Failed to deserialize pubkey''
          | Some k \<Rightarrow> Inr k))"

definition signature_serialize :: "(bytes \<Rightarrow> 'o option) \<Rightarrow> bytes \<Rightarrow> 'o option" where
  "signature_serialize put data = put data"

definition signature_deserialize :: "('o \<Rightarrow> bytes option) \<Rightarrow> 'o \<Rightarrow> string + bytes" where
  "signature_deserialize get d =
     (case get d of
        None \<Rightarrow> Inl ''deserializer''
      | Some b \<Rightarrow> if length b = 64 then Inr b
                  else Inl ''Signature must be exactly 64 bytes'')"

definition bytes_serialize :: "(bytes \<Rightarrow> 'o option) \<Rightarrow> bytes \<Rightarrow> 'o option" where
  "bytes_serialize put data = put data"

definition bytes_deserialize :: "('o \<Rightarrow> bytes option) \<Rightarrow> 'o \<Rightarrow> string + bytes" where
  "bytes_deserialize get d = (case get d of None \<Rightarrow> Inl ''deserializer'' | Some b \<Rightarrow> Inr b)"

text \<open>The format stores byte strings faithfully.\<close>

definition blob_lawful :: "(bytes \<Rightarrow> 'o option) \<Rightarrow> ('o \<Rightarrow> bytes option) \<Rightarrow> bool" where
  "blob_lawful put get \<longleftrightarrow> (\<forall>b d. put b = Some d \<longrightarrow> get d = Some b)"

section \<open>Example parameters\<close>

text \<open>
  A concrete choice of the key operations and of the encoding of one message, which satisfies the
  hypotheses above.
\<close>

definition example_sign :: "public_key \<Rightarrow> signer" where
  "example_sign k b = (case k of PublicKey kb \<Rightarrow> Some (take 64 (kb @ b @ replicate 64 0)))"

definition example_keys :: key_ops where
  "example_keys =
     \<lparr>pk_to_peer_id = (\<lambda>k. case k of PublicKey b \<Rightarrow> PeerId b),
      pk_encode_protobuf = (\<lambda>k. case k of PublicKey b \<Rightarrow> b),
      pk_try_decode_protobuf = (\<lambda>b. Some (PublicKey b)),
      pk_verify = (\<lambda>k b sig. example_sign k b = Some sig),
      pid_to_bytes = (\<lambda>p. case p of PeerId b \<Rightarrow> b),
      pid_from_bytes = (\<lambda>b. Some (PeerId b))\<rparr>"

definition example_codec :: "'m \<Rightarrow> 'm codec" where
  "example_codec m0 =
     \<lparr>to_vec = (\<lambda>m. if m = m0 then Some [0] else Some [9]),
      signed_to_vec = (\<lambda>sm. if sm_message sm = m0 then Some (1 # sm_signature sm) else None),
      signed_from_slice = (\<lambda>b. case b of
          [] \<Rightarrow> None
        | x # sig \<Rightarrow> if x = 1 then Some \<lparr>sm_message = m0, sm_signature = sig\<rparr> else None)\<rparr>"

lemma example_keys_lawful: "key_encoding_lawful example_keys"
  by (simp add: key_encoding_lawful_def example_keys_def split: public_key.split peer_id.split)

lemma example_signer_matches: "signer_matches example_keys (example_sign k) k"
  by (simp add: signer_matches_def example_keys_def)

lemma example_codec_roundtrip: "codec_roundtrip (example_codec m0)"
  by (auto simp: codec_roundtrip_def example_codec_def)

lemma example_sign_length: "example_sign k b = Some sig \<Longrightarrow> length sig = 64"
  by (cases k) (auto simp: example_sign_def)

section \<open>Properties\<close>

text \<open>A byte is accepted as a protocol id exactly when it is the byte that id is sent as; every
  other byte is an error.\<close>

lemma protocol_id_exact:
  "protocol_id_try_from v = Inr p \<longleftrightarrow> v = protocol_id_into_u8 p"
  by (cases p) (auto simp: protocol_id_try_from_def)

text \<open>An envelope made by \<^verbatim>\<open>SignedMessage::new\<close> with the signer of the embedded key survives
  encoding and decoding and verifies; an envelope whose key does not vouch for its message and
  signature does not.\<close>

lemma signed_envelope_roundtrip:
  assumes "signed_message_new c sg m = Inr sm" and "signer_matches ko sg (pk m)"
    and "codec_roundtrip c" and "signed_to_vec c sm = Some wire"
  shows "(\<exists>received. signed_from_slice c wire = Some received \<and> sm_message received = m \<and>
            signed_message_verify c ko pk received = Inr True) \<and>
         (\<forall>m' sig' b'. to_vec c m' = Some b' \<longrightarrow> \<not> pk_verify ko (pk m') b' sig' \<longrightarrow>
            signed_message_verify c ko pk \<lparr>sm_message = m', sm_signature = sig'\<rparr> = Inr False)"
proof -
  have "authentic c ko pk sm" using assms(1,2) by (rule signed_message_new_authentic)
  then show ?thesis
    using assms(3,4) signed_message_new_message [OF assms(1)]
    by (simp add: codec_roundtrip_def signed_message_verify_authentic)
      (simp add: signed_message_verify_def)
qed

text \<open>The serde helpers round-trip: a public key comes back, a signature made by the transport
  signer is always readable again, so is a byte string, and nothing that is not 64 bytes long is ever
  read as a signature.\<close>

lemma serde_helpers_roundtrip:
  assumes "blob_lawful put get" and "key_encoding_lawful ko"
  shows "(\<forall>d. pubkey_serialize ko put k = Some d \<longrightarrow> pubkey_deserialize ko get d = Inr k) \<and>
     (\<forall>sig d. transport_keypair_signer_sign ks msg = Some sig \<longrightarrow> signature_serialize put sig = Some d \<longrightarrow>
        signature_deserialize get d = Inr sig) \<and>
     (\<forall>d. bytes_serialize put b = Some d \<longrightarrow> bytes_deserialize get d = Inr b) \<and>
     (\<forall>sig d. signature_deserialize get d = Inr sig \<longrightarrow> length sig = 64)"
  using assms
  by (auto simp: blob_lawful_def key_encoding_lawful_def pubkey_serialize_def pubkey_deserialize_def
      signature_serialize_def signature_deserialize_def bytes_serialize_def bytes_deserialize_def
      dest: transport_signer_length split: option.splits if_splits)

end
