(* ===== verification/P2P_Codec.thy ===== *)
theory P2P_Codec
  imports P2P_Messages
begin

text \<open>
  The two stream codecs. \<^verbatim>\<open>swarm/setup/flexbuffers_codec.rs\<close> frames one value as a big-endian
  \<^verbatim>\<open>u32\<close> length followed by its \<^verbatim>\<open>flexbuffers\<close> bytes; \<^verbatim>\<open>swarm/codec_raw.rs\<close> reads a request or
  response to the end of the stream, cut at a configurable limit. The \<^verbatim>\<open>flexbuffers\<close> functions
  are parameters (\<open>ser\<close>, \<open>get_root\<close>, \<open>deser\<close>), and so are the two stream methods the raw codec calls.
\<close>

section \<open>The length-prefixed codec\<close>

definition MAX_FRAME_SIZE :: nat where
  "MAX_FRAME_SIZE = 1024 * 1024"

text \<open>\<^verbatim>\<open>put_u32\<close> and \<^verbatim>\<open>u32::from_be_bytes\<close>.\<close>

definition be_bytes :: "u32 \<Rightarrow> bytes" where
  "be_bytes n = [ucast (drop_bit 24 n), ucast (drop_bit 16 n), ucast (drop_bit 8 n), ucast n]"

definition from_be_bytes :: "u8 \<Rightarrow> u8 \<Rightarrow> u8 \<Rightarrow> u8 \<Rightarrow> u32" where
  "from_be_bytes a b c d =
     word_of_nat (((unat a * 256 + unat b) * 256 + unat c) * 256 + unat d)"

datatype codec_error = CodecSerialize | FrameTooLarge nat | ReaderError | CodecDeserialize

text \<open>
  \<^verbatim>\<open>encode\<close> appends to \<open>dst\<close>; \<^verbatim>\<open>bytes.len() as u32\<close> keeps the low 32 bits of the length.
\<close>

definition frame_encode ::
  "('t \<Rightarrow> bytes option) \<Rightarrow> 't \<Rightarrow> bytes \<Rightarrow> codec_error + bytes" where
  "frame_encode ser item dst =
     (case ser item of
        None \<Rightarrow> Inl CodecSerialize
      | Some b \<Rightarrow> Inr (dst @ be_bytes (word_of_nat (length b)) @ b))"

text \<open>
  \<^verbatim>\<open>decode\<close> returns the result and the buffer left in \<open>src\<close>. The two deserialisation errors leave
  \<open>src\<close> advanced past the length only.
\<close>

definition frame_decode ::
  "(bytes \<Rightarrow> 'r option) \<Rightarrow> ('r \<Rightarrow> 't option) \<Rightarrow> bytes \<Rightarrow> (codec_error + 't option) \<times> bytes" where
  "frame_decode get_root deser src =
     (case src of
        a # b # c # d # rest \<Rightarrow>
          (let len = unat (from_be_bytes a b c d)
           in if MAX_FRAME_SIZE < len then (Inl (FrameTooLarge len), src)
              else if length src < 4 + len then (Inr None, src)
              else (case get_root (take len rest) of
                      None \<Rightarrow> (Inl ReaderError, rest)
                    | Some reader \<Rightarrow> (case deser reader of
                          None \<Rightarrow> (Inl CodecDeserialize, rest)
                        | Some item \<Rightarrow> (Inr (Some item), drop len rest))))
      | _ \<Rightarrow> (Inr None, src))"

lemma length_be_bytes [simp]: "length (be_bytes n) = 4"
  by (simp add: be_bytes_def)

lemma from_be_bytes_be_bytes:
  "be_bytes n = [a, b, c, d] \<Longrightarrow> from_be_bytes a b c d = n"
proof -
  assume "be_bytes n = [a, b, c, d]"
  then have abcd: "unat a = unat n div 2 ^ 24 mod 256" "unat b = unat n div 2 ^ 16 mod 256"
    "unat c = unat n div 2 ^ 8 mod 256" "unat d = unat n mod 256"
    by (auto simp: be_bytes_def unsigned_ucast_eq drop_bit_eq_div take_bit_eq_mod unat_div_distrib)
  have lt: "unat n < 2 ^ 32" using unsigned_less [of n, where ?'a = nat] by simp
  have digits: "x div 2 ^ 24 = x div 2 ^ 16 div 256" "x div 2 ^ 16 = x div 2 ^ 8 div 256"
    "x div 2 ^ 8 = x div 256" for x :: nat
    by (simp_all add: div_mult2_eq [symmetric])
  have top: "unat n div 2 ^ 24 mod 256 = unat n div 2 ^ 24"
    using lt by (intro mod_less) (simp add: less_mult_imp_div_less)
  have "unat a * 256 + unat b = unat n div 2 ^ 16"
    unfolding abcd(1,2) top by (simp only: digits(1) div_mult_mod_eq)
  moreover have "unat n div 2 ^ 16 * 256 + unat c = unat n div 2 ^ 8"
    unfolding abcd(3) by (simp only: digits(2) div_mult_mod_eq)
  moreover have "unat n div 2 ^ 8 * 256 + unat d = unat n"
    unfolding abcd(4) by (simp only: digits(3) div_mult_mod_eq)
  ultimately have "((unat a * 256 + unat b) * 256 + unat c) * 256 + unat d = unat n"
    by (simp only:)
  then show ?thesis by (simp add: from_be_bytes_def)
qed

lemma frame_decode_encoded:
  assumes "length b < 2 ^ 32"
  shows "frame_decode get_root deser (be_bytes (word_of_nat (length b)) @ b @ tail) =
    (if MAX_FRAME_SIZE < length b
     then (Inl (FrameTooLarge (length b)), be_bytes (word_of_nat (length b)) @ b @ tail)
     else case get_root b of
            None \<Rightarrow> (Inl ReaderError, b @ tail)
          | Some reader \<Rightarrow> (case deser reader of
                None \<Rightarrow> (Inl CodecDeserialize, b @ tail)
              | Some item \<Rightarrow> (Inr (Some item), tail)))"
proof -
  obtain p q r s where be: "be_bytes (word_of_nat (length b)) = [p, q, r, s]"
    by (simp add: be_bytes_def)
  have "unat (from_be_bytes p q r s) = length b"
    using from_be_bytes_be_bytes [OF be] assms by (simp add: unat_of_nat)
  then show ?thesis
    by (simp add: frame_decode_def be Let_def split: option.splits)
qed

text \<open>A prefix of a frame is not an error: the decoder asks for more input and keeps the buffer.\<close>

lemma frame_decode_incomplete:
  assumes "length b \<le> MAX_FRAME_SIZE" and "n < 4 + length b"
  shows "frame_decode get_root deser (take n (be_bytes (word_of_nat (length b)) @ b)) =
    (Inr None, take n (be_bytes (word_of_nat (length b)) @ b))"
proof -
  obtain p q r s where be: "be_bytes (word_of_nat (length b)) = [p, q, r, s]"
    by (simp add: be_bytes_def)
  have len: "unat (from_be_bytes p q r s) = length b"
    using from_be_bytes_be_bytes [OF be] assms(1) by (simp add: unat_of_nat MAX_FRAME_SIZE_def)
  show ?thesis
  proof (cases "n < 4")
    case True
    then have "n = 0 \<or> n = 1 \<or> n = 2 \<or> n = 3" by auto
    then show ?thesis by (auto simp: frame_decode_def be)
  next
    case False
    then obtain m where m: "n = Suc (Suc (Suc (Suc m)))"
      by (metis Suc_numeral add_Suc_right le_Suc_ex not_less numeral_3_eq_3 numeral_eq_Suc
          pred_numeral_simps(2) semiring_norm(26,27) add_Suc add_0 numeral_2_eq_2 One_nat_def)
    with assms(2) have "m < length b" by simp
    then show ?thesis
      using assms(1) by (simp add: frame_decode_def be m len Let_def)
  qed
qed

section \<open>The raw request-response codec\<close>

record raw_limits =
  request_size_maximum :: u64
  response_size_maximum :: u64

definition raw_limits_default :: raw_limits where
  "raw_limits_default = \<lparr>request_size_maximum = 1024 * 1024, response_size_maximum = 10 * 1024 * 1024\<rparr>"

definition set_request_max_bytes :: "u64 \<Rightarrow> raw_limits \<Rightarrow> raw_limits" where
  "set_request_max_bytes mx l = l\<lparr>request_size_maximum := mx\<rparr>"

definition set_response_max_bytes :: "u64 \<Rightarrow> raw_limits \<Rightarrow> raw_limits" where
  "set_response_max_bytes mx l = l\<lparr>response_size_maximum := mx\<rparr>"

text \<open>
  The stream belongs to \<^verbatim>\<open>futures\<close>: \<open>take_read_to_end n io\<close> stands for \<^verbatim>\<open>io.take(n).read_to_end(&mut vec)\<close>
  and gives the contents of \<^verbatim>\<open>vec\<close> or the error, \<open>write_all\<close> for the method of that name, which gives the
  stream after writing.
\<close>

definition read_request ::
  "(u64 \<Rightarrow> 'io \<Rightarrow> boxed_error + bytes) \<Rightarrow> raw_limits \<Rightarrow> 'io \<Rightarrow> boxed_error + bytes" where
  "read_request take_read_to_end l io =
     (case take_read_to_end (request_size_maximum l) io of Inl err \<Rightarrow> Inl err | Inr vec \<Rightarrow> Inr vec)"

definition read_response ::
  "(u64 \<Rightarrow> 'io \<Rightarrow> boxed_error + bytes) \<Rightarrow> raw_limits \<Rightarrow> 'io \<Rightarrow> boxed_error + bytes" where
  "read_response take_read_to_end l io =
     (case take_read_to_end (response_size_maximum l) io of Inl err \<Rightarrow> Inl err | Inr vec \<Rightarrow> Inr vec)"

definition write_request :: "(bytes \<Rightarrow> 'io \<Rightarrow> boxed_error + 'io) \<Rightarrow> 'io \<Rightarrow> bytes \<Rightarrow> boxed_error + 'io" where
  "write_request write_all io req = (case write_all req io of Inl err \<Rightarrow> Inl err | Inr io' \<Rightarrow> Inr io')"

definition write_response :: "(bytes \<Rightarrow> 'io \<Rightarrow> boxed_error + 'io) \<Rightarrow> 'io \<Rightarrow> bytes \<Rightarrow> boxed_error + 'io" where
  "write_response write_all io resp = (case write_all resp io of Inl err \<Rightarrow> Inl err | Inr io' \<Rightarrow> Inr io')"

section \<open>Properties\<close>

text \<open>A frame that is encoded decodes to the value that was encoded, whatever follows it in the
  buffer, and exactly its bytes are consumed.\<close>

lemma frame_roundtrip:
  assumes "ser item = Some b" and "length b \<le> MAX_FRAME_SIZE"
    and "get_root b = Some reader" and "deser reader = Some item"
  shows "\<exists>frame. frame_encode ser item dst = Inr (dst @ frame) \<and>
           frame_decode get_root deser (frame @ tail) = (Inr (Some item), tail)"
proof -
  have "length b < 2 ^ 32" using assms(2) by (simp add: MAX_FRAME_SIZE_def)
  then show ?thesis
    using assms frame_decode_encoded [of b get_root deser tail] by (simp add: frame_encode_def)
qed

text \<open>C22: Whatever bytes arrive, a successful decode consumed one frame of at most 1 MiB plus its
  4-byte header, and the value is the one the reader found in exactly that frame. An announced length
  beyond the limit is always refused, as soon as the header is there, with the buffer left as it was;
  so the decoder asks for more only while it holds less than 1 MiB and 4 bytes.\<close>

theorem frame_decode_bounded:
  assumes "frame_decode get_root deser src = (result, rest)"
  shows "(\<forall>item. result = Inr (Some item) \<longrightarrow>
       (\<exists>header frame reader. src = header @ frame @ rest \<and> length header = 4 \<and>
          length frame \<le> MAX_FRAME_SIZE \<and> get_root frame = Some reader \<and> deser reader = Some item)) \<and>
     (\<forall>n. result = Inl (FrameTooLarge n) \<longleftrightarrow>
       MAX_FRAME_SIZE < n \<and> (\<exists>a b c d tl. src = a # b # c # d # tl \<and> n = unat (from_be_bytes a b c d))) \<and>
     (\<forall>n. result = Inl (FrameTooLarge n) \<longrightarrow> rest = src) \<and>
     (result = Inr None \<longrightarrow> rest = src \<and> length src < 4 + MAX_FRAME_SIZE)"
proof (intro conjI allI impI)
  fix item
  assume "result = Inr (Some item)"
  with assms obtain a b c d tl len reader where
    src: "src = a # b # c # d # tl" and len: "len \<le> MAX_FRAME_SIZE" "4 + len \<le> length src"
    and r: "get_root (take len tl) = Some reader" "deser reader = Some item" "rest = drop len tl"
    by (auto simp: frame_decode_def Let_def not_less split: list.splits if_splits option.splits)
  then have "src = [a, b, c, d] @ take len tl @ rest" "length (take len tl) \<le> MAX_FRAME_SIZE"
    by simp_all
  with r show "\<exists>header frame reader. src = header @ frame @ rest \<and> length header = 4 \<and>
       length frame \<le> MAX_FRAME_SIZE \<and> get_root frame = Some reader \<and> deser reader = Some item"
    by (intro exI [of _ "[a, b, c, d]"] exI [of _ "take len tl"] exI [of _ reader]) simp
next
  fix n
  show "result = Inl (FrameTooLarge n) \<longleftrightarrow>
     MAX_FRAME_SIZE < n \<and> (\<exists>a b c d tl. src = a # b # c # d # tl \<and> n = unat (from_be_bytes a b c d))"
    using assms by (auto simp: frame_decode_def Let_def split: list.splits if_splits option.splits)
next
  fix n
  assume "result = Inl (FrameTooLarge n)"
  with assms show "rest = src"
    by (auto simp: frame_decode_def Let_def split: list.splits if_splits option.splits)
next
  assume none: "result = Inr None"
  with assms show "rest = src"
    by (auto simp: frame_decode_def Let_def split: list.splits if_splits option.splits)
  from none assms have "length src < 4 \<or> (\<exists>len \<le> MAX_FRAME_SIZE. length src < 4 + len)"
    by (auto simp: frame_decode_def Let_def not_less split: list.splits if_splits option.splits)
  then show "length src < 4 + MAX_FRAME_SIZE" by (auto simp: MAX_FRAME_SIZE_def)
qed

theorem frame_decode_bounded_witness:
  "(\<exists>header frame reader. [0, 0, 0, 1, 5, 6 :: u8] = header @ frame @ [6] \<and> length header = 4 \<and>
       length frame \<le> MAX_FRAME_SIZE \<and> Some frame = Some reader \<and> Some reader = Some [5 :: u8]) \<and>
   fst (frame_decode Some Some [255, 255, 255, 255 :: u8]) = Inl (FrameTooLarge 4294967295) \<and>
   length [0, 0, 0, 1 :: u8] < 4 + MAX_FRAME_SIZE"
  using frame_decode_bounded [of Some Some "[0, 0, 0, 1, 5, 6 :: u8]" "Inr (Some [5])" "[6]"]
    frame_decode_bounded [of Some Some "[255, 255, 255, 255 :: u8]"
      "fst (frame_decode Some Some [255, 255, 255, 255 :: u8])"
      "snd (frame_decode Some Some [255, 255, 255, 255 :: u8])"]
    frame_decode_bounded [of Some Some "[0, 0, 0, 1 :: u8]" "Inr None" "[0, 0, 0, 1]"]
  by (simp add: frame_decode_def from_be_bytes_def Let_def MAX_FRAME_SIZE_def)

text \<open>C23: A frame that has only partly arrived is no error: the decoder asks for more and keeps the
  buffer, so that appending the missing bytes completes the frame.\<close>

theorem frame_arrives_in_pieces:
  assumes "ser item = Some b" and "length b \<le> MAX_FRAME_SIZE"
    and "get_root b = Some reader" and "deser reader = Some item"
    and "frame_encode ser item [] = Inr (got @ missing)" and "missing \<noteq> []"
  shows "frame_decode get_root deser got = (Inr None, got) \<and>
         frame_decode get_root deser (got @ missing @ tail) = (Inr (Some item), tail)"
proof -
  let ?f = "be_bytes (word_of_nat (length b)) @ b"
  have f: "got @ missing = ?f" using assms(1,5) by (simp add: frame_encode_def)
  then have got: "got = take (length got) ?f" by (metis append_eq_conv_conj)
  from arg_cong [OF f, of length] assms(6) have "length got < 4 + length b"
    by (cases missing) simp_all
  then have "frame_decode get_root deser got = (Inr None, got)"
    using frame_decode_incomplete [OF assms(2)] got by metis
  moreover have "length b < 2 ^ 32" using assms(2) by (simp add: MAX_FRAME_SIZE_def)
  then have "frame_decode get_root deser (?f @ tail) = (Inr (Some item), tail)"
    using frame_decode_encoded [of b get_root deser tail] assms(2-4) by simp
  ultimately show ?thesis by (simp flip: f)
qed

theorem frame_arrives_in_pieces_witness:
  "frame_decode Some Some [0, 0, 0, 2, 5 :: u8] = (Inr None, [0, 0, 0, 2, 5]) \<and>
   frame_decode Some Some ([0, 0, 0, 2, 5 :: u8] @ [6] @ [1]) = (Inr (Some [5, 6]), [1])"
proof -
  have "be_bytes 2 = [0, 0, 0, 2]" by (simp add: be_bytes_def)
  then show ?thesis
    using frame_arrives_in_pieces [of Some "[5 :: u8, 6]" "[5, 6]" Some "[5, 6]" Some
        "[0, 0, 0, 2, 5]" "[6]" "[1]"]
    by (simp add: MAX_FRAME_SIZE_def frame_encode_def)
qed

end
