(* ===== verification/P2P_Freshness.thy ===== *)
theory P2P_Freshness
  imports P2P_Prelude
begin

text \<open>
  The time checks on envelopes. \<open>message_from_future\<close> and \<open>message_stale\<close> are the two tests the
  gossip, request and response handlers of \<^verbatim>\<open>swarm/mod.rs\<close> apply to an envelope's date; the setup
  handler and the DHT handler have tests of their own, in their theories. The locale
  \<open>freshness_check\<close> is the contract all of them promise: as long as the current second plus the
  allowed skew fits a \<^verbatim>\<open>u64\<close>, a date is accepted exactly inside the window
  from \<open>max_age\<close> seconds ago to \<open>skew\<close> seconds ahead.
\<close>

definition message_from_future :: "bool \<Rightarrow> duration \<Rightarrow> u64 \<Rightarrow> u64 \<Rightarrow> bool option" where
  "message_from_future overflow_checks max_clock_skew now_secs date =
     map_option (\<lambda>limit. date > limit) (u64_add overflow_checks now_secs (as_secs max_clock_skew))"

definition message_stale :: "duration \<Rightarrow> u64 \<Rightarrow> u64 \<Rightarrow> bool" where
  "message_stale max_age now_secs date =
     (let age = from_secs (saturating_sub now_secs date) in age > max_age)"

text \<open>The window, over natural numbers of seconds.\<close>

definition not_future :: "duration \<Rightarrow> u64 \<Rightarrow> u64 \<Rightarrow> bool" where
  "not_future skew now date \<longleftrightarrow> unat date \<le> unat now + skew div nanos_per_sec"

definition not_stale :: "duration \<Rightarrow> u64 \<Rightarrow> u64 \<Rightarrow> bool" where
  "not_stale age now date \<longleftrightarrow> unat now \<le> unat date + age div nanos_per_sec"

definition in_window :: "duration \<Rightarrow> duration \<Rightarrow> u64 \<Rightarrow> u64 \<Rightarrow> bool" where
  "in_window skew age now date \<longleftrightarrow> not_future skew now date \<and> not_stale age now date"

text \<open>No overflow: the largest accepted date is representable.\<close>

definition skew_fits :: "duration \<Rightarrow> u64 \<Rightarrow> bool" where
  "skew_fits skew now \<longleftrightarrow> unat now + skew div nanos_per_sec < 2 ^ 64"

lemma skew_fits_valid: "skew_fits skew now \<Longrightarrow> valid_duration skew"
  by (simp add: skew_fits_def valid_duration_def)

lemma message_stale_iff: "message_stale age now date \<longleftrightarrow> \<not> not_stale age now date"
  by (auto simp: message_stale_def Let_def p2p_time not_stale_def)

lemma message_from_future_exact:
  assumes "skew_fits skew now"
  shows "message_from_future oc skew now date = Some (\<not> not_future skew now date)"
proof -
  have fit: "unat now + unat (as_secs skew) < 2 ^ 64"
    using assms skew_fits_valid [OF assms] by (simp add: skew_fits_def unat_as_secs)
  then have "unat (now + as_secs skew) = unat now + skew div nanos_per_sec"
    using skew_fits_valid [OF assms] by (simp add: unat_u64_add_exact unat_as_secs)
  with fit show ?thesis
    by (auto simp: message_from_future_def u64_add_exact word_greater_unat not_future_def)
qed

lemma message_from_future_wraps:
  assumes "valid_duration skew" and "\<not> skew_fits skew now"
  shows "message_from_future True skew now date = None"
    and "message_from_future False skew now now = Some True"
proof -
  have over: "2 ^ 64 \<le> unat now + unat (as_secs skew)"
    using assms by (simp add: skew_fits_def unat_as_secs)
  then show "message_from_future True skew now date = None"
    by (simp add: message_from_future_def u64_add_overflow_panics)
  have "unat (now + as_secs skew) = unat now + unat (as_secs skew) - 2 ^ 64"
    using over unat_u64_lt [of now] unat_u64_lt [of "as_secs skew"]
    by (simp add: unat_word_ariths le_mod_geq)
  then have "unat (now + as_secs skew) < unat now"
    using over unat_u64_lt [of "as_secs skew"] by simp
  then show "message_from_future False skew now now = Some True"
    by (simp add: message_from_future_def u64_add_release word_greater_unat)
qed

section \<open>The freshness contract\<close>

locale freshness_check =
  fixes accepts :: "duration \<Rightarrow> duration \<Rightarrow> u64 \<Rightarrow> u64 \<Rightarrow> bool"
  assumes accepts_iff:
    "skew_fits skew now \<Longrightarrow> valid_duration age \<Longrightarrow> date \<noteq> - 1 \<Longrightarrow>
       accepts skew age now date \<longleftrightarrow> in_window skew age now date"
begin

lemma accepts_current:
  "skew_fits skew now \<Longrightarrow> valid_duration age \<Longrightarrow> now \<noteq> - 1 \<Longrightarrow> accepts skew age now now"
  by (simp add: accepts_iff in_window_def not_future_def not_stale_def)

lemma accepts_wider_age:
  assumes "skew_fits skew now" and "valid_duration age'" and "date \<noteq> - 1" and "age \<le> age'"
    and "accepts skew age now date"
  shows "accepts skew age' now date"
proof -
  have "age div nanos_per_sec \<le> age' div nanos_per_sec"
    using assms(4) by (rule div_le_mono)
  moreover from this assms(2) have "valid_duration age"
    by (simp add: valid_duration_def)
  ultimately show ?thesis
    using assms by (auto simp: accepts_iff in_window_def not_stale_def)
qed

text \<open>A captured envelope can be replayed successfully only inside a bounded interval.\<close>

lemma replay_interval:
  assumes "skew_fits skew t1" and "skew_fits skew t2" and "valid_duration age" and "date \<noteq> - 1"
    and "accepts skew age t1 date" and "accepts skew age t2 date"
  shows "unat t2 \<le> unat t1 + skew div nanos_per_sec + age div nanos_per_sec"
  using assms by (auto simp: accepts_iff in_window_def not_stale_def not_future_def)

end

section \<open>Properties\<close>

text \<open>C35: The overflow case of the future test, for a configured skew that takes the current second
  past the range of \<^verbatim>\<open>u64\<close>: with overflow checks the handler panics on every message, and without
  them the limit wraps around, so that a message dated this very second counts as coming from the
  future.\<close>

theorem future_check_overflow:
  assumes "valid_duration skew" and "\<not> skew_fits skew now"
  shows "message_from_future True skew now date = None \<and>
         message_from_future False skew now now = Some True"
  using message_from_future_wraps [OF assms] by blast

theorem future_check_overflow_witness:
  "message_from_future True ((2 ^ 64 - 1) * nanos_per_sec) 1000 5 = None \<and>
   message_from_future False ((2 ^ 64 - 1) * nanos_per_sec) 1000 1000 = Some True"
  by (rule future_check_overflow) (simp_all add: valid_duration_def skew_fits_def)

text \<open>When the skew fits, the two tests of the message handlers accept exactly the dates from
  \<open>max_age\<close> whole seconds ago to \<open>skew\<close> whole seconds ahead, with or without overflow checks; an
  envelope accepted at two times was accepted within \<open>skew\<close> plus \<open>max_age\<close> seconds.\<close>

lemma message_window_exact:
  assumes "skew_fits skew now"
  shows "message_from_future oc skew now date = Some False \<and> \<not> message_stale age now date \<longleftrightarrow>
           unat now \<le> unat date + age div nanos_per_sec \<and> unat date \<le> unat now + skew div nanos_per_sec"
  using message_from_future_exact [OF assms]
  by (auto simp: message_stale_iff not_future_def not_stale_def)

end
