(* ===== verification/P2P_Setup.thy ===== *)
theory P2P_Setup
  imports P2P_Codec P2P_Freshness
begin

text \<open>
  The BYOS handshake of \<^verbatim>\<open>swarm/setup/*.rs\<close>: the substream upgrades, the per-connection
  \<^verbatim>\<open>SetupHandler\<close> that validates a received setup message, and \<^verbatim>\<open>SetupBehaviour\<close>, which keeps the
  two maps between transport ids and application keys. The maps' contract is the locale
  \<open>key_directory\<close>; the handler's date test is an instance of \<open>freshness_check\<close>.
\<close>

section \<open>Events\<close>

datatype setup_handler_event =
    HandlerAppKeyReceived public_key
  | HandlerNegotiationFailed
  | HandlerErrorDuringSetupHandshake setup_error

datatype setup_behaviour_event =
    AppKeyReceived peer_id public_key connection_id
  | NegotiationFailed peer_id connection_id
  | ErrorDuringSetupHandshake peer_id connection_id setup_error

section \<open>Upgrades\<close>

definition SETUP_PROTOCOL_NAME :: string where
  "SETUP_PROTOCOL_NAME = ''/handshake/1.0.0''"

record outbound_setup_upgrade =
  ou_app_public_key :: public_key
  ou_local_transport_id :: peer_id
  ou_remote_transport_id :: peer_id
  ou_signer :: signer

definition inbound_protocol_info :: "string list" where
  "inbound_protocol_info = [SETUP_PROTOCOL_NAME]"

definition outbound_protocol_info :: "string list" where
  "outbound_protocol_info = [''/handshake/1.0.0'']"

text \<open>\<open>next_frame\<close> is what \<^verbatim>\<open>Framed::next\<close> yields on the stream.\<close>

definition upgrade_inbound ::
  "(boxed_error + setup_message signed_message) option \<Rightarrow>
   setup_upgrade_error + setup_message signed_message" where
  "upgrade_inbound next_frame =
     (case next_frame of
        Some (Inr signed_message) \<Rightarrow> Inr signed_message
      | Some (Inl e) \<Rightarrow> Inl (SetupCodec e)
      | None \<Rightarrow> Inl UnexpectedStreamClose)"

text \<open>
  The bytes \<^verbatim>\<open>upgrade_outbound\<close> writes; \<open>io\<close> is the error, if any, of flushing or closing the
  stream. \<^term>\<open>None\<close> is the panic of \<^verbatim>\<open>get_timestamp\<close>.
\<close>

definition upgrade_outbound ::
  "setup_message codec \<Rightarrow> system_time \<Rightarrow> boxed_error option \<Rightarrow> outbound_setup_upgrade \<Rightarrow>
   (setup_upgrade_error + bytes) option" where
  "upgrade_outbound c now io u =
     (case setup_message_new now (ou_app_public_key u)
             (ou_local_transport_id u, ou_remote_transport_id u) of
        None \<Rightarrow> None
      | Some setup_message \<Rightarrow>
          Some (case signed_message_new c (ou_signer u) setup_message of
              Inl _ \<Rightarrow> Inl (SetupSignedMessageCreation (BoxedError ''sign''))
            | Inr signed_setup_message \<Rightarrow>
                (case frame_encode (signed_to_vec c) signed_setup_message [] of
                   Inl _ \<Rightarrow> Inl (SetupCodec (BoxedError ''encode''))
                 | Inr out \<Rightarrow> (case io of Some e \<Rightarrow> Inl (SetupCodec e) | None \<Rightarrow> Inr out))))"

section \<open>The connection handler\<close>

record setup_handler =
  outbound_substream :: "outbound_setup_upgrade option"
  pending_events :: "setup_handler_event list"
  sh_local_transport_id :: peer_id
  sh_remote_transport_id :: peer_id
  sh_envelope_max_age :: duration
  sh_max_clock_skew :: duration
  keep_alive :: bool

definition setup_handler_new ::
  "public_key \<Rightarrow> peer_id \<Rightarrow> peer_id \<Rightarrow> signer \<Rightarrow> duration \<Rightarrow> duration \<Rightarrow> setup_handler" where
  "setup_handler_new app_pk local_tid remote_tid sg max_age skew =
     \<lparr>outbound_substream = Some \<lparr>ou_app_public_key = app_pk, ou_local_transport_id = local_tid,
          ou_remote_transport_id = remote_tid, ou_signer = sg\<rparr>,
      pending_events = [], sh_local_transport_id = local_tid, sh_remote_transport_id = remote_tid,
      sh_envelope_max_age = max_age, sh_max_clock_skew = skew, keep_alive = True\<rparr>"

datatype handler_poll =
    NotifyBehaviour setup_handler_event
  | OutboundSubstreamRequest outbound_setup_upgrade
  | HandlerPending

text \<open>\<^verbatim>\<open>Vec::pop\<close> takes the last element.\<close>

definition vec_pop :: "'a list \<Rightarrow> 'a option \<times> 'a list" where
  "vec_pop xs = (if xs = [] then (None, []) else (Some (last xs), butlast xs))"

definition setup_handler_poll :: "setup_handler \<Rightarrow> handler_poll \<times> setup_handler" where
  "setup_handler_poll h =
     (case vec_pop (pending_events h) of
        (Some event, rest) \<Rightarrow> (NotifyBehaviour event, h\<lparr>pending_events := rest\<rparr>)
      | (None, _) \<Rightarrow>
          (case outbound_substream h of
             Some substream \<Rightarrow> (OutboundSubstreamRequest substream, h\<lparr>outbound_substream := None\<rparr>)
           | None \<Rightarrow> (HandlerPending, h)))"

text \<open>The date test of the handler: too old first, then too far in the future.\<close>

definition setup_date_check :: "duration \<Rightarrow> duration \<Rightarrow> u64 \<Rightarrow> u64 \<Rightarrow> setup_error option" where
  "setup_date_check skew max_age now_secs date =
     (let age = from_secs (saturating_sub now_secs date)
      in if age > max_age then Some StaleMessage
         else if date > now_secs
              then let future_delta = from_secs (date - now_secs)
                   in if future_delta > skew then Some FutureMessage else None
              else None)"

text \<open>The event a fully negotiated inbound substream leads to.\<close>

definition setup_validate ::
  "setup_message codec \<Rightarrow> key_ops \<Rightarrow> system_time \<Rightarrow> setup_handler \<Rightarrow> setup_message signed_message \<Rightarrow>
   setup_handler_event" where
  "setup_validate c ko now h signed_setup_msg =
     (if \<not> verify_or_false c ko st_app_public_key signed_setup_msg
      then HandlerErrorDuringSetupHandshake SetupSignatureVerificationFailed
      else let setup_message = sm_message signed_setup_msg
           in if st_remote_transport_id setup_message \<noteq> sh_local_transport_id h \<or>
                 st_local_transport_id setup_message \<noteq> sh_remote_transport_id h
              then HandlerErrorDuringSetupHandshake TransportIdMismatch
              else case setup_date_check (sh_max_clock_skew h) (sh_envelope_max_age h)
                          (unix_secs now) (st_date setup_message) of
                     Some e \<Rightarrow> HandlerErrorDuringSetupHandshake e
                   | None \<Rightarrow> HandlerAppKeyReceived (st_app_public_key setup_message))"

datatype stream_upgrade_error = UpgradeNegotiationFailed | UpgradeOther boxed_error

datatype connection_event =
    FullyNegotiatedInbound "setup_message signed_message"
  | DialUpgradeError stream_upgrade_error
  | ListenUpgradeError boxed_error
  | OtherConnectionEvent

definition on_connection_event ::
  "setup_message codec \<Rightarrow> key_ops \<Rightarrow> system_time \<Rightarrow> connection_event \<Rightarrow> setup_handler \<Rightarrow> setup_handler" where
  "on_connection_event c ko now event h =
     (case event of
        FullyNegotiatedInbound signed_setup_msg \<Rightarrow>
          h\<lparr>keep_alive := False,
            pending_events := pending_events h @ [setup_validate c ko now h signed_setup_msg]\<rparr>
      | DialUpgradeError e \<Rightarrow>
          h\<lparr>keep_alive := False,
            pending_events := pending_events h @
              [case e of
                 UpgradeNegotiationFailed \<Rightarrow> HandlerNegotiationFailed
               | UpgradeOther b \<Rightarrow> HandlerErrorDuringSetupHandshake (OutboundError b)]\<rparr>
      | ListenUpgradeError b \<Rightarrow>
          h\<lparr>pending_events := pending_events h @ [HandlerErrorDuringSetupHandshake (InboundError b)]\<rparr>
      | OtherConnectionEvent \<Rightarrow> h)"

section \<open>The behaviour\<close>

record setup_behaviour =
  sb_app_public_key :: public_key
  sb_local_transport_id :: peer_id
  sb_signer :: signer
  transport_ids :: "peer_id \<rightharpoonup> public_key"
  app_public_keys :: "public_key \<rightharpoonup> peer_id"
  sb_events :: "setup_behaviour_event list"
  sb_envelope_max_age :: duration
  sb_max_clock_skew :: duration

definition setup_behaviour_new ::
  "public_key \<Rightarrow> peer_id \<Rightarrow> signer \<Rightarrow> duration \<Rightarrow> duration \<Rightarrow> setup_behaviour" where
  "setup_behaviour_new app_pk tid sg max_age skew =
     \<lparr>sb_app_public_key = app_pk, sb_local_transport_id = tid, sb_signer = sg,
      transport_ids = Map.empty, app_public_keys = Map.empty, sb_events = [],
      sb_envelope_max_age = max_age, sb_max_clock_skew = skew\<rparr>"

definition get_app_public_key_by_transport_id :: "setup_behaviour \<Rightarrow> peer_id \<Rightarrow> public_key option" where
  "get_app_public_key_by_transport_id b p = transport_ids b p"

definition get_transport_id_by_application_key :: "setup_behaviour \<Rightarrow> public_key \<Rightarrow> peer_id option" where
  "get_transport_id_by_application_key b k = app_public_keys b k"

definition tracked_peer_count :: "setup_behaviour \<Rightarrow> nat" where
  "tracked_peer_count b = card (dom (transport_ids b))"

definition handle_established_inbound_connection :: "peer_id \<Rightarrow> setup_behaviour \<Rightarrow> setup_handler" where
  "handle_established_inbound_connection remote b =
     setup_handler_new (sb_app_public_key b) (sb_local_transport_id b) remote (sb_signer b)
       (sb_envelope_max_age b) (sb_max_clock_skew b)"

definition handle_established_outbound_connection :: "peer_id \<Rightarrow> setup_behaviour \<Rightarrow> setup_handler" where
  "handle_established_outbound_connection remote b =
     setup_handler_new (sb_app_public_key b) (sb_local_transport_id b) remote (sb_signer b)
       (sb_envelope_max_age b) (sb_max_clock_skew b)"

datatype from_swarm = FromSwarmConnectionClosed peer_id nat | FromSwarmOther

definition on_swarm_event :: "from_swarm \<Rightarrow> setup_behaviour \<Rightarrow> setup_behaviour" where
  "on_swarm_event event b =
     (case event of
        FromSwarmConnectionClosed peer remaining_established \<Rightarrow>
          if remaining_established = 0
          then (case map_remove peer (transport_ids b) of
                  (m, Some app_public_key) \<Rightarrow>
                     b\<lparr>transport_ids := m,
                       app_public_keys := fst (map_remove app_public_key (app_public_keys b))\<rparr>
                | (m, None) \<Rightarrow> b\<lparr>transport_ids := m\<rparr>)
          else b
      | FromSwarmOther \<Rightarrow> b)"

definition on_connection_handler_event ::
  "peer_id \<Rightarrow> connection_id \<Rightarrow> setup_handler_event \<Rightarrow> setup_behaviour \<Rightarrow> setup_behaviour" where
  "on_connection_handler_event peer conn event b =
     (case event of
        HandlerAppKeyReceived k \<Rightarrow>
          b\<lparr>transport_ids := (transport_ids b)(peer \<mapsto> k),
            app_public_keys := (app_public_keys b)(k \<mapsto> peer),
            sb_events := sb_events b @ [AppKeyReceived peer k conn]\<rparr>
      | HandlerNegotiationFailed \<Rightarrow>
          b\<lparr>sb_events := sb_events b @ [NegotiationFailed peer conn]\<rparr>
      | HandlerErrorDuringSetupHandshake e \<Rightarrow>
          b\<lparr>sb_events := sb_events b @ [ErrorDuringSetupHandshake peer conn e]\<rparr>)"

definition setup_behaviour_poll :: "setup_behaviour \<Rightarrow> setup_behaviour_event option \<times> setup_behaviour" where
  "setup_behaviour_poll b =
     (case vec_pop (sb_events b) of
        (Some event, rest) \<Rightarrow> (Some event, b\<lparr>sb_events := rest\<rparr>)
      | (None, _) \<Rightarrow> (None, b))"

lemmas setup_lookup_ops [p2p_ops] =
  get_app_public_key_by_transport_id_def get_transport_id_by_application_key_def

section \<open>The directory contract\<close>

text \<open>The two maps are inverse to each other.\<close>

definition directory_consistent ::
  "('s \<Rightarrow> peer_id \<Rightarrow> public_key option) \<Rightarrow> ('s \<Rightarrow> public_key \<Rightarrow> peer_id option) \<Rightarrow> 's \<Rightarrow> bool" where
  "directory_consistent key_of peer_of s \<longleftrightarrow> (\<forall>p k. key_of s p = Some k \<longleftrightarrow> peer_of s k = Some p)"

locale key_directory =
  fixes key_of :: "'s \<Rightarrow> peer_id \<Rightarrow> public_key option"
    and peer_of :: "'s \<Rightarrow> public_key \<Rightarrow> peer_id option"
    and learn :: "peer_id \<Rightarrow> public_key \<Rightarrow> 's \<Rightarrow> 's"
    and forget :: "peer_id \<Rightarrow> 's \<Rightarrow> 's"
  assumes key_learn: "key_of (learn p k s) q = (if q = p then Some k else key_of s q)"
    and peer_learn: "peer_of (learn p k s) l = (if l = k then Some p else peer_of s l)"
    and key_forget: "key_of (forget p s) q = (if q = p then None else key_of s q)"
    and peer_forget: "peer_of (forget p s) l = (if key_of s p = Some l then None else peer_of s l)"
begin

lemma learn_lookup: "key_of (learn p k s) p = Some k" "peer_of (learn p k s) k = Some p"
  by (simp_all add: key_learn peer_learn)

lemma learn_consistent:
  assumes "directory_consistent key_of peer_of s"
    and "key_of s p = None \<or> key_of s p = Some k" and "peer_of s k = None \<or> peer_of s k = Some p"
  shows "directory_consistent key_of peer_of (learn p k s)"
  using assms unfolding directory_consistent_def key_learn peer_learn by (metis option.distinct(1) option.inject)

lemma forget_consistent:
  assumes "directory_consistent key_of peer_of s"
  shows "directory_consistent key_of peer_of (forget p s)"
  using assms unfolding directory_consistent_def key_forget peer_forget by (metis option.distinct(1) option.inject)

lemma learn_forget_clears:
  "key_of (forget p (learn p k s)) p = None" "peer_of (forget p (learn p k s)) k = None"
  by (simp_all add: key_forget peer_forget key_learn)

text \<open>Two transport ids that announced the same key: closing the first hides the second.\<close>

lemma forget_hides_successor:
  assumes "p \<noteq> q"
  shows "key_of (forget p (learn q k (learn p k s))) q = Some k"
    and "peer_of (forget p (learn q k (learn p k s))) k = None"
  using assms by (simp_all add: key_forget peer_forget key_learn)

text \<open>A peer that announced a second key: the first key's entry outlives the connection.\<close>

lemma forget_leaves_old_key:
  assumes "k \<noteq> l"
  shows "peer_of (forget p (learn p l (learn p k s))) k = Some p"
  using assms by (simp add: peer_forget key_learn peer_learn)

end

interpretation setup_directory: key_directory
    get_app_public_key_by_transport_id get_transport_id_by_application_key
    "\<lambda>p k. on_connection_handler_event p conn (HandlerAppKeyReceived k)"
    "\<lambda>p. on_swarm_event (FromSwarmConnectionClosed p 0)"
  for conn
  by unfold_locales
    (simp_all add: setup_lookup_ops on_connection_handler_event_def on_swarm_event_def
      map_remove_def split: option.splits)

section \<open>The handler's date test\<close>

abbreviation setup_date_accepts :: "duration \<Rightarrow> duration \<Rightarrow> u64 \<Rightarrow> u64 \<Rightarrow> bool" where
  "setup_date_accepts skew age now date \<equiv> setup_date_check skew age now date = None"

lemma setup_date_check_window: "setup_date_accepts skew age now date \<longleftrightarrow> in_window skew age now date"
proof -
  have "unat (date - now) = unat date - unat now" if "unat now < unat date"
    using that by (simp add: unat_sub word_le_nat_alt)
  then show ?thesis
    by (auto simp: setup_date_check_def Let_def p2p_time in_window_def not_stale_def not_future_def)
qed

interpretation setup_freshness: freshness_check "\<lambda>skew age now date. setup_date_accepts skew age now date"
  by unfold_locales (simp add: setup_date_check_window)

section \<open>What the handler accepts\<close>

lemma setup_validate_accepts_iff:
  "setup_validate c ko now h sm = HandlerAppKeyReceived k \<longleftrightarrow>
     authentic c ko st_app_public_key sm \<and> st_app_public_key (sm_message sm) = k \<and>
     st_remote_transport_id (sm_message sm) = sh_local_transport_id h \<and>
     st_local_transport_id (sm_message sm) = sh_remote_transport_id h \<and>
     in_window (sh_max_clock_skew h) (sh_envelope_max_age h) (unix_secs now) (st_date (sm_message sm))"
  by (auto simp: setup_validate_def Let_def simp flip: setup_date_check_window split: option.splits)

section \<open>Properties\<close>

text \<open>C18: The handshake accepts a setup message exactly when the envelope verifies under the
  application key it announces, it was made for this connection (its sender is our remote peer and its
  recipient is us), and its date lies in the accepted window; then that key is what is announced to
  the behaviour.\<close>

theorem setup_accepts_exactly:
  "setup_validate c ko now h sm = HandlerAppKeyReceived k \<longleftrightarrow>
     signed_message_verify c ko st_app_public_key sm = Inr True \<and>
     st_app_public_key (sm_message sm) = k \<and>
     st_remote_transport_id (sm_message sm) = sh_local_transport_id h \<and>
     st_local_transport_id (sm_message sm) = sh_remote_transport_id h \<and>
     unat (unix_secs now) \<le> unat (st_date (sm_message sm)) + sh_envelope_max_age h div nanos_per_sec \<and>
     unat (st_date (sm_message sm)) \<le> unat (unix_secs now) + sh_max_clock_skew h div nanos_per_sec"
  by (auto simp: setup_validate_accepts_iff signed_message_verify_authentic in_window_def not_future_def
      not_stale_def)

text \<open>C19: The handshake end to end: what \<^verbatim>\<open>upgrade_outbound\<close> writes on the stream of a connection
  decodes to one envelope that the handler at the other end of the same connection accepts, provided
  its clock reads a time within the window, and the behaviour then knows the key of the transport id
  and the transport id of the key.\<close>

theorem handshake_end_to_end:
  assumes out: "upgrade_outbound c now None u = Some (Inr wire)"
    and signer: "signer_matches ko (ou_signer u) (ou_app_public_key u)"
    and codec: "\<forall>sm b. signed_to_vec c sm = Some b \<longrightarrow>
       length b \<le> MAX_FRAME_SIZE \<and> get_root b = Some b \<and> signed_from_slice c b = Some sm"
    and ends: "sh_local_transport_id h = ou_remote_transport_id u"
       "sh_remote_transport_id h = ou_local_transport_id u"
    and clock: "in_window (sh_max_clock_skew h) (sh_envelope_max_age h) (unix_secs now') (unix_secs now)"
  shows "\<exists>sm. frame_decode get_root (signed_from_slice c) wire = (Inr (Some sm), []) \<and>
     pending_events (on_connection_event c ko now' (FullyNegotiatedInbound sm) h) =
       pending_events h @ [HandlerAppKeyReceived (ou_app_public_key u)] \<and>
     (let b' = on_connection_handler_event (sh_remote_transport_id h) conn
                 (HandlerAppKeyReceived (ou_app_public_key u)) b
      in get_app_public_key_by_transport_id b' (ou_local_transport_id u) = Some (ou_app_public_key u) \<and>
         get_transport_id_by_application_key b' (ou_app_public_key u) = Some (ou_local_transport_id u))"
proof -
  obtain m sm data where
    m: "setup_message_new now (ou_app_public_key u)
          (ou_local_transport_id u, ou_remote_transport_id u) = Some m"
    and sm: "signed_message_new c (ou_signer u) m = Inr sm"
    and data: "signed_to_vec c sm = Some data"
    and wire: "wire = be_bytes (word_of_nat (length data)) @ data"
    using out by (auto simp: upgrade_outbound_def frame_encode_def split: option.splits sum.splits)
  note new = setup_type.signed_new_authentic [OF m sm signer]
  have len: "length data \<le> MAX_FRAME_SIZE" and root: "get_root data = Some data"
    and dec: "signed_from_slice c data = Some sm"
    using codec data by blast+
  have "length data < 2 ^ 32" using len by (simp add: MAX_FRAME_SIZE_def)
  then have "frame_decode get_root (signed_from_slice c) wire = (Inr (Some sm), [])"
    using frame_decode_encoded [of data get_root "signed_from_slice c" "[]"] len root dec by (simp add: wire)
  moreover have "st_remote_transport_id m = ou_remote_transport_id u"
    "st_local_transport_id m = ou_local_transport_id u" "st_app_public_key m = ou_app_public_key u"
    using m by (auto simp: setup_message_new_def split: option.splits)
  then have "setup_validate c ko now' h sm = HandlerAppKeyReceived (ou_app_public_key u)"
    using new clock ends by (simp add: setup_validate_accepts_iff)
  ultimately show ?thesis
    using setup_directory.learn_lookup [where conn = conn and p = "ou_local_transport_id u" and s = b] ends
    by (intro exI [of _ sm]) (simp add: on_connection_event_def Let_def)
qed

definition example_setup_message :: setup_message where
  "example_setup_message = \<lparr>st_version = SetupV1, st_app_public_key = PublicKey [5],
     st_local_transport_id = PeerId [1], st_remote_transport_id = PeerId [2], st_date = 1000\<rparr>"

definition example_upgrade :: outbound_setup_upgrade where
  "example_upgrade = \<lparr>ou_app_public_key = PublicKey [5], ou_local_transport_id = PeerId [1],
     ou_remote_transport_id = PeerId [2],
     ou_signer = transport_keypair_signer_sign (example_sign (PublicKey [5]))\<rparr>"

definition example_setup_codec :: "setup_message codec" where
  "example_setup_codec = (example_codec example_setup_message)\<lparr>signed_to_vec :=
     (\<lambda>sm. if sm_message sm = example_setup_message \<and> length (sm_signature sm) = 64
           then Some (1 # sm_signature sm) else None)\<rparr>"

lemma example_setup_wire:
  "upgrade_outbound example_setup_codec 1000000000000 None example_upgrade =
     Some (Inr ([0, 0, 0, 65, 1, 5, 0] @ replicate 62 0))"
proof -
  have m: "setup_message_new 1000000000000 (PublicKey [5]) (PeerId [1], PeerId [2]) = Some example_setup_message"
    by (simp add: setup_message_new_def get_timestamp_def duration_since_def as_secs_def
        example_setup_message_def)
  have sig: "example_sign (PublicKey [5]) [0] = Some (5 # 0 # replicate 62 0)"
    by (simp add: example_sign_def)
  have "be_bytes 65 = [0, 0, 0, 65]" by (simp add: be_bytes_def)
  then show ?thesis
    by (simp add: upgrade_outbound_def example_upgrade_def m signed_message_new_def example_setup_codec_def
        example_codec_def transport_keypair_signer_sign_def sig frame_encode_def)
qed

theorem handshake_end_to_end_witness:
  "\<exists>sm. frame_decode (\<lambda>b. if length b \<le> MAX_FRAME_SIZE then Some b else None)
      (signed_from_slice example_setup_codec) ([0, 0, 0, 65, 1, 5, 0] @ replicate 62 0)
      = (Inr (Some sm), []) \<and>
    pending_events (on_connection_event example_setup_codec example_keys
        1200000000000 (FullyNegotiatedInbound sm)
        (setup_handler_new (PublicKey [6]) (PeerId [2]) (PeerId [1]) Some 300000000000 0)) =
      [HandlerAppKeyReceived (PublicKey [5])]"
proof -
  have "signer_matches example_keys (ou_signer example_upgrade) (ou_app_public_key example_upgrade)"
    using example_signer_matches [of "PublicKey [5]"]
    by (auto simp: signer_matches_def example_upgrade_def transport_keypair_signer_sign_def
        split: option.splits if_splits)
  moreover have "\<forall>sm b. signed_to_vec example_setup_codec sm = Some b \<longrightarrow>
      length b \<le> MAX_FRAME_SIZE \<and> (if length b \<le> MAX_FRAME_SIZE then Some b else None) = Some b \<and>
      signed_from_slice example_setup_codec b = Some sm"
    by (auto simp: example_setup_codec_def example_codec_def MAX_FRAME_SIZE_def)
  moreover have "in_window 0 300000000000 (unix_secs 1200000000000) (unix_secs 1000000000000)"
    by (simp add: in_window_def not_future_def not_stale_def unix_secs_def duration_since_def as_secs_def)
  ultimately show ?thesis
    using handshake_end_to_end [OF example_setup_wire, of example_keys
        "\<lambda>b. if length b \<le> MAX_FRAME_SIZE then Some b else None"
        "setup_handler_new (PublicKey [6]) (PeerId [2]) (PeerId [1]) Some 300000000000 0" 1200000000000]
    unfolding setup_handler_new_def setup_handler.simps
    by (fastforce simp add: example_upgrade_def)
qed

text \<open>C33: The behaviour's two maps stay inverse to each other through every handshake that announces a
  key unknown so far (or the pair already known) and through every disconnection.\<close>

theorem setup_directory_stays_consistent:
  assumes "directory_consistent get_app_public_key_by_transport_id get_transport_id_by_application_key b"
    and "get_app_public_key_by_transport_id b p \<in> {None, Some k}"
    and "get_transport_id_by_application_key b k \<in> {None, Some p}"
  shows "directory_consistent get_app_public_key_by_transport_id get_transport_id_by_application_key
           (on_connection_handler_event p conn (HandlerAppKeyReceived k) b) \<and>
         directory_consistent get_app_public_key_by_transport_id get_transport_id_by_application_key
           (on_swarm_event (FromSwarmConnectionClosed q 0) b)"
  using setup_directory.learn_consistent [OF assms(1), where p = p and k = k and conn = conn]
    setup_directory.forget_consistent [OF assms(1), where p = q] assms(2,3) by simp

theorem setup_directory_stays_consistent_witness:
  "directory_consistent get_app_public_key_by_transport_id get_transport_id_by_application_key
     (on_connection_handler_event (PeerId [1]) 0 (HandlerAppKeyReceived (PublicKey [5]))
        (setup_behaviour_new (PublicKey [6]) (PeerId [2]) Some 0 0))"
  by (rule setup_directory_stays_consistent [THEN conjunct1])
    (simp_all add: directory_consistent_def setup_lookup_ops setup_behaviour_new_def)

text \<open>C36: Where the maps do come apart: if a second transport id announces the key of a connected one
  (the same application reconnecting under a new transport key), closing the first connection removes
  the key, although the second connection is still open and known; and a peer that announces a second
  key leaves its first key behind for good.\<close>

theorem setup_directory_aliasing:
  assumes "p \<noteq> q" and "k \<noteq> l"
  shows "let learn = (\<lambda>p k. on_connection_handler_event p 0 (HandlerAppKeyReceived k));
             close = (\<lambda>p. on_swarm_event (FromSwarmConnectionClosed p 0))
     in get_app_public_key_by_transport_id (close p (learn q k (learn p k b))) q = Some k \<and>
     get_transport_id_by_application_key (close p (learn q k (learn p k b))) k = None \<and>
     get_transport_id_by_application_key (close p (learn p l (learn p k b))) k = Some p"
  unfolding Let_def
  using setup_directory.forget_hides_successor [OF assms(1), where conn = 0 and k = k and s = b]
    setup_directory.forget_leaves_old_key [OF assms(2), where conn = 0 and p = p and s = b] by blast

theorem setup_directory_aliasing_witness:
  "get_transport_id_by_application_key
     (on_swarm_event (FromSwarmConnectionClosed (PeerId [1]) 0)
       (on_connection_handler_event (PeerId [2]) 0 (HandlerAppKeyReceived (PublicKey [5]))
         (on_connection_handler_event (PeerId [1]) 0 (HandlerAppKeyReceived (PublicKey [5]))
           (setup_behaviour_new (PublicKey [6]) (PeerId [3]) Some 0 0)))) (PublicKey [5]) = None"
  using setup_directory_aliasing [of "PeerId [1]" "PeerId [2]" "PublicKey [5]" "PublicKey [7]"]
  by (simp add: Let_def)

end
