(* ===== verification/Rust_F64.thy ===== *)
theory Rust_F64
  imports P2P_Prelude "HOL-Library.Log_Nat"
begin

text \<open>
  Rust's \<^verbatim>\<open>f64\<close> (IEEE 754 binary64), as far as the scoring code uses it: finite values are exact
  rationals, every operation computes the exact result and rounds it to 53 significant bits, ties to
  even, with gradual underflow below \<^verbatim>\<open>2^-1022\<close> and overflow to an infinity. The two zeros are
  identified: the code only adds, multiplies, takes \<^verbatim>\<open>min\<close> and compares with \<^verbatim>\<open><\<close>, none of which tells
  them apart. The lemmas show that integers up to \<^verbatim>\<open>2^53\<close> are exact and bound
  the error of rounding.
\<close>

datatype f64 = Fin rat | PosInf | NegInf | NaN

section \<open>Rounding\<close>

text \<open>\<open>f64_exponent x\<close> is the exponent of the leading binary digit of \<open>x\<close>.\<close>

definition f64_exponent :: "rat \<Rightarrow> int" where
  "f64_exponent x =
     (case quotient_of \<bar>x\<bar> of (n, d) \<Rightarrow>
        (let e = int (floorlog 2 (nat n)) - int (floorlog 2 (nat d))
         in if 2 powi e \<le> \<bar>x\<bar> then e else e - 1))"

definition f64_ulp :: "rat \<Rightarrow> rat" where
  "f64_ulp x = 2 powi (max (f64_exponent x - 52) (-1074))"

definition round_half_even :: "rat \<Rightarrow> int" where
  "round_half_even q =
     (let f = \<lfloor>q\<rfloor>; r = q - of_int f
      in if r < 1/2 then f else if 1/2 < r then f + 1 else if even f then f else f + 1)"

definition f64_round :: "rat \<Rightarrow> f64" where
  "f64_round x =
     (if x = 0 then Fin 0
      else let u = f64_ulp x; v = of_int (round_half_even (x / u)) * u
           in if 2 ^ 1024 \<le> v then PosInf else if v \<le> - (2 ^ 1024) then NegInf else Fin v)"

section \<open>Operations\<close>

fun f64_add :: "f64 \<Rightarrow> f64 \<Rightarrow> f64" where
  "f64_add NaN _ = NaN"
| "f64_add _ NaN = NaN"
| "f64_add PosInf NegInf = NaN"
| "f64_add NegInf PosInf = NaN"
| "f64_add PosInf _ = PosInf"
| "f64_add _ PosInf = PosInf"
| "f64_add NegInf _ = NegInf"
| "f64_add _ NegInf = NegInf"
| "f64_add (Fin x) (Fin y) = f64_round (x + y)"

fun f64_neg :: "f64 \<Rightarrow> f64" where
  "f64_neg NaN = NaN"
| "f64_neg PosInf = NegInf"
| "f64_neg NegInf = PosInf"
| "f64_neg (Fin x) = Fin (- x)"

definition f64_sub :: "f64 \<Rightarrow> f64 \<Rightarrow> f64" where
  "f64_sub x y = f64_add x (f64_neg y)"

definition inf_of_sign :: "bool \<Rightarrow> f64" where
  "inf_of_sign positive = (if positive then PosInf else NegInf)"

fun f64_mul :: "f64 \<Rightarrow> f64 \<Rightarrow> f64" where
  "f64_mul NaN _ = NaN"
| "f64_mul _ NaN = NaN"
| "f64_mul (Fin x) (Fin y) = f64_round (x * y)"
| "f64_mul (Fin x) y = (if x = 0 then NaN else inf_of_sign ((0 < x) = (y = PosInf)))"
| "f64_mul x (Fin y) = (if y = 0 then NaN else inf_of_sign ((0 < y) = (x = PosInf)))"
| "f64_mul x y = inf_of_sign (x = y)"

text \<open>Division is used with a finite positive divisor only (\<^verbatim>\<open>nanos as f64 / 1e9\<close>).\<close>

definition f64_div_finite :: "rat \<Rightarrow> rat \<Rightarrow> f64" where
  "f64_div_finite x y = f64_round (x / y)"

fun f64_less :: "f64 \<Rightarrow> f64 \<Rightarrow> bool" where
  "f64_less NaN _ = False"
| "f64_less _ NaN = False"
| "f64_less PosInf _ = False"
| "f64_less _ NegInf = False"
| "f64_less NegInf _ = True"
| "f64_less _ PosInf = True"
| "f64_less (Fin x) (Fin y) = (x < y)"

text \<open>\<^verbatim>\<open>f64::min\<close> returns the other argument when one is NaN.\<close>

definition f64_min :: "f64 \<Rightarrow> f64 \<Rightarrow> f64" where
  "f64_min x y = (if x = NaN then y else if y = NaN then x else if f64_less y x then y else x)"

text \<open>\<^verbatim>\<open>Duration::as_secs_f64\<close>: \<^verbatim>\<open>(secs as f64) + (nanos as f64) / (NANOS_PER_SEC as f64)\<close>.\<close>

definition as_secs_f64 :: "duration \<Rightarrow> f64" where
  "as_secs_f64 d =
     f64_add (f64_round (of_nat (d div nanos_per_sec)))
             (f64_div_finite (of_nat (d mod nanos_per_sec)) (of_nat nanos_per_sec))"

section \<open>Properties of rounding\<close>

lemma floorlog2_bounds:
  assumes "0 < n"
  shows "2 ^ (floorlog 2 n - 1) \<le> n" and "n < 2 ^ floorlog 2 n"
  using floorlog_bounds [of n 2] assms by auto

lemma floorlog2_powi:
  assumes "0 < n"
  shows "(2::rat) powi (int (floorlog 2 n) - 1) \<le> of_nat n"
    and "of_nat n < (2::rat) powi int (floorlog 2 n)"
proof -
  from assms have pos: "0 < floorlog 2 n"
    using floorlog_eq_zero_iff [of 2 n] by linarith
  have "(2::rat) ^ (floorlog 2 n - 1) \<le> of_nat n"
    using floorlog2_bounds(1) [OF assms] by (metis of_nat_le_iff of_nat_numeral of_nat_power)
  moreover have "int (floorlog 2 n) - 1 = int (floorlog 2 n - 1)"
    using pos by simp
  ultimately show "(2::rat) powi (int (floorlog 2 n) - 1) \<le> of_nat n"
    by (simp only: power_int_of_nat)
  have "of_nat n < (2::rat) ^ floorlog 2 n"
    using floorlog2_bounds(2) [OF assms] by (metis of_nat_less_iff of_nat_numeral of_nat_power)
  then show "of_nat n < (2::rat) powi int (floorlog 2 n)"
    by (simp only: power_int_of_nat)
qed

lemma f64_exponent_bounds:
  assumes "x \<noteq> 0"
  shows "2 powi f64_exponent x \<le> \<bar>x\<bar>" and "\<bar>x\<bar> < 2 powi (f64_exponent x + 1)"
proof -
  obtain n d where q: "quotient_of \<bar>x\<bar> = (n, d)" by (cases "quotient_of \<bar>x\<bar>") auto
  from q have d: "0 < d" and xq: "\<bar>x\<bar> = of_int n / of_int d"
    using quotient_of_denom_pos quotient_of_div by blast+
  from assms d xq have n: "0 < n"
    by (metis divide_pos_pos linorder_neqE_linordered_idom of_int_0_less_iff of_int_less_0_iff
        zero_less_abs_iff divide_neg_pos less_asym div_0 of_int_0 less_irrefl)
  have two: "(2::rat) \<noteq> 0" by simp
  let ?a = "int (floorlog 2 (nat n))" and ?b = "int (floorlog 2 (nat d))"
  have N: "(2::rat) powi (?a - 1) \<le> of_int n" "of_int n < (2::rat) powi ?a"
    using floorlog2_powi [of "nat n"] n by (simp_all add: of_nat_nat)
  have D: "(2::rat) powi (?b - 1) \<le> of_int d" "of_int d < (2::rat) powi ?b"
    using floorlog2_powi [of "nat d"] d by (simp_all add: of_nat_nat)
  have "(2::rat) powi (?a - 1) / 2 powi ?b \<le> of_int n / of_int d"
    by (rule frac_le) (use N D n d in auto)
  then have lo: "2 powi (?a - ?b - 1) \<le> \<bar>x\<bar>"
    unfolding xq power_int_diff [OF disjI1 [OF two], symmetric] by (simp add: algebra_simps)
  have "of_int n / of_int d < (2::rat) powi ?a / 2 powi (?b - 1)"
    by (rule frac_less) (use N D n d in auto)
  then have hi: "\<bar>x\<bar> < 2 powi (?a - ?b + 1)"
    unfolding xq power_int_diff [OF disjI1 [OF two], symmetric] by (simp add: algebra_simps)
  from lo hi show "2 powi f64_exponent x \<le> \<bar>x\<bar>" and "\<bar>x\<bar> < 2 powi (f64_exponent x + 1)"
    by (auto simp: f64_exponent_def q Let_def)
qed

lemma f64_ulp_pos: "0 < f64_ulp x"
  by (simp add: f64_ulp_def)

lemma round_half_even_of_int [simp]: "round_half_even (of_int k) = k"
  by (simp add: round_half_even_def)

lemma f64_round_zero [simp]: "f64_round 0 = Fin 0"
  by (simp add: f64_round_def)

text \<open>A multiple of the unit in the last place is not rounded.\<close>

lemma f64_round_exact:
  assumes "x = of_int k * f64_ulp x" and "\<bar>x\<bar> < 2 ^ 1024"
  shows "f64_round x = Fin x"
proof (cases "x = 0")
  case False
  have "x / f64_ulp x = of_int k"
    using assms(1) f64_ulp_pos [of x] by (metis less_irrefl nonzero_mult_div_cancel_right)
  then have "of_int (round_half_even (x / f64_ulp x)) * f64_ulp x = x"
    using assms(1) by simp
  then show ?thesis
    using False assms(2) by (auto simp: f64_round_def Let_def abs_less_iff)
qed simp

lemma f64_round_int_exact:
  assumes "\<bar>k\<bar> \<le> 2 ^ 53"
  shows "f64_round (of_int k) = Fin (of_int k)"
proof (cases "k = 0")
  case False
  let ?x = "of_int k :: rat" and ?e = "f64_exponent (of_int k)"
  from False have x0: "?x \<noteq> 0" by simp
  have absx: "\<bar>?x\<bar> \<le> 2 ^ 53"
    using assms by (metis of_int_abs of_int_le_iff of_int_numeral of_int_power)
  have big: "\<bar>?x\<bar> < 2 ^ 1024"
    by (rule le_less_trans [OF absx]) (rule power_strict_increasing; simp)
  have "(2::rat) powi ?e \<le> 2 powi 53"
    using f64_exponent_bounds(1) [OF x0] absx by simp
  then have e_hi: "?e \<le> 53"
    by (rule power_int_le_imp_le_exp [rotated]) simp_all
  have one: "1 \<le> \<bar>?x\<bar>"
    using False by (metis of_int_abs of_int_1_le_iff zero_less_abs_iff zless_iff_Suc_zadd add_0
        int_one_le_iff_zero_less)
  have e_lo: "0 \<le> ?e"
  proof (rule ccontr)
    assume "\<not> 0 \<le> ?e"
    then have "(2::rat) powi (?e + 1) \<le> 2 powi 0"
      by (intro power_int_increasing) auto
    with f64_exponent_bounds(2) [OF x0] one show False by simp
  qed
  have u: "f64_ulp ?x = 2 powi (?e - 52)"
    using e_lo by (simp add: f64_ulp_def)
  show ?thesis
  proof (cases "?e \<le> 52")
    case True
    have "?x = of_int (k * 2 ^ nat (52 - ?e)) * f64_ulp ?x"
    proof -
      have "(2::rat) ^ nat (52 - ?e) * 2 powi (?e - 52) = 2 powi (52 - ?e) * 2 powi (?e - 52)"
        using True by (simp add: power_int_def)
      also have "\<dots> = 1" by (simp flip: power_int_add)
      finally show ?thesis by (simp add: u mult.assoc)
    qed
    then show ?thesis using big by (rule f64_round_exact)
  next
    case False
    with e_hi have e53: "?e = 53" by simp
    with f64_exponent_bounds(1) [OF x0] absx have "\<bar>?x\<bar> = 2 ^ 53" by simp
    then have kk: "\<bar>k\<bar> = 2 ^ 53"
      by (metis of_int_abs of_int_eq_iff of_int_numeral of_int_power)
    have "?x = of_int (k div 2) * f64_ulp ?x"
    proof -
      have "even \<bar>k\<bar>" by (simp add: kk)
      then have "k = k div 2 * 2" by simp
      then have "?x = of_int (k div 2) * 2" by (metis of_int_mult of_int_numeral)
      moreover have "f64_ulp ?x = 2" by (simp only: u e53) simp
      ultimately show ?thesis by (simp only:)
    qed
    then show ?thesis using big by (rule f64_round_exact)
  qed
qed simp

lemma f64_sub_one_int:
  assumes "\<bar>k - 1\<bar> \<le> 2 ^ 53"
  shows "f64_sub (Fin (of_int k)) (Fin 1) = Fin (of_int (k - 1))"
  using f64_round_int_exact [OF assms] by (simp add: f64_sub_def)

section \<open>Rounding errors\<close>

lemma round_half_even_error: "\<bar>of_int (round_half_even q) - q\<bar> \<le> 1 / 2"
proof -
  have "of_int \<lfloor>q\<rfloor> \<le> q" "q < of_int \<lfloor>q\<rfloor> + 1" by linarith+
  then show ?thesis by (auto simp: round_half_even_def Let_def abs_le_iff)
qed

text \<open>Errors of consecutive steps add up.\<close>

lemma error_chain:
  fixes a b c :: rat
  assumes "\<bar>a - b\<bar> \<le> e" and "\<bar>b - c\<bar> \<le> f"
  shows "e + f \<le> g \<Longrightarrow> \<bar>a - c\<bar> \<le> g" and "e + f < g \<Longrightarrow> \<bar>a - c\<bar> < g"
  using assms by linarith+

text \<open>Rounding a number of at most \<open>2 ^ k\<close> is off by at most half a unit in the last place of \<open>2 ^ k\<close>.\<close>

lemma f64_round_close:
  assumes "\<bar>x\<bar> \<le> 2 ^ k" and "k \<le> 1000"
  shows "\<exists>y. f64_round x = Fin y \<and> \<bar>y - x\<bar> \<le> 2 ^ k / 2 ^ 53"
proof (cases "x = 0")
  case False
  define v where "v = of_int (round_half_even (x / f64_ulp x)) * f64_ulp x"
  have "(2 :: rat) powi f64_exponent x \<le> 2 powi int k"
    using f64_exponent_bounds(1) [OF False] assms(1) by simp
  then have "f64_exponent x \<le> int k"
    by (rule power_int_le_imp_le_exp [rotated]) simp_all
  then have "f64_ulp x \<le> 2 powi (int k - 52)"
    unfolding f64_ulp_def by (intro power_int_increasing) simp_all
  also have "(2 :: rat) powi (int k - 52) = 2 ^ k / 2 ^ 52"
    by (simp add: power_int_diff)
  finally have u: "f64_ulp x \<le> 2 ^ k / 2 ^ 52" .
  have "v - x = (of_int (round_half_even (x / f64_ulp x)) - x / f64_ulp x) * f64_ulp x"
    using f64_ulp_pos [of x] by (simp add: v_def left_diff_distrib)
  then have "\<bar>v - x\<bar> = \<bar>of_int (round_half_even (x / f64_ulp x)) - x / f64_ulp x\<bar> * f64_ulp x"
    using f64_ulp_pos [of x] by (simp add: abs_mult)
  also have "\<dots> \<le> 1 / 2 * (2 ^ k / 2 ^ 52)"
    using round_half_even_error u f64_ulp_pos [of x] by (intro mult_mono) (simp_all add: less_imp_le)
  finally have err: "\<bar>v - x\<bar> \<le> 2 ^ k / 2 ^ 53" by simp
  have "\<bar>v\<bar> \<le> \<bar>x\<bar> + \<bar>v - x\<bar>" by linarith
  also have "\<dots> \<le> 2 ^ k + 2 ^ k / 2 ^ 53" using assms(1) err by simp
  also have "\<dots> \<le> 2 ^ Suc k" by (simp add: field_simps)
  also have "\<dots> < (2 :: rat) ^ 1024" using assms(2) by (intro power_strict_increasing) simp_all
  finally have "f64_round x = Fin v"
    using False by (auto simp: f64_round_def Let_def v_def [symmetric])
  with err show ?thesis by blast
qed simp

end
