(* ===== verification/P2P_Score.thy ===== *)
theory P2P_Score
  imports Rust_F64
begin

text \<open>
  \<^verbatim>\<open>score_manager.rs\<close> and the scoring half of \<^verbatim>\<open>validator.rs\<close>: the per-peer application scores, the
  \<^verbatim>\<open>Validator\<close> trait as a record of its three methods, and \<^verbatim>\<open>DefaultP2PValidator\<close>. The gossip and
  request-response score tables share the contract \<open>score_table\<close>.
\<close>

section \<open>Scores\<close>

definition DEFAULT_GOSSIP_APP_SCORE :: f64 where
  "DEFAULT_GOSSIP_APP_SCORE = Fin 0"

definition DEFAULT_REQ_RESP_APP_SCORE :: f64 where
  "DEFAULT_REQ_RESP_APP_SCORE = Fin 0"

record score_manager =
  gossipsub_app_score :: "peer_id \<rightharpoonup> f64"
  req_resp_app_score :: "peer_id \<rightharpoonup> f64"
  last_scoring_decay_time :: "peer_id \<rightharpoonup> system_time"

record app_peer_score =
  app_gossipsub_score :: f64
  app_req_resp_score :: f64

record peer_score =
  app_score :: app_peer_score
  gossipsub_internal_score :: f64

definition score_manager_new :: score_manager where
  "score_manager_new = \<lparr>gossipsub_app_score = Map.empty, req_resp_app_score = Map.empty,
     last_scoring_decay_time = Map.empty\<rparr>"

definition get_gossipsub_app_score :: "score_manager \<Rightarrow> peer_id \<Rightarrow> f64 option" where
  "get_gossipsub_app_score sm p = gossipsub_app_score sm p"

definition get_req_resp_score :: "score_manager \<Rightarrow> peer_id \<Rightarrow> f64 option" where
  "get_req_resp_score sm p = req_resp_app_score sm p"

definition update_gossipsub_app_score :: "peer_id \<Rightarrow> f64 \<Rightarrow> score_manager \<Rightarrow> score_manager" where
  "update_gossipsub_app_score p v sm =
     sm\<lparr>gossipsub_app_score := (gossipsub_app_score sm)(p \<mapsto> v)\<rparr>"

definition update_req_resp_app_score :: "peer_id \<Rightarrow> f64 \<Rightarrow> score_manager \<Rightarrow> score_manager" where
  "update_req_resp_app_score p v sm =
     sm\<lparr>req_resp_app_score := (req_resp_app_score sm)(p \<mapsto> v)\<rparr>"

definition update_last_scoring_decay_time ::
  "peer_id \<Rightarrow> system_time \<Rightarrow> score_manager \<Rightarrow> score_manager \<times> system_time option" where
  "update_last_scoring_decay_time p t sm =
     (let (m, old) = map_insert p t (last_scoring_decay_time sm)
      in (sm\<lparr>last_scoring_decay_time := m\<rparr>, old))"

definition score_manager_remove_peer :: "peer_id \<Rightarrow> score_manager \<Rightarrow> score_manager" where
  "score_manager_remove_peer p sm =
     sm\<lparr>gossipsub_app_score := (gossipsub_app_score sm)(p := None),
        req_resp_app_score := (req_resp_app_score sm)(p := None),
        last_scoring_decay_time := (last_scoring_decay_time sm)(p := None)\<rparr>"

lemmas score_ops [p2p_ops] =
  get_gossipsub_app_score_def get_req_resp_score_def update_gossipsub_app_score_def
  update_req_resp_app_score_def update_last_scoring_decay_time_def score_manager_remove_peer_def
  map_insert_def

section \<open>The validator\<close>

datatype validator_message = MsgGossipsub bytes | MsgRequest bytes | MsgResponse bytes

datatype penalty_type =
    MuteGossip duration
  | MuteReqresp duration
  | MuteBoth duration
  | Ban "duration option"

record validator =
  validate_msg :: "validator_message \<Rightarrow> f64 \<Rightarrow> f64"
  get_penalty :: "validator_message \<Rightarrow> peer_score \<Rightarrow> penalty_type option"
  apply_decay :: "f64 \<Rightarrow> duration \<Rightarrow> f64"

definition DEFAULT_BAN_PERIOD :: duration where
  "DEFAULT_BAN_PERIOD = 60 * 60 * 24 * 30 * nanos_per_sec"

definition DEFAULT_DECAY_RATE_PER_SEC :: f64 where
  "DEFAULT_DECAY_RATE_PER_SEC = f64_round (9 / 10)"

definition DEFAULT_MESSAGE_COST :: f64 where
  "DEFAULT_MESSAGE_COST = Fin 1"

definition DEFAULT_MUTE_THRESHOLD :: f64 where
  "DEFAULT_MUTE_THRESHOLD = Fin (- 100)"

definition DEFAULT_MUTE_DURATION :: duration where
  "DEFAULT_MUTE_DURATION = 60 * nanos_per_sec"

definition default_validate_msg :: "validator_message \<Rightarrow> f64 \<Rightarrow> f64" where
  "default_validate_msg msg old_app_score = f64_sub old_app_score DEFAULT_MESSAGE_COST"

definition default_get_penalty :: "validator_message \<Rightarrow> peer_score \<Rightarrow> penalty_type option" where
  "default_get_penalty msg score =
     (case msg of
        MsgGossipsub _ \<Rightarrow>
          if f64_less (app_gossipsub_score (app_score score)) DEFAULT_MUTE_THRESHOLD
          then Some (MuteGossip DEFAULT_MUTE_DURATION) else None
      | _ \<Rightarrow>
          if f64_less (app_req_resp_score (app_score score)) DEFAULT_MUTE_THRESHOLD
          then Some (MuteReqresp DEFAULT_MUTE_DURATION) else None)"

definition default_apply_decay :: "f64 \<Rightarrow> duration \<Rightarrow> f64" where
  "default_apply_decay score time_since_last_decay =
     (let delta_seconds = as_secs_f64 time_since_last_decay;
          decay_increment = f64_mul DEFAULT_DECAY_RATE_PER_SEC delta_seconds
      in f64_min (f64_add score decay_increment) (Fin 0))"

definition default_validator :: validator where
  "default_validator = \<lparr>validate_msg = default_validate_msg, get_penalty = default_get_penalty,
     apply_decay = default_apply_decay\<rparr>"

section \<open>The score-table contract\<close>

text \<open>One charge: the new score of a peer is the validator's verdict on the old one or the default.\<close>

definition charge ::
  "(score_manager \<Rightarrow> peer_id \<Rightarrow> f64 option) \<Rightarrow> (peer_id \<Rightarrow> f64 \<Rightarrow> score_manager \<Rightarrow> score_manager) \<Rightarrow>
   validator \<Rightarrow> peer_id \<Rightarrow> validator_message \<Rightarrow> score_manager \<Rightarrow> score_manager" where
  "charge get upd v p msg sm = upd p (validate_msg v msg (unwrap_or (Fin 0) (get sm p))) sm"

primrec charge_all ::
  "(score_manager \<Rightarrow> peer_id \<Rightarrow> f64 option) \<Rightarrow> (peer_id \<Rightarrow> f64 \<Rightarrow> score_manager \<Rightarrow> score_manager) \<Rightarrow>
   validator \<Rightarrow> peer_id \<Rightarrow> validator_message list \<Rightarrow> score_manager \<Rightarrow> score_manager" where
  "charge_all get upd v p [] sm = sm"
| "charge_all get upd v p (m # ms) sm = charge_all get upd v p ms (charge get upd v p m sm)"

locale score_table =
  fixes get :: "score_manager \<Rightarrow> peer_id \<Rightarrow> f64 option"
    and upd :: "peer_id \<Rightarrow> f64 \<Rightarrow> score_manager \<Rightarrow> score_manager"
  assumes get_upd: "get (upd p x sm) q = (if q = p then Some x else get sm q)"
    and get_remove: "get (score_manager_remove_peer p sm) q = (if q = p then None else get sm q)"
    and get_new: "get score_manager_new q = None"
begin

lemma charge_other: "q \<noteq> p \<Longrightarrow> get (charge_all get upd v p ms sm) q = get sm q"
  by (induction ms arbitrary: sm) (simp_all add: charge_def get_upd)

lemma charge_all_default:
  assumes "get sm p = Some (Fin (of_int k)) \<or> get sm p = None \<and> k = 0"
    and "\<bar>k\<bar> + int (length ms) \<le> 2 ^ 53"
  shows "unwrap_or (Fin 0) (get (charge_all get upd default_validator p ms sm) p) =
         Fin (of_int (k - int (length ms)))"
  using assms
proof (induction ms arbitrary: sm k)
  case Nil
  then show ?case by auto
next
  case (Cons m ms)
  let ?sm = "charge get upd default_validator p m sm"
  have old: "unwrap_or (Fin 0) (get sm p) = Fin (of_int k)"
    using Cons.prems(1) by auto
  have "f64_sub (Fin (of_int k)) (Fin 1) = Fin (of_int (k - 1))"
    using Cons.prems(2) by (intro f64_sub_one_int) auto
  then have "get ?sm p = Some (Fin (of_int (k - 1)))"
    by (simp add: charge_def get_upd old default_validator_def default_validate_msg_def
        DEFAULT_MESSAGE_COST_def)
  then have "unwrap_or (Fin 0) (get (charge_all get upd default_validator p ms ?sm) p) =
      Fin (of_int (k - 1 - int (length ms)))"
    using Cons.prems(2) by (intro Cons.IH) auto
  then show ?case by simp
qed

lemma forgets_on_remove:
  "unwrap_or (Fin 0) (get (score_manager_remove_peer p sm) p) = Fin 0"
  by (simp add: get_remove)

end

interpretation gossip_scores: score_table get_gossipsub_app_score update_gossipsub_app_score
  by unfold_locales (simp_all add: score_ops score_manager_new_def)

interpretation req_resp_scores: score_table get_req_resp_score update_req_resp_app_score
  by unfold_locales (simp_all add: score_ops score_manager_new_def)

section \<open>The default validator\<close>

text \<open>
  The decay computation step by step: the elapsed time in seconds, the increment, the new score. Times and
  scores are taken up to \<open>2 ^ 20\<close> (twelve days), where no operation is off by more than \<open>2 ^ -31\<close>.
\<close>

lemma as_secs_f64_close:
  assumes "d \<le> 2 ^ 20 * nanos_per_sec"
  shows "\<exists>t. as_secs_f64 d = Fin t \<and> \<bar>t - of_nat d / of_nat nanos_per_sec\<bar> \<le> 1 / 2 ^ 31"
proof -
  define n where "n = d div nanos_per_sec"
  define r :: rat where "r = of_nat (d mod nanos_per_sec) / of_nat nanos_per_sec"
  have n: "n \<le> 2 ^ 20" using div_le_mono [OF assms, of nanos_per_sec] by (simp add: n_def)
  have exact: "of_nat d / of_nat nanos_per_sec = of_nat n + r"
  proof -
    have "of_nat d = (of_nat (n * nanos_per_sec + d mod nanos_per_sec) :: rat)"
      by (simp only: n_def div_mult_mod_eq)
    then show ?thesis by (simp add: r_def add_divide_distrib)
  qed
  have "of_nat (d mod nanos_per_sec) < (of_nat nanos_per_sec :: rat)"
    by (simp only: of_nat_less_iff)
  then have r: "0 \<le> r" "r \<le> 1" by (simp_all add: r_def)
  have "int n \<le> 2 ^ 53" using n by simp
  then have n': "f64_round (of_nat n) = Fin (of_nat n)"
    using f64_round_int_exact [of "int n"] by simp
  obtain r' where r': "f64_round r = Fin r'" "\<bar>r' - r\<bar> \<le> 1 / 2 ^ 53"
    using f64_round_close [of r 0] r by auto
  have nr: "of_nat n \<le> (2 ^ 20 :: rat)" using n by (metis of_nat_le_iff of_nat_numeral of_nat_power)
  have "\<bar>r' - r\<bar> \<le> 1" by (rule order_trans [OF r'(2)]) simp
  then have "\<bar>of_nat n + r'\<bar> \<le> 2 ^ 21"
    using nr r of_nat_0_le_iff [of n, where ?'a = rat] by (simp add: abs_le_iff)
  then obtain t where t: "f64_round (of_nat n + r') = Fin t" "\<bar>t - (of_nat n + r')\<bar> \<le> 2 ^ 21 / 2 ^ 53"
    using f64_round_close [of "of_nat n + r'" 21] by auto
  have "as_secs_f64 d = Fin t"
    using n' r'(1) t(1) by (simp add: as_secs_f64_def f64_div_finite_def n_def r_def)
  moreover have "\<bar>t - (of_nat n + r)\<bar> \<le> 1 / 2 ^ 31"
    using r'(2) by (intro error_chain(1) [OF t(2), of _ "1 / 2 ^ 53"]) simp_all
  ultimately show ?thesis unfolding exact by blast
qed

lemma decay_rate_close: "\<exists>q. DEFAULT_DECAY_RATE_PER_SEC = Fin q \<and> \<bar>q - 9 / 10\<bar> \<le> 1 / 2 ^ 53"
  using f64_round_close [of "9 / 10" 0] by (simp add: DEFAULT_DECAY_RATE_PER_SEC_def)

lemma decay_increment_close:
  assumes "d \<le> 2 ^ 20 * nanos_per_sec" and "T = of_nat d / of_nat nanos_per_sec"
  shows "\<exists>i. f64_mul DEFAULT_DECAY_RATE_PER_SEC (as_secs_f64 d) = Fin i \<and> \<bar>i - 9 / 10 * T\<bar> \<le> 1 / 2 ^ 30"
proof -
  obtain t where t: "as_secs_f64 d = Fin t" "\<bar>t - T\<bar> \<le> 1 / 2 ^ 31"
    using as_secs_f64_close [OF assms(1)] assms(2) by blast
  obtain q where q: "DEFAULT_DECAY_RATE_PER_SEC = Fin q" "\<bar>q - 9 / 10\<bar> \<le> 1 / 2 ^ 53"
    using decay_rate_close by blast
  have "(of_nat d :: rat) \<le> of_nat (2 ^ 20 * nanos_per_sec)" using assms(1) by (simp only: of_nat_le_iff)
  then have T: "0 \<le> T" "T \<le> 2 ^ 20" by (simp_all add: assms(2))
  have "\<bar>t - T\<bar> \<le> 1" by (rule order_trans [OF t(2)]) simp
  then have tb: "\<bar>t\<bar> \<le> 2 ^ 21" using T by (simp add: abs_le_iff)
  have "q * t - 9 / 10 * T = (q - 9 / 10) * t + 9 / 10 * (t - T)" by (simp add: field_simps)
  then have "\<bar>q * t - 9 / 10 * T\<bar> \<le> \<bar>q - 9 / 10\<bar> * \<bar>t\<bar> + 9 / 10 * \<bar>t - T\<bar>"
    using abs_triangle_ineq [of "(q - 9 / 10) * t" "9 / 10 * (t - T)"]
    by (simp only: abs_mult abs_divide abs_numeral)
  also have "\<dots> \<le> 1 / 2 ^ 53 * 2 ^ 21 + 9 / 10 * (1 / 2 ^ 31)"
    using q(2) tb t(2) by (intro add_mono mult_mono) simp_all
  finally have e1: "\<bar>q * t - 9 / 10 * T\<bar> \<le> 1 / 2 ^ 32 + 9 / 10 / 2 ^ 31" by simp
  have "\<bar>q * t - 9 / 10 * T\<bar> \<le> 1" by (rule order_trans [OF e1]) simp
  then have "\<bar>q * t\<bar> \<le> 2 ^ 20" using T by (simp add: abs_le_iff)
  then obtain i where i: "f64_round (q * t) = Fin i" "\<bar>i - q * t\<bar> \<le> 2 ^ 20 / 2 ^ 53"
    using f64_round_close [of "q * t" 20] by auto
  have "\<bar>i - 9 / 10 * T\<bar> \<le> 1 / 2 ^ 30" by (rule error_chain(1) [OF i(2) e1]) simp
  moreover have "f64_mul DEFAULT_DECAY_RATE_PER_SEC (as_secs_f64 d) = Fin i" by (simp add: i(1) t(1) q(1))
  ultimately show ?thesis by blast
qed

lemma default_get_penalty_gossip:
  "app_gossipsub_score (app_score s) = Fin x \<Longrightarrow>
   default_get_penalty (MsgGossipsub b) s =
     (if x < - 100 then Some (MuteGossip DEFAULT_MUTE_DURATION) else None)"
  by (simp add: default_get_penalty_def DEFAULT_MUTE_THRESHOLD_def)

lemma default_get_penalty_req_resp:
  "app_req_resp_score (app_score s) = Fin x \<Longrightarrow> m = MsgRequest b \<or> m = MsgResponse b \<Longrightarrow>
   default_get_penalty m s =
     (if x < - 100 then Some (MuteReqresp DEFAULT_MUTE_DURATION) else None)"
  by (auto simp: default_get_penalty_def DEFAULT_MUTE_THRESHOLD_def)

section \<open>Properties\<close>

text \<open>C27: The default decay repairs a score at nine points in ten seconds: after a time of up to \<open>2 ^ 20\<close>
  seconds, fractions included, a score between \<open>- 2 ^ 20\<close> and \<open>2 ^ 20\<close> has risen by 0.9 for every second
  that passed, cut off at zero, and the binary64 arithmetic is off by less than \<open>10 ^ -8\<close>. So waiting
  earns no credit, and a peer at \<open>- n\<close> is back at zero after about \<open>n / 0.9\<close> seconds.\<close>

theorem default_decay_rate:
  assumes "\<bar>x\<bar> \<le> 2 ^ 20" and "d \<le> 2 ^ 20 * nanos_per_sec"
  shows "\<exists>y. default_apply_decay (Fin x) d = Fin y \<and> y \<le> 0 \<and>
     \<bar>y - min 0 (x + 9 / 10 * (of_nat d / of_nat nanos_per_sec))\<bar> < 1 / 10 ^ 8"
proof -
  define T :: rat where "T = of_nat d / of_nat nanos_per_sec"
  have "(of_nat d :: rat) \<le> of_nat (2 ^ 20 * nanos_per_sec)" using assms(2) by (simp only: of_nat_le_iff)
  then have T: "0 \<le> T" "T \<le> 2 ^ 20" by (simp_all add: T_def)
  obtain i where i: "f64_mul DEFAULT_DECAY_RATE_PER_SEC (as_secs_f64 d) = Fin i" "\<bar>i - 9 / 10 * T\<bar> \<le> 1 / 2 ^ 30"
    using decay_increment_close [OF assms(2) T_def] by blast
  have "\<bar>i - 9 / 10 * T\<bar> \<le> 1" by (rule order_trans [OF i(2)]) simp
  then have "\<bar>x + i\<bar> \<le> 2 ^ 21" using assms(1) T by (simp add: abs_le_iff)
  then obtain z where z: "f64_round (x + i) = Fin z" "\<bar>z - (x + i)\<bar> \<le> 2 ^ 21 / 2 ^ 53"
    using f64_round_close [of "x + i" 21] by auto
  have "default_apply_decay (Fin x) d = Fin (min 0 z)"
    using i(1) z(1) by (simp add: default_apply_decay_def Let_def f64_min_def)
  moreover have "\<bar>min 0 z - min 0 (x + 9 / 10 * T)\<bar> \<le> \<bar>z - (x + 9 / 10 * T)\<bar>" by (simp add: min_def)
  moreover have "\<bar>x + i - (x + 9 / 10 * T)\<bar> \<le> 1 / 2 ^ 30" using i(2) by (simp add: algebra_simps)
  then have "\<bar>z - (x + 9 / 10 * T)\<bar> < 1 / 10 ^ 8" by (rule error_chain(2) [OF z(2)]) simp
  ultimately show ?thesis unfolding T_def by (intro exI [of _ "min 0 z"]) simp
qed

theorem default_decay_rate_witness:
  "\<exists>y. default_apply_decay (Fin (- 101)) (10 * nanos_per_sec) = Fin y \<and> y \<le> 0 \<and> \<bar>y + 92\<bar> < 1 / 10 ^ 8"
  using default_decay_rate [of "- 101" "10 * nanos_per_sec"] by (simp add: min_def)

text \<open>C26: The default validator's verdict on a peer that started without a score and sent \<open>n\<close>
  messages, with no decay in between: the scores are exactly \<open>- n\<close> (no rounding, up to \<open>2^53\<close> messages), a
  peer is left alone up to its 100th message, and each one after that earns a mute of 60 seconds of
  the kind of message it sent.\<close>

theorem default_mute_threshold:
  assumes "int (length ms) \<le> 2 ^ 53"
    and "app_gossipsub_score (app_score scores) = unwrap_or DEFAULT_GOSSIP_APP_SCORE
           (get_gossipsub_app_score
             (charge_all get_gossipsub_app_score update_gossipsub_app_score default_validator p ms
                score_manager_new) p)"
    and "app_req_resp_score (app_score scores) = unwrap_or DEFAULT_REQ_RESP_APP_SCORE
           (get_req_resp_score
             (charge_all get_req_resp_score update_req_resp_app_score default_validator p ms
                score_manager_new) p)"
  shows "app_gossipsub_score (app_score scores) = Fin (- of_nat (length ms)) \<and>
     app_req_resp_score (app_score scores) = Fin (- of_nat (length ms)) \<and>
     default_get_penalty (MsgGossipsub b) scores =
       (if 100 < length ms then Some (MuteGossip (60 * nanos_per_sec)) else None) \<and>
     default_get_penalty (MsgRequest b) scores =
       (if 100 < length ms then Some (MuteReqresp (60 * nanos_per_sec)) else None) \<and>
     default_get_penalty (MsgResponse b) scores =
       (if 100 < length ms then Some (MuteReqresp (60 * nanos_per_sec)) else None)"
proof -
  have g: "app_gossipsub_score (app_score scores) = Fin (- of_nat (length ms))"
    using assms gossip_scores.charge_all_default [of score_manager_new p 0 ms] gossip_scores.get_new
    by (simp add: DEFAULT_GOSSIP_APP_SCORE_def)
  have r: "app_req_resp_score (app_score scores) = Fin (- of_nat (length ms))"
    using assms req_resp_scores.charge_all_default [of score_manager_new p 0 ms] req_resp_scores.get_new
    by (simp add: DEFAULT_REQ_RESP_APP_SCORE_def)
  have "(100 :: rat) = of_nat 100" by simp
  then have "- (of_nat (length ms) :: rat) < - 100 \<longleftrightarrow> 100 < length ms"
    by (simp only: neg_less_iff_less of_nat_less_iff)
  then show ?thesis
    using g r default_get_penalty_gossip [OF g, of b]
      default_get_penalty_req_resp [OF r, of "MsgRequest b" b]
      default_get_penalty_req_resp [OF r, of "MsgResponse b" b]
    by (simp add: DEFAULT_MUTE_DURATION_def)
qed

theorem default_mute_threshold_witness:
  "default_get_penalty (MsgGossipsub [1])
     \<lparr>app_score = \<lparr>app_gossipsub_score = unwrap_or DEFAULT_GOSSIP_APP_SCORE
         (get_gossipsub_app_score
           (charge_all get_gossipsub_app_score update_gossipsub_app_score default_validator (PeerId [1])
              (replicate 101 (MsgGossipsub [1])) score_manager_new) (PeerId [1])),
       app_req_resp_score = unwrap_or DEFAULT_REQ_RESP_APP_SCORE
         (get_req_resp_score
           (charge_all get_req_resp_score update_req_resp_app_score default_validator (PeerId [1])
              (replicate 101 (MsgGossipsub [1])) score_manager_new) (PeerId [1]))\<rparr>,
      gossipsub_internal_score = Fin 0\<rparr> = Some (MuteGossip (60 * nanos_per_sec))"
proof -
  have len: "length (replicate 101 (MsgGossipsub [1])) = 101" by (rule length_replicate)
  have "int (length (replicate 101 (MsgGossipsub [1]))) \<le> 2 ^ 53" unfolding len by simp
  from default_mute_threshold [OF this, where p = "PeerId [1]" and b = "[1]", OF
      peer_score.select_convs(1) [THEN arg_cong, of app_gossipsub_score, THEN trans,
        OF app_peer_score.select_convs(1)]
      peer_score.select_convs(1) [THEN arg_cong, of app_req_resp_score, THEN trans,
        OF app_peer_score.select_convs(2)]]
  show ?thesis unfolding len by (simp only: numeral_less_iff) simp
qed

end
