(* ===== verification/P2P_Penalty.thy ===== *)
theory P2P_Penalty
  imports P2P_Prelude
begin

text \<open>
  The penalty half of \<^verbatim>\<open>validator.rs\<close>: \<^verbatim>\<open>PenaltyInfo\<close> and \<^verbatim>\<open>PenaltyPeerStorage\<close>. Every
  \<^verbatim>\<open>SystemTime::now()\<close> of an operation is an explicit argument. Gossip mutes, request-response
  mutes and bans are three instances of one contract, the locale \<open>penalty_timer\<close>: a deadline per
  peer that impositions can only push back while it runs and that a lift clears.
\<close>

record penalty_info =
  mute_gossip_until :: "system_time option"
  mute_req_resp_until :: "system_time option"
  ban_until :: "system_time option"

record penalty_peer_storage =
  penalties :: "peer_id \<rightharpoonup> penalty_info"

definition penalty_info_new ::
  "system_time option \<Rightarrow> system_time option \<Rightarrow> system_time option \<Rightarrow> penalty_info" where
  "penalty_info_new g r b = \<lparr>mute_gossip_until = g, mute_req_resp_until = r, ban_until = b\<rparr>"

definition penalty_peer_storage_new :: penalty_peer_storage where
  "penalty_peer_storage_new = \<lparr>penalties = Map.empty\<rparr>"

section \<open>Queries\<close>

definition is_gossip_muted :: "system_time \<Rightarrow> penalty_peer_storage \<Rightarrow> peer_id \<Rightarrow> bool" where
  "is_gossip_muted now st p =
     is_some_and (\<lambda>t. t > now) (Option.bind (penalties st p) mute_gossip_until)"

definition is_req_resp_muted :: "system_time \<Rightarrow> penalty_peer_storage \<Rightarrow> peer_id \<Rightarrow> bool" where
  "is_req_resp_muted now st p =
     is_some_and (\<lambda>t. t > now) (Option.bind (penalties st p) mute_req_resp_until)"

definition is_banned :: "system_time \<Rightarrow> penalty_peer_storage \<Rightarrow> peer_id \<Rightarrow> bool" where
  "is_banned now st p = is_some_and (\<lambda>t. t > now) (Option.bind (penalties st p) ban_until)"

text \<open>The three comparisons read the clock one after the other.\<close>

definition has_active_penalties :: "(nat \<Rightarrow> system_time) \<Rightarrow> penalty_peer_storage \<Rightarrow> peer_id \<Rightarrow> bool" where
  "has_active_penalties clk st p =
     (case penalties st p of
        None \<Rightarrow> False
      | Some penalty \<Rightarrow>
          if is_some_and (\<lambda>t. t > clk 0) (ban_until penalty) then True
          else if is_some_and (\<lambda>t. t > clk 1) (mute_gossip_until penalty) then True
          else if is_some_and (\<lambda>t. t > clk 2) (mute_req_resp_until penalty) then True
          else False)"

section \<open>Updates\<close>

text \<open>\<^verbatim>\<open>entry(p).or_insert_with(|| PenaltyInfo::new(None, None, None))\<close>.\<close>

definition penalty_entry :: "penalty_peer_storage \<Rightarrow> peer_id \<Rightarrow> penalty_info" where
  "penalty_entry st p = unwrap_or (penalty_info_new None None None) (penalties st p)"

text \<open>
  The updated deadline: a running one is extended, never shortened; otherwise it is replaced.
\<close>

definition extend_until :: "system_time \<Rightarrow> system_time option \<Rightarrow> system_time \<Rightarrow> system_time" where
  "extend_until now current u =
     (case current of
        Some t \<Rightarrow> if t > now then max t u else u
      | None \<Rightarrow> u)"

definition mute_peer_gossip ::
  "system_time \<Rightarrow> peer_id \<Rightarrow> system_time \<Rightarrow> penalty_peer_storage \<Rightarrow> penalty_peer_storage \<times> (string + unit)" where
  "mute_peer_gossip now p u st =
     (let penalty = penalty_entry st p
      in (st\<lparr>penalties := (penalties st)(p \<mapsto>
            penalty\<lparr>mute_gossip_until := Some (extend_until now (mute_gossip_until penalty) u)\<rparr>)\<rparr>,
          Inr ()))"

definition mute_peer_req_resp ::
  "system_time \<Rightarrow> peer_id \<Rightarrow> system_time \<Rightarrow> penalty_peer_storage \<Rightarrow> penalty_peer_storage \<times> (string + unit)" where
  "mute_peer_req_resp now p u st =
     (let penalty = penalty_entry st p
      in (st\<lparr>penalties := (penalties st)(p \<mapsto>
            penalty\<lparr>mute_req_resp_until := Some (extend_until now (mute_req_resp_until penalty) u)\<rparr>)\<rparr>,
          Inr ()))"

definition ban_peer ::
  "system_time \<Rightarrow> peer_id \<Rightarrow> system_time \<Rightarrow> penalty_peer_storage \<Rightarrow> penalty_peer_storage \<times> (string + unit)" where
  "ban_peer now p u st =
     (let penalty = penalty_entry st p
      in (st\<lparr>penalties := (penalties st)(p \<mapsto>
            penalty\<lparr>ban_until := Some (extend_until now (ban_until penalty) u)\<rparr>)\<rparr>,
          Inr ()))"

text \<open>\<^verbatim>\<open>if let Some(penalty) = self.penalties.get_mut(peer_id)\<close>.\<close>

definition modify_entry ::
  "(penalty_info \<Rightarrow> penalty_info) \<Rightarrow> peer_id \<Rightarrow> penalty_peer_storage \<Rightarrow> penalty_peer_storage" where
  "modify_entry f p st =
     (case penalties st p of
        None \<Rightarrow> st
      | Some penalty \<Rightarrow> st\<lparr>penalties := (penalties st)(p \<mapsto> f penalty)\<rparr>)"

definition unban_peer :: "peer_id \<Rightarrow> penalty_peer_storage \<Rightarrow> penalty_peer_storage" where
  "unban_peer p st = modify_entry (\<lambda>i. i\<lparr>ban_until := None\<rparr>) p st"

definition unmute_peer_gossip :: "peer_id \<Rightarrow> penalty_peer_storage \<Rightarrow> penalty_peer_storage" where
  "unmute_peer_gossip p st = modify_entry (\<lambda>i. i\<lparr>mute_gossip_until := None\<rparr>) p st"

definition unmute_peer_req_resp :: "peer_id \<Rightarrow> penalty_peer_storage \<Rightarrow> penalty_peer_storage" where
  "unmute_peer_req_resp p st = modify_entry (\<lambda>i. i\<lparr>mute_req_resp_until := None\<rparr>) p st"

definition penalty_remove_peer :: "peer_id \<Rightarrow> penalty_peer_storage \<Rightarrow> penalty_peer_storage" where
  "penalty_remove_peer p st = st\<lparr>penalties := (penalties st)(p := None)\<rparr>"

lemmas penalty_ops [p2p_ops] =
  is_gossip_muted_def is_req_resp_muted_def is_banned_def mute_peer_gossip_def
  mute_peer_req_resp_def ban_peer_def unban_peer_def unmute_peer_gossip_def
  unmute_peer_req_resp_def penalty_remove_peer_def modify_entry_def

section \<open>The deadline contract\<close>

text \<open>The deadline of a peer, per kind of penalty.\<close>

abbreviation gossip_deadline :: "penalty_peer_storage \<Rightarrow> peer_id \<Rightarrow> system_time option" where
  "gossip_deadline st p \<equiv> Option.bind (penalties st p) mute_gossip_until"

abbreviation req_resp_deadline :: "penalty_peer_storage \<Rightarrow> peer_id \<Rightarrow> system_time option" where
  "req_resp_deadline st p \<equiv> Option.bind (penalties st p) mute_req_resp_until"

abbreviation ban_deadline :: "penalty_peer_storage \<Rightarrow> peer_id \<Rightarrow> system_time option" where
  "ban_deadline st p \<equiv> Option.bind (penalties st p) ban_until"

lemma entry_deadline [simp]:
  "mute_gossip_until (penalty_entry st p) = gossip_deadline st p"
  "mute_req_resp_until (penalty_entry st p) = req_resp_deadline st p"
  "ban_until (penalty_entry st p) = ban_deadline st p"
  by (cases "penalties st p"; simp add: penalty_entry_def penalty_info_new_def)+

text \<open>A history of impositions on one peer: the clock at each call and the deadline asked for.\<close>

primrec impose_all ::
  "(system_time \<Rightarrow> peer_id \<Rightarrow> system_time \<Rightarrow> penalty_peer_storage \<Rightarrow> penalty_peer_storage \<times> (string + unit)) \<Rightarrow>
   peer_id \<Rightarrow> (system_time \<times> system_time) list \<Rightarrow> penalty_peer_storage \<Rightarrow> penalty_peer_storage" where
  "impose_all impose p [] st = st"
| "impose_all impose p (h # hs) st = impose_all impose p hs (fst (impose (fst h) p (snd h) st))"

locale penalty_timer =
  fixes deadline :: "penalty_peer_storage \<Rightarrow> peer_id \<Rightarrow> system_time option"
    and active :: "system_time \<Rightarrow> penalty_peer_storage \<Rightarrow> peer_id \<Rightarrow> bool"
    and impose :: "system_time \<Rightarrow> peer_id \<Rightarrow> system_time \<Rightarrow> penalty_peer_storage \<Rightarrow>
          penalty_peer_storage \<times> (string + unit)"
    and lift :: "peer_id \<Rightarrow> penalty_peer_storage \<Rightarrow> penalty_peer_storage"
  assumes active_iff: "active now st p \<longleftrightarrow> (\<exists>t. deadline st p = Some t \<and> now < t)"
    and impose_ok: "snd (impose now p u st) = Inr ()"
    and impose_deadline: "deadline (fst (impose now p u st)) q =
          (if q = p then Some (extend_until now (deadline st p) u) else deadline st q)"
    and lift_deadline: "deadline (lift p st) q = (if q = p then None else deadline st q)"
    and remove_deadline: "deadline (penalty_remove_peer p st) q = (if q = p then None else deadline st q)"
    and new_deadline: "deadline penalty_peer_storage_new q = None"
begin

lemma active_impose:
  assumes "now \<le> t"
  shows "active t (fst (impose now p u st)) q \<longleftrightarrow> active t st q \<or> (q = p \<and> t < u)"
  using assms
  by (auto simp: active_iff impose_deadline extend_until_def split: option.splits if_splits)

lemma not_active_lift: "\<not> active t (lift p st) p"
  by (simp add: active_iff lift_deadline)

lemma active_lift_other: "q \<noteq> p \<Longrightarrow> active t (lift p st) q \<longleftrightarrow> active t st q"
  by (simp add: active_iff lift_deadline)

lemma active_expires: "active t st p \<Longrightarrow> s \<le> t \<Longrightarrow> active s st p"
  by (auto simp: active_iff)

text \<open>The abstract view: a peer is penalised at \<open>t\<close> iff some imposition asked for more than \<open>t\<close>.\<close>

lemma active_impose_all:
  assumes "\<forall>h \<in> set hs. fst h \<le> t"
  shows "active t (impose_all impose p hs st) q \<longleftrightarrow>
         active t st q \<or> (q = p \<and> (\<exists>h \<in> set hs. t < snd h))"
  using assms by (induction hs arbitrary: st) (auto simp: active_impose)

lemma active_impose_all_new:
  assumes "\<forall>h \<in> set hs. fst h \<le> t"
  shows "active t (impose_all impose p hs penalty_peer_storage_new) q \<longleftrightarrow>
         q = p \<and> (\<exists>h \<in> set hs. t < snd h)"
  using active_impose_all [OF assms] by (simp add: active_iff new_deadline)

end

interpretation gossip_mute: penalty_timer gossip_deadline is_gossip_muted mute_peer_gossip unmute_peer_gossip
  by unfold_locales
    (auto simp: penalty_ops penalty_peer_storage_new_def is_some_and_iff Let_def
      split: option.splits)

interpretation req_resp_mute: penalty_timer req_resp_deadline is_req_resp_muted mute_peer_req_resp unmute_peer_req_resp
  by unfold_locales
    (auto simp: penalty_ops penalty_peer_storage_new_def is_some_and_iff Let_def
      split: option.splits)

interpretation ban: penalty_timer ban_deadline is_banned ban_peer unban_peer
  by unfold_locales
    (auto simp: penalty_ops penalty_peer_storage_new_def is_some_and_iff Let_def
      split: option.splits)

section \<open>Independence of the three penalties\<close>

lemma gossip_deadline_frame [simp]:
  "gossip_deadline (fst (mute_peer_req_resp now p u st)) q = gossip_deadline st q"
  "gossip_deadline (fst (ban_peer now p u st)) q = gossip_deadline st q"
  "gossip_deadline (unban_peer p st) q = gossip_deadline st q"
  "gossip_deadline (unmute_peer_req_resp p st) q = gossip_deadline st q"
  by (auto simp: penalty_ops Let_def split: option.splits)

lemma req_resp_deadline_frame [simp]:
  "req_resp_deadline (fst (mute_peer_gossip now p u st)) q = req_resp_deadline st q"
  "req_resp_deadline (fst (ban_peer now p u st)) q = req_resp_deadline st q"
  "req_resp_deadline (unban_peer p st) q = req_resp_deadline st q"
  "req_resp_deadline (unmute_peer_gossip p st) q = req_resp_deadline st q"
  by (auto simp: penalty_ops Let_def split: option.splits)

lemma ban_deadline_frame [simp]:
  "ban_deadline (fst (mute_peer_gossip now p u st)) q = ban_deadline st q"
  "ban_deadline (fst (mute_peer_req_resp now p u st)) q = ban_deadline st q"
  "ban_deadline (unmute_peer_gossip p st) q = ban_deadline st q"
  "ban_deadline (unmute_peer_req_resp p st) q = ban_deadline st q"
  by (auto simp: penalty_ops Let_def split: option.splits)

text \<open>\<open>has_active_penalties\<close> is the disjunction of the three queries at the three clock readings.\<close>

lemma has_active_penalties_iff:
  "has_active_penalties clk st p \<longleftrightarrow>
     is_banned (clk 0) st p \<or> is_gossip_muted (clk 1) st p \<or> is_req_resp_muted (clk 2) st p"
  by (auto simp: has_active_penalties_def penalty_ops split: option.splits)

section \<open>Properties\<close>

text \<open>C14: What the penalty storage promises of mutes and bans: on a fresh storage, after any history of
  impositions on a peer (each with its clock and the deadline it asked for), the peer is penalised at a
  later time exactly when some imposition asked for a deadline beyond that time. So a later, shorter
  imposition never ends a penalty early, an expired one never comes back, and no other peer is
  affected.\<close>

theorem penalty_history:
  assumes "\<forall>h \<in> set hs. fst h \<le> t"
  shows "(is_banned t (impose_all ban_peer p hs penalty_peer_storage_new) q \<longleftrightarrow>
            q = p \<and> (\<exists>h \<in> set hs. t < snd h)) \<and>
         (is_gossip_muted t (impose_all mute_peer_gossip p hs penalty_peer_storage_new) q \<longleftrightarrow>
            q = p \<and> (\<exists>h \<in> set hs. t < snd h)) \<and>
         (is_req_resp_muted t (impose_all mute_peer_req_resp p hs penalty_peer_storage_new) q \<longleftrightarrow>
            q = p \<and> (\<exists>h \<in> set hs. t < snd h))"
  by (intro conjI ban.active_impose_all_new [OF assms] gossip_mute.active_impose_all_new [OF assms]
      req_resp_mute.active_impose_all_new [OF assms])

theorem penalty_history_witness:
  "(is_banned 7 (impose_all ban_peer (PeerId [1]) [(1, 9), (2, 5)] penalty_peer_storage_new) (PeerId [1])) \<and>
   \<not> is_gossip_muted 9 (impose_all mute_peer_gossip (PeerId [1]) [(1, 9), (2, 5)] penalty_peer_storage_new)
       (PeerId [1]) \<and>
   \<not> is_req_resp_muted 7 (impose_all mute_peer_req_resp (PeerId [1]) [(1, 9)] penalty_peer_storage_new)
       (PeerId [2])"
  using penalty_history [of "[(1, 9), (2, 5)]" 7 "PeerId [1]" "PeerId [1]"]
    penalty_history [of "[(1, 9), (2, 5)]" 9 "PeerId [1]" "PeerId [1]"]
    penalty_history [of "[(1, 9)]" 7 "PeerId [1]" "PeerId [2]"]
  by (simp del: impose_all.simps)

text \<open>The three kinds of penalty are independent: imposing or lifting one kind changes no other
  kind, for any peer at any time, and lifting a kind ends it for that peer alone.\<close>

lemma penalties_independent:
  "(is_gossip_muted t (fst (ban_peer now p u st)) q \<longleftrightarrow> is_gossip_muted t st q) \<and>
   (is_req_resp_muted t (fst (ban_peer now p u st)) q \<longleftrightarrow> is_req_resp_muted t st q) \<and>
   (is_banned t (fst (mute_peer_gossip now p u st)) q \<longleftrightarrow> is_banned t st q) \<and>
   (is_req_resp_muted t (fst (mute_peer_gossip now p u st)) q \<longleftrightarrow> is_req_resp_muted t st q) \<and>
   (is_banned t (fst (mute_peer_req_resp now p u st)) q \<longleftrightarrow> is_banned t st q) \<and>
   (is_gossip_muted t (fst (mute_peer_req_resp now p u st)) q \<longleftrightarrow> is_gossip_muted t st q) \<and>
   (is_banned t (unban_peer p st) q \<longleftrightarrow> q \<noteq> p \<and> is_banned t st q) \<and>
   (is_gossip_muted t (unban_peer p st) q \<longleftrightarrow> is_gossip_muted t st q) \<and>
   (is_req_resp_muted t (unban_peer p st) q \<longleftrightarrow> is_req_resp_muted t st q) \<and>
   (is_gossip_muted t (unmute_peer_gossip p st) q \<longleftrightarrow> q \<noteq> p \<and> is_gossip_muted t st q) \<and>
   (is_banned t (unmute_peer_gossip p st) q \<longleftrightarrow> is_banned t st q) \<and>
   (is_req_resp_muted t (unmute_peer_req_resp p st) q \<longleftrightarrow> q \<noteq> p \<and> is_req_resp_muted t st q) \<and>
   (is_banned t (unmute_peer_req_resp p st) q \<longleftrightarrow> is_banned t st q)"
  by (simp add: gossip_mute.active_iff req_resp_mute.active_iff ban.active_iff
      gossip_mute.lift_deadline req_resp_mute.lift_deadline ban.lift_deadline)

end
