(* ===== verification/P2P_Dial.thy ===== *)
theory P2P_Dial
  imports P2P_Prelude
begin

text \<open>
  \<^verbatim>\<open>swarm/dial_manager.rs\<close>: per application key the queue of addresses still to be tried, and per
  connection attempt the key it belongs to. The queue comes from the \<^verbatim>\<open>cynosure\<close> crate; its two
  operations are the parameter \<open>queue_ops\<close>, and \<open>fifo_lawful\<close> says they behave as a first-in
  first-out list under an abstraction \<open>items\<close>.
\<close>

datatype addr_queue = AddrQueue "multiaddr list"

record queue_ops =
  q_from_iter :: "multiaddr list \<Rightarrow> addr_queue"
  q_pop_front :: "addr_queue \<Rightarrow> multiaddr option \<times> addr_queue"

definition fifo_lawful :: "queue_ops \<Rightarrow> (addr_queue \<Rightarrow> multiaddr list) \<Rightarrow> bool" where
  "fifo_lawful qo items \<longleftrightarrow>
     (\<forall>xs. items (q_from_iter qo xs) = xs) \<and>
     (\<forall>q. items q = [] \<longrightarrow> fst (q_pop_front qo q) = None) \<and>
     (\<forall>q x xs. items q = x # xs \<longrightarrow>
        fst (q_pop_front qo q) = Some x \<and> items (snd (q_pop_front qo q)) = xs)"

record dial_manager =
  dial_queues :: "public_key \<rightharpoonup> addr_queue"
  conn_to_dial :: "connection_id \<rightharpoonup> public_key"

definition dial_manager_new :: dial_manager where
  "dial_manager_new = \<lparr>dial_queues = Map.empty, conn_to_dial = Map.empty\<rparr>"

definition insert_queue :: "public_key \<Rightarrow> addr_queue \<Rightarrow> dial_manager \<Rightarrow> dial_manager" where
  "insert_queue k q dm = dm\<lparr>dial_queues := (dial_queues dm)(k \<mapsto> q)\<rparr>"

definition pop_next_addr :: "queue_ops \<Rightarrow> public_key \<Rightarrow> dial_manager \<Rightarrow> multiaddr option \<times> dial_manager" where
  "pop_next_addr qo k dm =
     (case dial_queues dm k of
        None \<Rightarrow> (None, dm)
      | Some entry \<Rightarrow>
          (let (a, rest) = q_pop_front qo entry
           in (a, dm\<lparr>dial_queues := (dial_queues dm)(k \<mapsto> rest)\<rparr>)))"

definition map_connid :: "connection_id \<Rightarrow> public_key \<Rightarrow> dial_manager \<Rightarrow> dial_manager" where
  "map_connid c k dm = dm\<lparr>conn_to_dial := (conn_to_dial dm)(c \<mapsto> k)\<rparr>"

definition remove_connid :: "connection_id \<Rightarrow> dial_manager \<Rightarrow> dial_manager \<times> public_key option" where
  "remove_connid c dm =
     (let (m, old) = map_remove c (conn_to_dial dm) in (dm\<lparr>conn_to_dial := m\<rparr>, old))"

definition remove_queue :: "public_key \<Rightarrow> dial_manager \<Rightarrow> dial_manager" where
  "remove_queue k dm = dm\<lparr>dial_queues := (dial_queues dm)(k := None)\<rparr>"

definition get_app_public_key_by_connection_id :: "dial_manager \<Rightarrow> connection_id \<Rightarrow> public_key option" where
  "get_app_public_key_by_connection_id dm c = conn_to_dial dm c"

definition has_app_public_key :: "dial_manager \<Rightarrow> public_key \<Rightarrow> bool" where
  "has_app_public_key dm k \<longleftrightarrow> dial_queues dm k \<noteq> None"

lemmas dial_ops [p2p_ops] =
  insert_queue_def map_connid_def remove_connid_def remove_queue_def
  get_app_public_key_by_connection_id_def has_app_public_key_def map_remove_def

text \<open>
  The invariant of the dial process: a key has a queue exactly when one attempt for it is in
  flight, and only one is.
\<close>

definition dial_inv :: "dial_manager \<Rightarrow> bool" where
  "dial_inv dm \<longleftrightarrow>
     inj_on (conn_to_dial dm) (dom (conn_to_dial dm)) \<and> ran (conn_to_dial dm) = dom (dial_queues dm)"

lemma dial_inv_new: "dial_inv dial_manager_new"
  by (simp add: dial_inv_def dial_manager_new_def)

lemma dial_inv_queue: "dial_inv dm \<Longrightarrow> conn_to_dial dm c = Some k \<Longrightarrow> dial_queues dm k \<noteq> None"
  unfolding dial_inv_def by (metis domIff ranI)

lemma dial_inv_unique:
  "dial_inv dm \<Longrightarrow> conn_to_dial dm c = Some k \<Longrightarrow> conn_to_dial dm d = Some k \<Longrightarrow> c = d"
  unfolding dial_inv_def inj_on_def by (metis domI)

text \<open>Starting a dial for a key that is not being dialled, on a fresh connection id.\<close>

lemma dial_inv_start:
  assumes "dial_inv dm" and "\<not> has_app_public_key dm k" and "conn_to_dial dm c = None"
  shows "dial_inv (map_connid c k (insert_queue k q dm))"
proof -
  have k: "k \<notin> ran (conn_to_dial dm)"
    using assms(1,2) by (simp add: dial_inv_def dial_ops domIff)
  have "inj_on ((conn_to_dial dm)(c \<mapsto> k)) (dom ((conn_to_dial dm)(c \<mapsto> k)))"
    using assms(1) k by (intro inj_on_map_upd_fresh) (simp_all add: dial_inv_def)
  moreover have "ran ((conn_to_dial dm)(c \<mapsto> k)) = insert k (ran (conn_to_dial dm))"
    using assms(3) by (rule ran_map_upd)
  ultimately show ?thesis
    using assms(1) by (simp add: dial_inv_def dial_ops)
qed

lemma ran_remove_unique:
  assumes "inj_on m (dom m)" and "m c = Some k"
  shows "ran (m(c := None)) = ran m - {k}"
proof -
  have uniq: "x = c" if "m x = Some k" for x
    by (rule inj_onD [OF assms(1)]) (use assms(2) that in auto)
  show ?thesis
  proof (rule set_eqI)
    fix v
    have "v \<in> ran m - {k}" if v: "v \<in> ran (m(c := None))"
    proof -
      from v obtain x where x: "x \<noteq> c" "m x = Some v" by (auto simp: ran_def split: if_splits)
      with uniq [of x] show ?thesis by (auto simp: ran_def)
    qed
    moreover have "v \<in> ran (m(c := None))" if v: "v \<in> ran m - {k}"
    proof -
      from v obtain x where x: "m x = Some v" "v \<noteq> k" by (auto simp: ran_def)
      with assms(2) have "x \<noteq> c" by auto
      with x(1) have "(m(c := None)) x = Some v" by simp
      then show ?thesis by (rule ranI)
    qed
    ultimately show "v \<in> ran (m(c := None)) \<longleftrightarrow> v \<in> ran m - {k}" by blast
  qed
qed

text \<open>Ending the process for a key, on success or when its addresses are used up.\<close>

lemma dial_inv_finish:
  assumes "dial_inv dm" and "conn_to_dial dm c = Some k"
  shows "dial_inv (fst (remove_connid c (remove_queue k dm)))"
proof -
  have "ran ((conn_to_dial dm)(c := None)) = ran (conn_to_dial dm) - {k}"
    using assms by (intro ran_remove_unique) (simp_all add: dial_inv_def)
  moreover have "inj_on ((conn_to_dial dm)(c := None)) (dom ((conn_to_dial dm)(c := None)))"
    using assms(1) by (intro inj_on_map_remove) (simp add: dial_inv_def)
  ultimately show ?thesis
    using assms(1) by (simp add: dial_inv_def dial_ops)
qed

text \<open>Moving on to the next address: the failed attempt is replaced by a fresh one.\<close>

lemma dial_inv_retry:
  assumes "dial_inv dm" and "conn_to_dial dm c = Some k" and "conn_to_dial dm d = None"
  shows "dial_inv (map_connid d k (snd (pop_next_addr qo k (fst (remove_connid c dm)))))"
proof -
  obtain q where q: "dial_queues dm k = Some q"
    using dial_inv_queue [OF assms(1,2)] by auto
  let ?m = "(conn_to_dial dm)(c := None)"
  have r: "ran ?m = ran (conn_to_dial dm) - {k}"
    using assms by (intro ran_remove_unique) (simp_all add: dial_inv_def)
  have "inj_on (?m(d \<mapsto> k)) (dom (?m(d \<mapsto> k)))"
    using assms(1) r by (intro inj_on_map_upd_fresh inj_on_map_remove) (simp_all add: dial_inv_def)
  moreover have "ran (?m(d \<mapsto> k)) = insert k (ran ?m)"
    using assms(3) by (intro ran_map_upd) simp
  moreover have "k \<in> ran (conn_to_dial dm)" using assms(2) by (rule ranI)
  ultimately show ?thesis
    using assms(1) r by (auto simp: dial_inv_def dial_ops pop_next_addr_def q split: prod.splits)
qed

end
