(* ===== verification/P2P_State.thy ===== *)
theory P2P_State
  imports P2P_Setup P2P_Score P2P_Penalty P2P_Dial
begin

text \<open>
  The state of the event loop of \<^verbatim>\<open>swarm/mod.rs\<close> and what surrounds it: \<^verbatim>\<open>P2PConfig\<close>, the commands
  and events of \<^verbatim>\<open>commands.rs\<close> and \<^verbatim>\<open>events.rs\<close>, the \<^verbatim>\<open>P2P\<close> struct, and the scoring helpers the
  handlers share.

  Compile-time features: \<^verbatim>\<open>gossipsub\<close>, \<^verbatim>\<open>request-response\<close> and \<^verbatim>\<open>kad\<close> are on; \<^verbatim>\<open>byos\<close> is the field
  \<open>byos\<close> of the environment, and a \<^verbatim>\<open>cfg(feature = "byos")\<close> branch of the code is a test of it. A
  struct field or enum payload that only one of the two builds has is present in the model in both
  and is read only in the build that has it.

  The swarm, the channels and the clock are outside: what they answer during one handler call is a
  \<open>world\<close>, and every call the handler makes on them is appended to the field \<open>calls\<close> of the state, in
  order. The \<open>i\<close>-th clock reading of a handler is \<open>clk w i\<close>.
\<close>

section \<open>Configuration\<close>

datatype peer_score_params = PeerScoreParams bytes
datatype peer_score_thresholds = PeerScoreThresholds bytes
datatype connection_limits = ConnectionLimits bytes
datatype kad_protocol = KadV1

record keypair =
  kp_public :: public_key
  kp_sign :: "bytes \<Rightarrow> bytes option"

record p2p_config =
  cfg_app_public_key :: public_key
  transport_keypair :: keypair
  idle_connection_timeout :: duration
  max_retries :: "nat option"
  dial_timeout :: "duration option"
  general_timeout :: "duration option"
  connection_check_interval :: "duration option"
  listening_addrs :: "multiaddr list"
  connect_to :: "multiaddr list"
  transport_allowlist :: "peer_id list option"
  protocol_name :: "string option"
  channel_timeout :: "duration option"
  gossipsub_topic :: "string option"
  gossipsub_max_transmit_size :: "nat option"
  gossipsub_score_params :: "peer_score_params option"
  gossipsub_score_thresholds :: "peer_score_thresholds option"
  gossipsub_mesh_n :: "nat option"
  gossipsub_mesh_n_low :: "nat option"
  gossipsub_mesh_n_high :: "nat option"
  gossip_event_buffer_size :: "nat option"
  gossipsub_heartbeat_initial_delay :: "duration option"
  gossipsub_publish_queue_duration :: "duration option"
  gossipsub_forward_queue_duration :: "duration option"
  commands_event_buffer_size :: "nat option"
  command_buffer_size :: "nat option"
  handle_default_timeout :: "duration option"
  req_resp_event_buffer_size :: "nat option"
  req_resp_command_buffer_size :: "nat option"
  request_max_bytes :: "u64 option"
  response_max_bytes :: "u64 option"
  gossip_command_buffer_size :: "nat option"
  envelope_max_age :: "duration option"
  max_clock_skew :: "duration option"
  kad_protocol_name :: "kad_protocol option"
  kad_record_ttl :: "duration option"
  kad_timer_putrecorderror :: "duration option"
  conn_limits :: connection_limits
  max_allowed_ram_used :: nat
  max_allowed_ram_used_percent :: f64

definition PROTOCOL_NAME :: string where
  "PROTOCOL_NAME = ''/strata''"

definition DEFAULT_ENVELOPE_MAX_AGE :: duration where
  "DEFAULT_ENVELOPE_MAX_AGE = 300 * nanos_per_sec"

definition DEFAULT_KAD_RECORD_TTL :: duration where
  "DEFAULT_KAD_RECORD_TTL = 60 * 60 * nanos_per_sec"

definition DEFAULT_KAD_TIMER_PUT_RECORD_ERROR :: duration where
  "DEFAULT_KAD_TIMER_PUT_RECORD_ERROR = 5 * 60 * nanos_per_sec"

text \<open>\<^verbatim>\<open>config.envelope_max_age.unwrap_or(...)\<close> and \<^verbatim>\<open>config.max_clock_skew.unwrap_or(0s)\<close>.\<close>

definition max_age_of :: "p2p_config \<Rightarrow> duration" where
  "max_age_of cfg = unwrap_or DEFAULT_ENVELOPE_MAX_AGE (envelope_max_age cfg)"

definition clock_skew_of :: "p2p_config \<Rightarrow> duration" where
  "clock_skew_of cfg = unwrap_or 0 (max_clock_skew cfg)"

section \<open>Commands and events\<close>

datatype unpenalty_type = Unban | UnmuteGossipsub | UnmuteRequestResponse | UnmuteBoth

datatype action = ApplyPenalty penalty_type | RemovePenalty unpenalty_type

text \<open>
  Commands. Where the BYOS build has an application key and the other build a transport id, the
  constructor carries both, in this order.
\<close>

datatype query_p2p_state_command =
    IsConnected public_key peer_id
  | GetConnectedPeers
  | GetMyListeningAddresses
  | GetSetupTrackedPeerCount

datatype command =
    ConnectToPeer public_key peer_id "multiaddr list"
  | DisconnectFromPeer public_key peer_id
  | GetPeerScore peer_id
  | SetScore peer_id "action option" "(app_peer_score \<Rightarrow> app_peer_score) option"
  | QueryP2PState query_p2p_state_command
  | FindMultiaddr public_key peer_id

record gossip_command =
  gc_data :: bytes

record request_response_command =
  rc_target_app_public_key :: public_key
  rc_target_transport_id :: peer_id
  rc_data :: bytes

datatype gossip_event = ReceivedMessage bytes
datatype req_resp_event = ReceivedRequest bytes | ReceivedResponse bytes
datatype command_event = ResultFindMultiaddress "multiaddr list option"

section \<open>Calls on the outside\<close>

record kad_record =
  kr_key :: bytes
  kr_value :: bytes

datatype message_acceptance = Accept | Reject | Ignore

datatype dial_opts =
    DialUnknownPeer multiaddr connection_id
  | DialPeer peer_id "multiaddr list"
  | DialAddress multiaddr

text \<open>
  Every call the handlers make on the swarm, the channels and the timers. \<^term>\<open>Publish\<close> carries the name of
  the topic where the code passes the hash of that topic.
\<close>

datatype call =
    DisconnectPeerId peer_id
  | ReportMessageValidationResult message_id peer_id message_acceptance
  | SendGossipEvent gossip_event
  | SendReqRespEvent req_resp_event
  | SendCommandEvent command_event
  | Publish string bytes
  | SendRequest peer_id bytes
  | SendResponse nat bytes
  | Dial dial_opts
  | KadGetRecord bytes
  | KadPutRecord kad_record
  | StorePut kad_record
  | RepublishAfter duration
  | RepublishNow
  | ReplyPeerScore peer_score
  | ReplyBool bool
  | ReplyPeerIds "peer_id list"
  | ReplyPublicKeys "public_key list"
  | ReplyAddresses "multiaddr list"
  | ReplyCount nat
  | ListenOn multiaddr
  | Subscribe string
  | Sleep duration

text \<open>Outcomes of awaiting a channel under a timeout.\<close>

datatype channel_send = Sent | ChannelClosed | SendTimedOut
datatype response_wait = Responded bytes | ResponderDropped | ResponseTimedOut

record env =
  byos :: bool
  overflow_checks :: bool
  keys :: key_ops
  gossip_codec :: "gossip_message codec"
  request_codec :: "request_message codec"
  response_codec :: "response_message codec"
  record_codec :: "record_data codec"
  queues :: queue_ops
  protocol_stack :: "multiaddr \<Rightarrow> string list"

record world =
  clk :: "nat \<Rightarrow> system_time"
  local_peer_id :: peer_id
  is_connected :: "peer_id \<Rightarrow> bool"
  connected_peers :: "peer_id list"
  listeners :: "multiaddr list"
  external_addresses :: "multiaddr list"
  gossip_peer_score :: "peer_id \<Rightarrow> f64 option"
  next_connection_id :: connection_id
  gossip_has_receivers :: bool
  req_resp_send :: channel_send
  app_response :: response_wait
  get_record_query :: query_id
  store_get :: "bytes \<Rightarrow> kad_record option"

section \<open>The event loop's state\<close>

record p2p =
  topic :: string
  config :: p2p_config
  app_allowlist :: "public_key set"
  p2p_signer :: signer
  dial_manager :: dial_manager
  score_manager :: score_manager
  peer_penalty_storage :: penalty_peer_storage
  p2p_validator :: validator
  kademlia_map_received_records :: "query_id \<rightharpoonup> record_data signed_message list"
  kademlia_is_routing_updated_first_time :: bool
  setup_state :: setup_behaviour
  calls :: "call list"

definition emit :: "call \<Rightarrow> p2p \<Rightarrow> p2p" where
  "emit c s = s\<lparr>calls := calls s @ [c]\<rparr>"

lemma emit_simps [simp]:
  "topic (emit c s) = topic s" "config (emit c s) = config s"
  "app_allowlist (emit c s) = app_allowlist s" "p2p_signer (emit c s) = p2p_signer s"
  "dial_manager (emit c s) = dial_manager s" "score_manager (emit c s) = score_manager s"
  "peer_penalty_storage (emit c s) = peer_penalty_storage s"
  "p2p_validator (emit c s) = p2p_validator s"
  "kademlia_map_received_records (emit c s) = kademlia_map_received_records s"
  "kademlia_is_routing_updated_first_time (emit c s) = kademlia_is_routing_updated_first_time s"
  "setup_state (emit c s) = setup_state s" "calls (emit c s) = calls s @ [c]"
  by (simp_all add: emit_def)

text \<open>The public key the node signs with: the application key, or the transport key without BYOS.\<close>

definition own_public_key :: "env \<Rightarrow> p2p \<Rightarrow> public_key" where
  "own_public_key e s =
     (if byos e then cfg_app_public_key (config s) else kp_public (transport_keypair (config s)))"

section \<open>Scores and penalties\<close>

definition get_all_scores :: "world \<Rightarrow> p2p \<Rightarrow> peer_id \<Rightarrow> peer_score" where
  "get_all_scores w s p =
     \<lparr>app_score =
        \<lparr>app_gossipsub_score = unwrap_or DEFAULT_GOSSIP_APP_SCORE
             (get_gossipsub_app_score (score_manager s) p),
         app_req_resp_score = unwrap_or DEFAULT_REQ_RESP_APP_SCORE
             (get_req_resp_score (score_manager s) p)\<rparr>,
      gossipsub_internal_score = unwrap_or (Fin 0) (gossip_peer_score w p)\<rparr>"

definition get_elapsed_decay_time :: "system_time \<Rightarrow> peer_id \<Rightarrow> p2p \<Rightarrow> duration \<times> p2p" where
  "get_elapsed_decay_time now p s =
     (let (sm, last_time) = update_last_scoring_decay_time p now (score_manager s)
      in (unwrap_or 0 (Option.bind last_time (\<lambda>last. duration_since now last)),
          s\<lparr>score_manager := sm\<rparr>))"

text \<open>
  \<^verbatim>\<open>apply_penalty\<close>: \<open>ck 0\<close> is the reading for the deadline, \<open>ck 1\<close> and \<open>ck 2\<close> those inside the
  storage. A deadline beyond the range of \<^verbatim>\<open>SystemTime\<close> panics.
\<close>

definition apply_penalty ::
  "(nat \<Rightarrow> system_time) \<Rightarrow> peer_id \<Rightarrow> penalty_type \<Rightarrow> p2p \<Rightarrow> p2p \<times> status" where
  "apply_penalty ck p penalty s =
     (case penalty of
        MuteGossip time_amount \<Rightarrow>
          (case system_time_add (ck 0) time_amount of
             None \<Rightarrow> (s, Panicked)
           | Some u \<Rightarrow>
               (s\<lparr>peer_penalty_storage := fst (mute_peer_gossip (ck 1) p u (peer_penalty_storage s))\<rparr>, Ok))
      | MuteReqresp time_amount \<Rightarrow>
          (case system_time_add (ck 0) time_amount of
             None \<Rightarrow> (s, Panicked)
           | Some u \<Rightarrow>
               (s\<lparr>peer_penalty_storage := fst (mute_peer_req_resp (ck 1) p u (peer_penalty_storage s))\<rparr>, Ok))
      | MuteBoth time_amount \<Rightarrow>
          (case system_time_add (ck 0) time_amount of
             None \<Rightarrow> (s, Panicked)
           | Some u \<Rightarrow>
               (s\<lparr>peer_penalty_storage :=
                    fst (mute_peer_req_resp (ck 2) p u
                      (fst (mute_peer_gossip (ck 1) p u (peer_penalty_storage s))))\<rparr>, Ok))
      | Ban opt_time_amount \<Rightarrow>
          (case system_time_add (ck 0) (unwrap_or DEFAULT_BAN_PERIOD opt_time_amount) of
             None \<Rightarrow> (s, Panicked)
           | Some u \<Rightarrow>
               (case ban_peer (ck 1) p u (peer_penalty_storage s) of
                  (st, Inr ()) \<Rightarrow> (emit (DisconnectPeerId p) (s\<lparr>peer_penalty_storage := st\<rparr>), Ok)
                | (st, Inl _) \<Rightarrow> (s\<lparr>peer_penalty_storage := st\<rparr>, Ok))))"

definition remove_penalty :: "peer_id \<Rightarrow> unpenalty_type \<Rightarrow> p2p \<Rightarrow> p2p" where
  "remove_penalty p unpenalty s =
     (case unpenalty of
        Unban \<Rightarrow> s\<lparr>peer_penalty_storage := unban_peer p (peer_penalty_storage s)\<rparr>
      | UnmuteBoth \<Rightarrow>
          s\<lparr>peer_penalty_storage :=
              unmute_peer_req_resp p (unmute_peer_gossip p (peer_penalty_storage s))\<rparr>
      | UnmuteGossipsub \<Rightarrow> s\<lparr>peer_penalty_storage := unmute_peer_gossip p (peer_penalty_storage s)\<rparr>
      | UnmuteRequestResponse \<Rightarrow>
          s\<lparr>peer_penalty_storage := unmute_peer_req_resp p (peer_penalty_storage s)\<rparr>)"

definition decay_request_response_score :: "world \<Rightarrow> system_time \<Rightarrow> peer_id \<Rightarrow> p2p \<Rightarrow> p2p" where
  "decay_request_response_score w now p s =
     (let (elapsed, s1) = get_elapsed_decay_time now p s
      in if elapsed \<noteq> 0
         then let current_score = app_req_resp_score (app_score (get_all_scores w s1 p));
                  updated_score = apply_decay (p2p_validator s1) current_score elapsed
              in s1\<lparr>score_manager := update_req_resp_app_score p updated_score (score_manager s1)\<rparr>
         else s1)"

lemma ban_peer_result: "ban_peer now p u st = (fst (ban_peer now p u st), Inr ())"
  by (simp add: ban_peer_def Let_def)

lemma apply_penalty_Ban:
  "apply_penalty ck p (Ban d) s =
     (case system_time_add (ck 0) (unwrap_or DEFAULT_BAN_PERIOD d) of
        None \<Rightarrow> (s, Panicked)
      | Some u \<Rightarrow>
          (emit (DisconnectPeerId p)
            (s\<lparr>peer_penalty_storage := fst (ban_peer (ck 1) p u (peer_penalty_storage s))\<rparr>), Ok))"
  unfolding apply_penalty_def
  by (subst ban_peer_result) (simp only: penalty_type.case prod.case sum.case unit.case)

lemma apply_penalty_mute:
  "apply_penalty ck p (MuteGossip d) s =
     (case system_time_add (ck 0) d of None \<Rightarrow> (s, Panicked) | Some u \<Rightarrow>
        (s\<lparr>peer_penalty_storage := fst (mute_peer_gossip (ck 1) p u (peer_penalty_storage s))\<rparr>, Ok))"
  "apply_penalty ck p (MuteReqresp d) s =
     (case system_time_add (ck 0) d of None \<Rightarrow> (s, Panicked) | Some u \<Rightarrow>
        (s\<lparr>peer_penalty_storage := fst (mute_peer_req_resp (ck 1) p u (peer_penalty_storage s))\<rparr>, Ok))"
  "apply_penalty ck p (MuteBoth d) s =
     (case system_time_add (ck 0) d of None \<Rightarrow> (s, Panicked) | Some u \<Rightarrow>
        (s\<lparr>peer_penalty_storage := fst (mute_peer_req_resp (ck 2) p u
            (fst (mute_peer_gossip (ck 1) p u (peer_penalty_storage s))))\<rparr>, Ok))"
  by (simp_all add: apply_penalty_def)

lemmas apply_penalty_eqs = apply_penalty_Ban apply_penalty_mute

text \<open>The status of \<open>apply_penalty\<close> is \<^term>\<open>Ok\<close> or \<^term>\<open>Panicked\<close>, and only a ban makes a call.\<close>

lemma apply_penalty_calls:
  "calls (fst (apply_penalty ck p pen s)) = calls s \<or>
   calls (fst (apply_penalty ck p pen s)) = calls s @ [DisconnectPeerId p]"
  by (cases pen) (simp_all add: apply_penalty_eqs split: option.split)

lemma apply_penalty_status: "snd (apply_penalty ck p pen s) \<noteq> Err e"
  by (cases pen) (simp_all add: apply_penalty_eqs split: option.split)

lemma apply_penalty_frame [simp]:
  "config (fst (apply_penalty ck p pen s)) = config s"
  "score_manager (fst (apply_penalty ck p pen s)) = score_manager s"
  "dial_manager (fst (apply_penalty ck p pen s)) = dial_manager s"
  "setup_state (fst (apply_penalty ck p pen s)) = setup_state s"
  by (cases pen; simp add: apply_penalty_eqs split: option.split)+

lemma get_elapsed_decay_time_frame [simp]:
  "calls (snd (get_elapsed_decay_time now p s)) = calls s"
  "config (snd (get_elapsed_decay_time now p s)) = config s"
  "app_allowlist (snd (get_elapsed_decay_time now p s)) = app_allowlist s"
  "peer_penalty_storage (snd (get_elapsed_decay_time now p s)) = peer_penalty_storage s"
  "p2p_validator (snd (get_elapsed_decay_time now p s)) = p2p_validator s"
  "setup_state (snd (get_elapsed_decay_time now p s)) = setup_state s"
  "p2p_signer (snd (get_elapsed_decay_time now p s)) = p2p_signer s"
  by (simp_all add: get_elapsed_decay_time_def split: prod.splits)

lemma decay_request_response_frame [simp]:
  "calls (decay_request_response_score w now p s) = calls s"
  "config (decay_request_response_score w now p s) = config s"
  "app_allowlist (decay_request_response_score w now p s) = app_allowlist s"
  "peer_penalty_storage (decay_request_response_score w now p s) = peer_penalty_storage s"
  "p2p_validator (decay_request_response_score w now p s) = p2p_validator s"
  "setup_state (decay_request_response_score w now p s) = setup_state s"
  "p2p_signer (decay_request_response_score w now p s) = p2p_signer s"
proof -
  obtain el s1 where g: "get_elapsed_decay_time now p s = (el, s1)" by force
  note fr = get_elapsed_decay_time_frame [of now p s, unfolded g snd_conv]
  show "calls (decay_request_response_score w now p s) = calls s"
    "config (decay_request_response_score w now p s) = config s"
    "app_allowlist (decay_request_response_score w now p s) = app_allowlist s"
    "peer_penalty_storage (decay_request_response_score w now p s) = peer_penalty_storage s"
    "p2p_validator (decay_request_response_score w now p s) = p2p_validator s"
    "setup_state (decay_request_response_score w now p s) = setup_state s"
    "p2p_signer (decay_request_response_score w now p s) = p2p_signer s"
    by (simp_all add: decay_request_response_score_def g fr Let_def)
qed

section \<open>What a handler may change\<close>

text \<open>
  The part of the state no handler changes: everything that was fixed when the event loop was built.
  (\<^verbatim>\<open>ConnectToPeer\<close> appends to \<^verbatim>\<open>config.connect_to\<close>, which nothing reads afterwards.)
\<close>

definition settings ::
  "p2p \<Rightarrow> string \<times> p2p_config \<times> public_key set \<times> signer \<times> validator" where
  "settings s = (topic s, (config s)\<lparr>connect_to := []\<rparr>, app_allowlist s, p2p_signer s, p2p_validator s)"

text \<open>The settings are kept and the calls made since satisfy \<open>P\<close>.\<close>

definition extends :: "(call \<Rightarrow> bool) \<Rightarrow> p2p \<Rightarrow> p2p \<Rightarrow> bool" where
  "extends P s s' \<longleftrightarrow> settings s' = settings s \<and> (\<exists>cs. calls s' = calls s @ cs \<and> (\<forall>c \<in> set cs. P c))"

lemma extendsI:
  "settings s' = settings s \<Longrightarrow> calls s' = calls s @ cs \<Longrightarrow> (\<And>c. c \<in> set cs \<Longrightarrow> P c) \<Longrightarrow> extends P s s'"
  by (auto simp: extends_def)

lemma extends_refl [simp]: "extends P s s"
  by (simp add: extends_def)

lemma extends_quiet: "settings s' = settings s \<Longrightarrow> calls s' = calls s \<Longrightarrow> extends P s s'"
  by (simp add: extends_def)

lemma extends_trans: "extends P s s1 \<Longrightarrow> extends P s1 s2 \<Longrightarrow> extends P s s2"
  by (auto simp: extends_def)

lemma extends_mono: "extends P s s' \<Longrightarrow> (\<And>c. P c \<Longrightarrow> Q c) \<Longrightarrow> extends Q s s'"
  by (auto simp: extends_def)

lemma settings_emit [simp]: "settings (emit c s) = settings s"
  by (simp add: settings_def)

lemma extends_emit [intro]: "extends P s s' \<Longrightarrow> P c \<Longrightarrow> extends P s (emit c s')"
  by (auto simp: extends_def)

lemma settings_updates [simp]:
  "settings (s\<lparr>score_manager := x\<rparr>) = settings s"
  "settings (s\<lparr>peer_penalty_storage := y\<rparr>) = settings s"
  "settings (s\<lparr>dial_manager := z\<rparr>) = settings s"
  "settings (s\<lparr>setup_state := b\<rparr>) = settings s"
  "settings (s\<lparr>kademlia_map_received_records := q\<rparr>) = settings s"
  "settings (s\<lparr>kademlia_is_routing_updated_first_time := f\<rparr>) = settings s"
  "settings (s\<lparr>config := (config s)\<lparr>connect_to := a\<rparr>\<rparr>) = settings s"
  by (simp_all add: settings_def)

lemma settings_eqD:
  assumes "settings s' = settings s"
  shows "app_allowlist s' = app_allowlist s" "p2p_signer s' = p2p_signer s" "topic s' = topic s"
    "p2p_validator s' = p2p_validator s" "max_age_of (config s') = max_age_of (config s)"
    "clock_skew_of (config s') = clock_skew_of (config s)" "own_public_key e s' = own_public_key e s"
proof -
  have c: "(config s')\<lparr>connect_to := []\<rparr> = (config s)\<lparr>connect_to := []\<rparr>"
    using assms by (simp add: settings_def)
  show "max_age_of (config s') = max_age_of (config s)"
    using arg_cong [OF c, of envelope_max_age] by (simp add: max_age_of_def)
  show "clock_skew_of (config s') = clock_skew_of (config s)"
    using arg_cong [OF c, of max_clock_skew] by (simp add: clock_skew_of_def)
  show "own_public_key e s' = own_public_key e s"
    using arg_cong [OF c, of cfg_app_public_key] arg_cong [OF c, of transport_keypair]
    by (simp add: own_public_key_def)
qed (use assms in \<open>simp_all add: settings_def\<close>)

lemma apply_penalty_settings: "settings (fst (apply_penalty ck p pen s)) = settings s"
  by (cases pen) (simp_all add: apply_penalty_eqs split: option.split)

lemma apply_penalty_extends:
  "P (DisconnectPeerId p) \<Longrightarrow> extends P s (fst (apply_penalty ck p pen s))"
  using apply_penalty_calls [of ck p pen s] by (auto simp: extends_def apply_penalty_settings)

lemma remove_penalty_quiet [simp]:
  "settings (remove_penalty p u s) = settings s" "calls (remove_penalty p u s) = calls s"
  by (cases u; simp add: remove_penalty_def)+

text \<open>Everything but scores, penalties and the log: what the message handlers leave alone.\<close>

definition unscored :: "p2p \<Rightarrow> p2p" where
  "unscored s = s\<lparr>score_manager := score_manager_new, peer_penalty_storage := penalty_peer_storage_new,
                  calls := []\<rparr>"

lemma unscored_updates [simp]:
  "unscored (emit c s) = unscored s"
  "unscored (s\<lparr>score_manager := x\<rparr>) = unscored s"
  "unscored (s\<lparr>peer_penalty_storage := y\<rparr>) = unscored s"
  by (simp_all add: unscored_def emit_def)

lemma unscored_eqD:
  assumes "unscored s' = unscored s"
  shows "settings s' = settings s" "dial_manager s' = dial_manager s" "setup_state s' = setup_state s"
    "kademlia_map_received_records s' = kademlia_map_received_records s"
    "kademlia_is_routing_updated_first_time s' = kademlia_is_routing_updated_first_time s"
  using arg_cong [OF assms, of settings] arg_cong [OF assms, of dial_manager]
    arg_cong [OF assms, of setup_state] arg_cong [OF assms, of kademlia_map_received_records]
    arg_cong [OF assms, of kademlia_is_routing_updated_first_time]
  by (simp_all add: unscored_def settings_def)

lemma apply_penalty_unscored [simp]: "unscored (fst (apply_penalty ck p pen s)) = unscored s"
  by (cases pen) (simp_all add: apply_penalty_eqs split: option.split)

lemma remove_penalty_unscored [simp]: "unscored (remove_penalty p u s) = unscored s"
  by (cases u; simp add: remove_penalty_def)

lemma get_elapsed_decay_time_unscored [simp]:
  "unscored (snd (get_elapsed_decay_time now p s)) = unscored s"
  by (simp add: get_elapsed_decay_time_def split: prod.splits)

lemma decay_request_response_unscored [simp]:
  "unscored (decay_request_response_score w now p s) = unscored s"
proof -
  obtain el s1 where g: "get_elapsed_decay_time now p s = (el, s1)" by force
  then show ?thesis
    using get_elapsed_decay_time_unscored [of now p s]
    by (simp add: decay_request_response_score_def Let_def)
qed

end
