(* ===== verification/P2P_Examples.thy ===== *)
theory P2P_Examples
  imports P2P_State
begin

text \<open>
  Concrete environments, worlds and states for the witnesses: the example keys and codecs of
  \<open>P2P_Messages\<close>, a first-in first-out queue, a clock that stands at second 1000, and a node with
  peer id \<^term>\<open>PeerId [2]\<close> that knows one other node with key \<^term>\<open>PublicKey [5]\<close> at
  \<^term>\<open>PeerId [1]\<close>.
\<close>

definition example_queues :: queue_ops where
  "example_queues =
     \<lparr>q_from_iter = AddrQueue,
      q_pop_front = (\<lambda>q. case q of AddrQueue xs \<Rightarrow>
         (case xs of [] \<Rightarrow> (None, AddrQueue []) | x # xs \<Rightarrow> (Some x, AddrQueue xs)))\<rparr>"

lemma example_queues_lawful: "fifo_lawful example_queues (\<lambda>q. case q of AddrQueue xs \<Rightarrow> xs)"
  by (auto simp: fifo_lawful_def example_queues_def split: addr_queue.splits list.splits)

definition example_gossip :: gossip_message where
  "example_gossip = \<lparr>gm_version = GossipV2, gm_protocol = Gossip, gm_message = [42],
     gm_public_key = PublicKey [5], gm_date = 1000\<rparr>"

definition example_request :: request_message where
  "example_request = \<lparr>rq_version = ReqRespV2, rq_protocol = RequestResponse, rq_message = [43],
     rq_public_key = PublicKey [5], rq_date = 1000, rq_destination_peer_id = PeerId [2]\<rparr>"

definition example_response :: response_message where
  "example_response = \<lparr>rs_version = ReqRespV2, rs_protocol = RequestResponse, rs_message = [44],
     rs_app_public_key = PublicKey [5], rs_date = 1000\<rparr>"

definition example_record :: record_data where
  "example_record = \<lparr>rd_version = DhtV1, rd_public_key = PublicKey [5],
     rd_multiaddresses = [Multiaddr [8]], rd_date = 1000\<rparr>"

text \<open>The signature of the example signer on any of these, and the encoded envelope.\<close>

definition example_signature :: bytes where
  "example_signature = 5 # 0 # replicate 62 0"

definition example_wire :: bytes where
  "example_wire = 1 # example_signature"

definition example_env :: "bool \<Rightarrow> env" where
  "example_env byos_on =
     \<lparr>byos = byos_on, overflow_checks = True, keys = example_keys,
      gossip_codec = example_codec example_gossip, request_codec = example_codec example_request,
      response_codec = example_codec example_response, record_codec = example_codec example_record,
      queues = example_queues, protocol_stack = (\<lambda>a. if a = Multiaddr [8] then [''quic-v1''] else [''tcp''])\<rparr>"

definition example_world :: world where
  "example_world =
     \<lparr>clk = (\<lambda>_. 1000000000000), local_peer_id = PeerId [2], is_connected = (\<lambda>_. True),
      connected_peers = [PeerId [1]], listeners = [], external_addresses = [Multiaddr [8]],
      gossip_peer_score = (\<lambda>_. None), next_connection_id = 1, gossip_has_receivers = True,
      req_resp_send = Sent, app_response = Responded [44], get_record_query = 0,
      store_get = (\<lambda>_. None)\<rparr>"

definition example_config :: p2p_config where
  "example_config =
     \<lparr>cfg_app_public_key = PublicKey [5],
      transport_keypair = \<lparr>kp_public = PublicKey [5], kp_sign = example_sign (PublicKey [5])\<rparr>,
      idle_connection_timeout = 0, max_retries = None, dial_timeout = None, general_timeout = None,
      connection_check_interval = None, listening_addrs = [], connect_to = [],
      transport_allowlist = None, protocol_name = None, channel_timeout = None,
      gossipsub_topic = None, gossipsub_max_transmit_size = None, gossipsub_score_params = None,
      gossipsub_score_thresholds = None, gossipsub_mesh_n = None, gossipsub_mesh_n_low = None,
      gossipsub_mesh_n_high = None, gossip_event_buffer_size = None,
      gossipsub_heartbeat_initial_delay = None, gossipsub_publish_queue_duration = None,
      gossipsub_forward_queue_duration = None, commands_event_buffer_size = None,
      command_buffer_size = None, handle_default_timeout = None, req_resp_event_buffer_size = None,
      req_resp_command_buffer_size = None, request_max_bytes = None, response_max_bytes = None,
      gossip_command_buffer_size = None, envelope_max_age = None, max_clock_skew = None,
      kad_protocol_name = None, kad_record_ttl = None, kad_timer_putrecorderror = None,
      conn_limits = ConnectionLimits [], max_allowed_ram_used = 0, max_allowed_ram_used_percent = Fin 0\<rparr>"

definition example_setup :: setup_behaviour where
  "example_setup = on_connection_handler_event (PeerId [1]) 0 (HandlerAppKeyReceived (PublicKey [5]))
     (setup_behaviour_new (PublicKey [5]) (PeerId [2]) (example_sign (PublicKey [5])) 0 0)"

definition example_state :: p2p where
  "example_state =
     \<lparr>topic = ''bitvm2'', config = example_config, app_allowlist = {PublicKey [5]},
      p2p_signer = example_sign (PublicKey [5]), dial_manager = dial_manager_new,
      score_manager = score_manager_new, peer_penalty_storage = penalty_peer_storage_new,
      p2p_validator = default_validator, kademlia_map_received_records = Map.empty,
      kademlia_is_routing_updated_first_time = True, setup_state = example_setup, calls = []\<rparr>"

lemma example_sign_0: "example_sign (PublicKey [5]) [0] = Some example_signature"
  by (simp add: example_sign_def example_signature_def)

lemma example_state_simps [simp]:
  "topic example_state = ''bitvm2''" "config example_state = example_config"
  "app_allowlist example_state = {PublicKey [5]}"
  "p2p_signer example_state = example_sign (PublicKey [5])"
  "dial_manager example_state = dial_manager_new"
  "score_manager example_state = score_manager_new"
  "peer_penalty_storage example_state = penalty_peer_storage_new"
  "p2p_validator example_state = default_validator"
  "kademlia_map_received_records example_state = Map.empty"
  "kademlia_is_routing_updated_first_time example_state"
  "setup_state example_state = example_setup" "calls example_state = []"
  by (simp_all add: example_state_def)

lemma example_config_simps [simp]:
  "max_age_of example_config = 300000000000" "clock_skew_of example_config = 0"
  by (simp_all add: max_age_of_def clock_skew_of_def example_config_def DEFAULT_ENVELOPE_MAX_AGE_def)

lemma example_world_simps [simp]:
  "clk example_world i = 1000000000000" "local_peer_id example_world = PeerId [2]"
  "is_connected example_world p" "gossip_has_receivers example_world"
  "req_resp_send example_world = Sent" "app_response example_world = Responded [44]"
  "next_connection_id example_world = 1" "store_get example_world k = None"
  "get_record_query example_world = 0" "external_addresses example_world = [Multiaddr [8]]"
  "gossip_peer_score example_world p = None"
  by (simp_all add: example_world_def)

lemma example_env_simps [simp]:
  "byos (example_env b) = b" "overflow_checks (example_env b)" "keys (example_env b) = example_keys"
  "gossip_codec (example_env b) = example_codec example_gossip"
  "request_codec (example_env b) = example_codec example_request"
  "response_codec (example_env b) = example_codec example_response"
  "record_codec (example_env b) = example_codec example_record"
  "queues (example_env b) = example_queues"
  by (simp_all add: example_env_def)

lemma example_unix_secs [simp]: "unix_secs 1000000000000 = 1000"
  by (simp add: unix_secs_def duration_since_def as_secs_def)

lemma example_own_key [simp]: "own_public_key (example_env b) example_state = PublicKey [5]"
  by (simp add: own_public_key_def example_config_def)

lemma example_wire_decodes [simp]:
  "signed_from_slice (example_codec m) example_wire = Some \<lparr>sm_message = m, sm_signature = example_signature\<rparr>"
  by (simp add: example_codec_def example_wire_def)

lemma example_wire_encodes [simp]:
  "signed_to_vec (example_codec m) \<lparr>sm_message = m, sm_signature = example_signature\<rparr> = Some example_wire"
  by (simp add: example_codec_def example_wire_def)

lemma example_signs [simp]:
  "signed_message_new (example_codec m) (example_sign (PublicKey [5])) m =
     Inr \<lparr>sm_message = m, sm_signature = example_signature\<rparr>"
  by (simp add: signed_message_new_def example_sign_0) (simp add: example_codec_def example_sign_0)

lemma example_authentic:
  "pk m = PublicKey [5] \<Longrightarrow>
   authentic (example_codec m) example_keys pk \<lparr>sm_message = m, sm_signature = example_signature\<rparr>"
  by (simp add: authentic_def example_codec_def example_keys_def example_sign_0)

lemma example_skew_fits [simp]: "skew_fits 0 1000"
  by (simp add: skew_fits_def)

lemma example_in_window: "in_window 0 300000000000 1000 1000"
  by (simp add: in_window_def not_future_def not_stale_def)

lemma example_stored_key: "get_app_public_key_by_transport_id example_setup (PeerId [1]) = Some (PublicKey [5])"
  "get_transport_id_by_application_key example_setup (PublicKey [5]) = Some (PeerId [1])"
  unfolding example_setup_def by (rule setup_directory.learn_lookup)+

end
