(* ===== verification/Swarm_Gossip.thy ===== *)
theory Swarm_Gossip
  imports P2P_Examples
begin

text \<open>
  The gossipsub half of the event loop: \<^verbatim>\<open>handle_gossip_event\<close>, \<^verbatim>\<open>handle_gossip_msg\<close> and
  \<^verbatim>\<open>handle_gossip_command\<close>. \<^verbatim>\<open>handle_gossip_msg\<close> is cut at its early returns: the decay of the
  sender's score, the checks on the envelope, the scoring of an accepted message, and their
  composition. Clock readings: 0 the mute test, 1 the decay, 2 the date checks, 3 onwards the
  penalty.
\<close>

section \<open>Receiving\<close>

definition gossip_decay :: "world \<Rightarrow> peer_id \<Rightarrow> p2p \<Rightarrow> p2p" where
  "gossip_decay w propagation_source s =
     (let (elapsed, s1) = get_elapsed_decay_time (clk w 1) propagation_source s
      in if elapsed \<noteq> 0
         then let current_score = app_gossipsub_score (app_score (get_all_scores w s1 propagation_source));
                  new_score = apply_decay (p2p_validator s1) current_score elapsed
              in s1\<lparr>score_manager := update_gossipsub_app_score propagation_source new_score (score_manager s1)\<rparr>
         else s1)"

datatype gossip_reject =
    BadEncoding | BadSignature | NotInAllowlist | FutureDate | TooOld | WrongProtocol | WrongVersion

datatype gossip_verdict = Rejected gossip_reject | VerdictPanic | Verified gossip_message

definition check_gossip_envelope :: "env \<Rightarrow> world \<Rightarrow> p2p \<Rightarrow> bytes \<Rightarrow> gossip_verdict" where
  "check_gossip_envelope e w s data =
     (case signed_from_slice (gossip_codec e) data of
        None \<Rightarrow> Rejected BadEncoding
      | Some signed_msg \<Rightarrow>
          if \<not> verify_or_false (gossip_codec e) (keys e) gm_public_key signed_msg
          then Rejected BadSignature
          else let m = sm_message signed_msg
          in if byos e \<and> gm_public_key m \<notin> app_allowlist s
          then Rejected NotInAllowlist
          else let max_age = max_age_of (config s);
                   max_clock_skew = clock_skew_of (config s);
                   now_secs = unix_secs (clk w 2)
          in (case message_from_future (overflow_checks e) max_clock_skew now_secs (gm_date m) of
                None \<Rightarrow> VerdictPanic
              | Some future \<Rightarrow>
                  if future then Rejected FutureDate
                  else if message_stale max_age now_secs (gm_date m) then Rejected TooOld
                  else if gm_protocol m \<noteq> Gossip then Rejected WrongProtocol
                  else if gm_version m \<noteq> GossipV2 then Rejected WrongVersion
                  else Verified m))"

text \<open>Scoring: the second component is the status of the penalty, if one was applied.\<close>

definition score_gossip_message ::
  "world \<Rightarrow> peer_id \<Rightarrow> bytes \<Rightarrow> p2p \<Rightarrow> p2p \<times> status option" where
  "score_gossip_message w propagation_source msg s =
     (let old_app_score = unwrap_or DEFAULT_GOSSIP_APP_SCORE
            (get_gossipsub_app_score (score_manager s) propagation_source);
          updated_score = validate_msg (p2p_validator s) (MsgGossipsub msg) old_app_score;
          s1 = s\<lparr>score_manager :=
                  update_gossipsub_app_score propagation_source updated_score (score_manager s)\<rparr>;
          peer_score = get_all_scores w s1 propagation_source
      in case get_penalty (p2p_validator s1) (MsgGossipsub msg) peer_score of
           Some penalty \<Rightarrow>
             (let (s2, st) = apply_penalty (\<lambda>i. clk w (3 + i)) propagation_source penalty s1
              in (s2, Some st))
         | None \<Rightarrow> (s1, None))"

definition deliver_gossip :: "world \<Rightarrow> message_id \<Rightarrow> peer_id \<Rightarrow> bytes \<Rightarrow> p2p \<Rightarrow> p2p \<times> status" where
  "deliver_gossip w message_id propagation_source msg s =
     (let s1 = emit (ReportMessageValidationResult message_id propagation_source Accept) s
      in if gossip_has_receivers w
         then (emit (SendGossipEvent (ReceivedMessage msg)) s1, Ok)
         else (s1, Err (Protocol (GossipEventsChannelClosed (BoxedError ''send'')))))"

definition handle_gossip_msg ::
  "env \<Rightarrow> world \<Rightarrow> peer_id \<Rightarrow> message_id \<Rightarrow> bytes \<Rightarrow> p2p \<Rightarrow> p2p \<times> status" where
  "handle_gossip_msg e w propagation_source message_id data s =
     (if \<not> byos e \<and> is_gossip_muted (clk w 0) (peer_penalty_storage s) propagation_source
      then (s, Ok)
      else let s1 = (if byos e then s else gossip_decay w propagation_source s)
      in (case check_gossip_envelope e w s1 data of
            Rejected _ \<Rightarrow>
              (emit (ReportMessageValidationResult message_id propagation_source Reject) s1, Ok)
          | VerdictPanic \<Rightarrow> (s1, Panicked)
          | Verified m \<Rightarrow>
              (case (if byos e then (s1, None)
                     else score_gossip_message w propagation_source (gm_message m) s1) of
                 (s2, Some st) \<Rightarrow> (s2, st)
               | (s2, None) \<Rightarrow> deliver_gossip w message_id propagation_source (gm_message m) s2)))"

datatype gossipsub_event =
    GossipsubMessage peer_id message_id bytes
  | GossipsubNotSupported peer_id
  | GossipsubOther

definition handle_gossip_event :: "env \<Rightarrow> world \<Rightarrow> gossipsub_event \<Rightarrow> p2p \<Rightarrow> p2p \<times> status" where
  "handle_gossip_event e w event s =
     (case event of
        GossipsubMessage propagation_source message_id data \<Rightarrow>
          handle_gossip_msg e w propagation_source message_id data s
      | GossipsubNotSupported peer \<Rightarrow> (emit (DisconnectPeerId peer) s, Ok)
      | GossipsubOther \<Rightarrow> (s, Ok))"

section \<open>Publishing\<close>

definition handle_gossip_command :: "env \<Rightarrow> world \<Rightarrow> gossip_command \<Rightarrow> p2p \<Rightarrow> p2p \<times> status" where
  "handle_gossip_command e w cmd s =
     (case gossip_message_new (clk w 0) (own_public_key e s) (gc_data cmd) of
        None \<Rightarrow> (s, Panicked)
      | Some m \<Rightarrow>
          (case signed_message_new (gossip_codec e) (p2p_signer s) m of
             Inl _ \<Rightarrow> (s, Ok)
           | Inr signed_gossip_message \<Rightarrow>
               (case signed_to_vec (gossip_codec e) signed_gossip_message of
                  None \<Rightarrow> (s, Ok)
                | Some signed_message_data \<Rightarrow> (emit (Publish (topic s) signed_message_data) s, Ok))))"

section \<open>The date test of the envelope check\<close>

definition gossip_date_accepts :: "duration \<Rightarrow> duration \<Rightarrow> u64 \<Rightarrow> u64 \<Rightarrow> bool" where
  "gossip_date_accepts skew age now date \<longleftrightarrow>
     message_from_future False skew now date = Some False \<and> \<not> message_stale age now date"

interpretation gossip_freshness: freshness_check gossip_date_accepts
  by unfold_locales
    (simp add: gossip_date_accepts_def message_from_future_exact message_stale_iff in_window_def)

section \<open>Frame and case lemmas\<close>

lemma gossip_decay_frame [simp]:
  "calls (gossip_decay w p s) = calls s"
  "config (gossip_decay w p s) = config s"
  "app_allowlist (gossip_decay w p s) = app_allowlist s"
  "peer_penalty_storage (gossip_decay w p s) = peer_penalty_storage s"
  "p2p_validator (gossip_decay w p s) = p2p_validator s"
proof -
  obtain el s1 where g: "get_elapsed_decay_time (clk w 1) p s = (el, s1)" by force
  note fr = get_elapsed_decay_time_frame [of "clk w 1" p s, unfolded g snd_conv]
  show "calls (gossip_decay w p s) = calls s" "config (gossip_decay w p s) = config s"
    "app_allowlist (gossip_decay w p s) = app_allowlist s"
    "peer_penalty_storage (gossip_decay w p s) = peer_penalty_storage s"
    "p2p_validator (gossip_decay w p s) = p2p_validator s"
    by (simp_all add: gossip_decay_def g fr Let_def del: One_nat_def)
qed

text \<open>The envelope check reads the configuration and the allowlist only.\<close>

lemma check_gossip_envelope_decay [simp]:
  "check_gossip_envelope e w (gossip_decay w' p s) data = check_gossip_envelope e w s data"
  unfolding check_gossip_envelope_def gossip_decay_frame by (rule refl)

text \<open>What a verified envelope satisfies.\<close>

definition gossip_envelope_ok :: "env \<Rightarrow> world \<Rightarrow> p2p \<Rightarrow> bytes \<Rightarrow> gossip_message \<Rightarrow> bool" where
  "gossip_envelope_ok e w s data m \<longleftrightarrow>
     (\<exists>sm. signed_from_slice (gossip_codec e) data = Some sm \<and> sm_message sm = m \<and>
           authentic (gossip_codec e) (keys e) gm_public_key sm) \<and>
     (byos e \<longrightarrow> gm_public_key m \<in> app_allowlist s) \<and>
     message_from_future (overflow_checks e) (clock_skew_of (config s)) (unix_secs (clk w 2)) (gm_date m)
       = Some False \<and>
     \<not> message_stale (max_age_of (config s)) (unix_secs (clk w 2)) (gm_date m) \<and>
     gm_protocol m = Gossip \<and> gm_version m = GossipV2"

lemma check_gossip_envelope_verified:
  "check_gossip_envelope e w s data = Verified m \<longleftrightarrow> gossip_envelope_ok e w s data m"
  by (auto simp: check_gossip_envelope_def gossip_envelope_ok_def Let_def split: option.splits)

lemma gossip_envelope_ok_window:
  assumes "skew_fits (clock_skew_of (config s)) (unix_secs (clk w 2))"
  shows "gossip_envelope_ok e w s data m \<longleftrightarrow>
     (\<exists>sm. signed_from_slice (gossip_codec e) data = Some sm \<and> sm_message sm = m \<and>
           authentic (gossip_codec e) (keys e) gm_public_key sm) \<and>
     (byos e \<longrightarrow> gm_public_key m \<in> app_allowlist s) \<and>
     in_window (clock_skew_of (config s)) (max_age_of (config s)) (unix_secs (clk w 2)) (gm_date m) \<and>
     gm_protocol m = Gossip \<and> gm_version m = GossipV2"
  by (auto simp: gossip_envelope_ok_def message_from_future_exact [OF assms] message_stale_iff
      in_window_def)

lemma score_gossip_calls:
  "calls (fst (score_gossip_message w p msg s)) = calls s \<or>
   calls (fst (score_gossip_message w p msg s)) = calls s @ [DisconnectPeerId p]"
proof -
  define s1 where "s1 = s\<lparr>score_manager := update_gossipsub_app_score p
      (validate_msg (p2p_validator s) (MsgGossipsub msg)
        (unwrap_or DEFAULT_GOSSIP_APP_SCORE (get_gossipsub_app_score (score_manager s) p)))
      (score_manager s)\<rparr>"
  have s1: "calls s1 = calls s" by (simp add: s1_def)
  have "fst (score_gossip_message w p msg s) =
      (case get_penalty (p2p_validator s1) (MsgGossipsub msg) (get_all_scores w s1 p) of
         Some penalty \<Rightarrow> fst (apply_penalty (\<lambda>i. clk w (3 + i)) p penalty s1) | None \<Rightarrow> s1)"
    unfolding score_gossip_message_def Let_def s1_def [symmetric] by (simp split: option.split)
  then show ?thesis
    using apply_penalty_calls [of "\<lambda>i. clk w (3 + i)" p _ s1] by (simp add: s1 split: option.split)
qed

lemma score_gossip_no_penalty_calls:
  "score_gossip_message w p msg s = (s', None) \<Longrightarrow> calls s' = calls s"
  by (auto simp: score_gossip_message_def Let_def split: option.splits prod.splits)

lemma deliver_gossip_calls:
  "calls (fst (deliver_gossip w mid p msg s)) =
     calls s @ ReportMessageValidationResult mid p Accept #
       (if gossip_has_receivers w then [SendGossipEvent (ReceivedMessage msg)] else [])"
  by (simp add: deliver_gossip_def Let_def)

text \<open>Past the mute test.\<close>

lemma handle_gossip_msg_unmuted:
  assumes "byos e \<or> \<not> is_gossip_muted (clk w 0) (peer_penalty_storage s) src"
    and "s1 = (if byos e then s else gossip_decay w src s)"
  shows "handle_gossip_msg e w src mid data s =
    (case check_gossip_envelope e w s data of
       Rejected _ \<Rightarrow> (emit (ReportMessageValidationResult mid src Reject) s1, Ok)
     | VerdictPanic \<Rightarrow> (s1, Panicked)
     | Verified m \<Rightarrow>
         (case (if byos e then (s1, None) else score_gossip_message w src (gm_message m) s1) of
            (s2, Some st) \<Rightarrow> (s2, st)
          | (s2, None) \<Rightarrow> deliver_gossip w mid src (gm_message m) s2))"
proof -
  have "check_gossip_envelope e w s1 data = check_gossip_envelope e w s data"
    using assms(2) by simp
  then show ?thesis
    using assms(1) unfolding handle_gossip_msg_def Let_def assms(2) by auto
qed

text \<open>The calls a gossip message can lead to, one line per way out of the handler.\<close>

lemma handle_gossip_msg_calls:
  assumes "handle_gossip_msg e w src mid data s = (s', st)"
  shows "(\<not> byos e \<and> is_gossip_muted (clk w 0) (peer_penalty_storage s) src \<and> s' = s \<and> st = Ok) \<or>
     ((byos e \<or> \<not> is_gossip_muted (clk w 0) (peer_penalty_storage s) src) \<and>
       ((\<exists>r. check_gossip_envelope e w s data = Rejected r \<and> st = Ok \<and>
           calls s' = calls s @ [ReportMessageValidationResult mid src Reject]) \<or>
        (check_gossip_envelope e w s data = VerdictPanic \<and> st = Panicked \<and> calls s' = calls s) \<or>
        (\<exists>m. check_gossip_envelope e w s data = Verified m \<and>
           ((\<not> byos e \<and> (calls s' = calls s \<or> calls s' = calls s @ [DisconnectPeerId src])) \<or>
            calls s' = calls s @ ReportMessageValidationResult mid src Accept #
              (if gossip_has_receivers w then [SendGossipEvent (ReceivedMessage (gm_message m))]
               else [])))))"
proof (cases "\<not> byos e \<and> is_gossip_muted (clk w 0) (peer_penalty_storage s) src")
  case True
  with assms show ?thesis by (simp add: handle_gossip_msg_def)
next
  case False
  define s1 where "s1 = (if byos e then s else gossip_decay w src s)"
  have s1: "calls s1 = calls s" by (simp add: s1_def)
  from False have un: "byos e \<or> \<not> is_gossip_muted (clk w 0) (peer_penalty_storage s) src"
    by blast
  note H = trans [OF assms [symmetric] handle_gossip_msg_unmuted [OF un s1_def]]
  show ?thesis
  proof (cases "check_gossip_envelope e w s data")
    case (Verified m)
    let ?sc = "score_gossip_message w src (gm_message m) s1"
    consider (pen) s2 st' where "\<not> byos e" "?sc = (s2, Some st')"
      | (ok) s2 where "(if byos e then (s1, None) else ?sc) = (s2, None)"
      by (cases "byos e"; cases ?sc; cases "snd ?sc") auto
    then show ?thesis
    proof cases
      case pen
      then have "s' = s2" using H Verified by simp
      then show ?thesis
        using pen score_gossip_calls [of w src "gm_message m" s1] s1 Verified False by auto
    next
      case ok
      have c2: "calls s2 = calls s"
        using ok s1 by (auto split: if_splits dest: score_gossip_no_penalty_calls)
      have "(s', st) = deliver_gossip w mid src (gm_message m) s2"
        using H Verified ok by simp
      then have "calls s' = calls s @ ReportMessageValidationResult mid src Accept #
              (if gossip_has_receivers w then [SendGossipEvent (ReceivedMessage (gm_message m))] else [])"
        using deliver_gossip_calls [of w mid src "gm_message m" s2] c2 by (metis fst_conv)
      then show ?thesis using Verified False by blast
    qed
  qed (use H False s1 in auto)
qed

section \<open>Calls and settings\<close>

lemma gossip_decay_unscored [simp]: "unscored (gossip_decay w p s) = unscored s"
proof -
  obtain el s1 where g: "get_elapsed_decay_time (clk w 1) p s = (el, s1)" by force
  then show ?thesis
    using get_elapsed_decay_time_unscored [of "clk w 1" p s]
    by (simp add: gossip_decay_def Let_def del: One_nat_def)
qed

lemma score_gossip_unscored [simp]: "unscored (fst (score_gossip_message w p msg s)) = unscored s"
proof -
  define s1 where "s1 = s\<lparr>score_manager := update_gossipsub_app_score p
      (validate_msg (p2p_validator s) (MsgGossipsub msg)
        (unwrap_or DEFAULT_GOSSIP_APP_SCORE (get_gossipsub_app_score (score_manager s) p)))
      (score_manager s)\<rparr>"
  have "unscored s1 = unscored s" by (simp add: s1_def)
  moreover have "fst (score_gossip_message w p msg s) =
      (case get_penalty (p2p_validator s1) (MsgGossipsub msg) (get_all_scores w s1 p) of
         Some penalty \<Rightarrow> fst (apply_penalty (\<lambda>i. clk w (3 + i)) p penalty s1) | None \<Rightarrow> s1)"
    unfolding score_gossip_message_def Let_def s1_def [symmetric] by (simp split: option.split)
  ultimately show ?thesis by (simp split: option.split)
qed

lemma handle_gossip_msg_unscored [simp]:
  "unscored (fst (handle_gossip_msg e w src mid data s)) = unscored s"
proof -
  define s1 where "s1 = (if byos e then s else gossip_decay w src s)"
  have "unscored s1 = unscored s" by (simp add: s1_def)
  moreover have "unscored (fst (deliver_gossip w mid src msg s2)) = unscored s2" for msg s2
    by (simp add: deliver_gossip_def Let_def)
  moreover have "unscored s2 = unscored s1" if "score_gossip_message w src msg s1 = (s2, r)" for msg s2 r
    using score_gossip_unscored [of w src msg s1] that by simp
  ultimately show ?thesis
    unfolding handle_gossip_msg_def Let_def s1_def [symmetric]
    by (auto split: gossip_verdict.split prod.split option.split if_splits)
qed

text \<open>
  A gossip message reaches the application only after the checks, and nothing else of a gossip
  message leaves the node but reports to gossipsub and the disconnection of a banned peer.
\<close>

lemma handle_gossip_msg_extends:
  assumes "\<And>m. gossip_envelope_ok e w s data m \<Longrightarrow>
      byos e \<or> \<not> is_gossip_muted (clk w 0) (peer_penalty_storage s) src \<Longrightarrow>
      P (SendGossipEvent (ReceivedMessage (gm_message m)))"
    and "P (DisconnectPeerId src)" and "\<And>a. P (ReportMessageValidationResult mid src a)"
  shows "extends P s (fst (handle_gossip_msg e w src mid data s))"
proof -
  obtain s' st where h: "handle_gossip_msg e w src mid data s = (s', st)" by force
  have "settings s' = settings s"
    using unscored_eqD(1) [OF handle_gossip_msg_unscored [of e w src mid data s]] h by simp
  with handle_gossip_msg_calls [OF h] assms show ?thesis
    unfolding extends_def check_gossip_envelope_verified h by (auto split: if_splits)
qed

lemma handle_gossip_command_extends:
  assumes "\<And>m sm d. gossip_message_new (clk w 0) (own_public_key e s) (gc_data cmd) = Some m \<Longrightarrow>
      signed_message_new (gossip_codec e) (p2p_signer s) m = Inr sm \<Longrightarrow>
      signed_to_vec (gossip_codec e) sm = Some d \<Longrightarrow> P (Publish (topic s) d)"
  shows "extends P s (fst (handle_gossip_command e w cmd s))"
  using assms by (auto simp: handle_gossip_command_def split: option.split sum.split)

lemma handle_gossip_command_unscored [simp]: "unscored (fst (handle_gossip_command e w cmd s)) = unscored s"
  by (simp add: handle_gossip_command_def split: option.split sum.split)

lemma handle_gossip_event_unscored [simp]: "unscored (fst (handle_gossip_event e w ev s)) = unscored s"
  by (simp add: handle_gossip_event_def split: gossipsub_event.split)

section \<open>Properties\<close>

lemma example_gossip_ok:
  "gossip_envelope_ok (example_env b) example_world example_state example_wire example_gossip"
  by (simp add: gossip_envelope_ok_window example_authentic example_in_window)
    (simp add: example_gossip_def example_authentic example_in_window)


text \<open>C5: Publishing end to end: what \<^verbatim>\<open>handle_gossip_command\<close> of one node publishes is reported as
  accepted and delivered unchanged by \<^verbatim>\<open>handle_gossip_msg\<close> of another node that uses the same
  encoding, when the sending second lies in the receiver's window and the sender is allowlisted (BYOS)
  or neither muted nor penalised for this message.\<close>

theorem gossip_end_to_end:
  assumes "handle_gossip_command eA wA cmd sA = (sA', Ok)" and "calls sA' = calls sA @ [Publish t d]"
    and "gossip_codec eB = gossip_codec eA" and "keys eB = keys eA" and "codec_roundtrip (gossip_codec eA)"
    and "signer_matches (keys eA) (p2p_signer sA) (own_public_key eA sA)"
    and "skew_fits (clock_skew_of (config sB)) (unix_secs (clk wB 2))"
    and "in_window (clock_skew_of (config sB)) (max_age_of (config sB)) (unix_secs (clk wB 2))
           (unix_secs (clk wA 0))"
    and "if byos eB then own_public_key eA sA \<in> app_allowlist sB
         else \<not> is_gossip_muted (clk wB 0) (peer_penalty_storage sB) src \<and>
              snd (score_gossip_message wB src (gc_data cmd) (gossip_decay wB src sB)) = None"
    and "gossip_has_receivers wB"
  shows "snd (handle_gossip_msg eB wB src mid d sB) = Ok \<and>
         calls (fst (handle_gossip_msg eB wB src mid d sB)) =
           calls sB @ [ReportMessageValidationResult mid src Accept,
                       SendGossipEvent (ReceivedMessage (gc_data cmd))]"
proof -
  obtain m sm where m: "gossip_message_new (clk wA 0) (own_public_key eA sA) (gc_data cmd) = Some m"
    and sm: "signed_message_new (gossip_codec eA) (p2p_signer sA) m = Inr sm"
    and d: "signed_to_vec (gossip_codec eA) sm = Some d"
    using assms(1,2) by (auto simp: handle_gossip_command_def split: option.splits sum.splits)
  note new = gossip_type.signed_new_authentic [OF m sm assms(6)]
  have fields: "gm_protocol m = Gossip" "gm_version m = GossipV2" "gm_message m = gc_data cmd"
    "gm_public_key m = own_public_key eA sA"
    using m by (auto simp: gossip_message_new_def split: option.splits)
  have ok: "gossip_envelope_ok eB wB sB d m"
    unfolding gossip_envelope_ok_window [OF assms(7)]
    using new fields assms d by (auto simp: codec_roundtrip_def)
  define s1 where "s1 = (if byos eB then sB else gossip_decay wB src sB)"
  have un: "byos eB \<or> \<not> is_gossip_muted (clk wB 0) (peer_penalty_storage sB) src"
    using assms(9) by auto
  obtain s2 where s2: "(if byos eB then (s1, None) else score_gossip_message wB src (gm_message m) s1) = (s2, None)"
    using assms(9) fields(3) by (cases "byos eB") (auto simp: s1_def, metis prod.collapse)
  have c2: "calls s2 = calls sB"
    using s2 by (auto simp: s1_def split: if_splits dest: score_gossip_no_penalty_calls)
  have "handle_gossip_msg eB wB src mid d sB = deliver_gossip wB mid src (gm_message m) s2"
    using handle_gossip_msg_unmuted [OF un s1_def] ok [folded check_gossip_envelope_verified] s2 by simp
  then show ?thesis
    using assms(10) by (simp add: deliver_gossip_calls c2 fields) (simp add: deliver_gossip_def)
qed

theorem gossip_end_to_end_witness:
  "snd (handle_gossip_msg (example_env True) example_world (PeerId [1]) [6] example_wire example_state) = Ok \<and>
   calls (fst (handle_gossip_msg (example_env True) example_world (PeerId [1]) [6] example_wire example_state)) =
     [ReportMessageValidationResult [6] (PeerId [1]) Accept, SendGossipEvent (ReceivedMessage [42])]"
proof -
  have "gossip_message_new 1000000000000 (PublicKey [5]) [42] = Some example_gossip"
    by (simp add: gossip_message_new_def get_timestamp_eq example_gossip_def)
  then have "handle_gossip_command (example_env True) example_world \<lparr>gc_data = [42]\<rparr> example_state =
      (emit (Publish ''bitvm2'' example_wire) example_state, Ok)"
    by (simp add: handle_gossip_command_def)
  from gossip_end_to_end [OF this, of "''bitvm2''" example_wire "example_env True" example_state example_world
      "PeerId [1]" "[6]"]
  show ?thesis
    by (simp add: example_codec_roundtrip example_signer_matches example_in_window)
qed

text \<open>C24: In a BYOS build every gossip message gets exactly one verdict, before anything else happens
  with it: accepted, and then delivered while there are listeners, when its envelope passes all checks,
  and rejected otherwise; only an overflowing clock check leaves it without one.\<close>

theorem gossip_verdict_reported:
  assumes "byos e" and "handle_gossip_msg e w src mid data s = (s', st)" and "st \<noteq> Panicked"
  shows "(\<exists>m. gossip_envelope_ok e w s data m \<and>
            calls s' = calls s @ ReportMessageValidationResult mid src Accept #
              (if gossip_has_receivers w then [SendGossipEvent (ReceivedMessage (gm_message m))] else []) \<and>
            (st = Ok \<longleftrightarrow> gossip_has_receivers w)) \<or>
         (\<forall>m. \<not> gossip_envelope_ok e w s data m) \<and> st = Ok \<and>
            calls s' = calls s @ [ReportMessageValidationResult mid src Reject]"
proof (cases "check_gossip_envelope e w s data")
  case (Verified m)
  then have "(s', st) = deliver_gossip w mid src (gm_message m) s"
    using assms(1,2) by (simp add: handle_gossip_msg_def Let_def)
  with Verified show ?thesis
    unfolding check_gossip_envelope_verified by (auto simp: deliver_gossip_def Let_def)
qed (use assms in \<open>auto simp: handle_gossip_msg_def Let_def simp flip: check_gossip_envelope_verified\<close>)

theorem gossip_verdict_reported_witness:
  "snd (handle_gossip_msg (example_env True) example_world (PeerId [1]) [6] [] example_state) = Ok \<and>
   calls (fst (handle_gossip_msg (example_env True) example_world (PeerId [1]) [6] [] example_state)) =
     [ReportMessageValidationResult [6] (PeerId [1]) Reject]"
proof -
  have no: "\<not> gossip_envelope_ok (example_env True) example_world example_state [] m" for m
    by (simp add: gossip_envelope_ok_def example_codec_def)
  have "snd (handle_gossip_msg (example_env True) example_world (PeerId [1]) [6] [] example_state) \<noteq> Panicked"
    by (simp add: handle_gossip_msg_def check_gossip_envelope_def example_codec_def)
  from gossip_verdict_reported [OF _ prod.collapse [symmetric] this] no show ?thesis by simp
qed

section \<open>Scores after a gossip message\<close>

text \<open>A gossip message moves the decay time of its sender and leaves the request-response scores alone.\<close>

lemma gossip_decay_scores:
  "last_scoring_decay_time (score_manager (gossip_decay w p s)) =
     (last_scoring_decay_time (score_manager s))(p \<mapsto> clk w 1)"
  "req_resp_app_score (score_manager (gossip_decay w p s)) = req_resp_app_score (score_manager s)"
proof -
  obtain el s1 where g: "get_elapsed_decay_time (clk w 1) p s = (el, s1)" by force
  have s1: "score_manager s1 = (score_manager s)\<lparr>last_scoring_decay_time :=
      (last_scoring_decay_time (score_manager s))(p \<mapsto> clk w 1)\<rparr>"
    using g by (auto simp: get_elapsed_decay_time_def update_last_scoring_decay_time_def map_insert_def)
  show "last_scoring_decay_time (score_manager (gossip_decay w p s)) =
      (last_scoring_decay_time (score_manager s))(p \<mapsto> clk w 1)"
    "req_resp_app_score (score_manager (gossip_decay w p s)) = req_resp_app_score (score_manager s)"
    by (simp_all add: gossip_decay_def g Let_def s1 update_gossipsub_app_score_def del: One_nat_def)
qed

lemma score_gossip_scores:
  "last_scoring_decay_time (score_manager (fst (score_gossip_message w p msg s))) =
     last_scoring_decay_time (score_manager s)"
  "req_resp_app_score (score_manager (fst (score_gossip_message w p msg s))) = req_resp_app_score (score_manager s)"
  unfolding score_gossip_message_def Let_def
  by (simp_all add: update_gossipsub_app_score_def case_prod_unfold split: option.split)

lemma handle_gossip_msg_scores:
  assumes "\<not> byos e" and "\<not> is_gossip_muted (clk w 0) (peer_penalty_storage s) p"
    and "s' = fst (handle_gossip_msg e w p mid data s)"
  shows "last_scoring_decay_time (score_manager s') = (last_scoring_decay_time (score_manager s))(p \<mapsto> clk w 1)"
    and "req_resp_app_score (score_manager s') = req_resp_app_score (score_manager s)"
proof -
  define s1 where "s1 = (if byos e then s else gossip_decay w p s)"
  have s': "score_manager s' = score_manager s1 \<or>
      (\<exists>m. score_manager s' = score_manager (fst (score_gossip_message w p m s1)))"
    unfolding assms(3) handle_gossip_msg_unmuted [OF disjI2 [OF assms(2)] s1_def]
    using assms(1)
    by (auto simp: deliver_gossip_def Let_def split: gossip_verdict.split prod.split option.split)
      (metis fst_conv)+
  then show "last_scoring_decay_time (score_manager s') = (last_scoring_decay_time (score_manager s))(p \<mapsto> clk w 1)"
    and "req_resp_app_score (score_manager s') = req_resp_app_score (score_manager s)"
    using assms(1) by (auto simp: s1_def score_gossip_scores gossip_decay_scores simp del: One_nat_def)
qed

end
