(* ===== verification/Swarm_ReqResp.thy ===== *)
theory Swarm_ReqResp
  imports P2P_Examples
begin

text \<open>
  The request-response half of the event loop: \<^verbatim>\<open>handle_request_response_event\<close>,
  \<^verbatim>\<open>handle_message_event\<close> and \<^verbatim>\<open>handle_request_response_command\<close>. \<^verbatim>\<open>handle_message_event\<close> is cut
  into the checks on a received envelope, the scoring of its sender, and what follows. Clock
  readings: 0 the mute test, 1 the future test, 2 the decay, 3 to 5 the penalty, 6 the age test,
  7 the date of the response.
\<close>

section \<open>Checks on received envelopes\<close>

datatype rr_reject =
    RRBadEncoding | RRVerifyError | RRBadSignature | RRWrongDestination | RRNotInAllowlist
  | RRKeyMismatch | RRNoStoredKey | RRFutureDate | RRWrongProtocol | RRWrongVersion

datatype 'm rr_verdict = RRRejected rr_reject | RRPanic | RRVerified 'm

text \<open>The BYOS part: allowlisted, and the key the sender announced in the handshake.\<close>

definition check_sender_key :: "p2p \<Rightarrow> peer_id \<Rightarrow> public_key \<Rightarrow> rr_reject option" where
  "check_sender_key s peer k =
     (if k \<notin> app_allowlist s then Some RRNotInAllowlist
      else case get_app_public_key_by_transport_id (setup_state s) peer of
             Some expected_key \<Rightarrow> if expected_key \<noteq> k then Some RRKeyMismatch else None
           | None \<Rightarrow> Some RRNoStoredKey)"

definition check_request_envelope ::
  "env \<Rightarrow> world \<Rightarrow> p2p \<Rightarrow> peer_id \<Rightarrow> bytes \<Rightarrow> request_message rr_verdict" where
  "check_request_envelope e w s peer data =
     (case signed_from_slice (request_codec e) data of
        None \<Rightarrow> RRRejected RRBadEncoding
      | Some signed_message \<Rightarrow>
          let request = sm_message signed_message
          in (case signed_message_verify (request_codec e) (keys e) rq_public_key signed_message of
                Inl _ \<Rightarrow> RRRejected RRVerifyError
              | Inr is_valid \<Rightarrow>
                  if \<not> is_valid then RRRejected RRBadSignature
                  else if rq_destination_peer_id request \<noteq> local_peer_id w
                  then RRRejected RRWrongDestination
                  else (case (if byos e then check_sender_key s peer (rq_public_key request) else None) of
                          Some r \<Rightarrow> RRRejected r
                        | None \<Rightarrow>
                            (case message_from_future (overflow_checks e) (clock_skew_of (config s))
                                    (unix_secs (clk w 1)) (rq_date request) of
                               None \<Rightarrow> RRPanic
                             | Some future \<Rightarrow>
                                 if future then RRRejected RRFutureDate
                                 else if rq_protocol request \<noteq> RequestResponse
                                 then RRRejected RRWrongProtocol
                                 else if rq_version request \<noteq> ReqRespV2
                                 then RRRejected RRWrongVersion
                                 else RRVerified request))))"

definition check_response_envelope ::
  "env \<Rightarrow> world \<Rightarrow> p2p \<Rightarrow> peer_id \<Rightarrow> bytes \<Rightarrow> response_message rr_verdict" where
  "check_response_envelope e w s peer data =
     (case signed_from_slice (response_codec e) data of
        None \<Rightarrow> RRRejected RRBadEncoding
      | Some signed_message \<Rightarrow>
          let response = sm_message signed_message
          in (case signed_message_verify (response_codec e) (keys e) rs_app_public_key signed_message of
                Inl _ \<Rightarrow> RRRejected RRVerifyError
              | Inr is_valid \<Rightarrow>
                  if \<not> is_valid then RRRejected RRBadSignature
                  else (case (if byos e then check_sender_key s peer (rs_app_public_key response) else None) of
                          Some r \<Rightarrow> RRRejected r
                        | None \<Rightarrow>
                            (case message_from_future (overflow_checks e) (clock_skew_of (config s))
                                    (unix_secs (clk w 1)) (rs_date response) of
                               None \<Rightarrow> RRPanic
                             | Some future \<Rightarrow>
                                 if future then RRRejected RRFutureDate
                                 else if rs_protocol response \<noteq> RequestResponse
                                 then RRRejected RRWrongProtocol
                                 else if rs_version response \<noteq> ReqRespV2
                                 then RRRejected RRWrongVersion
                                 else RRVerified response))))"

section \<open>Scoring\<close>

text \<open>The second component is the status of the penalty, if one was applied.\<close>

definition score_req_resp_message ::
  "world \<Rightarrow> peer_id \<Rightarrow> validator_message \<Rightarrow> p2p \<Rightarrow> p2p \<times> status option" where
  "score_req_resp_message w peer msg s =
     (let s0 = decay_request_response_score w (clk w 2) peer s;
          old_app_score = unwrap_or DEFAULT_REQ_RESP_APP_SCORE (get_req_resp_score (score_manager s0) peer);
          updated_score = validate_msg (p2p_validator s0) msg old_app_score;
          s1 = s0\<lparr>score_manager := update_req_resp_app_score peer updated_score (score_manager s0)\<rparr>;
          peer_score = get_all_scores w s1 peer
      in case get_penalty (p2p_validator s1) msg peer_score of
           Some penalty \<Rightarrow>
             (let (s2, st) = apply_penalty (\<lambda>i. clk w (3 + i)) peer penalty s1 in (s2, Some st))
         | None \<Rightarrow> (s1, None))"

section \<open>Answering a request\<close>

text \<open>
  The application's answer. When the event could not be queued in time, it is dropped together with
  the one-shot sender inside it, so waiting for the answer ends with an error at once.
\<close>

definition awaited_response :: "world \<Rightarrow> response_wait" where
  "awaited_response w = (if req_resp_send w = SendTimedOut then ResponderDropped else app_response w)"

definition send_signed_response :: "env \<Rightarrow> world \<Rightarrow> nat \<Rightarrow> bytes \<Rightarrow> p2p \<Rightarrow> p2p \<times> status" where
  "send_signed_response e w channel response s =
     (case response_message_new (clk w 7) (own_public_key e s) response of
        None \<Rightarrow> (s, Panicked)
      | Some m \<Rightarrow>
          (case signed_message_new (response_codec e) (p2p_signer s) m of
             Inl _ \<Rightarrow> (s, Ok)
           | Inr signed_response_message \<Rightarrow>
               (case signed_to_vec (response_codec e) signed_response_message of
                  None \<Rightarrow> (s, Ok)
                | Some data \<Rightarrow> (emit (SendResponse channel data) s, Ok))))"

definition answer_request :: "env \<Rightarrow> world \<Rightarrow> nat \<Rightarrow> bytes \<Rightarrow> p2p \<Rightarrow> p2p \<times> status" where
  "answer_request e w channel request s =
     (if req_resp_send w = ChannelClosed
      then (s, Err (Protocol (ReqRespEventChannelClosed (BoxedError ''send''))))
      else let s1 = (if req_resp_send w = Sent
                     then emit (SendReqRespEvent (ReceivedRequest request)) s else s)
      in (case awaited_response w of
            Responded response \<Rightarrow> send_signed_response e w channel response s1
          | ResponderDropped \<Rightarrow> (s1, Ok)
          | ResponseTimedOut \<Rightarrow> (s1, Ok)))"

section \<open>The handlers\<close>

definition handle_request ::
  "env \<Rightarrow> world \<Rightarrow> peer_id \<Rightarrow> nat \<Rightarrow> bytes \<Rightarrow> p2p \<Rightarrow> p2p \<times> status" where
  "handle_request e w peer channel data s =
     (if \<not> byos e \<and> is_req_resp_muted (clk w 0) (peer_penalty_storage s) peer
      then (s, Ok)
      else (case check_request_envelope e w s peer data of
          RRRejected _ \<Rightarrow> (s, Ok)
        | RRPanic \<Rightarrow> (s, Panicked)
        | RRVerified request \<Rightarrow>
            (case (if byos e then (s, None)
                   else score_req_resp_message w peer (MsgRequest (rq_message request)) s) of
               (s1, Some st) \<Rightarrow> (s1, st)
             | (s1, None) \<Rightarrow>
                 if message_stale (max_age_of (config s1)) (unix_secs (clk w 6)) (rq_date request)
                 then (s1, Ok)
                 else answer_request e w channel (rq_message request) s1)))"

definition handle_response :: "env \<Rightarrow> world \<Rightarrow> peer_id \<Rightarrow> bytes \<Rightarrow> p2p \<Rightarrow> p2p \<times> status" where
  "handle_response e w peer data s =
     (if \<not> byos e \<and> is_req_resp_muted (clk w 0) (peer_penalty_storage s) peer
      then (s, Ok)
      else if data = [] then (s, Ok)
      else (case check_response_envelope e w s peer data of
          RRRejected _ \<Rightarrow> (s, Ok)
        | RRPanic \<Rightarrow> (s, Panicked)
        | RRVerified response \<Rightarrow>
            (case (if byos e then (s, None)
                   else score_req_resp_message w peer (MsgResponse (rs_message response)) s) of
               (s1, Some st) \<Rightarrow> (s1, st)
             | (s1, None) \<Rightarrow>
                 if message_stale (max_age_of (config s1)) (unix_secs (clk w 6)) (rs_date response)
                 then (s1, Ok)
                 else (case req_resp_send w of
                     Sent \<Rightarrow> (emit (SendReqRespEvent (ReceivedResponse (rs_message response))) s1, Ok)
                   | ChannelClosed \<Rightarrow>
                       (s1, Err (Protocol (ReqRespEventChannelClosed (BoxedError ''send''))))
                   | SendTimedOut \<Rightarrow> (s1, Ok)))))"

datatype rr_message = RRRequest bytes nat | RRResponse bytes

definition handle_message_event ::
  "env \<Rightarrow> world \<Rightarrow> peer_id \<Rightarrow> rr_message \<Rightarrow> p2p \<Rightarrow> p2p \<times> status" where
  "handle_message_event e w peer msg s =
     (case msg of
        RRRequest request channel \<Rightarrow> handle_request e w peer channel request s
      | RRResponse response \<Rightarrow> handle_response e w peer response s)"

datatype outbound_failure = UnsupportedProtocols | OtherOutboundFailure

datatype request_response_event =
    RRMessage peer_id rr_message
  | RROutboundFailure peer_id outbound_failure
  | RRInboundFailure peer_id
  | RRResponseSent peer_id

definition handle_request_response_event ::
  "env \<Rightarrow> world \<Rightarrow> request_response_event \<Rightarrow> p2p \<Rightarrow> p2p \<times> status" where
  "handle_request_response_event e w event s =
     (case event of
        RRMessage peer message \<Rightarrow> handle_message_event e w peer message s
      | RROutboundFailure peer failure \<Rightarrow>
          (if failure = UnsupportedProtocols then (emit (DisconnectPeerId peer) s, Ok) else (s, Ok))
      | RRInboundFailure peer \<Rightarrow> (s, Ok)
      | RRResponseSent peer \<Rightarrow> (s, Ok))"

section \<open>Sending a request\<close>

definition request_target :: "env \<Rightarrow> p2p \<Rightarrow> request_response_command \<Rightarrow> peer_id option" where
  "request_target e s cmd =
     (if byos e
      then get_transport_id_by_application_key (setup_state s) (rc_target_app_public_key cmd)
      else Some (rc_target_transport_id cmd))"

definition handle_request_response_command ::
  "env \<Rightarrow> world \<Rightarrow> request_response_command \<Rightarrow> p2p \<Rightarrow> p2p \<times> status" where
  "handle_request_response_command e w cmd s =
     (case request_target e s cmd of
        None \<Rightarrow> (s, Ok)
      | Some peer \<Rightarrow>
          (case request_message_new (clk w 0) (own_public_key e s) (rc_data cmd, peer) of
             None \<Rightarrow> (s, Panicked)
           | Some request_message \<Rightarrow>
               (case signed_message_new (request_codec e) (p2p_signer s) request_message of
                  Inl _ \<Rightarrow> (s, Ok)
                | Inr signed_request_message \<Rightarrow>
                    (case signed_to_vec (request_codec e) signed_request_message of
                       None \<Rightarrow> (s, Ok)
                     | Some data \<Rightarrow>
                         if is_connected w peer then (emit (SendRequest peer data) s, Ok)
                         else (s, Ok)))))"

section \<open>Lemmas\<close>

lemma check_sender_key_None:
  "check_sender_key s peer k = None \<longleftrightarrow>
     k \<in> app_allowlist s \<and> get_app_public_key_by_transport_id (setup_state s) peer = Some k"
  by (auto simp: check_sender_key_def split: option.splits)

lemma check_sender_key_known:
  assumes "k \<in> app_allowlist s" and "get_app_public_key_by_transport_id (setup_state s) peer = Some k"
  shows "check_sender_key s peer k = None"
  using assms by (simp add: check_sender_key_None)

text \<open>What a verified request, and a verified response, satisfies.\<close>

definition request_envelope_ok ::
  "env \<Rightarrow> world \<Rightarrow> p2p \<Rightarrow> peer_id \<Rightarrow> bytes \<Rightarrow> request_message \<Rightarrow> bool" where
  "request_envelope_ok e w s peer data m \<longleftrightarrow>
     (\<exists>sm. signed_from_slice (request_codec e) data = Some sm \<and> sm_message sm = m \<and>
           authentic (request_codec e) (keys e) rq_public_key sm) \<and>
     rq_destination_peer_id m = local_peer_id w \<and>
     (byos e \<longrightarrow> rq_public_key m \<in> app_allowlist s \<and>
        get_app_public_key_by_transport_id (setup_state s) peer = Some (rq_public_key m)) \<and>
     message_from_future (overflow_checks e) (clock_skew_of (config s)) (unix_secs (clk w 1)) (rq_date m)
       = Some False \<and>
     rq_protocol m = RequestResponse \<and> rq_version m = ReqRespV2"

definition response_envelope_ok ::
  "env \<Rightarrow> world \<Rightarrow> p2p \<Rightarrow> peer_id \<Rightarrow> bytes \<Rightarrow> response_message \<Rightarrow> bool" where
  "response_envelope_ok e w s peer data m \<longleftrightarrow>
     (\<exists>sm. signed_from_slice (response_codec e) data = Some sm \<and> sm_message sm = m \<and>
           authentic (response_codec e) (keys e) rs_app_public_key sm) \<and>
     (byos e \<longrightarrow> rs_app_public_key m \<in> app_allowlist s \<and>
        get_app_public_key_by_transport_id (setup_state s) peer = Some (rs_app_public_key m)) \<and>
     message_from_future (overflow_checks e) (clock_skew_of (config s)) (unix_secs (clk w 1)) (rs_date m)
       = Some False \<and>
     rs_protocol m = RequestResponse \<and> rs_version m = ReqRespV2"

lemma verify_then_verified:
  "(case signed_message_verify c ko pk sm of
      Inl _ \<Rightarrow> RRRejected a | Inr v \<Rightarrow> if \<not> v then RRRejected b else C) = RRVerified m \<longleftrightarrow>
     authentic c ko pk sm \<and> C = RRVerified m"
  by (auto simp: signed_message_verify_def authentic_def split: option.splits)

lemma check_request_envelope_verified:
  "check_request_envelope e w s peer data = RRVerified m \<longleftrightarrow> request_envelope_ok e w s peer data m"
  by (auto simp: check_request_envelope_def request_envelope_ok_def verify_then_verified Let_def
      check_sender_key_None check_sender_key_known split: option.splits if_splits)

lemma check_response_envelope_verified:
  "check_response_envelope e w s peer data = RRVerified m \<longleftrightarrow> response_envelope_ok e w s peer data m"
  by (auto simp: check_response_envelope_def response_envelope_ok_def verify_then_verified Let_def
      check_sender_key_None check_sender_key_known split: option.splits if_splits)

lemma score_req_resp_eq:
  assumes "s0 = decay_request_response_score w (clk w 2) peer s"
    and "s1 = s0\<lparr>score_manager := update_req_resp_app_score peer
           (validate_msg (p2p_validator s0) msg
              (unwrap_or DEFAULT_REQ_RESP_APP_SCORE (get_req_resp_score (score_manager s0) peer)))
           (score_manager s0)\<rparr>"
  shows "score_req_resp_message w peer msg s =
     (case get_penalty (p2p_validator s1) msg (get_all_scores w s1 peer) of
        Some penalty \<Rightarrow>
          (let (s2, st) = apply_penalty (\<lambda>i. clk w (3 + i)) peer penalty s1 in (s2, Some st))
      | None \<Rightarrow> (s1, None))"
  unfolding score_req_resp_message_def Let_def assms ..

lemma score_req_resp_calls:
  "calls (fst (score_req_resp_message w peer msg s)) = calls s \<or>
   calls (fst (score_req_resp_message w peer msg s)) = calls s @ [DisconnectPeerId peer]"
proof -
  define s0 where "s0 = decay_request_response_score w (clk w 2) peer s"
  define s1 where "s1 = s0\<lparr>score_manager := update_req_resp_app_score peer
           (validate_msg (p2p_validator s0) msg
              (unwrap_or DEFAULT_REQ_RESP_APP_SCORE (get_req_resp_score (score_manager s0) peer)))
           (score_manager s0)\<rparr>"
  have s1: "calls s1 = calls s" by (simp add: s1_def s0_def)
  show ?thesis
    unfolding score_req_resp_eq [OF s0_def s1_def]
    using apply_penalty_calls [of "\<lambda>i. clk w (3 + i)" peer _ s1]
    by (simp add: s1 Let_def split: option.split)
qed

lemma score_req_resp_no_penalty:
  assumes "score_req_resp_message w peer msg s = (s', None)"
  shows "calls s' = calls s" and "config s' = config s"
    and "p2p_signer s' = p2p_signer s"
proof -
  define s0 where "s0 = decay_request_response_score w (clk w 2) peer s"
  define s1 where "s1 = s0\<lparr>score_manager := update_req_resp_app_score peer
           (validate_msg (p2p_validator s0) msg
              (unwrap_or DEFAULT_REQ_RESP_APP_SCORE (get_req_resp_score (score_manager s0) peer)))
           (score_manager s0)\<rparr>"
  have "s' = s1"
    using assms unfolding score_req_resp_eq [OF s0_def s1_def]
    by (auto simp: Let_def split: option.splits prod.splits)
  then show "calls s' = calls s" and "config s' = config s"
    and "p2p_signer s' = p2p_signer s"
    by (simp_all add: s1_def s0_def)
qed

text \<open>Past the mute test.\<close>

lemma handle_request_delivers:
  assumes "byos e \<or> \<not> is_req_resp_muted (clk w 0) (peer_penalty_storage s) peer"
    and "request_envelope_ok e w s peer data m"
    and "(if byos e then (s, None) else score_req_resp_message w peer (MsgRequest (rq_message m)) s)
           = (s1, None)"
    and "\<not> message_stale (max_age_of (config s)) (unix_secs (clk w 6)) (rq_date m)"
  shows "handle_request e w peer channel data s = answer_request e w channel (rq_message m) s1"
proof -
  have "config s1 = config s"
    using assms(3) by (auto split: if_splits dest: score_req_resp_no_penalty)
  then show ?thesis
    using assms by (auto simp: handle_request_def check_request_envelope_verified [THEN iffD2])
qed

section \<open>Calls and settings\<close>

lemma score_req_resp_unscored [simp]: "unscored (fst (score_req_resp_message w peer msg s)) = unscored s"
proof -
  define s0 where "s0 = decay_request_response_score w (clk w 2) peer s"
  define s1 where "s1 = s0\<lparr>score_manager := update_req_resp_app_score peer
           (validate_msg (p2p_validator s0) msg
              (unwrap_or DEFAULT_REQ_RESP_APP_SCORE (get_req_resp_score (score_manager s0) peer)))
           (score_manager s0)\<rparr>"
  have "unscored s1 = unscored s" by (simp add: s1_def s0_def)
  then show ?thesis
    unfolding score_req_resp_eq [OF s0_def s1_def] by (simp add: Let_def split: option.split)
qed

lemma score_req_resp_extends:
  "P (DisconnectPeerId peer) \<Longrightarrow> extends P s (fst (score_req_resp_message w peer msg s))"
  using score_req_resp_calls [of w peer msg s] unscored_eqD(1) [OF score_req_resp_unscored]
  by (auto simp: extends_def)

lemma score_step_unscored:
  assumes "(if byos e then (s, None) else score_req_resp_message w peer msg s) = (s1, r)"
  shows "unscored s1 = unscored s"
  using assms score_req_resp_unscored [of w peer msg s] by (cases "byos e") simp_all

lemmas score_step_settings = score_step_unscored [THEN unscored_eqD(1)]

lemma score_step_extends:
  assumes "(if byos e then (s, None) else score_req_resp_message w peer msg s) = (s1, r)"
    and "P (DisconnectPeerId peer)"
  shows "extends P s s1"
  using assms score_req_resp_extends [of P peer s w msg] by (cases "byos e") simp_all

lemma send_signed_response_extends:
  assumes "\<And>m sm d. response_message_new (clk w 7) (own_public_key e s) response = Some m \<Longrightarrow>
      signed_message_new (response_codec e) (p2p_signer s) m = Inr sm \<Longrightarrow>
      signed_to_vec (response_codec e) sm = Some d \<Longrightarrow> P (SendResponse channel d)"
  shows "extends P s (fst (send_signed_response e w channel response s))"
  using assms by (auto simp: send_signed_response_def split: option.split sum.split)

text \<open>A response that is sent answers the request just delivered, signed with the node's own key.\<close>

definition own_response :: "env \<Rightarrow> world \<Rightarrow> p2p \<Rightarrow> bytes \<Rightarrow> bool" where
  "own_response e w s d \<longleftrightarrow>
     (\<exists>response m sm. app_response w = Responded response \<and>
        response_message_new (clk w 7) (own_public_key e s) response = Some m \<and>
        signed_message_new (response_codec e) (p2p_signer s) m = Inr sm \<and>
        signed_to_vec (response_codec e) sm = Some d)"

lemma own_response_settings: "settings s' = settings s \<Longrightarrow> own_response e w s' d = own_response e w s d"
  unfolding own_response_def using settings_eqD(2,7) [of s' s] by metis

lemma awaited_responded: "awaited_response w = Responded b \<Longrightarrow> app_response w = Responded b"
  by (simp add: awaited_response_def split: if_splits)

lemma answer_request_extends:
  assumes "P (SendReqRespEvent (ReceivedRequest request))"
    and "\<And>d. own_response e w s d \<Longrightarrow> P (SendResponse channel d)"
  shows "extends P s (fst (answer_request e w channel request s))"
proof -
  define s1 where "s1 = (if req_resp_send w = Sent
      then emit (SendReqRespEvent (ReceivedRequest request)) s else s)"
  have s1: "extends P s s1" using assms(1) by (auto simp: s1_def)
  have own: "own_response e w s1 d = own_response e w s d" for d
    by (rule own_response_settings) (simp add: s1_def)
  have "extends P s1 (fst (send_signed_response e w channel b s1))" if "awaited_response w = Responded b" for b
    using assms(2) [folded own] awaited_responded [OF that]
    by (intro send_signed_response_extends) (auto simp: own_response_def)
  with s1 have "extends P s (fst (send_signed_response e w channel b s1))"
    if "awaited_response w = Responded b" for b
    using that extends_trans by blast
  with s1 show ?thesis
    unfolding answer_request_def Let_def s1_def [symmetric] by (auto split: response_wait.split)
qed

lemma handle_request_extends:
  assumes "\<And>m. request_envelope_ok e w s peer data m \<Longrightarrow>
      byos e \<or> \<not> is_req_resp_muted (clk w 0) (peer_penalty_storage s) peer \<Longrightarrow>
      \<not> message_stale (max_age_of (config s)) (unix_secs (clk w 6)) (rq_date m) \<Longrightarrow>
      P (SendReqRespEvent (ReceivedRequest (rq_message m))) \<and>
      (\<forall>d. own_response e w s d \<longrightarrow> P (SendResponse channel d))"
    and "P (DisconnectPeerId peer)"
  shows "extends P s (fst (handle_request e w peer channel data s))"
proof (cases "\<not> byos e \<and> is_req_resp_muted (clk w 0) (peer_penalty_storage s) peer")
  case False
  show ?thesis
  proof (cases "check_request_envelope e w s peer data")
    case (RRVerified m)
    note ok = RRVerified [unfolded check_request_envelope_verified]
    obtain s1 r where sc:
      "(if byos e then (s, None) else score_req_resp_message w peer (MsgRequest (rq_message m)) s) = (s1, r)"
      by force
    note s1 = score_step_extends [OF sc, of P, OF assms(2)] and set1 = score_step_settings [OF sc]
    have "extends P s1 (fst (answer_request e w channel (rq_message m) s1))"
      if "\<not> message_stale (max_age_of (config s1)) (unix_secs (clk w 6)) (rq_date m)"
      using assms(1) [OF ok] False that settings_eqD(5) [OF set1] own_response_settings [OF set1]
      by (intro answer_request_extends) auto
    with s1 show ?thesis
      using False by (auto simp: handle_request_def RRVerified sc split: option.split intro: extends_trans)
  qed (use False in \<open>simp_all add: handle_request_def\<close>)
qed (simp add: handle_request_def)

lemma handle_response_extends:
  assumes "\<And>m. response_envelope_ok e w s peer data m \<Longrightarrow>
      byos e \<or> \<not> is_req_resp_muted (clk w 0) (peer_penalty_storage s) peer \<Longrightarrow>
      \<not> message_stale (max_age_of (config s)) (unix_secs (clk w 6)) (rs_date m) \<Longrightarrow>
      P (SendReqRespEvent (ReceivedResponse (rs_message m)))"
    and "P (DisconnectPeerId peer)"
  shows "extends P s (fst (handle_response e w peer data s))"
proof (cases "(\<not> byos e \<and> is_req_resp_muted (clk w 0) (peer_penalty_storage s) peer) \<or> data = []")
  case False
  show ?thesis
  proof (cases "check_response_envelope e w s peer data")
    case (RRVerified m)
    note ok = RRVerified [unfolded check_response_envelope_verified]
    obtain s1 r where sc:
      "(if byos e then (s, None) else score_req_resp_message w peer (MsgResponse (rs_message m)) s) = (s1, r)"
      by force
    note s1 = score_step_extends [OF sc, of P, OF assms(2)] and set1 = score_step_settings [OF sc]
    have "extends P s (emit (SendReqRespEvent (ReceivedResponse (rs_message m))) s1)"
      if "\<not> message_stale (max_age_of (config s1)) (unix_secs (clk w 6)) (rs_date m)"
      using assms(1) [OF ok] False that settings_eqD(5) [OF set1] s1 by auto
    with s1 show ?thesis
      using False
      by (auto simp: handle_response_def RRVerified sc split: option.split channel_send.split)
  qed (use False in \<open>simp_all add: handle_response_def\<close>)
qed (auto simp: handle_response_def)

lemma handle_request_response_command_extends:
  assumes "\<And>peer m sm d. request_target e s cmd = Some peer \<Longrightarrow> is_connected w peer \<Longrightarrow>
      request_message_new (clk w 0) (own_public_key e s) (rc_data cmd, peer) = Some m \<Longrightarrow>
      signed_message_new (request_codec e) (p2p_signer s) m = Inr sm \<Longrightarrow>
      signed_to_vec (request_codec e) sm = Some d \<Longrightarrow> P (SendRequest peer d)"
  shows "extends P s (fst (handle_request_response_command e w cmd s))"
  using assms by (auto simp: handle_request_response_command_def split: option.split sum.split)

lemma answer_request_unscored [simp]: "unscored (fst (answer_request e w channel b s)) = unscored s"
  by (simp add: answer_request_def send_signed_response_def Let_def
      split: response_wait.split option.split sum.split)

lemma handle_request_unscored [simp]: "unscored (fst (handle_request e w peer channel data s)) = unscored s"
proof -
  have sc: "unscored s1 = unscored s" if "score_req_resp_message w peer msg s = (s1, r)" for msg s1 r
    using score_req_resp_unscored [of w peer msg s] that by simp
  show ?thesis
    unfolding handle_request_def by (auto split: rr_verdict.split prod.split option.split dest: sc)
qed

lemma handle_response_unscored [simp]: "unscored (fst (handle_response e w peer data s)) = unscored s"
proof -
  have sc: "unscored s1 = unscored s" if "score_req_resp_message w peer msg s = (s1, r)" for msg s1 r
    using score_req_resp_unscored [of w peer msg s] that by simp
  show ?thesis
    unfolding handle_response_def
    by (auto split: rr_verdict.split prod.split option.split channel_send.split dest: sc)
qed

lemma handle_request_response_event_unscored [simp]:
  "unscored (fst (handle_request_response_event e w ev s)) = unscored s"
  by (simp add: handle_request_response_event_def handle_message_event_def
      split: request_response_event.split rr_message.split)

lemma handle_request_response_command_unscored [simp]:
  "unscored (fst (handle_request_response_command e w cmd s)) = unscored s"
  by (simp add: handle_request_response_command_def split: option.split sum.split)

section \<open>Properties\<close>

lemma example_request_ok:
  "request_envelope_ok (example_env b) example_world example_state (PeerId [1]) example_wire example_request"
  by (simp add: request_envelope_ok_def message_from_future_exact example_authentic)
    (simp add: example_request_def example_authentic not_future_def example_stored_key)


lemma example_response_ok:
  "response_envelope_ok (example_env b) example_world example_state (PeerId [1]) example_wire example_response"
  by (simp add: response_envelope_ok_def message_from_future_exact example_authentic)
    (simp add: example_response_def example_authentic not_future_def example_stored_key)

text \<open>The sender's side: what is sent decodes at the other end to an authentic envelope.\<close>

lemma sent_request_ok:
  assumes "handle_request_response_command eA wA cmd sA = (sA', Ok)"
    and "calls sA' = calls sA @ [SendRequest peer d]"
    and "request_codec eB = request_codec eA" and "keys eB = keys eA" and "codec_roundtrip (request_codec eA)"
    and "signer_matches (keys eA) (p2p_signer sA) (own_public_key eA sA)"
    and "local_peer_id wB = peer"
    and "byos eB \<longrightarrow> own_public_key eA sA \<in> app_allowlist sB \<and>
           get_app_public_key_by_transport_id (setup_state sB) from = Some (own_public_key eA sA)"
    and "skew_fits (clock_skew_of (config sB)) (unix_secs (clk wB 1))"
    and "not_future (clock_skew_of (config sB)) (unix_secs (clk wB 1)) (unix_secs (clk wA 0))"
  shows "\<exists>m. request_envelope_ok eB wB sB from d m \<and> rq_message m = rc_data cmd \<and>
             rq_date m = unix_secs (clk wA 0) \<and> request_target eA sA cmd = Some peer"
proof -
  obtain m sm where m: "request_message_new (clk wA 0) (own_public_key eA sA) (rc_data cmd, peer) = Some m"
    and sm: "signed_message_new (request_codec eA) (p2p_signer sA) m = Inr sm"
    and d: "signed_to_vec (request_codec eA) sm = Some d" and target: "request_target eA sA cmd = Some peer"
    using assms(1,2)
    by (auto simp: handle_request_response_command_def split: option.splits sum.splits if_splits)
  note new = request_type.signed_new_authentic [OF m sm assms(6)]
  have fields: "rq_protocol m = RequestResponse" "rq_version m = ReqRespV2" "rq_message m = rc_data cmd"
    "rq_destination_peer_id m = peer" "rq_public_key m = own_public_key eA sA"
    using m by (auto simp: request_message_new_def split: option.splits)
  have "request_envelope_ok eB wB sB from d m"
    unfolding request_envelope_ok_def message_from_future_exact [OF assms(9)]
    using new fields assms d by (auto simp: codec_roundtrip_def)
  with new fields target show ?thesis by auto
qed

lemma sent_response_ok:
  assumes "own_response eB wB sB d" and "app_response wB = Responded answer"
    and "response_codec eA = response_codec eB" and "keys eA = keys eB" and "codec_roundtrip (response_codec eB)"
    and "signer_matches (keys eB) (p2p_signer sB) (own_public_key eB sB)"
    and "byos eA \<longrightarrow> own_public_key eB sB \<in> app_allowlist sA \<and>
           get_app_public_key_by_transport_id (setup_state sA) peer = Some (own_public_key eB sB)"
    and "skew_fits (clock_skew_of (config sA)) (unix_secs (clk wA 1))"
    and "not_future (clock_skew_of (config sA)) (unix_secs (clk wA 1)) (unix_secs (clk wB 7))"
  shows "\<exists>m. response_envelope_ok eA wA sA peer d m \<and> rs_message m = answer \<and>
             rs_date m = unix_secs (clk wB 7)"
proof -
  obtain m sm where m: "response_message_new (clk wB 7) (own_public_key eB sB) answer = Some m"
    and sm: "signed_message_new (response_codec eB) (p2p_signer sB) m = Inr sm"
    and d: "signed_to_vec (response_codec eB) sm = Some d"
    using assms(1,2) by (auto simp: own_response_def)
  note new = response_type.signed_new_authentic [OF m sm assms(6)]
  have fields: "rs_protocol m = RequestResponse" "rs_version m = ReqRespV2" "rs_message m = answer"
    "rs_app_public_key m = own_public_key eB sB"
    using m by (auto simp: response_message_new_def split: option.splits)
  have "response_envelope_ok eA wA sA peer d m"
    unfolding response_envelope_ok_def message_from_future_exact [OF assms(8)]
    using new fields assms d by (auto simp: codec_roundtrip_def)
  with new fields show ?thesis by auto
qed

text \<open>C6: A request and its answer, end to end between two BYOS nodes that know each other's keys: the
  request sent by one is delivered to the application of the other, whose answer is signed, sent back
  on the channel of the request (whenever it can be encoded), and delivered unchanged to the first.\<close>

theorem request_response_end_to_end:
  assumes byos: "byos eA" "byos eB"
    and send: "handle_request_response_command eA wA cmd sA = (sA', Ok)"
      "calls sA' = calls sA @ [SendRequest peerB d]"
    and same: "request_codec eB = request_codec eA" "response_codec eB = response_codec eA" "keys eB = keys eA"
    and codecs: "codec_roundtrip (request_codec eA)" "codec_roundtrip (response_codec eA)"
    and signers: "signer_matches (keys eA) (p2p_signer sA) (own_public_key eA sA)"
      "signer_matches (keys eA) (p2p_signer sB) (own_public_key eB sB)"
    and answered: "own_response eB wB sB d'" "d' \<noteq> []"
    and known: "own_public_key eA sA \<in> app_allowlist sB" "own_public_key eB sB \<in> app_allowlist sA"
      "get_app_public_key_by_transport_id (setup_state sB) peerA = Some (own_public_key eA sA)"
      "get_app_public_key_by_transport_id (setup_state sA) peerB = Some (own_public_key eB sB)"
      "local_peer_id wB = peerB"
    and app: "req_resp_send wB = Sent" "app_response wB = Responded answer" "req_resp_send wA2 = Sent"
    and clocks: "skew_fits (clock_skew_of (config sB)) (unix_secs (clk wB 1))"
      "not_future (clock_skew_of (config sB)) (unix_secs (clk wB 1)) (unix_secs (clk wA 0))"
      "not_stale (max_age_of (config sB)) (unix_secs (clk wB 6)) (unix_secs (clk wA 0))"
      "skew_fits (clock_skew_of (config sA)) (unix_secs (clk wA2 1))"
      "not_future (clock_skew_of (config sA)) (unix_secs (clk wA2 1)) (unix_secs (clk wB 7))"
      "not_stale (max_age_of (config sA)) (unix_secs (clk wA2 6)) (unix_secs (clk wB 7))"
  shows "calls (fst (handle_request eB wB peerA channel d sB)) =
       calls sB @ [SendReqRespEvent (ReceivedRequest (rc_data cmd)), SendResponse channel d'] \<and>
     calls (fst (handle_response eA wA2 peerB d' sA)) =
       calls sA @ [SendReqRespEvent (ReceivedResponse answer)]"
proof -
  obtain m where m: "request_envelope_ok eB wB sB peerA d m" "rq_message m = rc_data cmd"
    "rq_date m = unix_secs (clk wA 0)"
    using sent_request_ok [OF send same(1,3) codecs(1) signers(1), of wB sB peerA] known clocks by auto
  have req: "handle_request eB wB peerA channel d sB = answer_request eB wB channel (rq_message m) sB"
    by (rule handle_request_delivers [OF _ m(1)]) (use byos m(3) clocks in \<open>simp_all add: message_stale_iff\<close>)
  define s1 where "s1 = emit (SendReqRespEvent (ReceivedRequest (rc_data cmd))) sB"
  obtain r sm where r: "response_message_new (clk wB 7) (own_public_key eB sB) answer = Some r"
    and sm: "signed_message_new (response_codec eA) (p2p_signer sB) r = Inr sm"
    and d': "signed_to_vec (response_codec eA) sm = Some d'"
    using answered(1) app(2) same(2) by (auto simp: own_response_def)
  have "own_public_key eB s1 = own_public_key eB sB" by (simp add: s1_def own_public_key_def)
  then have "calls (fst (handle_request eB wB peerA channel d sB)) =
      calls sB @ [SendReqRespEvent (ReceivedRequest (rc_data cmd)), SendResponse channel d']"
    using r sm d' same app by (simp add: req m(2) answer_request_def awaited_response_def
        send_signed_response_def s1_def)
  moreover obtain a where a: "response_envelope_ok eA wA2 sA peerB d' a" "rs_message a = answer"
    "rs_date a = unix_secs (clk wB 7)"
    using sent_response_ok [OF answered(1) app(2) same(2,3) [symmetric], of sA peerB wA2] codecs signers known clocks same
    by auto
  have "calls (fst (handle_response eA wA2 peerB d' sA)) =
      calls sA @ [SendReqRespEvent (ReceivedResponse answer)]"
    using a(1) [folded check_response_envelope_verified] a byos app answered(2) clocks
    by (simp add: handle_response_def message_stale_iff)
  ultimately show ?thesis by blast
qed

definition example_sender :: p2p where
  "example_sender = example_state\<lparr>setup_state :=
     on_connection_handler_event (PeerId [2]) 0 (HandlerAppKeyReceived (PublicKey [5])) example_setup\<rparr>"

lemma example_request_sent:
  "handle_request_response_command (example_env True) example_world
     \<lparr>rc_target_app_public_key = PublicKey [5], rc_target_transport_id = PeerId [], rc_data = [43]\<rparr>
     example_sender = (emit (SendRequest (PeerId [2]) example_wire) example_sender, Ok)"
proof -
  have "request_message_new 1000000000000 (PublicKey [5]) ([43], PeerId [2]) = Some example_request"
    by (simp add: request_message_new_def get_timestamp_eq example_request_def)
  moreover have "request_target (example_env True) example_sender
      \<lparr>rc_target_app_public_key = PublicKey [5], rc_target_transport_id = PeerId [], rc_data = [43]\<rparr> =
      Some (PeerId [2])"
    by (simp add: request_target_def example_sender_def setup_directory.learn_lookup)
  moreover have "own_public_key (example_env True) example_sender = PublicKey [5]"
    by (simp add: example_sender_def own_public_key_def example_config_def)
  ultimately show ?thesis
    by (simp add: handle_request_response_command_def) (simp add: example_sender_def)
qed

lemma example_answer: "own_response (example_env True) example_world example_state example_wire"
proof -
  have "response_message_new 1000000000000 (PublicKey [5]) [44] = Some example_response"
    by (simp add: response_message_new_def get_timestamp_eq example_response_def)
  then show ?thesis by (simp add: own_response_def)
qed

theorem request_response_end_to_end_witness:
  "calls (fst (handle_request (example_env True) example_world (PeerId [1]) 3 example_wire example_state)) =
     [SendReqRespEvent (ReceivedRequest [43]), SendResponse 3 example_wire] \<and>
   calls (fst (handle_response (example_env True) example_world (PeerId [2]) example_wire example_sender)) =
     [SendReqRespEvent (ReceivedResponse [44])]"
proof -
  have s: "own_public_key (example_env True) example_sender = PublicKey [5]"
    "config example_sender = example_config" "p2p_signer example_sender = example_sign (PublicKey [5])"
    "app_allowlist example_sender = {PublicKey [5]}" "calls example_sender = []"
    "get_app_public_key_by_transport_id (setup_state example_sender) (PeerId [2]) = Some (PublicKey [5])"
    by (simp_all add: example_sender_def own_public_key_def setup_directory.learn_lookup)
      (simp add: example_config_def)
  have w: "example_wire \<noteq> []" by (simp add: example_wire_def)
  have win: "not_future 0 1000 1000" "not_stale 300000000000 1000 1000"
    using example_in_window by (simp_all add: in_window_def)
  show ?thesis
    using request_response_end_to_end [where eA = "example_env True" and eB = "example_env True", OF _ _
        example_request_sent, of "PeerId [2]" example_wire example_state example_world example_wire
        "PeerId [1]" "[44]" example_world 3]
    by (simp add: s w win example_codec_roundtrip example_signer_matches example_answer example_stored_key)
qed

end
