(* ===== verification/Swarm_Kad.thy ===== *)
theory Swarm_Kad
  imports P2P_Examples
begin

text \<open>
  The DHT half of the event loop: publishing the node's own record, looking up the record of
  another node, and the checks on records other nodes want stored. A record's value is a signed
  \<^verbatim>\<open>RecordData\<close>, its key the byte form of the public key (BYOS) or of the peer id it belongs to.
  Clock reading 0 is the only one of each handler.
\<close>

section \<open>Looking up and publishing\<close>

definition record_key :: "env \<Rightarrow> public_key \<Rightarrow> peer_id \<Rightarrow> bytes" where
  "record_key e app_public_key transport_id =
     (if byos e then pk_encode_protobuf (keys e) app_public_key
      else pid_to_bytes (keys e) transport_id)"

definition ask_kademlia_get_record :: "env \<Rightarrow> world \<Rightarrow> public_key \<Rightarrow> peer_id \<Rightarrow> p2p \<Rightarrow> p2p" where
  "ask_kademlia_get_record e w app_public_key transport_id s =
     (let s1 = emit (KadGetRecord (record_key e app_public_key transport_id)) s
      in s1\<lparr>kademlia_map_received_records :=
              (kademlia_map_received_records s1)(get_record_query w \<mapsto> [])\<rparr>)"

text \<open>The \<^verbatim>\<open>unwrap\<close> of the encoding of an envelope that was just signed may panic.\<close>

definition ask_kademlia_put_record :: "env \<Rightarrow> world \<Rightarrow> p2p \<Rightarrow> p2p \<times> status" where
  "ask_kademlia_put_record e w s =
     (case record_data_new (clk w 0) (own_public_key e s) (external_addresses w) of
        None \<Rightarrow> (s, Panicked)
      | Some data \<Rightarrow>
          (case signed_message_new (record_codec e) (p2p_signer s) data of
             Inl _ \<Rightarrow> (s, Ok)
           | Inr signed_record_data \<Rightarrow>
               (case signed_to_vec (record_codec e) signed_record_data of
                  None \<Rightarrow> (s, Panicked)
                | Some v \<Rightarrow>
                    (emit (KadPutRecord
                       \<lparr>kr_key = record_key e (cfg_app_public_key (config s))
                                  (pk_to_peer_id (keys e) (kp_public (transport_keypair (config s)))),
                        kr_value = v\<rparr>) s, Ok))))"

text \<open>\<^verbatim>\<open>Iterator::max_by\<close> on the date: of several latest records the last one wins.\<close>

primrec max_by_date ::
  "record_data signed_message \<Rightarrow> record_data signed_message list \<Rightarrow> record_data signed_message" where
  "max_by_date x [] = x"
| "max_by_date x (y # ys) =
     max_by_date (if rd_date (sm_message x) > rd_date (sm_message y) then x else y) ys"

definition finish_looking_for_dht_record :: "query_id \<Rightarrow> p2p \<Rightarrow> p2p" where
  "finish_looking_for_dht_record qid s =
     (case kademlia_map_received_records s qid of
        None \<Rightarrow> s
      | Some records \<Rightarrow>
          (let result = (case records of
                 [] \<Rightarrow> None
               | x # xs \<Rightarrow> Some (rd_multiaddresses (sm_message (max_by_date x xs))));
               s1 = emit (SendCommandEvent (ResultFindMultiaddress result)) s
           in s1\<lparr>kademlia_map_received_records := (kademlia_map_received_records s1)(qid := None)\<rparr>))"

section \<open>Checks on received records\<close>

datatype record_date_error = DateIsMax | TimeWentBackwards | RecordFromFuture | RecordTooOld

text \<open>\<^term>\<open>None\<close> is the panic of the overflowing addition.\<close>

definition validate_record_date ::
  "bool \<Rightarrow> p2p_config \<Rightarrow> system_time \<Rightarrow> u64 \<Rightarrow> (record_date_error + unit) option" where
  "validate_record_date oc cfg now date =
     (if date = - 1 then Some (Inl DateIsMax)
      else (case duration_since now 0 of
          None \<Rightarrow> Some (Inl TimeWentBackwards)
        | Some d \<Rightarrow>
            (let now_secs = as_secs d; max_clock_skew = clock_skew_of cfg; max_age = max_age_of cfg
             in (case u64_add oc now_secs (as_secs max_clock_skew) of
                   None \<Rightarrow> None
                 | Some limit \<Rightarrow>
                     if date > limit then Some (Inl RecordFromFuture)
                     else if saturating_sub now_secs date > as_secs max_age
                     then Some (Inl RecordTooOld)
                     else Some (Inr ())))))"

datatype record_reject =
    RecordEmpty | RecordBadEncoding | RecordVerifyError | RecordBadSignature
  | RecordBadDate record_date_error | RecordBadKey | RecordKeyMismatch | RecordNotNewer
  | RecordUnknownQuery

datatype record_verdict =
    RecordRejected record_reject | RecordPanic | RecordAccepted "record_data signed_message"

definition check_record_key :: "env \<Rightarrow> bytes \<Rightarrow> record_data \<Rightarrow> record_reject option" where
  "check_record_key e key m =
     (if byos e
      then (case pk_try_decode_protobuf (keys e) key of
              None \<Rightarrow> Some RecordBadKey
            | Some k \<Rightarrow> if rd_public_key m \<noteq> k then Some RecordKeyMismatch else None)
      else (case pid_from_bytes (keys e) key of
              None \<Rightarrow> Some RecordBadKey
            | Some p \<Rightarrow>
                if pk_to_peer_id (keys e) (rd_public_key m) \<noteq> p then Some RecordKeyMismatch else None))"

definition check_record_signature :: "env \<Rightarrow> record_data signed_message \<Rightarrow> record_reject option" where
  "check_record_signature e sm =
     (case signed_message_verify (record_codec e) (keys e) rd_public_key sm of
        Inl _ \<Rightarrow> Some RecordVerifyError
      | Inr is_valid \<Rightarrow> if \<not> is_valid then Some RecordBadSignature else None)"

text \<open>The replay test: the record already stored under the key, if it decodes, must be older.\<close>

definition check_record_newer :: "env \<Rightarrow> world \<Rightarrow> bytes \<Rightarrow> record_data \<Rightarrow> record_reject option" where
  "check_record_newer e w key m =
     (case store_get w key of
        None \<Rightarrow> None
      | Some existing_record \<Rightarrow>
          (case signed_from_slice (record_codec e) (kr_value existing_record) of
             Some existing_signed_record \<Rightarrow>
               if rd_date m \<le> rd_date (sm_message existing_signed_record)
               then Some RecordNotNewer else None
           | None \<Rightarrow> None))"

definition check_inbound_record :: "env \<Rightarrow> world \<Rightarrow> p2p \<Rightarrow> kad_record \<Rightarrow> record_verdict" where
  "check_inbound_record e w s record_data =
     (case signed_from_slice (record_codec e) (kr_value record_data) of
        None \<Rightarrow> RecordRejected RecordBadEncoding
      | Some signed_record \<Rightarrow>
          (case check_record_signature e signed_record of
             Some r \<Rightarrow> RecordRejected r
           | None \<Rightarrow>
               (case validate_record_date (overflow_checks e) (config s) (clk w 0)
                       (rd_date (sm_message signed_record)) of
                  None \<Rightarrow> RecordPanic
                | Some (Inl error) \<Rightarrow> RecordRejected (RecordBadDate error)
                | Some (Inr _) \<Rightarrow>
                    (case check_record_key e (kr_key record_data) (sm_message signed_record) of
                       Some r \<Rightarrow> RecordRejected r
                     | None \<Rightarrow>
                         (case check_record_newer e w (kr_key record_data) (sm_message signed_record) of
                            Some r \<Rightarrow> RecordRejected r
                          | None \<Rightarrow> RecordAccepted signed_record)))))"

definition check_found_record :: "env \<Rightarrow> world \<Rightarrow> p2p \<Rightarrow> query_id \<Rightarrow> kad_record \<Rightarrow> record_verdict" where
  "check_found_record e w s qid record =
     (if kademlia_map_received_records s qid = None then RecordRejected RecordUnknownQuery
      else (case signed_from_slice (record_codec e) (kr_value record) of
        None \<Rightarrow> RecordRejected RecordBadEncoding
      | Some signed_record \<Rightarrow>
          (case check_record_key e (kr_key record) (sm_message signed_record) of
             Some r \<Rightarrow> RecordRejected r
           | None \<Rightarrow>
               (case check_record_signature e signed_record of
                  Some r \<Rightarrow> RecordRejected r
                | None \<Rightarrow>
                    (case validate_record_date (overflow_checks e) (config s) (clk w 0)
                            (rd_date (sm_message signed_record)) of
                       None \<Rightarrow> RecordPanic
                     | Some (Inl error) \<Rightarrow> RecordRejected (RecordBadDate error)
                     | Some (Inr _) \<Rightarrow> RecordAccepted signed_record)))))"

section \<open>The handler\<close>

datatype query_result =
    FoundRecord kad_record
  | FinishedWithNoAdditionalRecord
  | GetRecordTimeout
  | GetRecordNotFound
  | PutRecordOk
  | PutRecordTimeout
  | PutRecordQuorumFailed
  | OtherQueryResult

datatype kademlia_event =
    InboundPutRecord "kad_record option"
  | OutboundQueryProgressed query_id query_result
  | RoutingUpdated
  | OtherKademliaEvent

definition handle_inbound_put_record :: "env \<Rightarrow> world \<Rightarrow> kad_record option \<Rightarrow> p2p \<Rightarrow> p2p \<times> status" where
  "handle_inbound_put_record e w opt_record s =
     (case opt_record of
        None \<Rightarrow> (s, Ok)
      | Some record_data \<Rightarrow>
          (case check_inbound_record e w s record_data of
             RecordRejected _ \<Rightarrow> (s, Ok)
           | RecordPanic \<Rightarrow> (s, Panicked)
           | RecordAccepted _ \<Rightarrow> (emit (StorePut record_data) s, Ok)))"

definition handle_found_record :: "env \<Rightarrow> world \<Rightarrow> query_id \<Rightarrow> kad_record \<Rightarrow> p2p \<Rightarrow> p2p \<times> status" where
  "handle_found_record e w qid record s =
     (case check_found_record e w s qid record of
        RecordRejected _ \<Rightarrow> (s, Ok)
      | RecordPanic \<Rightarrow> (s, Panicked)
      | RecordAccepted signed_record \<Rightarrow>
          (case kademlia_map_received_records s qid of
             None \<Rightarrow> (s, Panicked)
           | Some vec_records \<Rightarrow>
               (s\<lparr>kademlia_map_received_records :=
                    (kademlia_map_received_records s)(qid \<mapsto> vec_records @ [signed_record])\<rparr>, Ok)))"

definition handle_kademlia_event :: "env \<Rightarrow> world \<Rightarrow> kademlia_event \<Rightarrow> p2p \<Rightarrow> p2p \<times> status" where
  "handle_kademlia_event e w event s =
     (case event of
        InboundPutRecord opt_record \<Rightarrow> handle_inbound_put_record e w opt_record s
      | OutboundQueryProgressed qid result \<Rightarrow>
          (case result of
             FoundRecord record \<Rightarrow> handle_found_record e w qid record s
           | FinishedWithNoAdditionalRecord \<Rightarrow> (finish_looking_for_dht_record qid s, Ok)
           | GetRecordTimeout \<Rightarrow> (finish_looking_for_dht_record qid s, Ok)
           | GetRecordNotFound \<Rightarrow> (finish_looking_for_dht_record qid s, Ok)
           | PutRecordOk \<Rightarrow>
               (emit (RepublishAfter (unwrap_or DEFAULT_KAD_RECORD_TTL (kad_record_ttl (config s)))) s, Ok)
           | PutRecordTimeout \<Rightarrow>
               (emit (RepublishAfter (unwrap_or DEFAULT_KAD_TIMER_PUT_RECORD_ERROR
                  (kad_timer_putrecorderror (config s)))) s, Ok)
           | PutRecordQuorumFailed \<Rightarrow>
               (emit (RepublishAfter (unwrap_or DEFAULT_KAD_TIMER_PUT_RECORD_ERROR
                  (kad_timer_putrecorderror (config s)))) s, Ok)
           | OtherQueryResult \<Rightarrow> (s, Ok))
      | RoutingUpdated \<Rightarrow>
          (if kademlia_is_routing_updated_first_time s
           then (emit RepublishNow (s\<lparr>kademlia_is_routing_updated_first_time := False\<rparr>), Ok)
           else (s, Ok))
      | OtherKademliaEvent \<Rightarrow> (s, Ok))"

section \<open>The date test\<close>

definition record_date_accepts :: "duration \<Rightarrow> duration \<Rightarrow> u64 \<Rightarrow> u64 \<Rightarrow> bool" where
  "record_date_accepts skew age now date \<longleftrightarrow>
     date \<noteq> - 1 \<and> (case u64_add False now (as_secs skew) of None \<Rightarrow> False | Some l \<Rightarrow> \<not> date > l) \<and>
     \<not> saturating_sub now date > as_secs age"

lemma record_date_window:
  assumes "skew_fits skew now" and "valid_duration age"
  shows "record_date_accepts skew age now date \<longleftrightarrow> date \<noteq> - 1 \<and> in_window skew age now date"
proof -
  have "unat now + unat (as_secs skew) < 2 ^ 64"
    using assms(1) skew_fits_valid [OF assms(1)] by (simp add: skew_fits_def unat_as_secs)
  then have "unat (now + as_secs skew) = unat now + skew div nanos_per_sec"
    using skew_fits_valid [OF assms(1)] by (simp add: unat_u64_add_exact unat_as_secs)
  then show ?thesis
    using assms(2)
    by (auto simp: record_date_accepts_def u64_add_release p2p_time in_window_def not_future_def
        not_stale_def)
qed

interpretation record_freshness: freshness_check record_date_accepts
  by unfold_locales (simp add: record_date_window)

lemma validate_record_date_ok:
  assumes "skew_fits (clock_skew_of cfg) (unix_secs now)" and "valid_duration (max_age_of cfg)"
  shows "validate_record_date oc cfg now date = Some (Inr ()) \<longleftrightarrow>
     0 \<le> now \<and> date \<noteq> - 1 \<and>
     in_window (clock_skew_of cfg) (max_age_of cfg) (unix_secs now) date"
proof -
  have "unat (unix_secs now) + unat (as_secs (clock_skew_of cfg)) < 2 ^ 64"
    using assms(1) skew_fits_valid [OF assms(1)] by (simp add: skew_fits_def unat_as_secs)
  then have add: "u64_add oc (unix_secs now) (as_secs (clock_skew_of cfg)) =
      u64_add False (unix_secs now) (as_secs (clock_skew_of cfg))"
    by (simp add: u64_add_exact)
  have "validate_record_date oc cfg now date = Some (Inr ()) \<longleftrightarrow>
     0 \<le> now \<and> record_date_accepts (clock_skew_of cfg) (max_age_of cfg) (unix_secs now) date"
    using add
    by (auto simp: validate_record_date_def record_date_accepts_def duration_since_def unix_secs_def
        Let_def u64_add_release split: if_splits option.splits)
  then show ?thesis using record_date_window [OF assms] by simp
qed

section \<open>What is accepted\<close>

lemma check_record_signature_None:
  "check_record_signature e sm = None \<longleftrightarrow> authentic (record_codec e) (keys e) rd_public_key sm"
  by (auto simp: check_record_signature_def signed_message_verify_def authentic_def
      split: option.splits)

definition record_key_belongs :: "env \<Rightarrow> bytes \<Rightarrow> public_key \<Rightarrow> bool" where
  "record_key_belongs e key k \<longleftrightarrow>
     (if byos e then pk_try_decode_protobuf (keys e) key = Some k
      else pid_from_bytes (keys e) key = Some (pk_to_peer_id (keys e) k))"

lemma check_record_key_None:
  "check_record_key e key m = None \<longleftrightarrow> record_key_belongs e key (rd_public_key m)"
  by (auto simp: check_record_key_def record_key_belongs_def split: option.splits)

lemma check_record_newer_None:
  "check_record_newer e w key m = None \<longleftrightarrow>
     (\<forall>old osm. store_get w key = Some old \<longrightarrow>
        signed_from_slice (record_codec e) (kr_value old) = Some osm \<longrightarrow>
        rd_date (sm_message osm) < rd_date m)"
  by (auto simp: check_record_newer_def not_le split: option.splits)

lemma check_inbound_record_accepts:
  "check_inbound_record e w s r = RecordAccepted sm \<longleftrightarrow>
     signed_from_slice (record_codec e) (kr_value r) = Some sm \<and>
     authentic (record_codec e) (keys e) rd_public_key sm \<and>
     validate_record_date (overflow_checks e) (config s) (clk w 0) (rd_date (sm_message sm))
       = Some (Inr ()) \<and>
     record_key_belongs e (kr_key r) (rd_public_key (sm_message sm)) \<and>
     check_record_newer e w (kr_key r) (sm_message sm) = None"
  unfolding check_record_signature_None [symmetric] check_record_key_None [symmetric]
  by (auto simp: check_inbound_record_def split: option.splits sum.splits)

lemma check_found_record_accepts:
  "check_found_record e w s qid r = RecordAccepted sm \<longleftrightarrow>
     kademlia_map_received_records s qid \<noteq> None \<and>
     signed_from_slice (record_codec e) (kr_value r) = Some sm \<and>
     authentic (record_codec e) (keys e) rd_public_key sm \<and>
     validate_record_date (overflow_checks e) (config s) (clk w 0) (rd_date (sm_message sm))
       = Some (Inr ()) \<and>
     record_key_belongs e (kr_key r) (rd_public_key (sm_message sm))"
  unfolding check_record_signature_None [symmetric] check_record_key_None [symmetric]
  by (auto simp: check_found_record_def split: option.splits sum.splits)

lemma max_by_date_in: "max_by_date x xs \<in> set (x # xs)"
proof (induction xs arbitrary: x)
  case (Cons z zs)
  show ?case
    using Cons.IH [of x] Cons.IH [of z] by auto
qed simp

lemma max_by_date_max:
  "y \<in> set (x # xs) \<Longrightarrow> rd_date (sm_message y) \<le> rd_date (sm_message (max_by_date x xs))"
proof (induction xs arbitrary: x y)
  case (Cons z zs)
  let ?m = "if rd_date (sm_message x) > rd_date (sm_message z) then x else z"
  have m: "rd_date (sm_message ?m) \<le> rd_date (sm_message (max_by_date ?m zs))"
    by (rule Cons.IH) simp
  have "rd_date (sm_message x) \<le> rd_date (sm_message ?m)"
    and "rd_date (sm_message z) \<le> rd_date (sm_message ?m)" by auto
  with m Cons.IH [of y ?m] Cons.prems show ?case by auto
qed simp

text \<open>The chosen record is the last one of the latest date.\<close>

lemma max_by_date_split:
  "\<exists>before best after. x # xs = before @ best # after \<and> max_by_date x xs = best \<and>
     (\<forall>y \<in> set before. rd_date (sm_message y) \<le> rd_date (sm_message best)) \<and>
     (\<forall>y \<in> set after. rd_date (sm_message y) < rd_date (sm_message best))"
  (is "\<exists>before best after. ?split x xs before best after")
proof (induction xs arbitrary: x)
  case Nil
  show ?case by (rule exI [of _ "[]"]) simp
next
  case (Cons y ys)
  show ?case
  proof (cases "rd_date (sm_message x) > rd_date (sm_message y)")
    case True
    obtain before best after where b: "?split x ys before best after"
      using Cons.IH [of x] by blast
    show ?thesis
    proof (cases before)
      case Nil
      with b True have "?split x (y # ys) [] best (y # after)" by auto
      then show ?thesis by blast
    next
      case (Cons z zs)
      with b True have "?split x (y # ys) (x # y # zs) best after" by auto
      then show ?thesis by blast
    qed
  next
    case False
    obtain before best after where b: "?split y ys before best after"
      using Cons.IH [of y] by blast
    have "max_by_date x (y # ys) = max_by_date y ys" using False by simp
    with b have m: "max_by_date x (y # ys) = best" by (simp only:)
    have "rd_date (sm_message x) \<le> rd_date (sm_message best)"
      using max_by_date_max [OF list.set_intros(1), of x "y # ys"] by (simp only: m)
    with b have "\<forall>z \<in> set (x # before). rd_date (sm_message z) \<le> rd_date (sm_message best)" by simp
    moreover from b have "x # y # ys = (x # before) @ best # after" by simp
    ultimately show ?thesis using m b by blast
  qed
qed

section \<open>Calls and settings\<close>

lemma ask_kademlia_put_record_extends:
  assumes "\<And>r. P (KadPutRecord r)"
  shows "extends P s (fst (ask_kademlia_put_record e w s))"
  using assms by (auto simp: ask_kademlia_put_record_def split: option.split sum.split)

lemma ask_kademlia_get_record_extends:
  assumes "\<And>k. P (KadGetRecord k)"
  shows "extends P s (ask_kademlia_get_record e w k p s)"
  using assms by (auto simp: ask_kademlia_get_record_def Let_def extends_def)

lemma finish_looking_extends:
  assumes "\<And>r. P (SendCommandEvent r)"
  shows "extends P s (finish_looking_for_dht_record qid s)"
  using assms by (auto simp: finish_looking_for_dht_record_def Let_def extends_def split: option.split)

lemma handle_kademlia_event_extends:
  assumes "\<And>r sm. event = InboundPutRecord (Some r) \<Longrightarrow>
      check_inbound_record e w s r = RecordAccepted sm \<Longrightarrow> P (StorePut r)"
    and "\<And>r. P (SendCommandEvent r)" and "\<And>d. P (RepublishAfter d)" and "P RepublishNow"
  shows "extends P s (fst (handle_kademlia_event e w event s))"
proof -
  have put: "extends P s (fst (handle_inbound_put_record e w o' s))" if "event = InboundPutRecord o'" for o'
    using assms(1) that by (auto simp: handle_inbound_put_record_def split: option.split record_verdict.split)
  have found: "extends P s (fst (handle_found_record e w qid r s))" for qid r
    by (auto simp: handle_found_record_def extends_def split: option.split record_verdict.split)
  have upd: "extends P s (emit RepublishNow (s\<lparr>kademlia_is_routing_updated_first_time := False\<rparr>))"
    using assms(4) by (auto simp: extends_def)
  show ?thesis
    unfolding handle_kademlia_event_def
    using put found finish_looking_extends [of P, OF assms(2)] upd assms(3)
    by (auto split: kademlia_event.split query_result.split)
qed

section \<open>Properties\<close>

text \<open>C28: The four places that test a date agree: as long as the clock skew fits, the handshake, the
  message handlers and the DHT handler accept the same dates (the DHT handler excepts the largest
  \<^verbatim>\<open>u64\<close>).\<close>

theorem date_checks_agree:
  assumes "skew_fits (clock_skew_of cfg) (unix_secs now)" and "valid_duration (max_age_of cfg)"
    and "0 \<le> now" and "date \<noteq> - 1"
  shows "(setup_date_check (clock_skew_of cfg) (max_age_of cfg) (unix_secs now) date = None \<longleftrightarrow>
            message_from_future oc (clock_skew_of cfg) (unix_secs now) date = Some False \<and>
            \<not> message_stale (max_age_of cfg) (unix_secs now) date) \<and>
         (validate_record_date oc cfg now date = Some (Inr ()) \<longleftrightarrow>
            message_from_future oc (clock_skew_of cfg) (unix_secs now) date = Some False \<and>
            \<not> message_stale (max_age_of cfg) (unix_secs now) date)"
  using validate_record_date_ok [OF assms(1,2)] assms(3,4)
  by (simp add: setup_date_check_window message_from_future_exact [OF assms(1)] message_stale_iff
      in_window_def)

theorem date_checks_agree_witness:
  "setup_date_check (clock_skew_of example_config) (max_age_of example_config) (unix_secs 1000000000000) 700 = None \<and>
   validate_record_date True example_config 1000000000000 700 = Some (Inr ())"
  using date_checks_agree [of example_config 1000000000000 700 True]
  by (simp add: valid_duration_def message_from_future_exact message_stale_iff not_future_def not_stale_def)

text \<open>The record a node publishes about itself: its key, its addresses and the date of publication.\<close>

definition own_record :: "env \<Rightarrow> world \<Rightarrow> p2p \<Rightarrow> kad_record \<Rightarrow> record_data signed_message \<Rightarrow> bool" where
  "own_record e w s r sm \<longleftrightarrow>
     signed_from_slice (record_codec e) (kr_value r) = Some sm \<and>
     authentic (record_codec e) (keys e) rd_public_key sm \<and>
     rd_public_key (sm_message sm) = own_public_key e s \<and>
     rd_multiaddresses (sm_message sm) = external_addresses w \<and>
     rd_date (sm_message sm) = unix_secs (clk w 0) \<and>
     kr_key r = record_key e (cfg_app_public_key (config s))
                  (pk_to_peer_id (keys e) (kp_public (transport_keypair (config s))))"

lemma published_own_record:
  assumes "ask_kademlia_put_record e w s = (s', Ok)" and "calls s' = calls s @ [KadPutRecord r]"
    and "codec_roundtrip (record_codec e)" and "signer_matches (keys e) (p2p_signer s) (own_public_key e s)"
  obtains sm where "own_record e w s r sm"
proof -
  obtain m sm where m: "record_data_new (clk w 0) (own_public_key e s) (external_addresses w) = Some m"
    and sm: "signed_message_new (record_codec e) (p2p_signer s) m = Inr sm"
    and v: "signed_to_vec (record_codec e) sm = Some (kr_value r)"
    and k: "kr_key r = record_key e (cfg_app_public_key (config s))
              (pk_to_peer_id (keys e) (kp_public (transport_keypair (config s))))"
    using assms(1,2) by (auto simp: ask_kademlia_put_record_def split: option.splits sum.splits)
  have "rd_public_key m = own_public_key e s" "rd_multiaddresses m = external_addresses w"
    using m by (auto simp: record_data_new_def split: option.splits)
  moreover have "signed_from_slice (record_codec e) (kr_value r) = Some sm"
    using assms(3) v by (simp add: codec_roundtrip_def)
  ultimately show thesis
    using that [of sm] record_type.signed_new_authentic [OF m sm assms(4)] k by (simp add: own_record_def)
qed

lemma own_record_stored:
  assumes "own_record eA wA sA r sm"
    and "record_codec eB = record_codec eA" and "keys eB = keys eA" and "byos eB = byos eA"
    and "key_encoding_lawful (keys eA)"
    and "skew_fits (clock_skew_of (config sB)) (unix_secs (clk wB 0))"
    and "valid_duration (max_age_of (config sB))" and "0 \<le> clk wB 0" and "unix_secs (clk wA 0) \<noteq> - 1"
    and "in_window (clock_skew_of (config sB)) (max_age_of (config sB)) (unix_secs (clk wB 0))
           (unix_secs (clk wA 0))"
    and "\<forall>old osm. store_get wB (kr_key r) = Some old \<longrightarrow>
           signed_from_slice (record_codec eA) (kr_value old) = Some osm \<longrightarrow>
           rd_date (sm_message osm) < unix_secs (clk wA 0)"
  shows "handle_kademlia_event eB wB (InboundPutRecord (Some r)) sB = (emit (StorePut r) sB, Ok)"
proof -
  have "record_key_belongs eB (kr_key r) (rd_public_key (sm_message sm))"
    using assms(1-5)
    by (auto simp: own_record_def record_key_belongs_def record_key_def own_public_key_def key_encoding_lawful_def)
  then have "check_inbound_record eB wB sB r = RecordAccepted sm"
    using assms validate_record_date_ok [OF assms(6,7)]
    by (simp add: own_record_def check_inbound_record_accepts check_record_newer_None)
  then show ?thesis by (simp add: handle_kademlia_event_def handle_inbound_put_record_def)
qed

text \<open>Publishing succeeds when the clock, the signer and the encoding do.\<close>

definition can_publish :: "env \<Rightarrow> world \<Rightarrow> p2p \<Rightarrow> bool" where
  "can_publish e w s \<longleftrightarrow> 0 \<le> clk w 0 \<and>
     (\<forall>m. record_data_new (clk w 0) (own_public_key e s) (external_addresses w) = Some m \<longrightarrow>
        (\<exists>sm v. signed_message_new (record_codec e) (p2p_signer s) m = Inr sm \<and>
           signed_to_vec (record_codec e) sm = Some v))"

lemma ask_kademlia_put_record_publishes:
  assumes "can_publish e w s"
  obtains r where "ask_kademlia_put_record e w s = (emit (KadPutRecord r) s, Ok)"
proof -
  obtain m where m: "record_data_new (clk w 0) (own_public_key e s) (external_addresses w) = Some m"
    using assms record_type.new_total unfolding can_publish_def by blast
  with assms obtain sm v where "signed_message_new (record_codec e) (p2p_signer s) m = Inr sm"
    "signed_to_vec (record_codec e) sm = Some v"
    unfolding can_publish_def by blast
  with m that show thesis by (simp add: ask_kademlia_put_record_def)
qed

text \<open>C30: The record a node publishes about itself is accepted by the DHT handler of every node that
  uses the same encoding, reads a clock within the window and holds no record of the same or a later
  date for that key; it then contains the publisher's addresses.\<close>

theorem own_record_accepted:
  assumes "ask_kademlia_put_record eA wA sA = (sA', Ok)" and "calls sA' = calls sA @ [KadPutRecord r]"
    and "record_codec eB = record_codec eA" and "keys eB = keys eA" and "byos eB = byos eA"
    and "codec_roundtrip (record_codec eA)" and "key_encoding_lawful (keys eA)"
    and "signer_matches (keys eA) (p2p_signer sA) (own_public_key eA sA)"
    and "skew_fits (clock_skew_of (config sB)) (unix_secs (clk wB 0))"
    and "valid_duration (max_age_of (config sB))" and "0 \<le> clk wB 0" and "unix_secs (clk wA 0) \<noteq> - 1"
    and "in_window (clock_skew_of (config sB)) (max_age_of (config sB)) (unix_secs (clk wB 0))
           (unix_secs (clk wA 0))"
    and "\<forall>old osm. store_get wB (kr_key r) = Some old \<longrightarrow>
           signed_from_slice (record_codec eA) (kr_value old) = Some osm \<longrightarrow>
           rd_date (sm_message osm) < unix_secs (clk wA 0)"
  shows "handle_kademlia_event eB wB (InboundPutRecord (Some r)) sB = (emit (StorePut r) sB, Ok) \<and>
     (\<exists>sm. signed_from_slice (record_codec eA) (kr_value r) = Some sm \<and>
        rd_multiaddresses (sm_message sm) = external_addresses wA \<and>
        rd_public_key (sm_message sm) = own_public_key eA sA)"
proof -
  obtain sm where own: "own_record eA wA sA r sm" by (rule published_own_record [OF assms(1,2,6,8)])
  then have "\<exists>sm. signed_from_slice (record_codec eA) (kr_value r) = Some sm \<and>
      rd_multiaddresses (sm_message sm) = external_addresses wA \<and>
      rd_public_key (sm_message sm) = own_public_key eA sA"
    unfolding own_record_def by blast
  with own_record_stored [OF own assms(3-5,7,9-14)] show ?thesis by simp
qed

lemma example_record_published:
  "ask_kademlia_put_record (example_env b) example_world example_state =
     (emit (KadPutRecord \<lparr>kr_key = [5], kr_value = example_wire\<rparr>) example_state, Ok)"
proof -
  have "record_data_new 1000000000000 (PublicKey [5]) [Multiaddr [8]] = Some example_record"
    by (simp add: record_data_new_def get_timestamp_eq example_record_def)
  then show ?thesis
    by (simp add: ask_kademlia_put_record_def)
      (simp add: record_key_def example_keys_def example_config_def)
qed

theorem own_record_accepted_witness:
  "handle_kademlia_event (example_env True) example_world
     (InboundPutRecord (Some \<lparr>kr_key = [5], kr_value = example_wire\<rparr>)) example_state =
     (emit (StorePut \<lparr>kr_key = [5], kr_value = example_wire\<rparr>) example_state, Ok)"
  using own_record_accepted [OF example_record_published [of True], of "\<lparr>kr_key = [5], kr_value = example_wire\<rparr>"
      "example_env True" example_state example_world]
  by (simp add: example_codec_roundtrip example_keys_lawful example_signer_matches valid_duration_def
      example_in_window)

text \<open>C31: When a lookup finishes, its addresses come from a received record of the latest date, the
  last such record received; a lookup without records reports that nothing was found, and the query is
  forgotten either way.\<close>

theorem lookup_reports_latest:
  assumes "kademlia_map_received_records s qid = Some records"
  shows "kademlia_map_received_records (finish_looking_for_dht_record qid s) qid = None \<and>
     (records = [] \<longrightarrow> calls (finish_looking_for_dht_record qid s) =
        calls s @ [SendCommandEvent (ResultFindMultiaddress None)]) \<and>
     (records \<noteq> [] \<longrightarrow> (\<exists>before best after. records = before @ best # after \<and>
        (\<forall>x \<in> set before. rd_date (sm_message x) \<le> rd_date (sm_message best)) \<and>
        (\<forall>x \<in> set after. rd_date (sm_message x) < rd_date (sm_message best)) \<and>
        calls (finish_looking_for_dht_record qid s) = calls s @
          [SendCommandEvent (ResultFindMultiaddress (Some (rd_multiaddresses (sm_message best))))]))"
proof -
  show ?thesis
  proof (cases records)
    case (Cons x xs)
    from assms Cons have
      "kademlia_map_received_records (finish_looking_for_dht_record qid s) qid = None"
      "calls (finish_looking_for_dht_record qid s) = calls s @
         [SendCommandEvent (ResultFindMultiaddress (Some (rd_multiaddresses (sm_message (max_by_date x xs)))))]"
      by (simp_all add: finish_looking_for_dht_record_def Let_def)
    with max_by_date_split [of x xs] Cons show ?thesis by blast
  qed (use assms in \<open>simp add: finish_looking_for_dht_record_def Let_def\<close>)
qed

theorem lookup_reports_latest_witness:
  "calls (finish_looking_for_dht_record 0 (example_state\<lparr>kademlia_map_received_records :=
       [0 \<mapsto> [\<lparr>sm_message = example_record, sm_signature = example_signature\<rparr>,
              \<lparr>sm_message = example_record\<lparr>rd_multiaddresses := [Multiaddr [9]]\<rparr>, sm_signature = []\<rparr>,
              \<lparr>sm_message = example_record\<lparr>rd_date := 999\<rparr>, sm_signature = []\<rparr>]]\<rparr>)) =
     [SendCommandEvent (ResultFindMultiaddress (Some [Multiaddr [9]]))]"
  (is "calls (finish_looking_for_dht_record 0 (example_state\<lparr>kademlia_map_received_records := [0 \<mapsto> ?l]\<rparr>)) = _")
proof -
  have "rd_date example_record = 1000" by (simp add: example_record_def)
  then show ?thesis
    using lookup_reports_latest [of "example_state\<lparr>kademlia_map_received_records := [0 \<mapsto> ?l]\<rparr>" 0 ?l]
    by (auto simp: Cons_eq_append_conv)
qed

text \<open>C38: A lookup does not remember whom it is looking for: after asking for the record of one
  identity, any valid record of any other identity that a queried node answers with is collected, and its
  addresses are reported as the result.\<close>

theorem lookup_accepts_foreign_record:
  assumes "signed_from_slice (record_codec e) (kr_value r) = Some sm"
    and "authentic (record_codec e) (keys e) rd_public_key sm"
    and "record_key_belongs e (kr_key r) (rd_public_key (sm_message sm))"
    and "validate_record_date (overflow_checks e) (config s) (clk w2 0) (rd_date (sm_message sm)) = Some (Inr ())"
  shows "let s1 = ask_kademlia_get_record e w wanted_key wanted_peer s;
             s2 = fst (handle_kademlia_event e w2
                    (OutboundQueryProgressed (get_record_query w) (FoundRecord r)) s1);
             s3 = fst (handle_kademlia_event e w3
                    (OutboundQueryProgressed (get_record_query w) FinishedWithNoAdditionalRecord) s2)
     in calls s3 = calls s @ [KadGetRecord (record_key e wanted_key wanted_peer),
          SendCommandEvent (ResultFindMultiaddress (Some (rd_multiaddresses (sm_message sm))))]"
proof -
  define s1 where "s1 = ask_kademlia_get_record e w wanted_key wanted_peer s"
  have s1: "kademlia_map_received_records s1 (get_record_query w) = Some []" "config s1 = config s"
    "calls s1 = calls s @ [KadGetRecord (record_key e wanted_key wanted_peer)]"
    by (simp_all add: s1_def ask_kademlia_get_record_def Let_def)
  have "check_found_record e w2 s1 (get_record_query w) r = RecordAccepted sm"
    using assms s1 by (simp add: check_found_record_accepts)
  then show ?thesis
    unfolding Let_def s1_def [symmetric]
    by (simp add: handle_kademlia_event_def handle_found_record_def s1 finish_looking_for_dht_record_def)
qed

theorem lookup_accepts_foreign_record_witness:
  "calls (fst (handle_kademlia_event (example_env True) example_world
      (OutboundQueryProgressed 0 FinishedWithNoAdditionalRecord)
      (fst (handle_kademlia_event (example_env True) example_world
        (OutboundQueryProgressed 0 (FoundRecord \<lparr>kr_key = [5], kr_value = example_wire\<rparr>))
        (ask_kademlia_get_record (example_env True) example_world (PublicKey [9]) (PeerId [9]) example_state))))) =
     [KadGetRecord [9], SendCommandEvent (ResultFindMultiaddress (Some [Multiaddr [8]]))]"
proof -
  have pk: "rd_public_key example_record = PublicKey [5]" and d: "rd_date example_record = 1000"
    and a: "rd_multiaddresses example_record = [Multiaddr [8]]" by (simp_all add: example_record_def)
  have "record_key_belongs (example_env True) [5] (PublicKey [5])"
    "record_key (example_env True) (PublicKey [9]) (PeerId [9]) = [9]"
    by (simp_all add: record_key_belongs_def record_key_def example_keys_def)
  then show ?thesis
    using lookup_accepts_foreign_record [of "example_env True" "\<lparr>kr_key = [5], kr_value = example_wire\<rparr>"
        "\<lparr>sm_message = example_record, sm_signature = example_signature\<rparr>" example_state example_world
        example_world "PublicKey [9]" "PeerId [9]" example_world]
    by (simp add: Let_def example_authentic pk d a validate_record_date_ok valid_duration_def example_in_window)
qed

end
