(* ===== verification/Swarm_Command.thy ===== *)
theory Swarm_Command
  imports Swarm_Kad
begin

text \<open>
  Connections and commands: \<^verbatim>\<open>dial_and_map\<close>, \<^verbatim>\<open>handle_connection_event\<close>, \<^verbatim>\<open>handle_setup_event\<close>, the
  identify branch of \<^verbatim>\<open>handle_behaviour_event\<close>, and \<^verbatim>\<open>handle_command\<close>, one definition per command. A
  command or event that a build does not have does nothing in that build.
\<close>

section \<open>Dialing\<close>

text \<open>
  The result of \<^verbatim>\<open>swarm.dial\<close> is only logged: a dial that the swarm refuses at once leaves the same state as
  one that is under way.
\<close>

definition dial_and_map :: "world \<Rightarrow> multiaddr \<Rightarrow> public_key \<Rightarrow> p2p \<Rightarrow> p2p" where
  "dial_and_map w addr app_public_key s =
     (let conn_id = next_connection_id w
      in emit (Dial (DialUnknownPeer addr conn_id))
           (s\<lparr>dial_manager := map_connid conn_id app_public_key (dial_manager s)\<rparr>))"

text \<open>\<^verbatim>\<open>str::contains\<close>.\<close>

fun str_contains :: "string \<Rightarrow> string \<Rightarrow> bool" where
  "str_contains pat [] \<longleftrightarrow> pat = []"
| "str_contains pat (c # cs) \<longleftrightarrow> take (length pat) (c # cs) = pat \<or> str_contains pat cs"

definition is_quic :: "env \<Rightarrow> multiaddr \<Rightarrow> bool" where
  "is_quic e addr = list_ex (str_contains ''quic'') (protocol_stack e addr)"

text \<open>\<^verbatim>\<open>sort_by_key\<close> is a stable sort.\<close>

definition sort_addresses :: "env \<Rightarrow> multiaddr list \<Rightarrow> multiaddr list" where
  "sort_addresses e addresses = sort_key (\<lambda>addr. \<not> is_quic e addr) addresses"

definition connect_to_peer ::
  "env \<Rightarrow> world \<Rightarrow> public_key \<Rightarrow> peer_id \<Rightarrow> multiaddr list \<Rightarrow> p2p \<Rightarrow> p2p \<times> status" where
  "connect_to_peer e w app_public_key transport_id addresses s =
     (if addresses = [] then (s, Ok)
      else if byos e
      then (if has_app_public_key (dial_manager s) app_public_key then (s, Ok)
            else (case q_pop_front (queues e) (q_from_iter (queues e) (sort_addresses e addresses)) of
                (None, _) \<Rightarrow> (s, Panicked)
              | (Some first_addr, queue) \<Rightarrow>
                  (let s1 = s\<lparr>config := (config s)\<lparr>connect_to := connect_to (config s) @ [first_addr]\<rparr>\<rparr>;
                       s2 = s1\<lparr>dial_manager := insert_queue app_public_key queue (dial_manager s1)\<rparr>
                   in (dial_and_map w first_addr app_public_key s2, Ok))))
      else if is_connected w transport_id then (s, Ok)
      else (emit (Dial (DialPeer transport_id (sort_addresses e addresses))) s, Ok))"

section \<open>Connection events\<close>

datatype conn_event =
    ConnectionEstablished peer_id connection_id
  | OutgoingConnectionError connection_id
  | IncomingConnectionError
  | ConnectionClosed peer_id nat

definition handle_connection_event :: "env \<Rightarrow> world \<Rightarrow> conn_event \<Rightarrow> p2p \<Rightarrow> p2p \<times> status" where
  "handle_connection_event e w event s =
     (case event of
        ConnectionEstablished peer connection_id \<Rightarrow>
          (if byos e
           then (case get_app_public_key_by_connection_id (dial_manager s) connection_id of
                   Some app_public_key \<Rightarrow>
                     (s\<lparr>dial_manager :=
                          fst (remove_connid connection_id (remove_queue app_public_key (dial_manager s)))\<rparr>, Ok)
                 | None \<Rightarrow> (s, Ok))
           else if \<not> is_banned (clk w 0) (peer_penalty_storage s) peer then (s, Ok)
           else (emit (DisconnectPeerId peer) s, Ok))
      | OutgoingConnectionError connection_id \<Rightarrow>
          (if byos e
           then (case get_app_public_key_by_connection_id (dial_manager s) connection_id of
                   Some app_public_key \<Rightarrow>
                     (let s1 = s\<lparr>dial_manager := fst (remove_connid connection_id (dial_manager s))\<rparr>
                      in (case pop_next_addr (queues e) app_public_key (dial_manager s1) of
                            (Some next_addr, dm) \<Rightarrow>
                              (dial_and_map w next_addr app_public_key (s1\<lparr>dial_manager := dm\<rparr>), Ok)
                          | (None, dm) \<Rightarrow>
                              (s1\<lparr>dial_manager := remove_queue app_public_key dm\<rparr>, Ok)))
                 | None \<Rightarrow> (s, Ok))
           else (s, Ok))
      | IncomingConnectionError \<Rightarrow> (s, Ok)
      | ConnectionClosed peer num_established \<Rightarrow>
          (if num_established = 0 \<and> \<not> byos e
           then (let s1 = s\<lparr>score_manager := score_manager_remove_peer peer (score_manager s)\<rparr>
                 in if \<not> has_active_penalties (clk w) (peer_penalty_storage s1) peer
                    then (s1\<lparr>peer_penalty_storage := penalty_remove_peer peer (peer_penalty_storage s1)\<rparr>, Ok)
                    else (s1, Ok))
           else (s, Ok)))"

section \<open>Handshake and identify events\<close>

definition handle_setup_event :: "setup_behaviour_event \<Rightarrow> p2p \<Rightarrow> p2p \<times> status" where
  "handle_setup_event event s =
     (case event of
        AppKeyReceived peer app_public_key conn_id \<Rightarrow>
          (if app_public_key \<in> app_allowlist s then (s, Ok) else (emit (DisconnectPeerId peer) s, Ok))
      | ErrorDuringSetupHandshake peer conn_id error \<Rightarrow> (emit (DisconnectPeerId peer) s, Ok)
      | NegotiationFailed peer conn_id \<Rightarrow> (emit (DisconnectPeerId peer) s, Ok))"

datatype gossipsub_version = V1_2_0 | V1_1_0 | V1_0_0

definition get_supported_versions :: "gossipsub_version list" where
  "get_supported_versions = [V1_2_0, V1_1_0, V1_0_0]"

fun gossipsub_stream_protocol :: "gossipsub_version \<Rightarrow> string" where
  "gossipsub_stream_protocol V1_2_0 = ''/meshsub/1.2.0''"
| "gossipsub_stream_protocol V1_1_0 = ''/meshsub/1.1.0''"
| "gossipsub_stream_protocol V1_0_0 = ''/meshsub/1.0.0''"

text \<open>The protocols a peer must announce to stay connected.\<close>

definition handle_identify_received :: "env \<Rightarrow> peer_id \<Rightarrow> string list \<Rightarrow> p2p \<Rightarrow> p2p \<times> status" where
  "handle_identify_received e peer protocols s =
     (let supported = map gossipsub_stream_protocol get_supported_versions;
          supports_gossip = list_ex (\<lambda>p. p \<in> set supported) protocols
      in if \<not> supports_gossip then (emit (DisconnectPeerId peer) s, Ok)
      else let reqresp_name = unwrap_or PROTOCOL_NAME (protocol_name (config s));
               supports_reqresp = list_ex (\<lambda>p. p = reqresp_name) protocols
      in if \<not> supports_reqresp then (emit (DisconnectPeerId peer) s, Ok)
      else if byos e
      then (let supports_setup = list_ex (\<lambda>p. p = SETUP_PROTOCOL_NAME) protocols
            in if \<not> supports_setup then (emit (DisconnectPeerId peer) s, Ok) else (s, Ok))
      else (s, Ok))"

section \<open>Commands\<close>

definition disconnect_from_peer ::
  "env \<Rightarrow> world \<Rightarrow> public_key \<Rightarrow> peer_id \<Rightarrow> p2p \<Rightarrow> p2p \<times> status" where
  "disconnect_from_peer e w target_app_public_key target_transport_id s =
     (let peer = (if byos e then pk_to_peer_id (keys e) target_app_public_key else target_transport_id)
      in if is_connected w peer then (emit (DisconnectPeerId peer) s, Ok) else (s, Ok))"

definition set_score ::
  "world \<Rightarrow> peer_id \<Rightarrow> action option \<Rightarrow> (app_peer_score \<Rightarrow> app_peer_score) option \<Rightarrow> p2p \<Rightarrow> p2p \<times> status" where
  "set_score w target act callback s =
     (case (case act of
              Some (ApplyPenalty penalty) \<Rightarrow> apply_penalty (clk w) target penalty s
            | Some (RemovePenalty unpenalty) \<Rightarrow> (remove_penalty target unpenalty s, Ok)
            | None \<Rightarrow> (s, Ok)) of
        (s1, Ok) \<Rightarrow>
          (case callback of
             Some cb \<Rightarrow>
               (let current_scores = app_score (get_all_scores w s1 target);
                    new_scores = cb current_scores
                in (s1\<lparr>score_manager :=
                       update_req_resp_app_score target (app_req_resp_score new_scores)
                         (update_gossipsub_app_score target (app_gossipsub_score new_scores)
                           (score_manager s1))\<rparr>, Ok))
           | None \<Rightarrow> (s1, Ok))
      | (s1, st) \<Rightarrow> (s1, st))"

definition get_peer_score :: "world \<Rightarrow> peer_id \<Rightarrow> p2p \<Rightarrow> p2p \<times> status" where
  "get_peer_score w peer s =
     (let score = get_all_scores w s peer;
          (elapsed, s1) = get_elapsed_decay_time (clk w 0) peer s
      in if elapsed \<noteq> 0
         then let g = apply_decay (p2p_validator s1) (app_gossipsub_score (app_score score)) elapsed;
                  r = apply_decay (p2p_validator s1) (app_req_resp_score (app_score score)) elapsed;
                  s2 = s1\<lparr>score_manager := update_req_resp_app_score peer r
                            (update_gossipsub_app_score peer g (score_manager s1))\<rparr>
              in (emit (ReplyPeerScore (score\<lparr>app_score :=
                     \<lparr>app_gossipsub_score = g, app_req_resp_score = r\<rparr>\<rparr>)) s2, Ok)
         else (emit (ReplyPeerScore score) s1, Ok))"

definition query_p2p_state :: "env \<Rightarrow> world \<Rightarrow> query_p2p_state_command \<Rightarrow> p2p \<Rightarrow> p2p \<times> status" where
  "query_p2p_state e w query s =
     (case query of
        IsConnected app_public_key transport_id \<Rightarrow>
          (if byos e
           then (emit (ReplyBool
                  (case get_transport_id_by_application_key (setup_state s) app_public_key of
                     Some tid \<Rightarrow> is_connected w tid
                   | None \<Rightarrow> False)) s, Ok)
           else (emit (ReplyBool (is_connected w transport_id)) s, Ok))
      | GetConnectedPeers \<Rightarrow>
          (if byos e
           then (emit (ReplyPublicKeys
                  (List.map_filter (get_app_public_key_by_transport_id (setup_state s)) (connected_peers w))) s, Ok)
           else (emit (ReplyPeerIds (connected_peers w)) s, Ok))
      | GetMyListeningAddresses \<Rightarrow> (emit (ReplyAddresses (listeners w)) s, Ok)
      | GetSetupTrackedPeerCount \<Rightarrow>
          (if byos e then (emit (ReplyCount (tracked_peer_count (setup_state s))) s, Ok) else (s, Ok)))"

definition handle_command :: "env \<Rightarrow> world \<Rightarrow> command \<Rightarrow> p2p \<Rightarrow> p2p \<times> status" where
  "handle_command e w cmd s =
     (case cmd of
        ConnectToPeer app_public_key transport_id addresses \<Rightarrow>
          connect_to_peer e w app_public_key transport_id addresses s
      | DisconnectFromPeer target_app_public_key target_transport_id \<Rightarrow>
          disconnect_from_peer e w target_app_public_key target_transport_id s
      | SetScore target act callback \<Rightarrow> (if byos e then (s, Ok) else set_score w target act callback s)
      | GetPeerScore peer \<Rightarrow> (if byos e then (s, Ok) else get_peer_score w peer s)
      | QueryP2PState query \<Rightarrow> query_p2p_state e w query s
      | FindMultiaddr app_public_key transport_id \<Rightarrow>
          (ask_kademlia_get_record e w app_public_key transport_id s, Ok))"

section \<open>Lemmas\<close>

text \<open>QUIC addresses first, each group in the order given.\<close>

lemma insort_key_first: "P x \<Longrightarrow> insort_key (\<lambda>x. \<not> P x) x zs = x # zs"
  by (cases zs) auto

lemma insort_key_second:
  assumes "\<not> P x" and "\<forall>y \<in> set ys. P y" and "\<forall>z \<in> set zs. \<not> P z"
  shows "insort_key (\<lambda>x. \<not> P x) x (ys @ zs) = ys @ x # zs"
  using assms by (induction ys) (auto simp: insort_is_Cons)

lemma sort_key_not: "sort_key (\<lambda>x. \<not> P x) xs = filter P xs @ filter (\<lambda>x. \<not> P x) xs"
  by (induction xs) (simp_all add: insort_key_first insort_key_second)

lemma sort_addresses_eq:
  "sort_addresses e addrs = filter (is_quic e) addrs @ filter (\<lambda>a. \<not> is_quic e a) addrs"
  unfolding sort_addresses_def by (rule sort_key_not)

section \<open>Calls and settings\<close>

text \<open>The calls of this theory: none of them carries a message to the application or the network.\<close>

fun control_call :: "call \<Rightarrow> bool" where
  "control_call (SendGossipEvent _) = False"
| "control_call (SendReqRespEvent _) = False"
| "control_call (Publish _ _) = False"
| "control_call (SendRequest _ _) = False"
| "control_call (SendResponse _ _) = False"
| "control_call (StorePut _) = False"
| "control_call _ = True"

lemma dial_and_map_extends:
  "extends control_call s0 s \<Longrightarrow> extends control_call s0 (dial_and_map w a k s)"
  by (auto simp: dial_and_map_def Let_def extends_def)

lemma connect_to_peer_extends:
  "extends control_call s (fst (connect_to_peer e w k p addrs s))"
proof -
  have "extends control_call s (dial_and_map w a k
      (s\<lparr>config := (config s)\<lparr>connect_to := c\<rparr>, dial_manager := d\<rparr>))" for a c d
    by (rule dial_and_map_extends, rule extends_quiet) (simp_all add: settings_def)
  then show ?thesis
    by (auto simp: connect_to_peer_def Let_def split: prod.split option.split)
qed

lemma handle_connection_event_extends:
  "extends control_call s (fst (handle_connection_event e w event s))"
proof (cases event)
  case (OutgoingConnectionError c)
  have "extends control_call s (dial_and_map w a k (s\<lparr>dial_manager := d\<rparr>))" for a k d
    by (rule dial_and_map_extends, rule extends_quiet) simp_all
  then show ?thesis
    by (auto simp: handle_connection_event_def OutgoingConnectionError Let_def extends_quiet
        split: prod.split option.split)
qed (auto simp: handle_connection_event_def Let_def extends_quiet split: option.split)

lemma handle_setup_event_extends: "extends control_call s (fst (handle_setup_event event s))"
  by (auto simp: handle_setup_event_def split: setup_behaviour_event.split)

lemma handle_identify_extends: "extends control_call s (fst (handle_identify_received e p ps s))"
  by (auto simp: handle_identify_received_def Let_def)

lemma set_score_extends: "extends control_call s (fst (set_score w t act cb s))"
proof -
  obtain s1 st where a: "(case act of
              Some (ApplyPenalty penalty) \<Rightarrow> apply_penalty (clk w) t penalty s
            | Some (RemovePenalty unpenalty) \<Rightarrow> (remove_penalty t unpenalty s, Ok)
            | None \<Rightarrow> (s, Ok)) = (s1, st)" by force
  have "extends control_call s s1"
    using a apply_penalty_extends [of control_call t s "clk w"]
    by (auto split: option.splits action.splits simp: extends_quiet dest: arg_cong [where f = fst])
      (metis fst_conv)
  moreover from this have "extends control_call s (s1\<lparr>score_manager := x\<rparr>)" for x
    by (simp add: extends_def)
  ultimately show ?thesis
    unfolding set_score_def a by (auto simp: Let_def split: status.split option.split)
qed

lemma get_peer_score_extends: "extends control_call s (fst (get_peer_score w p s))"
proof -
  obtain el s1 where g: "get_elapsed_decay_time (clk w 0) p s = (el, s1)" by force
  then have "settings s1 = settings s" "calls s1 = calls s"
    using unscored_eqD(1) [OF get_elapsed_decay_time_unscored, of "clk w 0" p s]
      get_elapsed_decay_time_frame(1) [of "clk w 0" p s] by simp_all
  then show ?thesis
    by (auto simp: get_peer_score_def g Let_def extends_def)
qed

lemma query_p2p_state_extends: "extends control_call s (fst (query_p2p_state e w q s))"
  by (auto simp: query_p2p_state_def split: query_p2p_state_command.split)

lemma handle_command_extends: "extends control_call s (fst (handle_command e w cmd s))"
  using connect_to_peer_extends set_score_extends get_peer_score_extends query_p2p_state_extends
    ask_kademlia_get_record_extends [of control_call]
  by (auto simp: handle_command_def disconnect_from_peer_def Let_def split: command.split)

section \<open>The dial invariant\<close>

lemma remove_queue_after_pop:
  "remove_queue k (snd (pop_next_addr qo k (fst (remove_connid c dm)))) =
   fst (remove_connid c (remove_queue k dm))"
  by (simp add: dial_ops pop_next_addr_def split: option.split prod.split)

lemma dial_and_map_manager [simp]:
  "dial_manager (dial_and_map w a k s) = map_connid (next_connection_id w) k (dial_manager s)"
  by (simp add: dial_and_map_def Let_def)

text \<open>The two handlers that change the dial manager, seen from the dial manager.\<close>

lemma connect_to_peer_manager:
  "dial_manager (fst (connect_to_peer e w k p addrs s)) = dial_manager s \<or>
   (\<not> has_app_public_key (dial_manager s) k \<and>
    (\<exists>q. dial_manager (fst (connect_to_peer e w k p addrs s)) =
         map_connid (next_connection_id w) k (insert_queue k q (dial_manager s))))"
  by (auto simp: connect_to_peer_def Let_def split: prod.split option.split)

lemma handle_connection_event_manager:
  "dial_manager (fst (handle_connection_event e w ev s)) = dial_manager s \<or>
   (\<exists>c k. conn_to_dial (dial_manager s) c = Some k \<and>
      (dial_manager (fst (handle_connection_event e w ev s)) =
         fst (remove_connid c (remove_queue k (dial_manager s))) \<or>
       dial_manager (fst (handle_connection_event e w ev s)) =
         map_connid (next_connection_id w) k
           (snd (pop_next_addr (queues e) k (fst (remove_connid c (dial_manager s)))))))"
proof (cases ev)
  case (ConnectionEstablished p c)
  then show ?thesis
    by (auto simp: handle_connection_event_def get_app_public_key_by_connection_id_def split: option.split)
next
  case (OutgoingConnectionError c)
  show ?thesis
  proof (cases "byos e \<and> conn_to_dial (dial_manager s) c \<noteq> None")
    case True
    then obtain k where k: "conn_to_dial (dial_manager s) c = Some k" by auto
    obtain a dm where pop: "pop_next_addr (queues e) k (fst (remove_connid c (dial_manager s))) = (a, dm)"
      by force
    have fin: "remove_queue k dm = fst (remove_connid c (remove_queue k (dial_manager s)))"
      using remove_queue_after_pop [of k "queues e" c "dial_manager s"] pop by simp
    show ?thesis
    proof (cases a)
      case None
      with True k pop fin OutgoingConnectionError show ?thesis
        by (auto simp: handle_connection_event_def get_app_public_key_by_connection_id_def Let_def)
    next
      case (Some x)
      with True k pop OutgoingConnectionError show ?thesis
        by (intro disjI2 exI [of _ c] exI [of _ k])
          (simp add: handle_connection_event_def get_app_public_key_by_connection_id_def Let_def)
    qed
  qed (auto simp: handle_connection_event_def get_app_public_key_by_connection_id_def
      OutgoingConnectionError)
qed (auto simp: handle_connection_event_def Let_def)

text \<open>
  Both keep the invariant when the connection id handed out is new, and use no other new id.
\<close>

definition dial_step_keeps :: "connection_id \<Rightarrow> dial_manager \<Rightarrow> dial_manager \<Rightarrow> bool" where
  "dial_step_keeps c dm dm' \<longleftrightarrow>
     (dial_inv dm \<longrightarrow> conn_to_dial dm c = None \<longrightarrow> dial_inv dm') \<and>
     dom (conn_to_dial dm') \<subseteq> insert c (dom (conn_to_dial dm))"

lemma dial_step_keeps_refl [simp]: "dial_step_keeps c dm dm"
  by (auto simp: dial_step_keeps_def)

lemma connect_to_peer_keeps:
  "dial_step_keeps (next_connection_id w) (dial_manager s)
     (dial_manager (fst (connect_to_peer e w k p addrs s)))"
proof -
  have "dial_step_keeps c dm (map_connid c k (insert_queue k q dm))"
    if "\<not> has_app_public_key dm k" for c q dm
    using dial_inv_start [OF _ that, of c q]
    by (auto simp: dial_step_keeps_def map_connid_def insert_queue_def split: if_splits)
  then show ?thesis
    using connect_to_peer_manager [of e w k p addrs s] dial_step_keeps_refl by metis
qed

lemma handle_connection_event_keeps:
  "dial_step_keeps (next_connection_id w) (dial_manager s)
     (dial_manager (fst (handle_connection_event e w ev s)))"
proof -
  have pop: "conn_to_dial (snd (pop_next_addr qo k dm)) = conn_to_dial dm" for qo k dm
    by (simp add: pop_next_addr_def split: option.split prod.split)
  have rem: "conn_to_dial (fst (remove_connid c dm)) = (conn_to_dial dm)(c := None)" for c dm
    by (simp add: dial_ops)
  have fin: "dial_step_keeps d dm (fst (remove_connid c (remove_queue k dm)))"
    if "conn_to_dial dm c = Some k" for c d k dm
    using that dial_inv_finish [of dm c k] by (auto simp: dial_step_keeps_def dial_ops)
  have retry: "dial_step_keeps d dm (map_connid d k (snd (pop_next_addr qo k (fst (remove_connid c dm)))))"
    if "conn_to_dial dm c = Some k" for c d k qo dm
    using that dial_inv_retry [of dm c k d qo]
    by (auto simp: dial_step_keeps_def map_connid_def pop rem split: if_splits)
  show ?thesis
    using handle_connection_event_manager [of e w ev s] fin retry dial_step_keeps_refl by metis
qed

lemma set_score_unscored [simp]: "unscored (fst (set_score w t act cb s)) = unscored s"
proof -
  obtain s1 st where a: "(case act of
              Some (ApplyPenalty penalty) \<Rightarrow> apply_penalty (clk w) t penalty s
            | Some (RemovePenalty unpenalty) \<Rightarrow> (remove_penalty t unpenalty s, Ok)
            | None \<Rightarrow> (s, Ok)) = (s1, st)" by force
  have "unscored s1 = unscored s"
    using a by (auto split: option.splits action.splits) (metis fst_conv apply_penalty_unscored)
  then show ?thesis
    unfolding set_score_def a by (auto simp: Let_def split: status.split option.split)
qed

lemma get_peer_score_unscored [simp]: "unscored (fst (get_peer_score w p s)) = unscored s"
proof -
  obtain el s1 where g: "get_elapsed_decay_time (clk w 0) p s = (el, s1)" by force
  then have "unscored s1 = unscored s"
    using get_elapsed_decay_time_unscored [of "clk w 0" p s] by simp
  then show ?thesis by (simp add: get_peer_score_def g Let_def)
qed

lemma query_p2p_state_unscored [simp]: "unscored (fst (query_p2p_state e w q s)) = unscored s"
  by (simp add: query_p2p_state_def split: query_p2p_state_command.split)

lemma ask_kademlia_get_record_manager [simp]:
  "dial_manager (ask_kademlia_get_record e w k p s) = dial_manager s"
  by (simp add: ask_kademlia_get_record_def Let_def)

lemma handle_command_keeps:
  "dial_step_keeps (next_connection_id w) (dial_manager s) (dial_manager (fst (handle_command e w cmd s)))"
proof -
  note eqs = unscored_eqD(2) [OF set_score_unscored] unscored_eqD(2) [OF get_peer_score_unscored]
    unscored_eqD(2) [OF query_p2p_state_unscored]
  show ?thesis
    by (cases cmd) (auto simp: handle_command_def eqs connect_to_peer_keeps disconnect_from_peer_def Let_def)
qed

section \<open>Dialing a list of addresses\<close>

text \<open>Every attempt fails: the failure of connection \<open>c\<close>, then of the one dialled next, and so on.\<close>

primrec fail_all :: "env \<Rightarrow> connection_id \<Rightarrow> world list \<Rightarrow> p2p \<Rightarrow> p2p" where
  "fail_all e c [] s = s"
| "fail_all e c (w # ws) s =
     fail_all e (next_connection_id w) ws (fst (handle_connection_event e w (OutgoingConnectionError c) s))"

definition dials :: "multiaddr list \<Rightarrow> world list \<Rightarrow> call list" where
  "dials addrs ws = map2 (\<lambda>a w. Dial (DialUnknownPeer a (next_connection_id w))) addrs ws"

lemma fifo_from_iter: "fifo_lawful qo items \<Longrightarrow> items (q_from_iter qo xs) = xs"
  by (simp add: fifo_lawful_def)

lemma fifo_pop_Cons:
  assumes "fifo_lawful qo items" and "items q = x # xs"
  shows "\<exists>q'. q_pop_front qo q = (Some x, q') \<and> items q' = xs"
proof -
  have "fst (q_pop_front qo q) = Some x \<and> items (snd (q_pop_front qo q)) = xs"
    using assms unfolding fifo_lawful_def by blast
  then show ?thesis by (cases "q_pop_front qo q") simp
qed

lemma fifo_pop_Nil:
  assumes "fifo_lawful qo items" and "items q = []"
  shows "\<exists>q'. q_pop_front qo q = (None, q')"
proof -
  have "fst (q_pop_front qo q) = None"
    using assms unfolding fifo_lawful_def by blast
  then show ?thesis by (cases "q_pop_front qo q") simp
qed

text \<open>One failure, with addresses left and without.\<close>

lemma dial_failure_next:
  assumes "byos e" and "fifo_lawful (queues e) items" and "conn_to_dial (dial_manager s) c = Some k"
    and "dial_queues (dial_manager s) k = Some q" and "items q = a # rest"
  shows "\<exists>q'. items q' = rest \<and>
     (let s' = fst (handle_connection_event e w (OutgoingConnectionError c) s)
      in calls s' = calls s @ [Dial (DialUnknownPeer a (next_connection_id w))] \<and>
         conn_to_dial (dial_manager s') (next_connection_id w) = Some k \<and>
         dial_queues (dial_manager s') k = Some q')"
proof -
  obtain q' where "q_pop_front (queues e) q = (Some a, q')" "items q' = rest"
    using fifo_pop_Cons [OF assms(2,5)] by blast
  then show ?thesis
    using assms
    by (intro exI [of _ q'])
      (simp add: handle_connection_event_def dial_ops pop_next_addr_def dial_and_map_def Let_def)
qed

lemma dial_failure_last:
  assumes "byos e" and "fifo_lawful (queues e) items" and "conn_to_dial (dial_manager s) c = Some k"
    and "dial_queues (dial_manager s) k = Some q" and "items q = []"
  shows "let s' = fst (handle_connection_event e w (OutgoingConnectionError c) s)
      in calls s' = calls s \<and> conn_to_dial (dial_manager s') c = None \<and>
         \<not> has_app_public_key (dial_manager s') k"
proof -
  obtain q' where "q_pop_front (queues e) q = (None, q')"
    using fifo_pop_Nil [OF assms(2,5)] by blast
  then show ?thesis
    using assms by (simp add: handle_connection_event_def dial_ops pop_next_addr_def Let_def)
qed

lemma fail_all_dials:
  assumes "byos e" and "fifo_lawful (queues e) items" and "conn_to_dial (dial_manager s) c = Some k"
    and "dial_queues (dial_manager s) k = Some q" and "length ws = Suc (length (items q))"
  shows "calls (fail_all e c ws s) = calls s @ dials (items q) ws \<and>
         \<not> has_app_public_key (dial_manager (fail_all e c ws s)) k"
  using assms(3-5)
proof (induction "items q" arbitrary: q ws c s)
  case Nil
  then obtain w where ws: "ws = [w]" by (auto simp: length_Suc_conv)
  from dial_failure_last [OF assms(1,2) Nil.prems(1,2) Nil.hyps [symmetric], of w] show ?case
    by (simp add: ws Let_def dials_def Nil.hyps [symmetric])
next
  case (Cons a rest)
  have "length ws = Suc (Suc (length rest))"
    using Cons.prems(3) by (simp flip: Cons.hyps(2))
  then obtain w ws' where ws: "ws = w # ws'" "length ws' = Suc (length rest)"
    by (cases ws) simp_all
  define s' where "s' = fst (handle_connection_event e w (OutgoingConnectionError c) s)"
  obtain q' where q': "items q' = rest" "calls s' = calls s @ [Dial (DialUnknownPeer a (next_connection_id w))]"
    "conn_to_dial (dial_manager s') (next_connection_id w) = Some k" "dial_queues (dial_manager s') k = Some q'"
    using dial_failure_next [OF assms(1,2) Cons.prems(1,2) Cons.hyps(2) [symmetric], of w]
    unfolding s'_def [symmetric] Let_def by blast
  from Cons.hyps(1) [OF q'(1) [symmetric] q'(3,4)] ws q'
  show ?case by (simp add: s'_def [symmetric] dials_def flip: Cons.hyps(2))
qed

section \<open>Properties\<close>

text \<open>C13: Connecting to a peer under BYOS tries its addresses one at a time, the QUIC ones first and each
  group in the order given: if every attempt fails, each address is dialled exactly once, in that
  order, each on the connection id handed out at its turn, and then the key is free to be dialled
  again. The second attempt starts only when the first has failed.\<close>

theorem dial_tries_all_addresses:
  assumes "byos e" and "fifo_lawful (queues e) items" and "\<not> has_app_public_key (dial_manager s) k"
    and "addrs \<noteq> []" and "length ws = length addrs"
  shows "let order = filter (is_quic e) addrs @ filter (\<lambda>a. \<not> is_quic e a) addrs;
             s1 = fst (handle_command e w (ConnectToPeer k p addrs) s)
     in calls s1 = calls s @ [Dial (DialUnknownPeer (hd order) (next_connection_id w))] \<and>
        calls (fail_all e (next_connection_id w) ws s1) = calls s @ dials order (w # ws) \<and>
        \<not> has_app_public_key (dial_manager (fail_all e (next_connection_id w) ws s1)) k"
proof -
  define order where "order = filter (is_quic e) addrs @ filter (\<lambda>a. \<not> is_quic e a) addrs"
  have len: "length order = length addrs"
    using sum_length_filter_compl [of "is_quic e" addrs] by (simp add: order_def)
  then obtain a rest where order: "order = a # rest" using assms(4) by (cases order) auto
  have srt: "sort_addresses e addrs = order" by (simp add: sort_addresses_eq order_def)
  obtain q where q: "q_pop_front (queues e) (q_from_iter (queues e) order) = (Some a, q)" "items q = rest"
    using fifo_pop_Cons [OF assms(2), of "q_from_iter (queues e) order" a rest]
      fifo_from_iter [OF assms(2)] order by auto
  define s1 where "s1 = fst (handle_command e w (ConnectToPeer k p addrs) s)"
  have s1: "calls s1 = calls s @ [Dial (DialUnknownPeer a (next_connection_id w))]"
    "conn_to_dial (dial_manager s1) (next_connection_id w) = Some k" "dial_queues (dial_manager s1) k = Some q"
    using assms(1,3,4) q(1)
    by (simp_all add: s1_def handle_command_def connect_to_peer_def srt Let_def dial_and_map_def dial_ops)
  have "length ws = Suc (length (items q))" using assms(5) len order q(2) by simp
  from fail_all_dials [OF assms(1,2) s1(2,3) this] s1(1) q(2)
  show ?thesis
    unfolding Let_def order_def [symmetric] s1_def [symmetric] by (simp add: order dials_def)
qed

theorem dial_tries_all_addresses_witness:
  "calls (fail_all (example_env True) 1
     [example_world\<lparr>next_connection_id := 2\<rparr>, example_world\<lparr>next_connection_id := 3\<rparr>]
     (fst (handle_command (example_env True) example_world
        (ConnectToPeer (PublicKey [9]) (PeerId []) [Multiaddr [7], Multiaddr [8]]) example_state))) =
   [Dial (DialUnknownPeer (Multiaddr [8]) 1), Dial (DialUnknownPeer (Multiaddr [7]) 2)]"
proof -
  have "\<not> has_app_public_key dial_manager_new (PublicKey [9])"
    by (simp add: has_app_public_key_def dial_manager_new_def)
  moreover have "is_quic (example_env True) (Multiaddr [8])" "\<not> is_quic (example_env True) (Multiaddr [7])"
    by (simp_all add: is_quic_def example_env_def)
  ultimately show ?thesis
    using dial_tries_all_addresses [of "example_env True" "\<lambda>q. case q of AddrQueue xs \<Rightarrow> xs" example_state
        "PublicKey [9]" "[Multiaddr [7], Multiaddr [8]]"
        "[example_world\<lparr>next_connection_id := 2\<rparr>, example_world\<lparr>next_connection_id := 3\<rparr>]" example_world "PeerId []"]
      example_queues_lawful
    by (simp add: Let_def dials_def del: fail_all.simps One_nat_def)
qed

text \<open>C16: A ban keeps a peer out until its deadline: the peer is disconnected when the ban is imposed
  and again whenever it connects before the deadline, and it is let in afterwards unless an earlier ban
  runs longer. A ban without a duration is no exception: it ends after 30 days.\<close>

theorem ban_keeps_peer_out:
  assumes "apply_penalty ck p (Ban d) s = (s', Ok)" and "\<not> byos e"
    and "\<not> is_banned (ck 1) (peer_penalty_storage s) p" and "ck 1 \<le> clk w 0"
  shows "calls s' = calls s @ [DisconnectPeerId p] \<and>
     handle_connection_event e w (ConnectionEstablished p c) s' =
       (if clk w 0 < ck 0 + int (case d of Some x \<Rightarrow> x | None \<Rightarrow> 30 * 24 * 60 * 60 * nanos_per_sec)
        then (emit (DisconnectPeerId p) s', Ok) else (s', Ok))"
proof -
  define u where "u = ck 0 + int (unwrap_or DEFAULT_BAN_PERIOD d)"
  have u: "u = ck 0 + int (case d of Some x \<Rightarrow> x | None \<Rightarrow> 30 * 24 * 60 * 60 * nanos_per_sec)"
    by (simp add: u_def DEFAULT_BAN_PERIOD_def unwrap_or_def split: option.split)
  have s': "s' = emit (DisconnectPeerId p)
      (s\<lparr>peer_penalty_storage := fst (ban_peer (ck 1) p u (peer_penalty_storage s))\<rparr>)"
    using assms(1)
    by (auto simp: apply_penalty_Ban system_time_add_def u_def split: option.splits if_splits)
  have "\<not> is_banned (clk w 0) (peer_penalty_storage s) p"
    using ban.active_expires [OF _ assms(4)] assms(3) by blast
  then have "is_banned (clk w 0) (peer_penalty_storage s') p \<longleftrightarrow> clk w 0 < u"
    using ban.active_impose [OF assms(4), of p u "peer_penalty_storage s" p] by (simp add: s')
  then show ?thesis
    using assms(2) unfolding u [symmetric] by (simp add: handle_connection_event_def) (simp add: s')
qed

theorem ban_keeps_peer_out_witness:
  "handle_connection_event (example_env False) example_world (ConnectionEstablished (PeerId [1]) 0)
     (fst (apply_penalty (\<lambda>_. 1000) (PeerId [1]) (Ban None) example_state)) =
   (emit (DisconnectPeerId (PeerId [1])) (fst (apply_penalty (\<lambda>_. 1000) (PeerId [1]) (Ban None) example_state)), Ok)"
proof -
  have "snd (apply_penalty (\<lambda>_. 1000) (PeerId [1]) (Ban None) example_state) = Ok"
    by (simp add: apply_penalty_Ban system_time_add_def system_time_limit_def DEFAULT_BAN_PERIOD_def)
  then have "apply_penalty (\<lambda>_. 1000) (PeerId [1]) (Ban None) example_state =
      (fst (apply_penalty (\<lambda>_. 1000) (PeerId [1]) (Ban None) example_state), Ok)"
    by (metis prod.collapse)
  from ban_keeps_peer_out [OF this, of "example_env False" example_world 0] show ?thesis
    by (simp add: ban.active_iff ban.new_deadline)
qed

text \<open>C17: When the last connection to a peer closes, its scores are forgotten but no penalty that is
  still running is: for every peer, bans and mutes at any later time are as they would have been.\<close>

theorem close_keeps_running_penalties:
  assumes "\<not> byos e" and "\<forall>i. clk w i \<le> t"
  shows "let s' = fst (handle_connection_event e w (ConnectionClosed p 0) s)
     in (is_banned t (peer_penalty_storage s') q \<longleftrightarrow> is_banned t (peer_penalty_storage s) q) \<and>
        (is_gossip_muted t (peer_penalty_storage s') q \<longleftrightarrow> is_gossip_muted t (peer_penalty_storage s) q) \<and>
        (is_req_resp_muted t (peer_penalty_storage s') q \<longleftrightarrow> is_req_resp_muted t (peer_penalty_storage s) q) \<and>
        get_gossipsub_app_score (score_manager s') p = None \<and> get_req_resp_score (score_manager s') p = None"
proof (cases "has_active_penalties (clk w) (peer_penalty_storage s) p")
  case True
  with assms(1) show ?thesis
    by (simp add: handle_connection_event_def Let_def gossip_scores.get_remove req_resp_scores.get_remove)
next
  case False
  then have "\<not> is_banned t (peer_penalty_storage s) p" "\<not> is_gossip_muted t (peer_penalty_storage s) p"
    "\<not> is_req_resp_muted t (peer_penalty_storage s) p"
    unfolding has_active_penalties_iff using assms(2)
    by (auto dest: ban.active_expires gossip_mute.active_expires req_resp_mute.active_expires)
  then show ?thesis
    using assms(1) False
    by (auto simp: handle_connection_event_def Let_def gossip_scores.get_remove req_resp_scores.get_remove
        ban.active_iff gossip_mute.active_iff req_resp_mute.active_iff ban.remove_deadline
        gossip_mute.remove_deadline req_resp_mute.remove_deadline)
qed

theorem close_keeps_running_penalties_witness:
  "is_banned 1000000000000 (peer_penalty_storage (fst (handle_connection_event (example_env False) example_world
     (ConnectionClosed (PeerId [1]) 0) example_state))) (PeerId [1]) \<longleftrightarrow>
   is_banned 1000000000000 (peer_penalty_storage example_state) (PeerId [1])"
  using close_keeps_running_penalties [of "example_env False" example_world 1000000000000 "PeerId [1]"
      example_state "PeerId [1]"]
  by (simp add: Let_def)

text \<open>C34: A peer that identifies itself stays connected exactly when it announces some gossipsub
  version the node supports, the configured request-response protocol, and in a BYOS build the
  handshake protocol; otherwise it is disconnected, once.\<close>

theorem identify_disconnects_iff:
  "calls (fst (handle_identify_received e peer protocols s)) = calls s @
     (if set protocols \<inter> {''/meshsub/1.2.0'', ''/meshsub/1.1.0'', ''/meshsub/1.0.0''} \<noteq> {} \<and>
         unwrap_or ''/strata'' (protocol_name (config s)) \<in> set protocols \<and>
         (byos e \<longrightarrow> ''/handshake/1.0.0'' \<in> set protocols)
      then [] else [DisconnectPeerId peer])"
proof -
  have g: "list_ex (\<lambda>p. p \<in> set (map gossipsub_stream_protocol get_supported_versions)) protocols \<longleftrightarrow>
      set protocols \<inter> {''/meshsub/1.2.0'', ''/meshsub/1.1.0'', ''/meshsub/1.0.0''} \<noteq> {}"
    by (auto simp: list_ex_iff get_supported_versions_def)
  have r: "list_ex (\<lambda>p. p = x) protocols \<longleftrightarrow> x \<in> set protocols" for x
    by (auto simp: list_ex_iff)
  show ?thesis
    unfolding handle_identify_received_def Let_def g r PROTOCOL_NAME_def SETUP_PROTOCOL_NAME_def by simp
qed

theorem identify_disconnects_iff_witness:
  "calls (fst (handle_identify_received (example_env False) (PeerId [1]) [''/meshsub/1.1.0'', ''/strata'']
     example_state)) = []"
  using identify_disconnects_iff [of "example_env False" "PeerId [1]" "[''/meshsub/1.1.0'', ''/strata'']" example_state]
  by (simp add: example_config_def)

text \<open>C40: Under BYOS the command to disconnect a peer looks in the wrong place. It derives the peer id from
  the application key, while connections are known by the transport id that the handshake recorded for
  the key. So after a connected peer has announced its key in the handshake, whatever happened before, the
  node reports the key as connected, but the command to disconnect it
  does nothing, unless the derived id happens to be connected too.\<close>

theorem disconnect_misses_peer:
  assumes "byos e" and "is_connected w p" and "\<not> is_connected w (pk_to_peer_id (keys e) k)"
    and "s' = s\<lparr>setup_state := on_connection_handler_event p c (HandlerAppKeyReceived k) (setup_state s)\<rparr>"
  shows "handle_command e w (QueryP2PState (IsConnected k q)) s' = (emit (ReplyBool True) s', Ok) \<and>
     handle_command e w (DisconnectFromPeer k q) s' = (s', Ok)"
proof -
  have "get_transport_id_by_application_key (setup_state s') k = Some p"
    by (simp add: assms(4) setup_directory.learn_lookup)
  then show ?thesis
    using assms(1-3) by (simp add: handle_command_def query_p2p_state_def disconnect_from_peer_def)
qed

theorem disconnect_misses_peer_witness:
  "\<exists>s'. handle_command (example_env True) (example_world\<lparr>is_connected := (\<lambda>p. p = PeerId [1])\<rparr>)
     (DisconnectFromPeer (PublicKey [5]) (PeerId [])) s' = (s', Ok) \<and>
     handle_command (example_env True) (example_world\<lparr>is_connected := (\<lambda>p. p = PeerId [1])\<rparr>)
     (QueryP2PState (IsConnected (PublicKey [5]) (PeerId []))) s' = (emit (ReplyBool True) s', Ok)"
  using disconnect_misses_peer [where e = "example_env True" and p = "PeerId [1]" and k = "PublicKey [5]"
      and w = "example_world\<lparr>is_connected := (\<lambda>p. p = PeerId [1])\<rparr>" and s = example_state and c = 0
      and q = "PeerId []", OF _ _ _ refl]
  by (simp add: example_keys_def) blast

end
