(* ===== verification/Swarm_Loop.thy ===== *)
theory Swarm_Loop
  imports Swarm_Gossip Swarm_ReqResp Swarm_Command
begin

text \<open>
  The dispatch of \<^verbatim>\<open>handle_behaviour_event\<close> and \<^verbatim>\<open>handle_swarm_event\<close>, and \<^verbatim>\<open>listen\<close>. One iteration
  of the loop takes whichever input \<^verbatim>\<open>select!\<close> picked; \<open>listen\<close> runs a sequence of such inputs, each
  with the \<open>world\<close> the handler sees, until one stops the loop. \<open>run\<close> is the same as a step relation
  that remembers the inputs taken. Two inputs stand for what happens inside the swarm while it is
  polled: its callbacks on the handshake behaviour.
\<close>

section \<open>Dispatch\<close>

datatype behaviour_event =
    BGossipsub gossipsub_event
  | BRequestResponse request_response_event
  | BSetup setup_behaviour_event
  | BKademlia kademlia_event
  | BIdentifyReceived peer_id "string list"
  | BOther

definition handle_behaviour_event :: "env \<Rightarrow> world \<Rightarrow> behaviour_event \<Rightarrow> p2p \<Rightarrow> p2p \<times> status" where
  "handle_behaviour_event e w event s =
     (case event of
        BGossipsub ev \<Rightarrow> handle_gossip_event e w ev s
      | BRequestResponse ev \<Rightarrow> handle_request_response_event e w ev s
      | BSetup ev \<Rightarrow> (if byos e then handle_setup_event ev s else (s, Ok))
      | BKademlia ev \<Rightarrow> handle_kademlia_event e w ev s
      | BIdentifyReceived peer protocols \<Rightarrow> handle_identify_received e peer protocols s
      | BOther \<Rightarrow> (s, Ok))"

datatype swarm_event = SwarmBehaviour behaviour_event | SwarmConnection conn_event | SwarmOther

definition handle_swarm_event :: "env \<Rightarrow> world \<Rightarrow> swarm_event \<Rightarrow> p2p \<Rightarrow> p2p \<times> status" where
  "handle_swarm_event e w event s =
     (case event of
        SwarmBehaviour ev \<Rightarrow> handle_behaviour_event e w ev s
      | SwarmConnection ev \<Rightarrow> handle_connection_event e w ev s
      | SwarmOther \<Rightarrow> (s, Ok))"

section \<open>The loop\<close>

datatype input =
    Cancelled
  | SwarmInput swarm_event
  | CommandInput command
  | GossipCommandInput gossip_command
  | ReqRespCommandInput request_response_command
  | RepublishInput
  | SetupSwarmCallback from_swarm
  | SetupHandlerCallback peer_id connection_id setup_handler_event

datatype loop_status = Running | Stopped | Crashed

definition loop_result :: "p2p \<times> status \<Rightarrow> p2p \<times> loop_status" where
  "loop_result r = (fst r, case snd r of Ok \<Rightarrow> Running | Err _ \<Rightarrow> Stopped | Panicked \<Rightarrow> Crashed)"

text \<open>The result of \<^verbatim>\<open>ask_kademlia_put_record\<close> is ignored; a panic inside it is not.\<close>

definition listen_step :: "env \<Rightarrow> world \<Rightarrow> input \<Rightarrow> p2p \<Rightarrow> p2p \<times> loop_status" where
  "listen_step e w i s =
     (case i of
        Cancelled \<Rightarrow> (s, Stopped)
      | SwarmInput event \<Rightarrow> loop_result (handle_swarm_event e w event s)
      | CommandInput cmd \<Rightarrow> loop_result (handle_command e w cmd s)
      | GossipCommandInput gossip_cmd \<Rightarrow> loop_result (handle_gossip_command e w gossip_cmd s)
      | ReqRespCommandInput req_cmd \<Rightarrow> loop_result (handle_request_response_command e w req_cmd s)
      | RepublishInput \<Rightarrow>
          (case ask_kademlia_put_record e w s of
             (s1, Panicked) \<Rightarrow> (s1, Crashed)
           | (s1, _) \<Rightarrow> (s1, Running))
      | SetupSwarmCallback event \<Rightarrow>
          (if byos e then (s\<lparr>setup_state := on_swarm_event event (setup_state s)\<rparr>, Running)
           else (s, Running))
      | SetupHandlerCallback peer conn event \<Rightarrow>
          (if byos e
           then (s\<lparr>setup_state := on_connection_handler_event peer conn event (setup_state s)\<rparr>, Running)
           else (s, Running)))"

primrec listen :: "env \<Rightarrow> (world \<times> input) list \<Rightarrow> p2p \<Rightarrow> p2p \<times> loop_status" where
  "listen e [] s = (s, Running)"
| "listen e (x # xs) s =
     (case listen_step e (fst x) (snd x) s of
        (s1, Running) \<Rightarrow> listen e xs s1
      | (s1, st) \<Rightarrow> (s1, st))"

text \<open>The same as a relation: the inputs handled, in order, and the state and status reached.\<close>

inductive run :: "env \<Rightarrow> p2p \<Rightarrow> (world \<times> input) list \<Rightarrow> p2p \<Rightarrow> loop_status \<Rightarrow> bool" for e s0 where
  run_start: "run e s0 [] s0 Running"
| run_step: "run e s0 tr s Running \<Longrightarrow> listen_step e w i s = (s', st) \<Longrightarrow> run e s0 (tr @ [(w, i)]) s' st"

inductive_cases run_NilE: "run e s0 [] s st"
inductive_cases run_snocE: "run e s0 (tr @ [x]) s st"

lemma run_prepend:
  assumes "run e s1 tr s st" and "listen_step e w i s0 = (s1, Running)"
  shows "run e s0 ((w, i) # tr) s st"
  using assms(1)
proof (induction)
  case run_start
  then show ?case using assms(2) run_step [OF run.run_start] by fastforce
next
  case (run_step tr s w' i' s' st)
  then show ?case using run.run_step [of e s0 "(w, i) # tr" s w' i' s' st] by simp
qed

text \<open>\<open>listen\<close> is a run over a prefix of its inputs, all of them unless it stops.\<close>

lemma listen_run:
  "listen e xs s = (s', st) \<Longrightarrow>
     \<exists>ys zs. xs = ys @ zs \<and> run e s ys s' st \<and> (st = Running \<longrightarrow> zs = [])"
proof (induction xs arbitrary: s)
  case Nil
  then show ?case by (auto intro: run_start)
next
  case (Cons x xs)
  obtain s1 st1 where step: "listen_step e (fst x) (snd x) s = (s1, st1)" by force
  show ?case
  proof (cases "st1 = Running")
    case True
    with Cons.prems step have "listen e xs s1 = (s', st)" by simp
    from Cons.IH [OF this] obtain ys zs where
      yz: "xs = ys @ zs" "run e s1 ys s' st" "st = Running \<longrightarrow> zs = []" by blast
    have "run e s ((fst x, snd x) # ys) s' st"
      by (rule run_prepend [OF yz(2)]) (simp add: step True)
    with yz(1,3) show ?thesis by (intro exI [of _ "x # ys"] exI [of _ zs]) simp
  next
    case False
    with Cons.prems step have "s' = s1" "st = st1" by (cases st1; simp)+
    moreover have "run e s [x] s1 st1"
      using run_step [OF run_start, of e "fst x" "snd x" s s1 st1] step by simp
    ultimately show ?thesis
      using False by (intro exI [of _ "[x]"] exI [of _ xs]) simp
  qed
qed

lemma loop_result_fst [simp]: "fst (loop_result r) = fst r"
  by (simp add: loop_result_def)

section \<open>Every call has its reason\<close>

text \<open>
  What must have happened for a call that carries a message: the input just taken, and the checks it
  passed. Control calls need no reason.
\<close>

fun call_justified :: "env \<Rightarrow> world \<Rightarrow> input \<Rightarrow> p2p \<Rightarrow> call \<Rightarrow> bool" where
  "call_justified e w i s (SendGossipEvent (ReceivedMessage b)) \<longleftrightarrow>
     (\<exists>src mid data m.
        i = SwarmInput (SwarmBehaviour (BGossipsub (GossipsubMessage src mid data))) \<and>
        gossip_envelope_ok e w s data m \<and> b = gm_message m \<and>
        (byos e \<or> \<not> is_gossip_muted (clk w 0) (peer_penalty_storage s) src))"
| "call_justified e w i s (SendReqRespEvent (ReceivedRequest b)) \<longleftrightarrow>
     (\<exists>peer channel data m.
        i = SwarmInput (SwarmBehaviour (BRequestResponse (RRMessage peer (RRRequest data channel)))) \<and>
        request_envelope_ok e w s peer data m \<and> b = rq_message m \<and>
        \<not> message_stale (max_age_of (config s)) (unix_secs (clk w 6)) (rq_date m) \<and>
        (byos e \<or> \<not> is_req_resp_muted (clk w 0) (peer_penalty_storage s) peer))"
| "call_justified e w i s (SendReqRespEvent (ReceivedResponse b)) \<longleftrightarrow>
     (\<exists>peer data m.
        i = SwarmInput (SwarmBehaviour (BRequestResponse (RRMessage peer (RRResponse data)))) \<and>
        response_envelope_ok e w s peer data m \<and> b = rs_message m \<and>
        \<not> message_stale (max_age_of (config s)) (unix_secs (clk w 6)) (rs_date m) \<and>
        (byos e \<or> \<not> is_req_resp_muted (clk w 0) (peer_penalty_storage s) peer))"
| "call_justified e w i s (SendResponse channel d) \<longleftrightarrow>
     (\<exists>peer data m.
        i = SwarmInput (SwarmBehaviour (BRequestResponse (RRMessage peer (RRRequest data channel)))) \<and>
        request_envelope_ok e w s peer data m \<and> own_response e w s d \<and>
        \<not> message_stale (max_age_of (config s)) (unix_secs (clk w 6)) (rq_date m) \<and>
        (byos e \<or> \<not> is_req_resp_muted (clk w 0) (peer_penalty_storage s) peer))"
| "call_justified e w i s (Publish t d) \<longleftrightarrow>
     (\<exists>cmd m sm. i = GossipCommandInput cmd \<and> t = topic s \<and>
        gossip_message_new (clk w 0) (own_public_key e s) (gc_data cmd) = Some m \<and>
        signed_message_new (gossip_codec e) (p2p_signer s) m = Inr sm \<and>
        signed_to_vec (gossip_codec e) sm = Some d)"
| "call_justified e w i s (SendRequest peer d) \<longleftrightarrow>
     (\<exists>cmd m sm. i = ReqRespCommandInput cmd \<and> request_target e s cmd = Some peer \<and> is_connected w peer \<and>
        request_message_new (clk w 0) (own_public_key e s) (rc_data cmd, peer) = Some m \<and>
        signed_message_new (request_codec e) (p2p_signer s) m = Inr sm \<and>
        signed_to_vec (request_codec e) sm = Some d)"
| "call_justified e w i s (StorePut r) \<longleftrightarrow>
     (\<exists>sm. i = SwarmInput (SwarmBehaviour (BKademlia (InboundPutRecord (Some r)))) \<and>
        check_inbound_record e w s r = RecordAccepted sm)"
| "call_justified e w i s _ \<longleftrightarrow> True"

lemma control_call_justified: "control_call c \<Longrightarrow> call_justified e w i s c"
  by (cases c) simp_all

lemma extends_control: "extends control_call s s' \<Longrightarrow> extends (call_justified e w i s) s s'"
  using control_call_justified by (auto simp: extends_def)

lemma handle_behaviour_event_extends:
  "extends (call_justified e w (SwarmInput (SwarmBehaviour ev)) s) s (fst (handle_behaviour_event e w ev s))"
  (is "extends ?P s _")
proof (cases ev)
  case (BGossipsub g)
  show ?thesis
  proof (cases g)
    case (GossipsubMessage src mid data)
    show ?thesis
      unfolding handle_behaviour_event_def BGossipsub handle_gossip_event_def GossipsubMessage
      by (simp, rule handle_gossip_msg_extends) auto
  qed (auto simp: handle_behaviour_event_def BGossipsub handle_gossip_event_def)
next
  case (BRequestResponse r)
  show ?thesis
  proof (cases r)
    case (RRMessage peer msg)
    show ?thesis
    proof (cases msg)
      case (RRRequest data channel)
      show ?thesis
        unfolding handle_behaviour_event_def BRequestResponse handle_request_response_event_def RRMessage
          handle_message_event_def RRRequest
        by (simp, rule handle_request_extends) auto
    next
      case (RRResponse data)
      show ?thesis
        unfolding handle_behaviour_event_def BRequestResponse handle_request_response_event_def RRMessage
          handle_message_event_def RRResponse
        by (simp, rule handle_response_extends) auto
    qed
  qed (auto simp: handle_behaviour_event_def BRequestResponse handle_request_response_event_def)
next
  case (BSetup x)
  then show ?thesis
    by (auto simp: handle_behaviour_event_def intro: extends_control handle_setup_event_extends)
next
  case (BKademlia k)
  show ?thesis
    unfolding handle_behaviour_event_def BKademlia
    by (simp, rule handle_kademlia_event_extends) auto
next
  case (BIdentifyReceived p ps)
  then show ?thesis
    by (auto simp: handle_behaviour_event_def intro: extends_control handle_identify_extends)
qed (simp add: handle_behaviour_event_def)

lemma listen_step_extends:
  "extends (call_justified e w i s) s (fst (listen_step e w i s))"
proof (cases i)
  case (SwarmInput event)
  then show ?thesis
    using handle_behaviour_event_extends
    by (auto simp: listen_step_def handle_swarm_event_def split: swarm_event.split
        intro: extends_control handle_connection_event_extends)
next
  case (CommandInput cmd)
  then show ?thesis
    by (auto simp: listen_step_def intro: extends_control handle_command_extends)
next
  case (GossipCommandInput cmd)
  then show ?thesis
    by (simp add: listen_step_def) (rule handle_gossip_command_extends, auto)
next
  case (ReqRespCommandInput cmd)
  then show ?thesis
    by (simp add: listen_step_def) (rule handle_request_response_command_extends, auto)
next
  case RepublishInput
  obtain s1 st where "ask_kademlia_put_record e w s = (s1, st)" by force
  with RepublishInput ask_kademlia_put_record_extends [of control_call s e w] show ?thesis
    by (auto simp: listen_step_def split: status.split intro: extends_control)
qed (auto simp: listen_step_def extends_quiet)

section \<open>The log of a run\<close>

lemma run_settings: "run e s0 tr s st \<Longrightarrow> settings s = settings s0"
proof (induction rule: run.induct)
  case (run_step tr s w i s' st)
  then show ?case using listen_step_extends [of e w i s] by (simp add: extends_def)
qed simp

text \<open>Every call made during a run was made by one of its steps.\<close>

lemma run_call_origin:
  assumes "run e s0 tr s st" and "c \<in> set (calls s)" and "c \<notin> set (calls s0)"
  shows "\<exists>pre w i post s1. tr = pre @ (w, i) # post \<and> run e s0 pre s1 Running \<and> call_justified e w i s1 c"
  using assms(1,2)
proof (induction rule: run.induct)
  case run_start
  with assms(3) show ?case by simp
next
  case (run_step tr s w i s' st)
  have "extends (call_justified e w i s) s s'"
    using listen_step_extends [of e w i s] run_step.hyps(2) by simp
  then obtain cs where "calls s' = calls s @ cs" "\<forall>c \<in> set cs. call_justified e w i s c"
    by (auto simp: extends_def)
  then consider "c \<in> set (calls s)" | "call_justified e w i s c"
    using run_step.prems by auto
  then show ?case
  proof cases
    case 1
    from run_step.IH [OF this] obtain pre w' i' post s1 where
      "tr = pre @ (w', i') # post" "run e s0 pre s1 Running" "call_justified e w' i' s1 c" by blast
    then show ?thesis by fastforce
  next
    case 2
    with run_step.hyps(1) show ?thesis by blast
  qed
qed

section \<open>Invariants of a run\<close>

lemma handle_kademlia_event_manager [simp]:
  "dial_manager (fst (handle_kademlia_event e w ev s)) = dial_manager s"
  by (simp add: handle_kademlia_event_def handle_inbound_put_record_def handle_found_record_def
      finish_looking_for_dht_record_def Let_def
      split: kademlia_event.split query_result.split option.split record_verdict.split)

lemma handle_setup_event_unscored [simp]: "unscored (fst (handle_setup_event ev s)) = unscored s"
  by (simp add: handle_setup_event_def split: setup_behaviour_event.split)

lemma handle_identify_unscored [simp]: "unscored (fst (handle_identify_received e p ps s)) = unscored s"
  by (simp add: handle_identify_received_def Let_def)

lemma ask_kademlia_put_record_unscored [simp]:
  "unscored (fst (ask_kademlia_put_record e w s)) = unscored s"
  by (simp add: ask_kademlia_put_record_def split: option.split sum.split)

lemmas behaviour_frames =
  handle_gossip_event_unscored [THEN unscored_eqD(2)] handle_gossip_event_unscored [THEN unscored_eqD(4)]
  handle_request_response_event_unscored [THEN unscored_eqD(2)]
  handle_request_response_event_unscored [THEN unscored_eqD(4)]
  handle_setup_event_unscored [THEN unscored_eqD(2)] handle_setup_event_unscored [THEN unscored_eqD(4)]
  handle_identify_unscored [THEN unscored_eqD(2)] handle_identify_unscored [THEN unscored_eqD(4)]

lemmas command_frames =
  handle_gossip_command_unscored [THEN unscored_eqD(2)] handle_gossip_command_unscored [THEN unscored_eqD(4)]
  handle_request_response_command_unscored [THEN unscored_eqD(2)]
  handle_request_response_command_unscored [THEN unscored_eqD(4)]
  ask_kademlia_put_record_unscored [THEN unscored_eqD(2)] ask_kademlia_put_record_unscored [THEN unscored_eqD(4)]

lemma republish_fst: "fst (listen_step e w RepublishInput s) = fst (ask_kademlia_put_record e w s)"
  by (simp add: listen_step_def split: prod.split status.split)

lemma listen_step_dial:
  "dial_step_keeps (next_connection_id w) (dial_manager s) (dial_manager (fst (listen_step e w i s)))"
proof (cases i)
  case (SwarmInput event)
  then show ?thesis
    by (simp add: listen_step_def handle_swarm_event_def handle_behaviour_event_def behaviour_frames
        handle_connection_event_keeps split: swarm_event.split behaviour_event.split)
next
  case RepublishInput
  then show ?thesis by (simp add: republish_fst command_frames)
qed (simp_all add: listen_step_def command_frames handle_command_keeps)

lemma listen_step_manager:
  assumes "\<forall>ev. i \<noteq> SwarmInput (SwarmConnection ev)" and "\<forall>k p addrs. i \<noteq> CommandInput (ConnectToPeer k p addrs)"
  shows "dial_manager (fst (listen_step e w i s)) = dial_manager s"
proof (cases i)
  case (SwarmInput event)
  with assms(1) show ?thesis
    by (cases event) (simp_all add: listen_step_def handle_swarm_event_def handle_behaviour_event_def behaviour_frames
        split: behaviour_event.split)
next
  case (CommandInput cmd)
  with assms(2) show ?thesis
    by (cases cmd) (simp_all add: listen_step_def handle_command_def disconnect_from_peer_def
        ask_kademlia_get_record_def Let_def unscored_eqD(2) [OF set_score_unscored]
        unscored_eqD(2) [OF get_peer_score_unscored] unscored_eqD(2) [OF query_p2p_state_unscored])
next
  case RepublishInput
  then show ?thesis by (simp add: republish_fst command_frames)
qed (simp_all add: listen_step_def command_frames)

text \<open>
  Connection ids are handed out by a counter of \<^verbatim>\<open>libp2p\<close>, so no two steps of a run see the same one.
\<close>

definition fresh_connection_ids :: "(world \<times> input) list \<Rightarrow> bool" where
  "fresh_connection_ids tr \<longleftrightarrow> distinct (map (\<lambda>x. next_connection_id (fst x)) tr)"

lemma run_dial:
  assumes "run e s0 tr s st" and "dial_manager s0 = dial_manager_new" and "fresh_connection_ids tr"
  shows "dial_inv (dial_manager s) \<and>
     dom (conn_to_dial (dial_manager s)) \<subseteq> set (map (\<lambda>x. next_connection_id (fst x)) tr)"
  using assms(1,3)
proof (induction rule: run.induct)
  case run_start
  then show ?case by (simp add: assms(2) dial_inv_new) (simp add: dial_manager_new_def)
next
  case (run_step tr s w i s' st)
  have "dial_step_keeps (next_connection_id w) (dial_manager s) (dial_manager s')"
    using listen_step_dial [of w s e i] run_step.hyps(2) by simp
  moreover have IH: "dial_inv (dial_manager s)"
    "dom (conn_to_dial (dial_manager s)) \<subseteq> set (map (\<lambda>x. next_connection_id (fst x)) tr)"
    using run_step.IH run_step.prems by (auto simp: fresh_connection_ids_def)
  moreover have "conn_to_dial (dial_manager s) (next_connection_id w) = None"
    using IH(2) run_step.prems by (auto simp: fresh_connection_ids_def domIff)
  ultimately show ?case
    by (simp add: dial_step_keeps_def) (meson insert_mono subset_trans)
qed

text \<open>
  A step attempts a dial when it makes the call, either on a command or after the failure of an earlier
  attempt for the same key. Its outcome is reported by one of two events of the swarm.
\<close>

definition dial_attempt :: "env \<Rightarrow> world \<Rightarrow> input \<Rightarrow> p2p \<Rightarrow> connection_id \<Rightarrow> public_key \<Rightarrow> bool" where
  "dial_attempt e w i s c k \<longleftrightarrow>
     (\<exists>a. calls (fst (listen_step e w i s)) = calls s @ [Dial (DialUnknownPeer a c)]) \<and>
     ((\<exists>p addrs. i = CommandInput (ConnectToPeer k p addrs)) \<or>
      (\<exists>c'. i = SwarmInput (SwarmConnection (OutgoingConnectionError c')) \<and>
        get_app_public_key_by_connection_id (dial_manager s) c' = Some k))"

definition attempt_reported :: "connection_id \<Rightarrow> input \<Rightarrow> bool" where
  "attempt_reported c i \<longleftrightarrow>
     (\<exists>p. i = SwarmInput (SwarmConnection (ConnectionEstablished p c))) \<or>
     i = SwarmInput (SwarmConnection (OutgoingConnectionError c))"

lemma connect_to_peer_attempt:
  assumes "byos e" and "conn_to_dial (dial_manager s) (next_connection_id w) = None"
  shows "conn_to_dial (dial_manager (fst (connect_to_peer e w k' p addrs s))) c = Some k \<longleftrightarrow>
     k = k' \<and> (\<exists>a. calls (fst (connect_to_peer e w k' p addrs s)) = calls s @ [Dial (DialUnknownPeer a c)]) \<or>
     conn_to_dial (dial_manager s) c = Some k"
  using assms
  by (auto simp: connect_to_peer_def dial_and_map_def Let_def dial_ops split: prod.split option.split)

lemma handle_connection_event_attempt:
  assumes "byos e" and "conn_to_dial (dial_manager s) (next_connection_id w) = None"
  shows "conn_to_dial (dial_manager (fst (handle_connection_event e w ev s))) c = Some k \<longleftrightarrow>
     (\<exists>a. calls (fst (handle_connection_event e w ev s)) = calls s @ [Dial (DialUnknownPeer a c)]) \<and>
       (\<exists>c'. ev = OutgoingConnectionError c' \<and> conn_to_dial (dial_manager s) c' = Some k) \<or>
     conn_to_dial (dial_manager s) c = Some k \<and> (\<forall>p. ev \<noteq> ConnectionEstablished p c) \<and>
       ev \<noteq> OutgoingConnectionError c"
proof (cases ev)
  case (OutgoingConnectionError c')
  show ?thesis
  proof (cases "conn_to_dial (dial_manager s) c'")
    case (Some k')
    have pop: "conn_to_dial (snd (pop_next_addr (queues e) k' dm)) = conn_to_dial dm" for dm
      by (simp add: pop_next_addr_def split: option.split prod.split)
    obtain a dm where d: "pop_next_addr (queues e) k' (fst (remove_connid c' (dial_manager s))) = (a, dm)" by force
    have "conn_to_dial dm = (conn_to_dial (dial_manager s))(c' := None)"
      using pop [of "fst (remove_connid c' (dial_manager s))"] unfolding d by (simp add: dial_ops)
    with assms Some show ?thesis
      by (cases a) (auto simp: OutgoingConnectionError handle_connection_event_def
          get_app_public_key_by_connection_id_def d dial_and_map_def remove_queue_def map_connid_def Let_def)
  qed (use assms in \<open>auto simp: OutgoingConnectionError handle_connection_event_def
      get_app_public_key_by_connection_id_def\<close>)
qed (use assms in \<open>auto simp: handle_connection_event_def dial_ops Let_def split: option.split\<close>)

lemma listen_step_attempt:
  assumes "byos e" and "conn_to_dial (dial_manager s) (next_connection_id w) = None"
  shows "conn_to_dial (dial_manager (fst (listen_step e w i s))) c = Some k \<longleftrightarrow>
     dial_attempt e w i s c k \<or> conn_to_dial (dial_manager s) c = Some k \<and> \<not> attempt_reported c i"
proof -
  consider (conn) ev where "i = SwarmInput (SwarmConnection ev)"
    | (cmd) k' p addrs where "i = CommandInput (ConnectToPeer k' p addrs)"
    | (other) "\<forall>ev. i \<noteq> SwarmInput (SwarmConnection ev)" "\<forall>k' p addrs. i \<noteq> CommandInput (ConnectToPeer k' p addrs)"
    by blast
  then show ?thesis
  proof cases
    case conn
    with handle_connection_event_attempt [OF assms, of ev c k] show ?thesis
      by (auto simp: dial_attempt_def attempt_reported_def listen_step_def handle_swarm_event_def
          get_app_public_key_by_connection_id_def)
  next
    case cmd
    with connect_to_peer_attempt [OF assms, of k' p addrs c k] show ?thesis
      by (auto simp: dial_attempt_def attempt_reported_def listen_step_def handle_command_def)
  next
    case other
    have "dial_manager (fst (listen_step e w i s)) = dial_manager s"
      using other listen_step_manager by blast
    moreover have "\<not> dial_attempt e w i s c k" "\<not> attempt_reported c i"
      using other by (auto simp: dial_attempt_def attempt_reported_def)
    ultimately show ?thesis by simp
  qed
qed

lemma run_deterministic:
  "run e s0 tr s st \<Longrightarrow> run e s0 tr s' st' \<Longrightarrow> s' = s \<and> st' = st"
proof (induction arbitrary: s' st' rule: run.induct)
  case run_start
  then show ?case by (auto elim: run_NilE)
next
  case (run_step tr s w i s1 st1)
  from run_step.prems show ?case
    by (rule run_snocE) (use run_step.IH run_step.hyps(2) in auto)
qed

text \<open>The attempts of a run whose outcome has not been reported by its end.\<close>

definition attempt_open ::
  "env \<Rightarrow> p2p \<Rightarrow> (world \<times> input) list \<Rightarrow> connection_id \<Rightarrow> public_key \<Rightarrow> bool" where
  "attempt_open e s0 tr c k \<longleftrightarrow>
     (\<exists>pre w i post s1. tr = pre @ (w, i) # post \<and> run e s0 pre s1 Running \<and>
        dial_attempt e w i s1 c k \<and> (\<forall>x \<in> set post. \<not> attempt_reported c (snd x)))"

lemma attempt_open_Nil: "\<not> attempt_open e s0 [] c k"
  by (simp add: attempt_open_def)

lemma attempt_open_snoc:
  assumes "run e s0 tr s Running"
  shows "attempt_open e s0 (tr @ [(w, i)]) c k \<longleftrightarrow>
     dial_attempt e w i s c k \<or> attempt_open e s0 tr c k \<and> \<not> attempt_reported c i"
proof
  assume "attempt_open e s0 (tr @ [(w, i)]) c k"
  then obtain pre w' i' post s1 where p: "tr @ [(w, i)] = pre @ (w', i') # post" "run e s0 pre s1 Running"
    "dial_attempt e w' i' s1 c k" "\<forall>x \<in> set post. \<not> attempt_reported c (snd x)"
    unfolding attempt_open_def by blast
  show "dial_attempt e w i s c k \<or> attempt_open e s0 tr c k \<and> \<not> attempt_reported c i"
  proof (cases post rule: rev_cases)
    case Nil
    with p run_deterministic [OF assms] show ?thesis by auto
  next
    case (snoc ys y)
    with p show ?thesis unfolding attempt_open_def by fastforce
  qed
next
  assume "dial_attempt e w i s c k \<or> attempt_open e s0 tr c k \<and> \<not> attempt_reported c i"
  then show "attempt_open e s0 (tr @ [(w, i)]) c k"
  proof
    assume "dial_attempt e w i s c k"
    with assms show ?thesis unfolding attempt_open_def by force
  next
    assume "attempt_open e s0 tr c k \<and> \<not> attempt_reported c i"
    then obtain pre w' i' post s1 where "tr = pre @ (w', i') # post" "run e s0 pre s1 Running"
      "dial_attempt e w' i' s1 c k" "\<forall>x \<in> set post. \<not> attempt_reported c (snd x)" "\<not> attempt_reported c i"
      unfolding attempt_open_def by blast
    then show ?thesis
      unfolding attempt_open_def by (intro exI [of _ pre] exI exI [of _ "post @ [(w, i)]"]) auto
  qed
qed

text \<open>The registered connection ids are exactly those of the open attempts.\<close>

lemma run_attempts:
  assumes "run e s0 tr s st" and "dial_manager s0 = dial_manager_new" and "fresh_connection_ids tr" and "byos e"
  shows "conn_to_dial (dial_manager s) c = Some k \<longleftrightarrow> attempt_open e s0 tr c k"
  using assms(1,3)
proof (induction rule: run.induct)
  case run_start
  then show ?case by (simp add: assms(2) attempt_open_Nil dial_manager_new_def)
next
  case (run_step tr s w i s' st)
  have fresh: "fresh_connection_ids tr" using run_step.prems by (simp add: fresh_connection_ids_def)
  have "conn_to_dial (dial_manager s) (next_connection_id w) = None"
    using run_dial [OF run_step.hyps(1) assms(2) fresh] run_step.prems
    by (auto simp: fresh_connection_ids_def domIff)
  from listen_step_attempt [OF assms(4) this, of i c k] show ?case
    using run_step.IH [OF fresh] run_step.hyps(2) attempt_open_snoc [OF run_step.hyps(1), of w i c k] by simp
qed

text \<open>A fact about every record collected for a pending lookup.\<close>

definition records_all ::
  "(query_id \<Rightarrow> record_data signed_message \<Rightarrow> bool) \<Rightarrow>
   (query_id \<rightharpoonup> record_data signed_message list) \<Rightarrow> bool" where
  "records_all P m \<longleftrightarrow> (\<forall>qid rs sm. m qid = Some rs \<longrightarrow> sm \<in> set rs \<longrightarrow> P qid sm)"

abbreviation collected :: "(query_id \<Rightarrow> record_data signed_message \<Rightarrow> bool) \<Rightarrow> p2p \<Rightarrow> bool" where
  "collected P s \<equiv> records_all P (kademlia_map_received_records s)"

abbreviation found_input :: "query_id \<Rightarrow> kad_record \<Rightarrow> input" where
  "found_input qid r \<equiv> SwarmInput (SwarmBehaviour (BKademlia (OutboundQueryProgressed qid (FoundRecord r))))"

lemma handle_kademlia_event_collected:
  assumes "collected P s"
    and "\<And>qid r sm. ev = OutboundQueryProgressed qid (FoundRecord r) \<Longrightarrow>
           check_found_record e w s qid r = RecordAccepted sm \<Longrightarrow> P qid sm"
  shows "collected P (fst (handle_kademlia_event e w ev s))"
proof (cases "\<exists>qid r. ev = OutboundQueryProgressed qid (FoundRecord r)")
  case True
  then obtain qid r where ev: "ev = OutboundQueryProgressed qid (FoundRecord r)" by blast
  show ?thesis
  proof (cases "check_found_record e w s qid r")
    case (RecordAccepted sm)
    moreover from this obtain rs where "kademlia_map_received_records s qid = Some rs"
      unfolding check_found_record_accepts by auto
    ultimately show ?thesis
      using assms(1) assms(2) [OF ev RecordAccepted]
      by (auto simp: ev handle_kademlia_event_def handle_found_record_def records_all_def)
  qed (use assms(1) in \<open>simp_all add: ev handle_kademlia_event_def handle_found_record_def\<close>)
next
  case False
  then show ?thesis
    using assms(1)
    by (auto simp: handle_kademlia_event_def handle_inbound_put_record_def
        finish_looking_for_dht_record_def Let_def records_all_def
        split: kademlia_event.split query_result.split option.split record_verdict.split if_splits)
qed

lemma handle_connection_event_records [simp]:
  "kademlia_map_received_records (fst (handle_connection_event e w ev s)) = kademlia_map_received_records s"
  by (simp add: handle_connection_event_def dial_and_map_def Let_def
      split: conn_event.split option.split prod.split)

lemma handle_command_collected:
  assumes "collected P s"
  shows "collected P (fst (handle_command e w cmd s))"
proof (cases cmd)
  case (FindMultiaddr k p)
  with assms show ?thesis
    by (auto simp: handle_command_def ask_kademlia_get_record_def Let_def records_all_def)
next
  case (ConnectToPeer k p addrs)
  have "kademlia_map_received_records (fst (connect_to_peer e w k p addrs s)) = kademlia_map_received_records s"
    by (simp add: connect_to_peer_def dial_and_map_def Let_def split: option.split prod.split)
  with assms ConnectToPeer show ?thesis by (simp add: handle_command_def)
qed (use assms in \<open>simp_all add: handle_command_def disconnect_from_peer_def Let_def
    unscored_eqD(4) [OF set_score_unscored] unscored_eqD(4) [OF get_peer_score_unscored]
    unscored_eqD(4) [OF query_p2p_state_unscored]\<close>)

lemma listen_step_collected:
  assumes "collected P s"
    and "\<And>qid r sm. i = found_input qid r \<Longrightarrow> check_found_record e w s qid r = RecordAccepted sm \<Longrightarrow> P qid sm"
  shows "collected P (fst (listen_step e w i s))"
proof (cases i)
  case (SwarmInput event)
  have kad: "collected P (fst (handle_kademlia_event e w ev s))"
    if "event = SwarmBehaviour (BKademlia ev)" for ev
    by (rule handle_kademlia_event_collected [OF assms(1)]) (use assms(2) SwarmInput that in simp)
  show ?thesis
    using assms(1) kad
    by (simp add: SwarmInput listen_step_def handle_swarm_event_def handle_behaviour_event_def behaviour_frames
        split: swarm_event.split behaviour_event.split)
next
  case RepublishInput
  with assms(1) show ?thesis by (simp add: republish_fst command_frames)
qed (use assms(1) in \<open>simp_all add: listen_step_def command_frames handle_command_collected\<close>)

text \<open>
  Where a collected record comes from: an answer to that very query, handled during the run, with a
  record of that content which passed the checks at the time of its handling.
\<close>

definition found_in ::
  "env \<Rightarrow> p2p_config \<Rightarrow> (world \<times> input) list \<Rightarrow> query_id \<Rightarrow> record_data signed_message \<Rightarrow> bool" where
  "found_in e cfg tr qid sm \<longleftrightarrow>
     (\<exists>w r. (w, found_input qid r) \<in> set tr \<and> signed_from_slice (record_codec e) (kr_value r) = Some sm \<and>
        authentic (record_codec e) (keys e) rd_public_key sm \<and>
        record_key_belongs e (kr_key r) (rd_public_key (sm_message sm)) \<and>
        validate_record_date (overflow_checks e) cfg (clk w 0) (rd_date (sm_message sm)) = Some (Inr ()))"

lemma found_in_mono: "found_in e cfg tr qid sm \<Longrightarrow> found_in e cfg (tr @ tr') qid sm"
  by (auto simp: found_in_def)

lemma validate_record_date_settings:
  "max_age_of c = max_age_of c' \<Longrightarrow> clock_skew_of c = clock_skew_of c' \<Longrightarrow>
   validate_record_date oc c now date = validate_record_date oc c' now date"
  by (simp only: validate_record_date_def)

lemma run_collected:
  assumes "run e s0 tr s st" and "kademlia_map_received_records s0 = Map.empty"
  shows "collected (found_in e (config s0) tr) s"
  using assms(1)
proof (induction rule: run.induct)
  case run_start
  show ?case using assms(2) by (simp add: records_all_def)
next
  case (run_step tr s w i s' st)
  note same = settings_eqD(5,6) [OF run_settings [OF run_step.hyps(1)]]
  have "collected (found_in e (config s0) (tr @ [(w, i)])) (fst (listen_step e w i s))"
  proof (rule listen_step_collected)
    show "collected (found_in e (config s0) (tr @ [(w, i)])) s"
      using run_step.IH found_in_mono unfolding records_all_def by blast
  next
    fix qid r sm
    assume "i = found_input qid r" and "check_found_record e w s qid r = RecordAccepted sm"
    then show "found_in e (config s0) (tr @ [(w, i)]) qid sm"
      unfolding check_found_record_accepts validate_record_date_settings [OF same]
      by (auto simp: found_in_def)
  qed
  then show ?case using run_step.hyps(2) by simp
qed

end
