(* ===== verification/P2P_Behaviour.thy ===== *)
theory P2P_Behaviour
  imports P2P_State
begin

text \<open>
  \<^verbatim>\<open>swarm/behavior.rs\<close> and the swarm builders of \<^verbatim>\<open>swarm/mod.rs\<close>: which settings the code hands to the
  sub-behaviours of \<^verbatim>\<open>libp2p\<close>. A sub-behaviour is the record of the settings it was built with; the
  constructors and default values of the library are the parameter \<open>behaviour_lib\<close>. An optional
  setting that was not given is left to the library and stays \<^term>\<open>None\<close>.
\<close>

section \<open>The library\<close>

datatype validation_mode = Permissive | Strict | NoValidation
datatype store_inserts = Unfiltered | FilterBoth
datatype bucket_inserts = OnConnected | Manual
datatype kad_mode = ClientMode | ServerMode

record gossipsub_config =
  validation_mode :: validation_mode
  validate_messages :: bool
  max_transmit_size :: nat
  idontwant_on_publish :: bool
  mesh_n :: "nat option"
  mesh_n_low :: "nat option"
  mesh_n_high :: "nat option"
  heartbeat_initial_delay :: "duration option"
  publish_queue_duration :: "duration option"
  forward_queue_duration :: "duration option"

record gossipsub =
  gs_author :: peer_id
  gs_config :: gossipsub_config
  gs_filter :: "bytes set"
  gs_scoring :: "(peer_score_params \<times> peer_score_thresholds) option"

text \<open>
  \<open>config_valid\<close> is whether \<^verbatim>\<open>ConfigBuilder::build\<close> accepts the settings, \<open>gossipsub_error\<close> the error
  of the constructor, if any, and \<open>scoring_ok\<close> whether \<^verbatim>\<open>with_peer_score\<close> accepts the parameters.
\<close>

record behaviour_lib =
  topic_hash :: "string \<Rightarrow> bytes"
  default_score_params :: peer_score_params
  with_topic_params :: "bytes \<Rightarrow> peer_score_params \<Rightarrow> peer_score_params"
  default_score_thresholds :: peer_score_thresholds
  config_valid :: "gossipsub_config \<Rightarrow> bool"
  gossipsub_error :: "gossipsub_config \<Rightarrow> string option"
  scoring_ok :: "peer_score_params \<Rightarrow> peer_score_thresholds \<Rightarrow> bool"

record kademlia =
  kad_protocol :: string
  kad_filtering :: store_inserts
  kad_expiry :: "duration option"
  kad_bucket_inserts :: bucket_inserts
  kad_local :: peer_id
  kad_mode :: kad_mode

section \<open>Sub-behaviours\<close>

text \<open>The allowlist of transport peers: \<^term>\<open>None\<close> is the disabled toggle.\<close>

definition create_transport_allowlist :: "peer_id list option \<Rightarrow> peer_id set option" where
  "create_transport_allowlist allow = map_option (\<lambda>peers. fold insert peers {}) allow"

definition create_gossipsub ::
  "behaviour_lib \<Rightarrow> key_ops \<Rightarrow> keypair \<Rightarrow> string \<Rightarrow> peer_score_params option \<Rightarrow>
   peer_score_thresholds option \<Rightarrow> nat \<Rightarrow> nat option \<Rightarrow> nat option \<Rightarrow> nat option \<Rightarrow>
   duration option \<Rightarrow> duration option \<Rightarrow> duration option \<Rightarrow> (string + gossipsub) option" where
  "create_gossipsub lib ko kp name score_params score_thresholds max_size n n_low n_high delay
       publish_duration forward_duration =
     (let subscriptions = {topic_hash lib name};
          params = (case score_params of
              Some ps \<Rightarrow> ps
            | None \<Rightarrow> with_topic_params lib (topic_hash lib name) (default_score_params lib));
          thresholds = unwrap_or (default_score_thresholds lib) score_thresholds;
          cfg = \<lparr>validation_mode = Permissive, validate_messages = True, max_transmit_size = max_size,
                 idontwant_on_publish = True, mesh_n = n, mesh_n_low = n_low, mesh_n_high = n_high,
                 heartbeat_initial_delay = delay, publish_queue_duration = publish_duration,
                 forward_queue_duration = forward_duration\<rparr>
      in if \<not> config_valid lib cfg then None
         else (case gossipsub_error lib cfg of
             Some err \<Rightarrow> Some (Inl err)
           | None \<Rightarrow> Some (Inr
               \<lparr>gs_author = pk_to_peer_id ko (kp_public kp), gs_config = cfg, gs_filter = subscriptions,
                gs_scoring = (if scoring_ok lib params thresholds
                              then Some (params, thresholds) else None)\<rparr>)))"

definition kad_stream_protocol :: "kad_protocol \<Rightarrow> string" where
  "kad_stream_protocol p = (case p of KadV1 \<Rightarrow> ''/kad/strata/0.0.1'')"

text \<open>Adding to a \<^verbatim>\<open>Duration\<close> panics beyond its range.\<close>

definition duration_add :: "duration \<Rightarrow> duration \<Rightarrow> duration option" where
  "duration_add a b = (if valid_duration (a + b) then Some (a + b) else None)"

text \<open>
  The settings of the DHT: only recorded. That \<^verbatim>\<open>libp2p\<close> drops a record after \<open>kad_expiry\<close>, and stores
  nothing by itself under \<^term>\<open>FilterBoth\<close>, is its documented behaviour and not part of the model.
\<close>

definition create_kademlia_behaviour ::
  "key_ops \<Rightarrow> keypair \<Rightarrow> kad_protocol option \<Rightarrow> duration \<Rightarrow> kademlia option" where
  "create_kademlia_behaviour ko kp protocol ttl =
     (case duration_add ttl (5 * 60 * nanos_per_sec) of
        None \<Rightarrow> None
      | Some expiry \<Rightarrow> Some
          \<lparr>kad_protocol = kad_stream_protocol (unwrap_or KadV1 protocol), kad_filtering = FilterBoth,
           kad_expiry = Some expiry, kad_bucket_inserts = OnConnected,
           kad_local = pk_to_peer_id ko (kp_public kp), kad_mode = ServerMode\<rparr>)"

section \<open>The composite behaviour\<close>

record behaviour =
  bh_identify :: "string \<times> public_key"
  bh_transport_allowlist :: "peer_id set option"
  bh_gossipsub :: gossipsub
  bh_request_response :: "string list"
  bh_kademlia :: kademlia
  bh_setup :: setup_behaviour
  bh_conn_limits :: connection_limits
  bh_mem_abs :: nat
  bh_mem_rel :: f64

text \<open>
  One argument per argument of \<^verbatim>\<open>Behaviour::new\<close>, in its order; \<open>sg\<close>, \<open>app_key\<close>, \<open>max_age\<close> and \<open>max_skew\<close>
  are those of a BYOS build, \<open>allow\<close> of the other one. \<^term>\<open>None\<close> is a panic.
\<close>

definition behaviour_new ::
  "behaviour_lib \<Rightarrow> key_ops \<Rightarrow> string \<Rightarrow> keypair \<Rightarrow> peer_id list option \<Rightarrow> public_key \<Rightarrow> string \<Rightarrow>
   peer_score_params option \<Rightarrow> peer_score_thresholds option \<Rightarrow> nat \<Rightarrow> nat option \<Rightarrow> nat option \<Rightarrow> nat option \<Rightarrow>
   duration option \<Rightarrow> duration option \<Rightarrow> duration option \<Rightarrow> signer \<Rightarrow> duration \<Rightarrow> duration \<Rightarrow>
   kad_protocol option \<Rightarrow> duration \<Rightarrow> connection_limits \<Rightarrow> nat \<Rightarrow> f64 \<Rightarrow> (string + behaviour) option" where
  "behaviour_new lib ko protocol kp allow app_key name score_params score_thresholds max_size n n_low n_high
       delay publish_duration forward_duration sg max_age max_skew kad_name ttl limits max_bytes max_percentage =
     (case create_gossipsub lib ko kp name score_params score_thresholds max_size n n_low n_high delay
             publish_duration forward_duration of
        None \<Rightarrow> None
      | Some (Inl err) \<Rightarrow> Some (Inl err)
      | Some (Inr gs) \<Rightarrow>
          (case create_kademlia_behaviour ko kp kad_name ttl of
             None \<Rightarrow> None
           | Some kad \<Rightarrow> Some (Inr
               \<lparr>bh_identify = (protocol, kp_public kp),
                bh_transport_allowlist = create_transport_allowlist allow,
                bh_gossipsub = gs, bh_request_response = [protocol], bh_kademlia = kad,
                bh_setup = setup_behaviour_new app_key (pk_to_peer_id ko (kp_public kp)) sg max_age max_skew,
                bh_conn_limits = limits, bh_mem_abs = max_bytes, bh_mem_rel = max_percentage\<rparr>)))"

section \<open>Swarm builders\<close>

definition MAX_TRANSMIT_SIZE :: nat where
  "MAX_TRANSMIT_SIZE = 512 * 1024"

text \<open>The layers a transport is made of; what they do is \<^verbatim>\<open>libp2p\<close>'s.\<close>

datatype transport = InMemory | TcpDns | TcpQuicDns

record swarm =
  sw_transport :: transport
  sw_behaviour :: behaviour
  sw_idle_connection_timeout :: duration
  sw_local_peer_id :: peer_id

text \<open>\<open>gossipsub_topic\<close> with its default, used by the builders and by \<^verbatim>\<open>from_config\<close>.\<close>

definition topic_of :: "p2p_config \<Rightarrow> string" where
  "topic_of cfg = unwrap_or ''strata'' (gossipsub_topic cfg)"

definition apply_codec_limits :: "p2p_config \<Rightarrow> raw_limits \<Rightarrow> raw_limits" where
  "apply_codec_limits cfg l =
     (let l1 = (case request_max_bytes cfg of Some mx \<Rightarrow> set_request_max_bytes mx l | None \<Rightarrow> l)
      in (case response_max_bytes cfg of Some mx \<Rightarrow> set_response_max_bytes mx l1 | None \<Rightarrow> l1))"

text \<open>
  The macro \<^verbatim>\<open>finish_swarm\<close>: \<open>built\<close> is the outcome of building the transport. The codec limits
  are process-wide variables, set before the behaviour is built: the result comes with their new
  values, also when building the behaviour fails.
\<close>

definition finish_swarm ::
  "behaviour_lib \<Rightarrow> key_ops \<Rightarrow> boxed_error + transport \<Rightarrow> p2p_config \<Rightarrow> signer \<Rightarrow> raw_limits \<Rightarrow>
   ((swarm_error + swarm) \<times> raw_limits) option" where
  "finish_swarm lib ko built cfg sg l =
     (case built of
        Inl err \<Rightarrow> Some (Inl (Protocol (TransportInitialization err)), l)
      | Inr tp \<Rightarrow>
          (let name = topic_of cfg;
               protocol = unwrap_or PROTOCOL_NAME (protocol_name cfg);
               l1 = apply_codec_limits cfg l
           in (case behaviour_new lib ko protocol
                     (transport_keypair cfg) (transport_allowlist cfg) (cfg_app_public_key cfg) name
                     (gossipsub_score_params cfg) (gossipsub_score_thresholds cfg)
                     (unwrap_or MAX_TRANSMIT_SIZE (gossipsub_max_transmit_size cfg))
                     (gossipsub_mesh_n cfg) (gossipsub_mesh_n_low cfg) (gossipsub_mesh_n_high cfg)
                     (gossipsub_heartbeat_initial_delay cfg) (gossipsub_publish_queue_duration cfg)
                     (gossipsub_forward_queue_duration cfg) sg
                     (unwrap_or DEFAULT_ENVELOPE_MAX_AGE (envelope_max_age cfg))
                     (unwrap_or 0 (max_clock_skew cfg)) (kad_protocol_name cfg)
                     (unwrap_or DEFAULT_KAD_RECORD_TTL (kad_record_ttl cfg)) (conn_limits cfg)
                     (max_allowed_ram_used cfg) (max_allowed_ram_used_percent cfg) of
                 None \<Rightarrow> None
               | Some (Inl err) \<Rightarrow> Some (Inl (Protocol (BehaviourInitialization (BoxedError err))), l1)
               | Some (Inr bh) \<Rightarrow> Some (Inr
                   \<lparr>sw_transport = tp, sw_behaviour = bh,
                     sw_idle_connection_timeout = idle_connection_timeout cfg,
                     sw_local_peer_id = pk_to_peer_id ko (kp_public (transport_keypair cfg))\<rparr>, l1))))"

text \<open>
  \<^verbatim>\<open>with_inmemory_transport\<close>: the \<^verbatim>\<open>unwrap\<close> of the noise configuration panics when it fails; the
  transport itself cannot.
\<close>

definition with_inmemory_transport ::
  "behaviour_lib \<Rightarrow> key_ops \<Rightarrow> bool \<Rightarrow> p2p_config \<Rightarrow> signer \<Rightarrow> raw_limits \<Rightarrow>
   ((swarm_error + swarm) \<times> raw_limits) option" where
  "with_inmemory_transport lib ko noise_ok cfg sg l =
     (if noise_ok then finish_swarm lib ko (Inr InMemory) cfg sg l else None)"

text \<open>
  \<^verbatim>\<open>with_default_transport\<close>: \<open>tcp\<close> and \<open>dns\<close> are the errors, if any, of those two steps. The QUIC
  build repeats the body of the macro and unwraps the result of the TCP step.
\<close>

definition with_default_transport ::
  "behaviour_lib \<Rightarrow> key_ops \<Rightarrow> bool \<Rightarrow> boxed_error option \<Rightarrow> boxed_error option \<Rightarrow> p2p_config \<Rightarrow>
   signer \<Rightarrow> raw_limits \<Rightarrow> ((swarm_error + swarm) \<times> raw_limits) option" where
  "with_default_transport lib ko quic tcp dns cfg sg l =
     (if quic
      then (case tcp of
          Some err \<Rightarrow> None
        | None \<Rightarrow>
            (case dns of
               Some err \<Rightarrow> Some (Inl (Protocol (TransportInitialization err)), l)
             | None \<Rightarrow>
                 (let name = unwrap_or ''strata'' (gossipsub_topic cfg);
                      protocol = (case protocol_name cfg of Some n \<Rightarrow> n | None \<Rightarrow> PROTOCOL_NAME);
                      l1 = (case request_max_bytes cfg of
                          Some mx \<Rightarrow> set_request_max_bytes mx l | None \<Rightarrow> l);
                      l2 = (case response_max_bytes cfg of
                          Some mx \<Rightarrow> set_response_max_bytes mx l1 | None \<Rightarrow> l1)
                  in (case behaviour_new lib ko protocol
                            (transport_keypair cfg) (transport_allowlist cfg) (cfg_app_public_key cfg) name
                            (gossipsub_score_params cfg) (gossipsub_score_thresholds cfg)
                            (unwrap_or MAX_TRANSMIT_SIZE (gossipsub_max_transmit_size cfg))
                            (gossipsub_mesh_n cfg) (gossipsub_mesh_n_low cfg) (gossipsub_mesh_n_high cfg)
                            (gossipsub_heartbeat_initial_delay cfg) (gossipsub_publish_queue_duration cfg)
                            (gossipsub_forward_queue_duration cfg) sg
                            (unwrap_or DEFAULT_ENVELOPE_MAX_AGE (envelope_max_age cfg))
                            (unwrap_or 0 (max_clock_skew cfg)) (kad_protocol_name cfg)
                            (unwrap_or DEFAULT_KAD_RECORD_TTL (kad_record_ttl cfg)) (conn_limits cfg)
                            (max_allowed_ram_used cfg) (max_allowed_ram_used_percent cfg) of
                        None \<Rightarrow> None
                      | Some (Inl err) \<Rightarrow>
                          Some (Inl (Protocol (BehaviourInitialization (BoxedError err))), l2)
                      | Some (Inr bh) \<Rightarrow> Some (Inr
                          \<lparr>sw_transport = TcpQuicDns, sw_behaviour = bh,
                            sw_idle_connection_timeout = idle_connection_timeout cfg,
                            sw_local_peer_id = pk_to_peer_id ko (kp_public (transport_keypair cfg))\<rparr>, l2)))))
      else (case tcp of
          Some err \<Rightarrow> Some (Inl (Protocol (TransportInitialization err)), l)
        | None \<Rightarrow>
            finish_swarm lib ko (case dns of Some err \<Rightarrow> Inl err | None \<Rightarrow> Inr TcpDns) cfg sg l))"

section \<open>Lemmas\<close>

lemma fold_insert_set: "fold insert xs A = set xs \<union> A"
  by (induction xs arbitrary: A) auto

lemma create_transport_allowlist_set: "create_transport_allowlist allow = map_option set allow"
  by (simp add: create_transport_allowlist_def fold_insert_set)

text \<open>The QUIC copy of the macro does what the macro does.\<close>

lemma with_default_transport_finish:
  "with_default_transport lib ko quic None dns cfg sg l =
     finish_swarm lib ko (case dns of Some err \<Rightarrow> Inl err | None \<Rightarrow> Inr (if quic then TcpQuicDns else TcpDns)) cfg sg l"
  by (simp add: with_default_transport_def finish_swarm_def apply_codec_limits_def topic_of_def
      unwrap_or_def Let_def split: option.split sum.split)

text \<open>What a swarm that was built is configured with.\<close>

definition gossipsub_settings :: "p2p_config \<Rightarrow> gossipsub_config" where
  "gossipsub_settings cfg =
          \<lparr>validation_mode = Permissive, validate_messages = True,
           max_transmit_size = unwrap_or MAX_TRANSMIT_SIZE (gossipsub_max_transmit_size cfg),
           idontwant_on_publish = True, mesh_n = gossipsub_mesh_n cfg, mesh_n_low = gossipsub_mesh_n_low cfg,
           mesh_n_high = gossipsub_mesh_n_high cfg, heartbeat_initial_delay = gossipsub_heartbeat_initial_delay cfg,
           publish_queue_duration = gossipsub_publish_queue_duration cfg,
           forward_queue_duration = gossipsub_forward_queue_duration cfg\<rparr>"

lemma finish_swarm_built:
  assumes "finish_swarm lib ko built cfg sg l = Some (Inr sw, l')"
  shows "built = Inr (sw_transport sw)" and "l' = apply_codec_limits cfg l"
    and "sw_local_peer_id sw = pk_to_peer_id ko (kp_public (transport_keypair cfg))"
    and "sw_idle_connection_timeout sw = idle_connection_timeout cfg"
    and "bh_setup (sw_behaviour sw) = setup_behaviour_new (cfg_app_public_key cfg)
          (pk_to_peer_id ko (kp_public (transport_keypair cfg))) sg (max_age_of cfg) (clock_skew_of cfg)"
    and "bh_transport_allowlist (sw_behaviour sw) = map_option set (transport_allowlist cfg)"
    and "bh_identify (sw_behaviour sw) =
          (unwrap_or PROTOCOL_NAME (protocol_name cfg), kp_public (transport_keypair cfg))"
    and "bh_request_response (sw_behaviour sw) = [unwrap_or PROTOCOL_NAME (protocol_name cfg)]"
    and "gs_filter (bh_gossipsub (sw_behaviour sw)) = {topic_hash lib (topic_of cfg)}"
    and "gs_config (bh_gossipsub (sw_behaviour sw)) = gossipsub_settings cfg"
    and "kad_expiry (bh_kademlia (sw_behaviour sw)) =
          Some (unwrap_or DEFAULT_KAD_RECORD_TTL (kad_record_ttl cfg) + 5 * 60 * nanos_per_sec)"
    and "bh_conn_limits (sw_behaviour sw) = conn_limits cfg"
    and "bh_mem_abs (sw_behaviour sw) = max_allowed_ram_used cfg"
    and "bh_mem_rel (sw_behaviour sw) = max_allowed_ram_used_percent cfg"
  using assms
  by (auto simp: finish_swarm_def behaviour_new_def create_gossipsub_def create_kademlia_behaviour_def
      duration_add_def Let_def create_transport_allowlist_set max_age_of_def clock_skew_of_def
      gossipsub_settings_def split: option.splits sum.splits if_splits)

text \<open>Only the transport depends on the transport.\<close>

lemma finish_swarm_transport:
  "finish_swarm lib ko (Inr tp) cfg sg l =
     map_option (map_prod (map_sum id (\<lambda>sw. sw\<lparr>sw_transport := tp\<rparr>)) id) (finish_swarm lib ko (Inr tp') cfg sg l)"
  by (simp add: finish_swarm_def Let_def split: option.split sum.split)

end
