(* ===== verification/P2P_Handle.thy ===== *)
theory P2P_Handle
  imports Swarm_Command
begin

text \<open>
  \<^verbatim>\<open>swarm/handle.rs\<close>: the handles the application holds, and the process-wide default timeout of
  \<^verbatim>\<open>swarm/mod.rs\<close> they use. The channels are those of \<^verbatim>\<open>tokio\<close>; what they answer is an argument: the
  outcome of a send, and what waiting for the oneshot reply gives under a given timeout. A handle is
  the list of items its command channel has accepted. The methods that only pass on what the receiver of
  a channel yields (\<^verbatim>\<open>next_event\<close>, \<^verbatim>\<open>poll_next\<close>, \<^verbatim>\<open>events_is_empty\<close>) have no logic of their own and are left out.
\<close>

section \<open>The default timeout\<close>

definition as_millis_u64 :: "duration \<Rightarrow> u64" where
  "as_millis_u64 d = word_of_nat (d div 1000000)"

definition from_millis :: "u64 \<Rightarrow> duration" where
  "from_millis ms = unat ms * 1000000"

text \<open>The initial value of \<^verbatim>\<open>HANDLE_DEFAULT_TIMEOUT_MS\<close>; the setter returns its new value.\<close>

definition HANDLE_DEFAULT_TIMEOUT_MS :: u64 where
  "HANDLE_DEFAULT_TIMEOUT_MS = 1000"

definition set_handle_default_timeout :: "duration \<Rightarrow> u64 \<Rightarrow> u64" where
  "set_handle_default_timeout d timeout_ms = as_millis_u64 d"

definition default_handle_timeout :: "u64 \<Rightarrow> duration" where
  "default_handle_timeout timeout_ms = from_millis timeout_ms"

section \<open>Handles\<close>

datatype try_send_result = TrySendOk | TrySendFull | TrySendClosed
datatype 'a send_error = SendError 'a
datatype 'a poll = Ready 'a | Pending
datatype 'a reply = Answered 'a | ReplyDropped | ReplyTimedOut

record 'c handle =
  h_commands :: "'c list"

type_synonym req_resp_handle = "request_response_command handle"
type_synonym gossip_handle = "gossip_command handle"
type_synonym command_handle = "command handle"

definition handle_new :: "'c handle" where
  "handle_new = \<lparr>h_commands = []\<rparr>"

text \<open>
  \<^verbatim>\<open>Sink\<close>: the four methods are the same for the three handles. A full channel is reported like a closed
  one.
\<close>

definition poll_ready :: "'c handle \<Rightarrow> ('c send_error + unit) poll" where
  "poll_ready h = Ready (Inr ())"

definition start_send ::
  "try_send_result \<Rightarrow> 'c \<Rightarrow> 'c handle \<Rightarrow> 'c handle \<times> ('c send_error + unit)" where
  "start_send outcome item h =
     (case outcome of
        TrySendOk \<Rightarrow> (h\<lparr>h_commands := h_commands h @ [item]\<rparr>, Inr ())
      | TrySendFull \<Rightarrow> (h, Inl (SendError item))
      | TrySendClosed \<Rightarrow> (h, Inl (SendError item)))"

definition poll_flush :: "'c handle \<Rightarrow> ('c send_error + unit) poll" where
  "poll_flush h = Ready (Inr ())"

definition poll_close :: "'c handle \<Rightarrow> ('c send_error + unit) poll" where
  "poll_close h = Ready (Inr ())"

text \<open>\<^verbatim>\<open>send(..).await\<close> waits for room; \<open>accepted\<close> is false when the receiver is gone.\<close>

definition send_command :: "bool \<Rightarrow> command \<Rightarrow> command_handle \<Rightarrow> command_handle" where
  "send_command accepted cmd h = (if accepted then h\<lparr>h_commands := h_commands h @ [cmd]\<rparr> else h)"

section \<open>Queries\<close>

text \<open>
  The three queries. \<open>timeout_ms\<close> is the process-wide default, \<open>wait d\<close> what waiting \<open>d\<close> for the oneshot
  gives. The result is the handle and the answer.
\<close>

definition handle_is_connected ::
  "u64 \<Rightarrow> bool \<Rightarrow> (duration \<Rightarrow> bool reply) \<Rightarrow> public_key \<Rightarrow> peer_id \<Rightarrow> duration option \<Rightarrow>
   command_handle \<Rightarrow> command_handle \<times> bool" where
  "handle_is_connected timeout_ms accepted wait app_public_key transport_id timeout_duration h =
     (let cmd = QueryP2PState (IsConnected app_public_key transport_id);
          duration = unwrap_or (default_handle_timeout timeout_ms) timeout_duration
      in if \<not> accepted then (h, False)
         else (h\<lparr>h_commands := h_commands h @ [cmd]\<rparr>,
               case wait duration of Answered b \<Rightarrow> b | ReplyDropped \<Rightarrow> False | ReplyTimedOut \<Rightarrow> False))"

text \<open>\<open>'p\<close> is the key type in a BYOS build and the peer id otherwise.\<close>

definition handle_get_connected_peers ::
  "u64 \<Rightarrow> bool \<Rightarrow> (duration \<Rightarrow> 'p list reply) \<Rightarrow> duration option \<Rightarrow> command_handle \<Rightarrow>
   command_handle \<times> 'p list" where
  "handle_get_connected_peers timeout_ms accepted wait timeout_duration h =
     (let cmd = QueryP2PState GetConnectedPeers;
          duration = unwrap_or (default_handle_timeout timeout_ms) timeout_duration
      in if \<not> accepted then (h, [])
         else (h\<lparr>h_commands := h_commands h @ [cmd]\<rparr>,
               case wait duration of Answered ps \<Rightarrow> ps | ReplyDropped \<Rightarrow> [] | ReplyTimedOut \<Rightarrow> []))"

definition handle_get_setup_tracked_peer_count ::
  "u64 \<Rightarrow> bool \<Rightarrow> (duration \<Rightarrow> nat reply) \<Rightarrow> duration option \<Rightarrow> command_handle \<Rightarrow> command_handle \<times> nat" where
  "handle_get_setup_tracked_peer_count timeout_ms accepted wait timeout_duration h =
     (let cmd = QueryP2PState GetSetupTrackedPeerCount;
          duration = unwrap_or (default_handle_timeout timeout_ms) timeout_duration
      in if \<not> accepted then (h, 0)
         else (h\<lparr>h_commands := h_commands h @ [cmd]\<rparr>,
               case wait duration of Answered n \<Rightarrow> n | ReplyDropped \<Rightarrow> 0 | ReplyTimedOut \<Rightarrow> 0))"

section \<open>Answers of the event loop\<close>

text \<open>
  What the oneshot of a query gives when the event loop, in world \<open>w\<close> and state \<open>s\<close>, takes the query
  from its channel: the reply among the calls it makes, if that comes in time.
\<close>

primrec bool_reply :: "call list \<Rightarrow> bool reply" where
  "bool_reply [] = ReplyDropped"
| "bool_reply (c # cs) = (case c of ReplyBool b \<Rightarrow> Answered b | _ \<Rightarrow> bool_reply cs)"

primrec key_reply :: "call list \<Rightarrow> public_key list reply" where
  "key_reply [] = ReplyDropped"
| "key_reply (c # cs) = (case c of ReplyPublicKeys ks \<Rightarrow> Answered ks | _ \<Rightarrow> key_reply cs)"

definition loop_reply ::
  "(call list \<Rightarrow> 'a reply) \<Rightarrow> env \<Rightarrow> world \<Rightarrow> p2p \<Rightarrow> command \<Rightarrow> bool \<Rightarrow> duration \<Rightarrow> 'a reply" where
  "loop_reply get e w s cmd in_time d =
     (if in_time then get (drop (length (calls s)) (calls (fst (handle_command e w cmd s)))) else ReplyTimedOut)"

lemma loop_reply_is_connected:
  "loop_reply bool_reply e w s (QueryP2PState (IsConnected k p)) in_time d =
     (if in_time
      then Answered (if byos e
        then (case get_transport_id_by_application_key (setup_state s) k of
                Some tid \<Rightarrow> is_connected w tid | None \<Rightarrow> False)
        else is_connected w p)
      else ReplyTimedOut)"
  by (simp add: loop_reply_def handle_command_def query_p2p_state_def)

lemma loop_reply_connected_peers:
  "byos e \<Longrightarrow> loop_reply key_reply e w s (QueryP2PState GetConnectedPeers) in_time d =
     (if in_time
      then Answered (List.map_filter (get_app_public_key_by_transport_id (setup_state s)) (connected_peers w))
      else ReplyTimedOut)"
  by (simp add: loop_reply_def handle_command_def query_p2p_state_def)

lemma set_map_filter: "set (List.map_filter f xs) = {y. \<exists>x \<in> set xs. f x = Some y}"
  by (force simp: List.map_filter_def)

text \<open>C25: The answers of a command handle are sound. If \<^verbatim>\<open>is_connected\<close> says yes, the command reached the
  event loop and the swarm was connected to the peer, in a BYOS build to the transport id whose
  handshake announced the key; and in a BYOS build the keys \<^verbatim>\<open>get_connected_peers\<close> lists are exactly
  those announced by connected peers, or none at all when the answer does not arrive. When the command
  is taken and answered in time, \<^verbatim>\<open>is_connected\<close> is also complete.\<close>

theorem handle_queries_sound:
  "(let r = snd (handle_is_connected ms accepted
          (loop_reply bool_reply e w s (QueryP2PState (IsConnected k p)) in_time) k p timeout h);
        truth = (if byos e then \<exists>tid. get_transport_id_by_application_key (setup_state s) k = Some tid \<and>
                   is_connected w tid else is_connected w p)
    in (r \<longleftrightarrow> accepted \<and> in_time \<and> truth)) \<and>
   (byos e \<longrightarrow>
     set (snd (handle_get_connected_peers ms accepted
          (loop_reply key_reply e w s (QueryP2PState GetConnectedPeers) in_time) timeout h)) =
     (if accepted \<and> in_time
      then {k. \<exists>tid \<in> set (connected_peers w). get_app_public_key_by_transport_id (setup_state s) tid = Some k}
      else {}))"
  by (auto simp: handle_is_connected_def handle_get_connected_peers_def loop_reply_is_connected
      loop_reply_connected_peers set_map_filter Let_def split: option.splits if_splits)

theorem handle_queries_sound_witness:
  "set (snd (handle_get_connected_peers HANDLE_DEFAULT_TIMEOUT_MS True
       (loop_reply key_reply (example_env True) example_world example_state
         (QueryP2PState GetConnectedPeers) True) None handle_new)) = {PublicKey [5]}"
  using conjunct2 [OF handle_queries_sound [of HANDLE_DEFAULT_TIMEOUT_MS True "example_env True"
      example_world example_state "PublicKey [5]" "PeerId [1]" True None handle_new]]
  by (simp add: example_stored_key example_world_def)

section \<open>Bounds of the default timeout\<close>

lemma handle_timeout_value:
  "default_handle_timeout (set_handle_default_timeout d ms) = d div 1000000 mod 2 ^ 64 * 1000000"
  by (simp add: default_handle_timeout_def set_handle_default_timeout_def from_millis_def
      as_millis_u64_def unat_of_nat)

text \<open>The default timeout of the handles is kept in whole milliseconds in a \<^verbatim>\<open>u64\<close>: what is read back
  is the duration set, rounded down to a millisecond, as long as it is shorter than \<open>2 ^ 64\<close>
  milliseconds. So a positive timeout below one millisecond is read back as zero, and one of exactly
  \<open>2 ^ 64\<close> milliseconds as well.\<close>

lemma handle_timeout_rounding:
  "(d div 1000000 < 2 ^ 64 \<longrightarrow>
      default_handle_timeout (set_handle_default_timeout d ms) \<le> d \<and>
      d < default_handle_timeout (set_handle_default_timeout d ms) + 1000000) \<and>
   (d < 1000000 \<longrightarrow> default_handle_timeout (set_handle_default_timeout d ms) = 0) \<and>
   default_handle_timeout (set_handle_default_timeout (2 ^ 64 * 1000000) ms) = 0 \<and>
   default_handle_timeout HANDLE_DEFAULT_TIMEOUT_MS = nanos_per_sec"
  unfolding handle_timeout_value
  by (auto simp: default_handle_timeout_def from_millis_def HANDLE_DEFAULT_TIMEOUT_MS_def
      div_times_less_eq_dividend dividend_less_div_times)

end
