(* ===== verification/P2P_Startup.thy ===== *)
theory P2P_Startup
  imports Swarm_Loop P2P_Behaviour P2P_Handle
begin

text \<open>
  \<^verbatim>\<open>from_config\<close>, the accessors and \<^verbatim>\<open>establish_connections\<close> of \<^verbatim>\<open>swarm/mod.rs\<close>: what happens between a
  built swarm and the event loop. Answers of the swarm to a call made here are indexed by the position
  of the call in the log. The event loop of \<^verbatim>\<open>establish_connections\<close> is driven by the list of what the
  swarm yields before the general timeout; log lines and the timer for them are left out.
\<close>

section \<open>Defaults\<close>

definition DEFAULT_MAX_RETRIES :: nat where
  "DEFAULT_MAX_RETRIES = 3"

definition DEFAULT_DIAL_TIMEOUT :: duration where
  "DEFAULT_DIAL_TIMEOUT = 250 * 1000000"

definition DEFAULT_GENERAL_TIMEOUT :: duration where
  "DEFAULT_GENERAL_TIMEOUT = 250 * 1000000"

definition DEFAULT_CONNECTION_CHECK_INTERVAL :: duration where
  "DEFAULT_CONNECTION_CHECK_INTERVAL = 500 * 1000000"

definition DEFAULT_GOSSIP_EVENT_BUFFER_SIZE :: nat where
  "DEFAULT_GOSSIP_EVENT_BUFFER_SIZE = 256"

definition DEFAULT_COMMAND_EVENT_BUFFER_SIZE :: nat where
  "DEFAULT_COMMAND_EVENT_BUFFER_SIZE = 256"

definition DEFAULT_COMMAND_BUFFER_SIZE :: nat where
  "DEFAULT_COMMAND_BUFFER_SIZE = 64"

definition DEFAULT_REQ_RESP_EVENT_BUFFER_SIZE :: nat where
  "DEFAULT_REQ_RESP_EVENT_BUFFER_SIZE = 64"

definition DEFAULT_REQ_RESP_COMMAND_BUFFER_SIZE :: nat where
  "DEFAULT_REQ_RESP_COMMAND_BUFFER_SIZE = 64"

definition DEFAULT_GOSSIP_COMMAND_BUFFER_SIZE :: nat where
  "DEFAULT_GOSSIP_COMMAND_BUFFER_SIZE = 64"

section \<open>from\_config\<close>

text \<open>
  The channels of a node, by their capacity. Creating one panics for the capacities \<^verbatim>\<open>tokio\<close> refuses
  (zero, and more than it can count); \<open>mpsc_capacity_ok\<close> and \<open>broadcast_capacity_ok\<close> are those tests.
\<close>

record channel_lib =
  mpsc_capacity_ok :: "nat \<Rightarrow> bool"
  broadcast_capacity_ok :: "nat \<Rightarrow> bool"

record channels =
  ch_commands_events :: nat
  ch_commands :: nat
  ch_req_resp_events :: nat
  ch_req_resp_commands :: nat
  ch_gossip_events :: nat
  ch_gossip_commands :: nat
  ch_republish :: nat

text \<open>\<open>listen_error n\<close> is the swarm's answer to the \<open>n\<close>-th \<^verbatim>\<open>listen_on\<close>.\<close>

primrec listen_on_all ::
  "(nat \<Rightarrow> boxed_error option) \<Rightarrow> multiaddr list \<Rightarrow> call list \<Rightarrow> swarm_error + call list" where
  "listen_on_all listen_error [] cs = Inr cs"
| "listen_on_all listen_error (addr # addrs) cs =
     (case listen_error (length cs) of
        Some err \<Rightarrow> Inl (Protocol (Listen err))
      | None \<Rightarrow> listen_on_all listen_error addrs (cs @ [ListenOn addr]))"

text \<open>The channels, in the order they are created; \<^term>\<open>None\<close> is a panic.\<close>

definition create_channels :: "channel_lib \<Rightarrow> p2p_config \<Rightarrow> nat option \<Rightarrow> channels option" where
  "create_channels lib cfg channel_size =
     (let commands_event_size = unwrap_or DEFAULT_COMMAND_EVENT_BUFFER_SIZE (commands_event_buffer_size cfg);
          command_size = unwrap_or DEFAULT_COMMAND_BUFFER_SIZE (command_buffer_size cfg);
          rr_command_size = unwrap_or DEFAULT_REQ_RESP_COMMAND_BUFFER_SIZE (req_resp_command_buffer_size cfg);
          rr_event_size = unwrap_or DEFAULT_REQ_RESP_EVENT_BUFFER_SIZE (req_resp_event_buffer_size cfg);
          gossip_event_size = unwrap_or
            (unwrap_or DEFAULT_GOSSIP_EVENT_BUFFER_SIZE (gossip_event_buffer_size cfg)) channel_size;
          gossip_command_size = unwrap_or DEFAULT_GOSSIP_COMMAND_BUFFER_SIZE (gossip_command_buffer_size cfg)
      in if broadcast_capacity_ok lib commands_event_size \<and> mpsc_capacity_ok lib command_size \<and>
            mpsc_capacity_ok lib rr_event_size \<and> mpsc_capacity_ok lib rr_command_size \<and>
            broadcast_capacity_ok lib gossip_event_size \<and> mpsc_capacity_ok lib gossip_command_size \<and>
            mpsc_capacity_ok lib 10
         then Some \<lparr>ch_commands_events = commands_event_size, ch_commands = command_size,
                ch_req_resp_events = rr_event_size, ch_req_resp_commands = rr_command_size,
                ch_gossip_events = gossip_event_size, ch_gossip_commands = gossip_command_size,
                ch_republish = 10\<rparr>
         else None)"

text \<open>
  The result comes with the new value of the process-wide handle timeout, which is set before anything
  can fail. \<open>allowlist\<close> and \<open>sg\<close> are arguments of the BYOS build, \<open>validator_opt\<close> of the other one.
\<close>

definition from_config ::
  "channel_lib \<Rightarrow> (nat \<Rightarrow> boxed_error option) \<Rightarrow> env \<Rightarrow> p2p_config \<Rightarrow> swarm \<Rightarrow> public_key list \<Rightarrow>
   nat option \<Rightarrow> signer \<Rightarrow> validator option \<Rightarrow> u64 \<Rightarrow>
   (swarm_error + p2p \<times> channels \<times> req_resp_handle) option \<times> u64" where
  "from_config lib listen_error e cfg sw allowlist channel_size sg validator_opt timeout_ms =
     (let ms = (case handle_default_timeout cfg of
          Some dur \<Rightarrow> set_handle_default_timeout dur timeout_ms | None \<Rightarrow> timeout_ms)
      in ((case listen_on_all listen_error (listening_addrs cfg) [] of
            Inl err \<Rightarrow> Some (Inl err)
          | Inr cs \<Rightarrow>
              (case create_channels lib cfg channel_size of
                 None \<Rightarrow> None
               | Some ch \<Rightarrow> Some (Inr
                   (\<lparr>topic = topic_of cfg, config = cfg,
                     app_allowlist = (if byos e then set allowlist else {}),
                     p2p_signer = (if byos e then sg
                                   else transport_keypair_signer_sign (kp_sign (transport_keypair cfg))),
                     dial_manager = dial_manager_new, score_manager = score_manager_new,
                     peer_penalty_storage = penalty_peer_storage_new,
                     p2p_validator = unwrap_or default_validator validator_opt,
                     kademlia_map_received_records = Map.empty,
                     kademlia_is_routing_updated_first_time = True,
                     setup_state = bh_setup (sw_behaviour sw), calls = cs\<rparr>, ch, handle_new)))), ms))"

definition p2p_local_peer_id :: "swarm \<Rightarrow> peer_id" where
  "p2p_local_peer_id sw = sw_local_peer_id sw"

definition p2p_is_connected :: "world \<Rightarrow> peer_id \<Rightarrow> bool" where
  "p2p_is_connected w p = is_connected w p"

definition new_gossip_handle :: "p2p \<Rightarrow> gossip_handle" where
  "new_gossip_handle s = handle_new"

definition new_command_handle :: "p2p \<Rightarrow> command_handle" where
  "new_command_handle s = handle_new"

section \<open>establish\_connections\<close>

text \<open>
  Dialing one address. \<open>accepts n\<close> is whether the swarm takes the dial that is call number \<open>n\<close>. (The
  \<^verbatim>\<open>usize\<close> counter cannot overflow before \<open>2 ^ 64\<close> attempts.)
\<close>

function dial_retry :: "(nat \<Rightarrow> bool) \<Rightarrow> duration \<Rightarrow> nat \<Rightarrow> nat \<Rightarrow> multiaddr \<Rightarrow> p2p \<Rightarrow> p2p" where
  "dial_retry accepts delay max_retry_count num_retries addr s =
     (let s1 = emit (Dial (DialAddress addr)) s
      in if accepts (length (calls s)) then s1
         else if num_retries + 1 > max_retry_count then s1
         else dial_retry accepts delay max_retry_count (num_retries + 1) addr (emit (Sleep delay) s1))"
  by pat_completeness auto
termination
  by (relation "measure (\<lambda>(_, _, mx, n, _, _). mx - n)") auto

declare dial_retry.simps [simp del]

primrec dial_all ::
  "(nat \<Rightarrow> bool) \<Rightarrow> duration \<Rightarrow> nat \<Rightarrow> multiaddr list \<Rightarrow> multiaddr set \<Rightarrow> p2p \<Rightarrow> multiaddr set \<times> p2p" where
  "dial_all accepts delay mx [] is_not_connected s = (is_not_connected, s)"
| "dial_all accepts delay mx (addr # addrs) is_not_connected s =
     dial_all accepts delay mx addrs (insert addr is_not_connected) (dial_retry accepts delay mx 0 addr s)"

datatype subscribe_result = SubscribeOk | SubscribeFailed | SubscribeTimedOut

function subscribe_retry ::
  "(nat \<Rightarrow> subscribe_result) \<Rightarrow> duration \<Rightarrow> nat \<Rightarrow> nat \<Rightarrow> p2p \<Rightarrow> p2p" where
  "subscribe_retry answer interval max_retry_count num_retries s =
     (let s1 = emit (Subscribe (topic s)) s
      in case answer (length (calls s)) of
           SubscribeOk \<Rightarrow> s1
         | _ \<Rightarrow> (if num_retries + 1 > max_retry_count then s1
                 else subscribe_retry answer interval max_retry_count (num_retries + 1)
                        (emit (Sleep interval) s1)))"
  by pat_completeness auto
termination
  by (relation "measure (\<lambda>(_, _, mx, n, _). mx - n)") auto

declare subscribe_retry.simps [simp del]

text \<open>
  What the swarm yields while the connections are awaited. \<open>swarm_event_of\<close> is the same event as the
  later event loop sees it.
\<close>

datatype connected_point = Dialer multiaddr | Listener

datatype startup_event =
    GossipSubscribed peer_id
  | Established peer_id connection_id connected_point
  | OtherEvent swarm_event

primrec swarm_event_of :: "startup_event \<Rightarrow> swarm_event" where
  "swarm_event_of (GossipSubscribed p) = SwarmBehaviour (BGossipsub GossipsubOther)"
| "swarm_event_of (Established p c pt) = SwarmConnection (ConnectionEstablished p c)"
| "swarm_event_of (OtherEvent ev) = ev"

datatype startup_input =
    StartupEvent startup_event
  | StartupSetupSwarm from_swarm
  | StartupSetupHandler peer_id connection_id setup_handler_event

datatype startup_end = SwarmFinished | TimeRanOut
datatype startup_outcome = AllConnected | ExitedUnexpectedly | TimedOut

record waiting =
  w_outcome :: startup_outcome
  w_is_not_connected :: "multiaddr set"
  w_subscriptions :: nat
  w_consumed :: "startup_event list"
  w_state :: p2p

text \<open>
  The loop. \<open>consumed\<close> collects the events taken from the swarm; the check for completion is skipped for
  a connection this node did not dial (\<^verbatim>\<open>continue\<close>).
\<close>

fun await_connections ::
  "env \<Rightarrow> startup_end \<Rightarrow> startup_input list \<Rightarrow> multiaddr set \<Rightarrow> nat \<Rightarrow> startup_event list \<Rightarrow> p2p \<Rightarrow> waiting" where
  "await_connections e fin [] missing subs consumed s =
     \<lparr>w_outcome = (case fin of SwarmFinished \<Rightarrow> ExitedUnexpectedly | TimeRanOut \<Rightarrow> TimedOut),
      w_is_not_connected = missing, w_subscriptions = subs, w_consumed = consumed, w_state = s\<rparr>"
| "await_connections e fin (StartupSetupSwarm ev # xs) missing subs consumed s =
     await_connections e fin xs missing subs consumed
       (if byos e then s\<lparr>setup_state := on_swarm_event ev (setup_state s)\<rparr> else s)"
| "await_connections e fin (StartupSetupHandler p c ev # xs) missing subs consumed s =
     await_connections e fin xs missing subs consumed
       (if byos e then s\<lparr>setup_state := on_connection_handler_event p c ev (setup_state s)\<rparr> else s)"
| "await_connections e fin (StartupEvent (Established p c Listener) # xs) missing subs consumed s =
     await_connections e fin xs missing subs (consumed @ [Established p c Listener]) s"
| "await_connections e fin (StartupEvent (GossipSubscribed p) # xs) missing subs consumed s =
     (let missing1 = missing; subs1 = subs + 1
      in if missing1 = {}
         then \<lparr>w_outcome = AllConnected, w_is_not_connected = missing1, w_subscriptions = subs1,
               w_consumed = consumed @ [GossipSubscribed p], w_state = s\<rparr>
         else await_connections e fin xs missing1 subs1 (consumed @ [GossipSubscribed p]) s)"
| "await_connections e fin (StartupEvent (Established p c (Dialer a)) # xs) missing subs consumed s =
     (let missing1 = missing - {a}; subs1 = subs
      in if missing1 = {}
         then \<lparr>w_outcome = AllConnected, w_is_not_connected = missing1, w_subscriptions = subs1,
               w_consumed = consumed @ [Established p c (Dialer a)], w_state = s\<rparr>
         else await_connections e fin xs missing1 subs1 (consumed @ [Established p c (Dialer a)]) s)"
| "await_connections e fin (StartupEvent (OtherEvent ev) # xs) missing subs consumed s =
     (let missing1 = missing; subs1 = subs
      in if missing1 = {}
         then \<lparr>w_outcome = AllConnected, w_is_not_connected = missing1, w_subscriptions = subs1,
               w_consumed = consumed @ [OtherEvent ev], w_state = s\<rparr>
         else await_connections e fin xs missing1 subs1 (consumed @ [OtherEvent ev]) s)"

text \<open>
  The inputs come with the time since the wait began, in ascending order; those at or beyond the general
  timeout are not seen. \<open>fin\<close> is what happens when there are no more of them.
\<close>

definition establish_connections ::
  "env \<Rightarrow> (nat \<Rightarrow> bool) \<Rightarrow> (nat \<Rightarrow> subscribe_result) \<Rightarrow> startup_end \<Rightarrow> (duration \<times> startup_input) list \<Rightarrow>
   p2p \<Rightarrow> waiting" where
  "establish_connections e accepts answer fin xs s =
     (let max_retry_count = unwrap_or DEFAULT_MAX_RETRIES (max_retries (config s));
          dial_delay = unwrap_or DEFAULT_DIAL_TIMEOUT (dial_timeout (config s));
          limit = unwrap_or DEFAULT_GENERAL_TIMEOUT (general_timeout (config s));
          interval = unwrap_or DEFAULT_CONNECTION_CHECK_INTERVAL (connection_check_interval (config s));
          (missing, s1) = dial_all accepts dial_delay max_retry_count (connect_to (config s)) {} s;
          s2 = subscribe_retry answer interval max_retry_count 0 s1;
          timely = takeWhile (\<lambda>x. fst x < limit) xs
      in await_connections e (if length timely < length xs then TimeRanOut else fin) (map snd timely)
           missing 0 [] s2)"

section \<open>Bounded retries\<close>

text \<open>
  The two retry loops have the same shape: try, stop when the try is accepted or the retries are used
  up, otherwise pause and try again.
\<close>

locale retry_loop =
  fixes loop :: "nat \<Rightarrow> p2p \<Rightarrow> p2p" and attempt :: "p2p \<Rightarrow> call" and pause :: call
    and ok :: "nat \<Rightarrow> bool" and mx :: nat
  assumes attempt_emit: "attempt (emit c s) = attempt s"
    and loop_unfold: "loop n s =
      (if ok (length (calls s)) \<or> mx < n + 1 then emit (attempt s) s
       else loop (n + 1) (emit pause (emit (attempt s) s)))"
begin

text \<open>The exact trace: \<open>k\<close> rejected tries, each followed by a pause, and a last one.\<close>

lemma loop_trace:
  "n \<le> mx \<Longrightarrow>
     \<exists>k \<le> mx - n. loop n s = s\<lparr>calls := calls s @ concat (replicate k [attempt s, pause]) @ [attempt s]\<rparr> \<and>
       (\<forall>j < k. \<not> ok (length (calls s) + 2 * j)) \<and> (ok (length (calls s) + 2 * k) \<or> k = mx - n)"
proof (induction "mx - n" arbitrary: n s)
  case 0
  then show ?case by (subst loop_unfold) (auto simp: emit_def)
next
  case (Suc d)
  show ?case
  proof (cases "ok (length (calls s))")
    case True
    then show ?thesis by (intro exI [of _ 0]) (subst loop_unfold, simp add: emit_def)
  next
    case False
    let ?s = "emit pause (emit (attempt s) s)"
    have again: "loop n s = loop (n + 1) ?s"
      using False Suc.hyps(2) by (subst loop_unfold) simp
    have "d = mx - (n + 1)" "n + 1 \<le> mx" using Suc.hyps(2) by simp_all
    from Suc.hyps(1) [OF this, of ?s] obtain k where
      k: "k \<le> mx - (n + 1)" "loop (n + 1) ?s =
        ?s\<lparr>calls := calls ?s @ concat (replicate k [attempt ?s, pause]) @ [attempt ?s]\<rparr>"
      "\<forall>j < k. \<not> ok (length (calls ?s) + 2 * j)" "ok (length (calls ?s) + 2 * k) \<or> k = mx - (n + 1)"
      by blast
    have "\<not> ok (length (calls s) + 2 * j)" if "j < Suc k" for j
      using that False k(3) by (cases j) auto
    moreover have "loop n s = s\<lparr>calls := calls s @ concat (replicate (Suc k) [attempt s, pause]) @ [attempt s]\<rparr>"
      unfolding again k(2) by (simp add: attempt_emit)
    moreover have "Suc k \<le> mx - n" "ok (length (calls s) + 2 * Suc k) \<or> Suc k = mx - n"
      using k(1,4) Suc.hyps(2) by auto
    ultimately show ?thesis by blast
  qed
qed

lemma count_replicate: "count_list (concat (replicate k [a, b])) c = (if c = a then k else 0) + (if c = b then k else 0)"
  by (induction k) auto

text \<open>What a client needs: only the log changes, by between one and \<open>mx + 1\<close> tries and fewer pauses.\<close>

lemma loop_calls:
  assumes "attempt s \<noteq> pause"
  shows "\<exists>cs. loop 0 s = s\<lparr>calls := calls s @ cs\<rparr> \<and> set cs \<subseteq> {attempt s, pause} \<and>
     1 \<le> count_list cs (attempt s) \<and> count_list cs (attempt s) \<le> mx + 1 \<and> length cs \<le> 2 * mx + 1"
proof -
  from loop_trace [of 0 s] obtain k where k: "k \<le> mx"
    "loop 0 s = s\<lparr>calls := calls s @ concat (replicate k [attempt s, pause]) @ [attempt s]\<rparr>" by auto
  let ?cs = "concat (replicate k [attempt s, pause]) @ [attempt s]"
  have "set ?cs \<subseteq> {attempt s, pause}" by auto
  moreover have "length ?cs = 2 * k + 1" by (simp add: length_concat sum_list_replicate)
  moreover have "count_list ?cs (attempt s) = k + 1" using assms by (simp add: count_replicate)
  ultimately show ?thesis using k by (intro exI [of _ ?cs]) simp
qed

end

interpretation dialing: retry_loop "\<lambda>n s. dial_retry accepts delay mx n addr s"
  "\<lambda>_. Dial (DialAddress addr)" "Sleep delay" accepts mx for accepts delay mx addr
  by unfold_locales (simp, subst dial_retry.simps, auto simp: Let_def)

interpretation subscribing: retry_loop "\<lambda>n s. subscribe_retry answer interval mx n s"
  "\<lambda>s. Subscribe (topic s)" "Sleep interval" "\<lambda>n. answer n = SubscribeOk" mx for answer interval mx
  by unfold_locales
    (simp, subst subscribe_retry.simps, auto simp: Let_def split: subscribe_result.split)

lemma dial_all_calls:
  "\<exists>cs. dial_all accepts delay mx addrs missing s = (missing \<union> set addrs, s\<lparr>calls := calls s @ cs\<rparr>) \<and>
     set cs \<subseteq> insert (Sleep delay) ((\<lambda>a. Dial (DialAddress a)) ` set addrs) \<and>
     length cs \<le> (2 * mx + 1) * length addrs \<and>
     (\<forall>a. count_list addrs a \<le> count_list cs (Dial (DialAddress a)) \<and>
          count_list cs (Dial (DialAddress a)) \<le> (mx + 1) * count_list addrs a)"
proof (induction addrs arbitrary: missing s)
  case Nil
  show ?case by (intro exI [of _ "[]"]) simp
next
  case (Cons b addrs)
  from dialing.loop_calls [where addr = b and delay = delay and s = s and accepts = accepts and mx = mx]
  obtain ds where
    ds: "dial_retry accepts delay mx 0 b s = s\<lparr>calls := calls s @ ds\<rparr>"
    "set ds \<subseteq> {Dial (DialAddress b), Sleep delay}" "1 \<le> count_list ds (Dial (DialAddress b))"
    "count_list ds (Dial (DialAddress b)) \<le> mx + 1" "length ds \<le> 2 * mx + 1" by auto
  from Cons.IH [of "insert b missing" "s\<lparr>calls := calls s @ ds\<rparr>"] obtain cs where
    cs: "dial_all accepts delay mx addrs (insert b missing) (s\<lparr>calls := calls s @ ds\<rparr>) =
      (insert b missing \<union> set addrs, s\<lparr>calls := (calls s @ ds) @ cs\<rparr>)"
    "set cs \<subseteq> insert (Sleep delay) ((\<lambda>a. Dial (DialAddress a)) ` set addrs)"
    "length cs \<le> (2 * mx + 1) * length addrs"
    "\<And>a. count_list addrs a \<le> count_list cs (Dial (DialAddress a))"
    "\<And>a. count_list cs (Dial (DialAddress a)) \<le> (mx + 1) * count_list addrs a"
    by auto
  have "count_list (b # addrs) a \<le> count_list (ds @ cs) (Dial (DialAddress a)) \<and>
      count_list (ds @ cs) (Dial (DialAddress a)) \<le> (mx + 1) * count_list (b # addrs) a" for a
  proof (cases "a = b")
    case True
    then show ?thesis using ds(3,4) cs(4,5) [of b] by simp
  next
    case False
    then have "count_list ds (Dial (DialAddress a)) = 0" using ds(2) by (auto simp: count_list_0_iff)
    then show ?thesis using False cs(4,5) [of a] by simp
  qed
  moreover have "length (ds @ cs) \<le> (2 * mx + 1) * length (b # addrs)" using ds(5) cs(3) by simp
  moreover have "set (ds @ cs) \<subseteq> insert (Sleep delay) ((\<lambda>a. Dial (DialAddress a)) ` set (b # addrs))"
    using ds(2) cs(2) by auto
  ultimately show ?case
    using ds(1) cs(1) by (intro exI [of _ "ds @ cs"]) simp
qed

section \<open>Waiting for the connections\<close>

text \<open>Addresses reported as dialled by the events taken.\<close>

definition dialled :: "startup_event list \<Rightarrow> multiaddr set" where
  "dialled evs = {a. \<exists>p c. Established p c (Dialer a) \<in> set evs}"

lemma dialled_simps [simp]:
  "dialled [] = {}"
  "dialled (evs @ [Established p c (Dialer a)]) = insert a (dialled evs)"
  "dialled (evs @ [Established p c Listener]) = dialled evs"
  "dialled (evs @ [GossipSubscribed p]) = dialled evs"
  "dialled (evs @ [OtherEvent ev]) = dialled evs"
  by (auto simp: dialled_def)

lemma same_setup_state: "\<exists>b. s = s\<lparr>setup_state := b\<rparr>"
  by (rule exI [of _ "setup_state s"]) simp

lemma await_connections_state:
  "\<exists>b. w_state (await_connections e fin xs missing subs consumed s) = s\<lparr>setup_state := b\<rparr>"
proof (induction e fin xs missing subs consumed s rule: await_connections.induct)
  case (2 e fin ev xs missing subs consumed s)
  then show ?case by (cases "byos e") auto
next
  case (3 e fin p c ev xs missing subs consumed s)
  then show ?case by (cases "byos e") auto
qed (simp_all add: Let_def same_setup_state)

text \<open>
  What was taken and what the outcome means; \<open>M\<close> are the addresses awaited. The wait succeeds at an event
  after which nothing is missing, unless that event is a connection dialled by the other side, after which
  the loop does not look.
\<close>

definition startup_events :: "startup_input list \<Rightarrow> startup_event list" where
  "startup_events xs = List.map_filter (\<lambda>x. case x of StartupEvent ev \<Rightarrow> Some ev | _ \<Rightarrow> None) xs"

definition incoming :: "startup_event \<Rightarrow> bool" where
  "incoming ev \<longleftrightarrow> (\<exists>p c. ev = Established p c Listener)"

definition subscription :: "startup_event \<Rightarrow> bool" where
  "subscription ev \<longleftrightarrow> (\<exists>p. ev = GossipSubscribed p)"

lemma startup_events_simps [simp]:
  "startup_events [] = []"
  "startup_events (StartupEvent ev # xs) = ev # startup_events xs"
  "startup_events (StartupSetupSwarm sev # xs) = startup_events xs"
  "startup_events (StartupSetupHandler p c hev # xs) = startup_events xs"
  by (simp_all add: startup_events_def List.map_filter_simps)

lemma startup_event_kinds [simp]:
  "incoming (Established p c Listener)" "\<not> incoming (Established p c (Dialer a))"
  "\<not> incoming (GossipSubscribed p)" "\<not> incoming (OtherEvent ev)"
  "subscription (GossipSubscribed p)" "\<not> subscription (Established p c pt)" "\<not> subscription (OtherEvent ev)"
  by (simp_all add: incoming_def subscription_def)

definition wait_ok ::
  "multiaddr set \<Rightarrow> startup_event list \<Rightarrow> nat \<Rightarrow> startup_event list \<Rightarrow> waiting \<Rightarrow> bool" where
  "wait_ok M evs subs consumed r \<longleftrightarrow>
     w_is_not_connected r = M - dialled (w_consumed r) \<and>
     (w_outcome r = AllConnected \<longleftrightarrow>
        (\<exists>pre ev post. evs = pre @ ev # post \<and> \<not> incoming ev \<and> M \<subseteq> dialled (consumed @ pre @ [ev]))) \<and>
     (\<exists>taken left. w_consumed r = consumed @ taken \<and> evs = taken @ left \<and>
        w_subscriptions r = subs + length (filter subscription taken) \<and>
        (w_outcome r \<noteq> AllConnected \<longrightarrow> left = []))"

lemma ex_split_Cons:
  "(\<exists>pre x post. y # ys = pre @ x # post \<and> P pre x) \<longleftrightarrow>
     P [] y \<or> (\<exists>pre x post. ys = pre @ x # post \<and> P (y # pre) x)"
proof
  assume "\<exists>pre x post. y # ys = pre @ x # post \<and> P pre x"
  then obtain pre x post where e: "y # ys = pre @ x # post" "P pre x" by blast
  then show "P [] y \<or> (\<exists>pre x post. ys = pre @ x # post \<and> P (y # pre) x)" by (cases pre) auto
next
  assume "P [] y \<or> (\<exists>pre x post. ys = pre @ x # post \<and> P (y # pre) x)"
  then show "\<exists>pre x post. y # ys = pre @ x # post \<and> P pre x" by (metis append_Cons append_Nil)
qed

lemma wait_ok_event:
  assumes "wait_ok M evs (subs + (if subscription ev then 1 else 0)) (consumed @ [ev]) r"
    and "incoming ev \<or> \<not> M \<subseteq> dialled (consumed @ [ev])"
  shows "wait_ok M (ev # evs) subs consumed r"
proof -
  from assms(1) obtain taken left where "w_consumed r = (consumed @ [ev]) @ taken"
    "w_subscriptions r = subs + (if subscription ev then 1 else 0) + length (filter subscription taken)"
    and left: "evs = taken @ left" "w_outcome r \<noteq> AllConnected \<longrightarrow> left = []"
    unfolding wait_ok_def by blast
  then have "w_consumed r = consumed @ (ev # taken) \<and> ev # evs = (ev # taken) @ left \<and>
      w_subscriptions r = subs + length (filter subscription (ev # taken)) \<and>
      (w_outcome r \<noteq> AllConnected \<longrightarrow> left = [])" by simp
  then have "\<exists>taken left. w_consumed r = consumed @ taken \<and> ev # evs = taken @ left \<and>
      w_subscriptions r = subs + length (filter subscription taken) \<and>
      (w_outcome r \<noteq> AllConnected \<longrightarrow> left = [])" by blast
  moreover have "(\<exists>pre x post. ev # evs = pre @ x # post \<and> \<not> incoming x \<and> M \<subseteq> dialled (consumed @ pre @ [x])) \<longleftrightarrow>
      (\<exists>pre x post. evs = pre @ x # post \<and> \<not> incoming x \<and> M \<subseteq> dialled (consumed @ ev # pre @ [x]))"
    unfolding ex_split_Cons [where P = "\<lambda>pre x. \<not> incoming x \<and> M \<subseteq> dialled (consumed @ pre @ [x])"]
    using assms(2) unfolding append_Nil append_Cons by blast
  ultimately show ?thesis
    using assms(1) unfolding wait_ok_def append_assoc append.simps by blast
qed

lemma wait_ok_done:
  assumes "\<not> incoming ev" and "missing = {}" and "M \<subseteq> dialled (consumed @ [ev])"
    and "n = subs + (if subscription ev then 1 else 0)"
  shows "wait_ok M (ev # evs) subs consumed
       \<lparr>w_outcome = AllConnected, w_is_not_connected = missing, w_subscriptions = n,
        w_consumed = consumed @ [ev], w_state = s\<rparr>"
proof -
  have "\<exists>pre x post. ev # evs = pre @ x # post \<and> \<not> incoming x \<and> M \<subseteq> dialled (consumed @ pre @ [x])"
    using assms(1,3) by (intro exI [of _ "[]"] exI [of _ ev] exI [of _ evs]) simp
  moreover have "\<exists>taken left. consumed @ [ev] = consumed @ taken \<and> ev # evs = taken @ left \<and>
      n = subs + length (filter subscription taken) \<and> (AllConnected \<noteq> AllConnected \<longrightarrow> left = [])"
    by (intro exI [of _ "[ev]"] exI [of _ evs]) (simp add: assms(4))
  moreover have "missing = M - dialled (consumed @ [ev])" using assms(2,3) by blast
  ultimately show ?thesis
    unfolding wait_ok_def waiting.simps by blast
qed

lemma await_connections_ok:
  "missing = M - dialled consumed \<Longrightarrow>
     wait_ok M (startup_events xs) subs consumed (await_connections e fin xs missing subs consumed s)"
proof (induction e fin xs missing subs consumed s rule: await_connections.induct)
  case (1 e fin missing subs consumed s)
  then show ?case by (cases fin) (auto simp: wait_ok_def)
next
  case (4 e fin p c xs missing subs consumed s)
  then show ?case by (simp add: wait_ok_event)
next
  case (5 e fin p xs missing subs consumed s)
  then show ?case by (cases "missing = {}") (simp_all add: wait_ok_done wait_ok_event Diff_eq_empty_iff)
next
  case (6 e fin p c a xs missing subs consumed s)
  have "M - dialled consumed - {a} = M - dialled (consumed @ [Established p c (Dialer a)])" by auto
  with 6 show ?case
    by (cases "missing - {a} = {}") (simp_all add: wait_ok_done wait_ok_event Diff_eq_empty_iff)
next
  case (7 e fin ev xs missing subs consumed s)
  then show ?case by (cases "missing = {}") (simp_all add: wait_ok_done wait_ok_event Diff_eq_empty_iff)
qed simp_all

section \<open>Start-up as a whole\<close>

text \<open>
  What \<open>establish_connections\<close> does to the state: it appends calls of three kinds, and the handshake
  behaviour moves on; nothing else.
\<close>

lemma establish_connections_effect:
  fixes s :: p2p
  defines "mx \<equiv> unwrap_or DEFAULT_MAX_RETRIES (max_retries (config s))"
  obtains cs ss b fin' delay interval where
    "establish_connections e accepts answer fin xs s =
       await_connections e fin' (map snd (takeWhile (\<lambda>x. fst x <
           unwrap_or DEFAULT_GENERAL_TIMEOUT (general_timeout (config s))) xs)) (set (connect_to (config s))) 0 [] (s\<lparr>calls := calls s @ cs @ ss\<rparr>)"
    and "w_state (establish_connections e accepts answer fin xs s) =
       s\<lparr>calls := calls s @ cs @ ss, setup_state := b\<rparr>"
    and "set cs \<subseteq> insert (Sleep delay) ((\<lambda>a. Dial (DialAddress a)) ` set (connect_to (config s)))"
    and "set ss \<subseteq> {Subscribe (topic s), Sleep interval}"
    and "length cs \<le> (2 * mx + 1) * length (connect_to (config s))" and "length ss \<le> 2 * mx + 1"
    and "\<And>a. count_list (connect_to (config s)) a \<le> count_list cs (Dial (DialAddress a))"
    and "\<And>a. count_list cs (Dial (DialAddress a)) \<le> (mx + 1) * count_list (connect_to (config s)) a"
    and "1 \<le> count_list ss (Subscribe (topic s))" and "count_list ss (Subscribe (topic s)) \<le> mx + 1"
proof -
  define delay where "delay = unwrap_or DEFAULT_DIAL_TIMEOUT (dial_timeout (config s))"
  define interval where
    "interval = unwrap_or DEFAULT_CONNECTION_CHECK_INTERVAL (connection_check_interval (config s))"
  define timely where
    "timely = takeWhile (\<lambda>x. fst x < unwrap_or DEFAULT_GENERAL_TIMEOUT (general_timeout (config s))) xs"
  from dial_all_calls [of accepts delay mx "connect_to (config s)" "{}" s] obtain cs where
    cs: "dial_all accepts delay mx (connect_to (config s)) {} s =
        (set (connect_to (config s)), s\<lparr>calls := calls s @ cs\<rparr>)"
      "set cs \<subseteq> insert (Sleep delay) ((\<lambda>a. Dial (DialAddress a)) ` set (connect_to (config s)))"
      "length cs \<le> (2 * mx + 1) * length (connect_to (config s))"
      "\<And>a. count_list (connect_to (config s)) a \<le> count_list cs (Dial (DialAddress a))"
      "\<And>a. count_list cs (Dial (DialAddress a)) \<le> (mx + 1) * count_list (connect_to (config s)) a"
    by auto
  from subscribing.loop_calls [where s = "s\<lparr>calls := calls s @ cs\<rparr>" and answer = answer
      and interval = interval and mx = mx]
  obtain ss where
    ss: "subscribe_retry answer interval mx 0 (s\<lparr>calls := calls s @ cs\<rparr>) = s\<lparr>calls := calls s @ cs @ ss\<rparr>"
      "set ss \<subseteq> {Subscribe (topic s), Sleep interval}" "length ss \<le> 2 * mx + 1"
      "1 \<le> count_list ss (Subscribe (topic s))" "count_list ss (Subscribe (topic s)) \<le> mx + 1"
    by auto
  let ?fin = "if length timely < length xs then TimeRanOut else fin"
  have est: "establish_connections e accepts answer fin xs s =
      await_connections e ?fin (map snd timely) (set (connect_to (config s))) 0 []
        (s\<lparr>calls := calls s @ cs @ ss\<rparr>)"
    using cs(1) ss(1) unfolding mx_def delay_def interval_def timely_def
    by (simp add: establish_connections_def Let_def)
  obtain b where b: "w_state (establish_connections e accepts answer fin xs s) =
      s\<lparr>calls := calls s @ cs @ ss, setup_state := b\<rparr>"
    unfolding est using await_connections_state
      [of e ?fin "map snd timely" "set (connect_to (config s))" 0 "[]" "s\<lparr>calls := calls s @ cs @ ss\<rparr>"]
    by blast
  from that [OF est [unfolded timely_def] b cs(2) ss(2) cs(3) ss(3) cs(4,5) ss(4,5)] show thesis .
qed

text \<open>C20: Start-up ends. It dials every address of \<^verbatim>\<open>connect_to\<close> at least once and at most \<^verbatim>\<open>max_retries\<close> more
  times for each time it is listed, subscribes to the topic likewise, pauses only between tries, and
  makes no other call.\<close>

theorem startup_retries_bounded:
  fixes s :: p2p
  defines "mx \<equiv> unwrap_or DEFAULT_MAX_RETRIES (max_retries (config s))"
  shows "\<exists>cs. calls (w_state (establish_connections e accepts answer fin xs s)) = calls s @ cs \<and>
     length cs \<le> (2 * mx + 1) * (length (connect_to (config s)) + 1) \<and>
     (\<forall>a. count_list (connect_to (config s)) a \<le> count_list cs (Dial (DialAddress a)) \<and>
          count_list cs (Dial (DialAddress a)) \<le> (mx + 1) * count_list (connect_to (config s)) a) \<and>
     1 \<le> count_list cs (Subscribe (topic s)) \<and> count_list cs (Subscribe (topic s)) \<le> mx + 1 \<and>
     set cs \<subseteq> {Subscribe (topic s)} \<union> range Sleep \<union> (\<lambda>a. Dial (DialAddress a)) ` set (connect_to (config s))"
proof (rule establish_connections_effect [where s = s and e = e and accepts = accepts and
      answer = answer and fin = fin and xs = xs, folded mx_def])
  fix cs ss b fin' delay interval
  assume st: "w_state (establish_connections e accepts answer fin xs s) =
       s\<lparr>calls := calls s @ cs @ ss, setup_state := b\<rparr>"
    and cs: "set cs \<subseteq> insert (Sleep delay) ((\<lambda>a. Dial (DialAddress a)) ` set (connect_to (config s)))"
      "length cs \<le> (2 * mx + 1) * length (connect_to (config s))"
      "\<And>a. count_list (connect_to (config s)) a \<le> count_list cs (Dial (DialAddress a))"
      "\<And>a. count_list cs (Dial (DialAddress a)) \<le> (mx + 1) * count_list (connect_to (config s)) a"
    and ss: "set ss \<subseteq> {Subscribe (topic s), Sleep interval}" "length ss \<le> 2 * mx + 1"
      "1 \<le> count_list ss (Subscribe (topic s))" "count_list ss (Subscribe (topic s)) \<le> mx + 1"
  have "count_list ss (Dial (DialAddress a)) = 0" for a using ss(1) by (auto simp: count_list_0_iff)
  moreover have "count_list cs (Subscribe (topic s)) = 0" using cs(1) by (auto simp: count_list_0_iff)
  moreover have "length (cs @ ss) \<le> (2 * mx + 1) * (length (connect_to (config s)) + 1)"
    using cs(2) ss(2) by simp
  moreover have "set (cs @ ss) \<subseteq> {Subscribe (topic s)} \<union> range Sleep \<union>
      (\<lambda>a. Dial (DialAddress a)) ` set (connect_to (config s))"
    using cs(1) ss(1) by auto
  ultimately show ?thesis
    using cs(3,4) ss(3,4) by (intro exI [of _ "cs @ ss"]) (simp add: st)
qed

text \<open>C21: What start-up reports. Of what the swarm yields before the general timeout, start-up takes the
  events in order. It succeeds exactly if, at some event other than a connection dialled by the other
  side, every address of \<^verbatim>\<open>connect_to\<close> has had a connection dialled by this node, whatever subscriptions
  were seen: they are counted and play no other part. If it does not succeed, it has taken every event of
  that time. The addresses still missing at the end are those for which no such connection was reported.
  If the swarm reports nothing before the timeout, start-up is not successful even when there was nothing
  to wait for.\<close>

theorem startup_outcome:
  "(let r = establish_connections e accepts answer fin xs s;
        limit = unwrap_or DEFAULT_GENERAL_TIMEOUT (general_timeout (config s));
        evs = startup_events (map snd (takeWhile (\<lambda>x. fst x < limit) xs))
    in (w_outcome r = AllConnected \<longleftrightarrow>
          (\<exists>pre ev post. evs = pre @ ev # post \<and> \<not> incoming ev \<and>
             set (connect_to (config s)) \<subseteq> dialled (pre @ [ev]))) \<and>
       (\<exists>left. evs = w_consumed r @ left \<and> (w_outcome r \<noteq> AllConnected \<longrightarrow> left = [])) \<and>
       w_is_not_connected r = set (connect_to (config s)) - dialled (w_consumed r) \<and>
       w_subscriptions r = length (filter subscription (w_consumed r))) \<and>
   w_outcome (establish_connections e accepts answer fin [] s) \<noteq> AllConnected"
proof (rule establish_connections_effect [where s = s and e = e and accepts = accepts and
      answer = answer and fin = fin and xs = xs])
  let ?xs = "map snd (takeWhile (\<lambda>x. fst x <
      unwrap_or DEFAULT_GENERAL_TIMEOUT (general_timeout (config s))) xs)"
  fix cs ss fin'
  assume est: "establish_connections e accepts answer fin xs s =
       await_connections e fin' ?xs (set (connect_to (config s))) 0 [] (s\<lparr>calls := calls s @ cs @ ss\<rparr>)"
  have "wait_ok (set (connect_to (config s))) (startup_events ?xs) 0 []
      (establish_connections e accepts answer fin xs s)"
    unfolding est by (rule await_connections_ok) simp
  moreover have "w_outcome (establish_connections e accepts answer fin [] s) \<noteq> AllConnected"
    by (cases fin) (simp_all add: establish_connections_def Let_def split: prod.split)
  ultimately show ?thesis by (auto simp: wait_ok_def Let_def)
qed

definition example_startup :: p2p where
  "example_startup = example_state\<lparr>config := example_config\<lparr>connect_to := [Multiaddr [8]]\<rparr>\<rparr>"

theorem startup_outcome_witness:
  "w_outcome (establish_connections (example_env True) (\<lambda>_. True) (\<lambda>_. SubscribeOk) TimeRanOut
     [(1, StartupEvent (Established (PeerId [1]) 0 (Dialer (Multiaddr [8]))))] example_startup) = AllConnected"
proof -
  have "connect_to (config example_startup) = [Multiaddr [8]]" "general_timeout (config example_startup) = None"
    by (simp_all add: example_startup_def) (simp add: example_config_def)
  moreover have "\<exists>pre ev post. [Established (PeerId [1]) 0 (Dialer (Multiaddr [8]))] = pre @ ev # post \<and>
      \<not> incoming ev \<and> {Multiaddr [8]} \<subseteq> dialled (pre @ [ev])"
    by (intro exI [of _ "[]"] exI [of _ "Established (PeerId [1]) 0 (Dialer (Multiaddr [8]))"])
      (simp only: append_Nil startup_event_kinds dialled_simps(2) [of "[]", unfolded append_Nil]; simp)
  ultimately show ?thesis
    using conjunct1 [OF conjunct1 [OF startup_outcome [unfolded Let_def]], of "example_env True" "\<lambda>_. True"
        "\<lambda>_. SubscribeOk" TimeRanOut "[(1, StartupEvent (Established (PeerId [1]) 0 (Dialer (Multiaddr [8]))))]"
        example_startup]
    by (simp add: DEFAULT_GENERAL_TIMEOUT_def)
qed

text \<open>C37: Events that arrive while start-up waits are taken from the swarm and not handled: whatever they
  are, no peer is disconnected and no score, penalty, dial or record changes. In particular a peer whose
  handshake announced a key that is not on the allowlist stays connected if its event comes in this
  phase, while the event loop disconnects it on the same event.\<close>

theorem startup_keeps_unlisted_peer:
  assumes "byos e" and "k \<notin> app_allowlist s" and "DisconnectPeerId p \<notin> set (calls s)"
    and "s1 = w_state (establish_connections e accepts answer fin xs s)"
  shows "DisconnectPeerId p \<notin> set (calls s1) \<and> unscored s1 = unscored (s\<lparr>setup_state := setup_state s1\<rparr>) \<and>
     score_manager s1 = score_manager s \<and> peer_penalty_storage s1 = peer_penalty_storage s \<and>
     handle_swarm_event e w (swarm_event_of (OtherEvent (SwarmBehaviour (BSetup (AppKeyReceived p k c))))) s =
       (emit (DisconnectPeerId p) s, Ok)"
proof (rule establish_connections_effect [where s = s and e = e and accepts = accepts and
      answer = answer and fin = fin and xs = xs])
  fix cs ss b delay interval
  assume st: "w_state (establish_connections e accepts answer fin xs s) =
       s\<lparr>calls := calls s @ cs @ ss, setup_state := b\<rparr>"
    and "set cs \<subseteq> insert (Sleep delay) ((\<lambda>a. Dial (DialAddress a)) ` set (connect_to (config s)))"
    and "set ss \<subseteq> {Subscribe (topic s), Sleep interval}"
  then have "DisconnectPeerId p \<notin> set cs" "DisconnectPeerId p \<notin> set ss" by auto
  then show ?thesis
    using assms(1-3) unfolding assms(4) st
    by (simp add: unscored_def handle_swarm_event_def handle_behaviour_event_def handle_setup_event_def)
qed

theorem startup_keeps_unlisted_peer_witness:
  "DisconnectPeerId (PeerId [3]) \<notin> set (calls (w_state
     (establish_connections (example_env True) (\<lambda>_. True) (\<lambda>_. SubscribeOk) TimeRanOut
       [(1, StartupSetupHandler (PeerId [3]) 0 (HandlerAppKeyReceived (PublicKey [6]))),
        (2, StartupEvent (OtherEvent (SwarmBehaviour (BSetup (AppKeyReceived (PeerId [3]) (PublicKey [6]) 0)))))]
       example_startup)))"
  using startup_keeps_unlisted_peer [of "example_env True" "PublicKey [6]" example_startup "PeerId [3]", OF _ _ _ refl]
  by (simp add: example_startup_def)

section \<open>The state the event loop starts from\<close>

lemma transport_signer_matches:
  "signer_matches ko ks k \<Longrightarrow> signer_matches ko (transport_keypair_signer_sign ks) k"
  by (auto simp: signer_matches_def transport_keypair_signer_sign_def split: option.splits if_splits)

lemma listen_on_all_calls:
  "listen_on_all listen_error addrs cs = Inr cs' \<Longrightarrow> cs' = cs @ map ListenOn addrs"
  by (induction addrs arbitrary: cs) (simp, fastforce split: option.splits)

text \<open>What \<open>from_config\<close> returns when it does not fail.\<close>

lemma from_config_built:
  assumes "from_config lib listen_error e cfg sw allowlist buf sg vo ms = (Some (Inr (s, ch, h)), ms')"
  shows "calls s = map ListenOn (listening_addrs cfg)" and "config s = cfg" and "topic s = topic_of cfg"
    and "app_allowlist s = (if byos e then set allowlist else {})"
    and "p2p_signer s = (if byos e then sg else transport_keypair_signer_sign (kp_sign (transport_keypair cfg)))"
    and "dial_manager s = dial_manager_new" and "kademlia_map_received_records s = Map.empty"
    and "peer_penalty_storage s = penalty_peer_storage_new" and "score_manager s = score_manager_new"
    and "p2p_validator s = unwrap_or default_validator vo" and "setup_state s = bh_setup (sw_behaviour sw)"
    and "create_channels lib cfg buf = Some ch"
  using assms by (auto simp: from_config_def Let_def dest: listen_on_all_calls split: sum.splits option.splits)

text \<open>What \<open>establish_connections\<close> leaves alone.\<close>

lemma establish_connections_keeps:
  fixes s :: p2p
  assumes "s1 = w_state (establish_connections e accepts answer fin xs s)"
  obtains cs where "calls s1 = calls s @ cs" and "list_all control_call cs"
    and "\<forall>a. ListenOn a \<notin> set cs" and "unscored s1 = unscored (s\<lparr>setup_state := setup_state s1\<rparr>)"
    and "score_manager s1 = score_manager s" and "peer_penalty_storage s1 = peer_penalty_storage s"
proof (rule establish_connections_effect [where s = s and e = e and accepts = accepts and
      answer = answer and fin = fin and xs = xs])
  fix cs ss b delay interval
  assume st: "w_state (establish_connections e accepts answer fin xs s) =
       s\<lparr>calls := calls s @ cs @ ss, setup_state := b\<rparr>"
    and "set cs \<subseteq> insert (Sleep delay) ((\<lambda>a. Dial (DialAddress a)) ` set (connect_to (config s)))"
    and "set ss \<subseteq> {Subscribe (topic s), Sleep interval}"
  then have "list_all control_call (cs @ ss)" "\<forall>a. ListenOn a \<notin> set (cs @ ss)"
    by (auto simp: list_all_iff)
  with that [of "cs @ ss"] show thesis unfolding assms st by (simp add: unscored_def)
qed

end
