(* ===== verification/Swarm_Robust.thy ===== *)
theory Swarm_Robust
  imports Swarm_Loop
begin

text \<open>
  What can end the event loop. A handler that returns an error stops it, a handler that panics takes the
  task down. This theory shows that no input from the swarm does either as long as the application keeps
  its event receivers, the clock is in the range of the types and the penalties of the validator are not
  absurdly long.
\<close>

section \<open>Conditions\<close>

primrec penalty_length :: "penalty_type \<Rightarrow> duration" where
  "penalty_length (MuteGossip d) = d"
| "penalty_length (MuteReqresp d) = d"
| "penalty_length (MuteBoth d) = d"
| "penalty_length (Ban d) = unwrap_or DEFAULT_BAN_PERIOD d"

definition penalties_within :: "duration \<Rightarrow> validator \<Rightarrow> bool" where
  "penalties_within bound v \<longleftrightarrow>
     (\<forall>msg score pen. get_penalty v msg score = Some pen \<longrightarrow> penalty_length pen \<le> bound)"

text \<open>Every reading of the clock is after the epoch, leaves room for a penalty and for the clock skew.\<close>

definition clock_sane :: "duration \<Rightarrow> duration \<Rightarrow> world \<Rightarrow> bool" where
  "clock_sane bound skew w \<longleftrightarrow>
     (\<forall>i. 0 \<le> clk w i \<and> clk w i + int bound < system_time_limit \<and> skew_fits skew (unix_secs (clk w i)))"

definition receivers_alive :: "world \<Rightarrow> bool" where
  "receivers_alive w \<longleftrightarrow> gossip_has_receivers w \<and> req_resp_send w \<noteq> ChannelClosed"

lemma default_penalties_within: "penalties_within DEFAULT_MUTE_DURATION default_validator"
  by (auto simp: penalties_within_def default_validator_def default_get_penalty_def
      split: validator_message.splits if_splits)

section \<open>Scoring does not panic\<close>

lemma apply_penalty_fits:
  "ck 0 + int (penalty_length pen) < system_time_limit \<Longrightarrow> snd (apply_penalty ck p pen s) = Ok"
  by (cases pen) (simp_all add: apply_penalty_eqs system_time_add_def)

lemma apply_penalty_within:
  assumes "clock_sane bound skew w" and "penalties_within bound v" and "get_penalty v msg sc = Some pen"
  shows "snd (apply_penalty (\<lambda>i. clk w (k + i)) p pen s) = Ok"
proof (rule apply_penalty_fits)
  have "clk w (k + 0) + int bound < system_time_limit" using assms(1) by (simp add: clock_sane_def)
  moreover have "penalty_length pen \<le> bound" using assms(2,3) by (simp add: penalties_within_def)
  ultimately show "clk w (k + 0) + int (penalty_length pen) < system_time_limit" by linarith
qed

lemma score_gossip_status:
  assumes "clock_sane bound skew w" and "penalties_within bound (p2p_validator s)"
    and "score_gossip_message w p msg s = (s', Some st)"
  shows "st = Ok"
  using assms(3) apply_penalty_within [OF assms(1,2), of _ _ _ 3]
  by (auto simp: score_gossip_message_def Let_def split: option.splits prod.splits) (metis snd_conv)

lemma score_req_resp_status:
  assumes "clock_sane bound skew w" and "penalties_within bound (p2p_validator s)"
    and "score_req_resp_message w p msg s = (s', Some st)"
  shows "st = Ok"
  using assms(3) apply_penalty_within [OF assms(1,2), of _ _ _ 3]
  by (auto simp: score_req_resp_message_def Let_def split: option.splits prod.splits) (metis snd_conv)

section \<open>The handlers return normally\<close>

lemma clock_saneD:
  assumes "clock_sane bound skew w"
  shows "0 \<le> clk w i" and "skew_fits skew (unix_secs (clk w i))"
  using assms by (simp_all add: clock_sane_def)

lemmas message_from_future_sane = message_from_future_exact [OF clock_saneD(2)]

lemma check_gossip_total:
  "clock_sane bound (clock_skew_of (config s)) w \<Longrightarrow> check_gossip_envelope e w s data \<noteq> VerdictPanic"
  by (auto simp: message_from_future_sane check_gossip_envelope_def Let_def split: option.splits)

lemma handle_gossip_msg_status:
  assumes "clock_sane bound (clock_skew_of (config s)) w" and "penalties_within bound (p2p_validator s)"
    and "gossip_has_receivers w"
  shows "snd (handle_gossip_msg e w src mid data s) = Ok"
proof (cases "\<not> byos e \<and> is_gossip_muted (clk w 0) (peer_penalty_storage s) src")
  case True
  then show ?thesis by (simp add: handle_gossip_msg_def)
next
  case False
  define s1 where "s1 = (if byos e then s else gossip_decay w src s)"
  have "penalties_within bound (p2p_validator s1)" using assms(2) by (simp add: s1_def)
  note sc = score_gossip_status [OF assms(1) this]
  show ?thesis
    using False check_gossip_total [OF assms(1), of e data] assms(3)
    by (subst handle_gossip_msg_unmuted [OF _ s1_def])
      (auto split: gossip_verdict.split prod.split option.split dest: sc simp: deliver_gossip_def Let_def)
qed

lemma check_request_total:
  "clock_sane bound (clock_skew_of (config s)) w \<Longrightarrow> check_request_envelope e w s peer data \<noteq> RRPanic"
  by (auto simp: message_from_future_sane check_request_envelope_def Let_def split: option.splits sum.splits if_splits)

lemma check_response_total:
  "clock_sane bound (clock_skew_of (config s)) w \<Longrightarrow> check_response_envelope e w s peer data \<noteq> RRPanic"
  by (auto simp: message_from_future_sane check_response_envelope_def Let_def split: option.splits sum.splits if_splits)

lemma answer_request_status:
  assumes "clock_sane bound skew w" and "req_resp_send w \<noteq> ChannelClosed"
  shows "snd (answer_request e w channel b s) = Ok"
  using assms(2) clock_saneD(1) [OF assms(1), of 7]
  by (auto simp: answer_request_def send_signed_response_def response_message_new_def get_timestamp_eq
      Let_def split: response_wait.split sum.split option.split)

lemma handle_request_status:
  assumes "clock_sane bound (clock_skew_of (config s)) w" and "penalties_within bound (p2p_validator s)"
    and "req_resp_send w \<noteq> ChannelClosed"
  shows "snd (handle_request e w peer channel data s) = Ok"
  using check_request_total [OF assms(1), of e peer data]
  by (auto simp: handle_request_def answer_request_status [OF assms(1,3)]
      split: rr_verdict.split prod.split option.split dest: score_req_resp_status [OF assms(1,2)])

lemma handle_response_status:
  assumes "clock_sane bound (clock_skew_of (config s)) w" and "penalties_within bound (p2p_validator s)"
    and "req_resp_send w \<noteq> ChannelClosed"
  shows "snd (handle_response e w peer data s) = Ok"
  using check_response_total [OF assms(1), of e peer data] assms(3)
  by (auto simp: handle_response_def
      split: rr_verdict.split prod.split option.split channel_send.split
      dest: score_req_resp_status [OF assms(1,2)])

lemma validate_record_date_total:
  assumes "clock_sane bound (clock_skew_of cfg) w"
  shows "validate_record_date oc cfg (clk w i) d \<noteq> None"
proof -
  note fit = clock_saneD(2) [OF assms, of i]
  have "unat (unix_secs (clk w i)) + unat (as_secs (clock_skew_of cfg)) < 2 ^ 64"
    using fit skew_fits_valid [OF fit] by (simp add: skew_fits_def unat_as_secs)
  then show ?thesis
    using clock_saneD(1) [OF assms, of i]
    by (simp add: validate_record_date_def unix_secs_def duration_since_def Let_def u64_add_exact)
qed

lemma handle_kademlia_event_status:
  assumes "clock_sane bound (clock_skew_of (config s)) w"
  shows "snd (handle_kademlia_event e w ev s) = Ok"
proof -
  have "check_inbound_record e w s r \<noteq> RecordPanic" for r
    using validate_record_date_total [OF assms, of "overflow_checks e" 0]
    by (auto simp: check_inbound_record_def simp del: not_None_eq split: option.splits sum.splits)
  moreover have "check_found_record e w s q r \<noteq> RecordPanic" for q r
    using validate_record_date_total [OF assms, of "overflow_checks e" 0]
    by (auto simp: check_found_record_def simp del: not_None_eq split: option.splits sum.splits)
  moreover have "kademlia_map_received_records s q \<noteq> None" if "check_found_record e w s q r = RecordAccepted sm" for q r sm
    using that by (auto simp: check_found_record_def split: if_splits)
  ultimately show ?thesis
    by (fastforce simp: handle_kademlia_event_def handle_inbound_put_record_def handle_found_record_def
        split: kademlia_event.split query_result.split option.split record_verdict.split)
qed

lemma handle_connection_event_status: "snd (handle_connection_event e w ev s) = Ok"
  by (auto simp: handle_connection_event_def Let_def split: conn_event.split option.split prod.split)

lemma handle_swarm_event_status:
  assumes "clock_sane bound (clock_skew_of (config s)) w" and "penalties_within bound (p2p_validator s)"
    and "receivers_alive w"
  shows "snd (handle_swarm_event e w ev s) = Ok"
  using assms(3)
  by (auto simp: handle_swarm_event_def handle_behaviour_event_def handle_gossip_event_def
      handle_request_response_event_def handle_message_event_def handle_setup_event_def
      handle_identify_received_def receivers_alive_def handle_connection_event_status
      handle_gossip_msg_status [OF assms(1,2)] handle_request_status [OF assms(1,2)]
      handle_response_status [OF assms(1,2)] handle_kademlia_event_status [OF assms(1)] Let_def
      split: swarm_event.split behaviour_event.split gossipsub_event.split
        request_response_event.split rr_message.split setup_behaviour_event.split)

text \<open>C4: No event of the swarm, and so nothing a peer sends, ends the event loop, in a state reached from
  \<open>s0\<close>: as long as the application keeps its receivers, the clock is after the epoch and within range, and
  the penalties of the validator stay below a bound that fits, handling it returns normally. If the
  application has no gossip receiver left, however, the next valid gossip message stops the loop.\<close>

theorem network_input_never_stops:
  assumes "run e s0 tr s Running" and "clock_sane bound (clock_skew_of (config s0)) w"
    and "penalties_within bound (p2p_validator s0)"
  shows "(receivers_alive w \<longrightarrow> snd (listen_step e w (SwarmInput ev) s) = Running) \<and>
     (byos e \<and> \<not> gossip_has_receivers w \<and> gossip_envelope_ok e w s data m \<longrightarrow>
       snd (listen_step e w (SwarmInput (SwarmBehaviour (BGossipsub (GossipsubMessage src mid data)))) s) =
         Stopped)"
proof -
  note set = settings_eqD [OF run_settings [OF assms(1)]]
  have "snd (handle_swarm_event e w ev s) = Ok" if "receivers_alive w"
    by (rule handle_swarm_event_status [OF _ _ that]) (use assms(2,3) set in simp_all)
  moreover have "snd (handle_gossip_msg e w src mid data s) = Err (Protocol (GossipEventsChannelClosed (BoxedError ''send'')))"
    if "byos e" "\<not> gossip_has_receivers w" "gossip_envelope_ok e w s data m"
    using that by (simp add: handle_gossip_msg_def check_gossip_envelope_verified [THEN iffD2]
        deliver_gossip_def Let_def)
  ultimately show ?thesis
    by (simp add: listen_step_def loop_result_def handle_swarm_event_def handle_behaviour_event_def
        handle_gossip_event_def)
qed

theorem network_input_never_stops_witness:
  "snd (listen_step (example_env False) example_world (SwarmInput (SwarmBehaviour (BGossipsub
      (GossipsubMessage (PeerId [1]) [6] [1, 2, 3])))) example_state) = Running"
proof -
  have "clock_sane DEFAULT_MUTE_DURATION 0 example_world"
    by (simp add: clock_sane_def system_time_limit_def DEFAULT_MUTE_DURATION_def)
  then show ?thesis
    using network_input_never_stops [OF run_start, of DEFAULT_MUTE_DURATION example_state example_world
        "example_env False"] default_penalties_within
    by (simp add: receivers_alive_def)
qed

end
