(* ===== verification/Spec2Isabelle.thy ===== *)
theory Spec2Isabelle
  imports P2P_Startup Swarm_Robust
begin

text \<open>
  A verification of \<^verbatim>\<open>strata-p2p\<close> (\<^verbatim>\<open>src/crates/p2p/src\<close>), a peer-to-peer layer on top of \<^verbatim>\<open>libp2p\<close>:
  signed gossip, signed request-response, a DHT of signed address records, an application-key
  handshake for builds with the feature \<^verbatim>\<open>byos\<close> ("bring your own signer"), and scores and penalties for
  builds without it.

  \<^bold>\<open>How the program works.\<close> \<^verbatim>\<open>with_default_transport\<close> or \<^verbatim>\<open>with_inmemory_transport\<close> builds a swarm
  from a \<^verbatim>\<open>P2PConfig\<close>; \<^verbatim>\<open>from_config\<close> puts a \<^verbatim>\<open>P2P\<close> around it; \<^verbatim>\<open>establish_connections\<close> dials the
  configured addresses and subscribes to the topic; \<^verbatim>\<open>listen\<close> then handles events of the swarm and
  commands of the application, one at a time, until it is cancelled or a handler fails. The application
  talks to it through handles.

  \<^bold>\<open>Theories and what they model.\<close>
  \<^item> \<open>P2P_Prelude\<close>: byte strings, opaque identifiers, \<^verbatim>\<open>u64\<close> arithmetic, \<^verbatim>\<open>Duration\<close> and \<^verbatim>\<open>SystemTime\<close>,
    shared lemmas. \<open>Rust_F64\<close>: \<^verbatim>\<open>f64\<close> as rounded rationals. \<open>P2P_Errors\<close>: \<^verbatim>\<open>swarm/errors.rs\<close>.
  \<^item> \<open>P2P_Messages\<close>: \<^verbatim>\<open>swarm/message/*.rs\<close> and \<^verbatim>\<open>signer.rs\<close>: the five messages, their constructors, the
    signed envelope, the serde helpers. Locale \<open>message_type\<close>, interpreted for the five types.
  \<^item> \<open>P2P_Freshness\<close>: the date tests on messages. Locale \<open>freshness_check\<close>, interpreted for the gossip,
    handshake and DHT tests.
  \<^item> \<open>P2P_Codec\<close>: \<^verbatim>\<open>swarm/setup/flexbuffers_codec.rs\<close> and \<^verbatim>\<open>swarm/codec_raw.rs\<close>.
  \<^item> \<open>P2P_Score\<close> and \<open>P2P_Penalty\<close>: \<^verbatim>\<open>score_manager.rs\<close> and \<^verbatim>\<open>validator.rs\<close>. Locales \<open>score_table\<close> (both
    tables) and \<open>penalty_timer\<close> (bans and both mutes).
  \<^item> \<open>P2P_Setup\<close>: \<^verbatim>\<open>swarm/setup/*.rs\<close>, the handshake: upgrades, connection handler, behaviour with its two
    key maps. Locale \<open>key_directory\<close>.
  \<^item> \<open>P2P_Dial\<close>: \<^verbatim>\<open>swarm/dial_manager.rs\<close>.
  \<^item> \<open>P2P_State\<close>: \<^verbatim>\<open>P2PConfig\<close>, \<^verbatim>\<open>commands.rs\<close>, \<^verbatim>\<open>events.rs\<close>, the \<^verbatim>\<open>P2P\<close> struct as the record \<open>p2p\<close>, penalties
    and scores of the event loop. \<open>P2P_Examples\<close>: concrete values for the witnesses.
  \<^item> \<open>Swarm_Gossip\<close>, \<open>Swarm_ReqResp\<close>, \<open>Swarm_Kad\<close>, \<open>Swarm_Command\<close>: the handlers of \<^verbatim>\<open>swarm/mod.rs\<close>, by
    protocol. \<open>Swarm_Loop\<close>: dispatch, one iteration of \<^verbatim>\<open>listen\<close> (\<open>listen_step\<close>), the loop over a list of
    inputs (\<open>listen\<close>) and as a step relation with its trace (\<open>run\<close>). \<open>Swarm_Robust\<close>: what can end the loop.
  \<^item> \<open>P2P_Behaviour\<close>: \<^verbatim>\<open>swarm/behavior.rs\<close> and the swarm builders. \<open>P2P_Handle\<close>: \<^verbatim>\<open>swarm/handle.rs\<close>.
    \<open>P2P_Startup\<close>: \<^verbatim>\<open>from_config\<close> and \<^verbatim>\<open>establish_connections\<close>. Locale \<open>retry_loop\<close>, interpreted for the
    two retry loops.
  \<^item> This theory: the properties of whole runs, and of a node from its configuration on.

  \<^bold>\<open>State, effects, errors.\<close> The state is the record \<open>p2p\<close>. The swarm, the channels and the clock are
  outside: what they answer during one handler call is the record \<open>world\<close>, and every call made on them is
  appended to the field \<open>calls\<close>, in order, so that "delivered", "sent" and "stored" mean membership in that
  log. A handler ends with \<open>Ok\<close>, \<open>Err\<close> (which stops the loop) or \<open>Panicked\<close>; an overflowing addition, an
  \<^verbatim>\<open>unwrap\<close> or a time out of range is \<open>Panicked\<close> or the value \<^term>\<open>None\<close>. The build is the record \<open>env\<close>: its
  fields \<open>byos\<close> and \<open>overflow_checks\<close> stand for the feature and the profile; the features \<^verbatim>\<open>gossipsub\<close>,
  \<^verbatim>\<open>request-response\<close> and \<^verbatim>\<open>kad\<close> are on.

  \<^bold>\<open>Parameters for code outside the repository.\<close> The \<^verbatim>\<open>flexbuffers\<close> encoding (\<open>codec\<close>, law
  \<open>codec_roundtrip\<close>), keys, signatures and peer ids of \<^verbatim>\<open>libp2p\<close> (\<open>key_ops\<close>, laws \<open>signer_matches\<close> and
  \<open>key_encoding_lawful\<close>), the queue of the crate \<^verbatim>\<open>cynosure\<close> (\<open>queue_ops\<close>, law \<open>fifo_lawful\<close>), the
  constructors of the sub-behaviours (\<open>behaviour_lib\<close>), the capacity tests of \<^verbatim>\<open>tokio\<close> channels
  (\<open>channel_lib\<close>), the stream methods the raw codec calls (arguments of \<open>read_request\<close> and its siblings). The
  example instances show that the laws can hold.

  \<^bold>\<open>What the theorems show.\<close>
  \<^item> Delivery and sending: in every run, what reaches the application or leaves the node passed all
    checks and carries the right key, date, destination; what one node sends the other accepts and
    delivers unchanged. A node started by the program satisfies the assumptions of these theorems.
  \<^item> Robustness: no event of the swarm ends the loop in a reachable state.
  \<^item> DHT: only newer, owner-signed records are stored; lookups report authentic, latest records received
    for that query; a node's own record is accepted by others, published again in a cycle that the
    configured expiry leaves time for, and the renewal is accepted over the previous record.
  \<^item> Dialing: the registered attempts are exactly the dial calls without a reported outcome, one per key
    with a queue; failing dials try each address once, QUIC first.
  \<^item> Penalties: the storage refines a history of deadlines; a muted peer is not heard, a banned one kept
    out, and closing a connection forgets no running penalty.
  \<^item> Handshake and codecs: exactly the authentic, matching, fresh messages are accepted; frames survive
    fragmentation and are bounded; the key maps stay inverse for fresh keys, and not otherwise.
  \<^item> Scores: the default validator mutes at an exact count of messages, and its decay in \<^verbatim>\<open>f64\<close> follows the
    documented rate within a bound on the rounding error.
  \<^item> Start-up and handles: all transports get the same settings, retries are bounded, the outcome is
    exact, handles answer what the loop says.
  Several theorems prove behaviour the code should not have: dates near the end of \<^verbatim>\<open>u64\<close>, key aliasing
  in the handshake maps, foreign records in lookups, one decay time for two scores, events lost during
  start-up, a loop that a message can stop when nobody listens to gossip, a disconnect command that misses
  its peer, dials that block their key until an outcome is reported.

  \<^bold>\<open>Bounds and termination.\<close> No fuel is used. The loops over lists recurse on them; the retry loops have
  a measure; \<^verbatim>\<open>listen\<close> and the wait of \<^verbatim>\<open>establish_connections\<close> are driven by the finite list of what happened.

  \<^bold>\<open>Not modelled.\<close> The internals of \<^verbatim>\<open>libp2p\<close>, \<^verbatim>\<open>tokio\<close>, \<^verbatim>\<open>flexbuffers\<close> and \<^verbatim>\<open>cynosure\<close>; which ready
  input \<^verbatim>\<open>select!\<close> picks (any order is a run) and the wake-ups of the async runtime; log lines and the
  progress timer of \<^verbatim>\<open>establish_connections\<close>; \<^verbatim>\<open>Display\<close>, \<^verbatim>\<open>Debug\<close> and plain conversion impls; the re-exports of
  \<^verbatim>\<open>lib.rs\<close>; the receiving methods of the handles, which only pass on what the channels yield; the outcome
  of \<^verbatim>\<open>swarm.dial\<close> in the event loop, which the code only logs; what the DHT does with its settings; tests.
\<close>

section \<open>Example steps\<close>

lemma example_gossip_step:
  "listen_step (example_env True) example_world
     (SwarmInput (SwarmBehaviour (BGossipsub (GossipsubMessage (PeerId [1]) [6] example_wire)))) example_state =
   (emit (SendGossipEvent (ReceivedMessage [42]))
      (emit (ReportMessageValidationResult [6] (PeerId [1]) Accept) example_state), Running)"
proof -
  have "check_gossip_envelope (example_env True) example_world example_state example_wire =
      Verified example_gossip"
    unfolding check_gossip_envelope_verified by (rule example_gossip_ok)
  then show ?thesis
    by (simp add: listen_step_def handle_swarm_event_def handle_behaviour_event_def
        handle_gossip_event_def handle_gossip_msg_def deliver_gossip_def loop_result_def example_gossip_def)
qed

lemma example_request_step:
  "listen_step (example_env True) example_world
     (SwarmInput (SwarmBehaviour (BRequestResponse (RRMessage (PeerId [1]) (RRRequest example_wire 3)))))
     example_state =
   (emit (SendResponse 3 example_wire)
      (emit (SendReqRespEvent (ReceivedRequest [43])) example_state), Running)"
proof -
  have ok: "check_request_envelope (example_env True) example_world example_state (PeerId [1]) example_wire =
      RRVerified example_request"
    unfolding check_request_envelope_verified by (rule example_request_ok)
  have new: "response_message_new 1000000000000 (PublicKey [5]) [44] = Some example_response"
    by (simp add: response_message_new_def get_timestamp_eq example_response_def)
  have own: "own_public_key (example_env True) (emit c example_state) = PublicKey [5]" for c
    by (simp add: own_public_key_def example_config_def)
  have "\<not> message_stale 300000000000 1000 (rq_date example_request)"
    by (simp add: message_stale_iff not_stale_def example_request_def)
  then show ?thesis
    by (simp add: listen_step_def handle_swarm_event_def handle_behaviour_event_def
        handle_request_response_event_def handle_message_event_def handle_request_def ok
        answer_request_def send_signed_response_def awaited_response_def new own loop_result_def)
      (simp add: example_request_def)
qed

lemma example_response_step:
  "listen_step (example_env True) example_world
     (SwarmInput (SwarmBehaviour (BRequestResponse (RRMessage (PeerId [1]) (RRResponse example_wire)))))
     example_state =
   (emit (SendReqRespEvent (ReceivedResponse [44])) example_state, Running)"
proof -
  have ok: "check_response_envelope (example_env True) example_world example_state (PeerId [1]) example_wire =
      RRVerified example_response"
    unfolding check_response_envelope_verified by (rule example_response_ok)
  have "\<not> message_stale 300000000000 1000 (rs_date example_response)"
    by (simp add: message_stale_iff not_stale_def example_response_def)
  moreover have "example_wire \<noteq> []" by (simp add: example_wire_def)
  ultimately show ?thesis
    by (simp add: listen_step_def handle_swarm_event_def handle_behaviour_event_def
        handle_request_response_event_def handle_message_event_def handle_response_def ok loop_result_def)
      (simp add: example_response_def)
qed

lemma single_run: "listen_step e w i s = (s', st) \<Longrightarrow> run e s [(w, i)] s' st"
  using run_step [OF run_start, of e w i s s' st] by simp

text \<open>
  A call that carries a message and was not made before the run: \<open>control_call\<close> are the calls of the
  start-up and of connection management.
\<close>

lemma message_calls:
  "\<not> control_call (SendGossipEvent g)" "\<not> control_call (SendReqRespEvent r)"
  "\<not> control_call (Publish t b)" "\<not> control_call (SendRequest p b)"
  "\<not> control_call (SendResponse c b)" "\<not> control_call (StorePut k)"
  by simp_all

lemma run_new_call:
  assumes "run e s0 tr s st" and "list_all control_call (calls s0)" and "c \<in> set (calls s)"
    and "\<not> control_call c"
  shows "\<exists>pre w i post s1. tr = pre @ (w, i) # post \<and> run e s0 pre s1 Running \<and> call_justified e w i s1 c"
  by (rule run_call_origin [OF assms(1,3)]) (use assms(2,4) in \<open>auto simp: list_all_iff\<close>)

section \<open>Delivery safety\<close>

text \<open>C1: Whatever happens during a run of the event loop, a gossip payload reaches the application
  only if it came in a gossipsub message whose envelope carries a valid signature of the key named in
  it, with the gossip protocol id and the current version, dated inside the accepted window when it
  was handled, and, in a BYOS build, signed by a key of the allowlist.\<close>

theorem gossip_delivery_safe:
  assumes "run e s0 tr s st" and "list_all control_call (calls s0)"
    and "SendGossipEvent (ReceivedMessage b) \<in> set (calls s)"
    and "\<forall>x \<in> set tr. skew_fits (clock_skew_of (config s0)) (unix_secs (clk (fst x) 2))"
  shows "\<exists>w src mid data sm.
     (w, SwarmInput (SwarmBehaviour (BGossipsub (GossipsubMessage src mid data)))) \<in> set tr \<and>
     signed_from_slice (gossip_codec e) data = Some sm \<and> gm_message (sm_message sm) = b \<and>
     authentic (gossip_codec e) (keys e) gm_public_key sm \<and>
     (byos e \<longrightarrow> gm_public_key (sm_message sm) \<in> app_allowlist s0) \<and>
     in_window (clock_skew_of (config s0)) (max_age_of (config s0)) (unix_secs (clk w 2))
       (gm_date (sm_message sm)) \<and>
     gm_protocol (sm_message sm) = Gossip \<and> gm_version (sm_message sm) = GossipV2"
proof -
  from run_new_call [OF assms(1-3) message_calls(1)] obtain pre w i post s1 where
    tr: "tr = pre @ (w, i) # post" and r: "run e s0 pre s1 Running"
    and j: "call_justified e w i s1 (SendGossipEvent (ReceivedMessage b))"
    by blast
  note set1 = settings_eqD [OF run_settings [OF r]]
  have fits: "skew_fits (clock_skew_of (config s1)) (unix_secs (clk w 2))"
    using assms(4) tr set1(6) by simp
  from j obtain src mid data m where
    i: "i = SwarmInput (SwarmBehaviour (BGossipsub (GossipsubMessage src mid data)))"
    and ok: "gossip_envelope_ok e w s1 data m" and b: "b = gm_message m" by auto
  have "(w, SwarmInput (SwarmBehaviour (BGossipsub (GossipsubMessage src mid data)))) \<in> set tr"
    using tr i by simp
  with ok [unfolded gossip_envelope_ok_window [OF fits] set1] b show ?thesis by blast
qed

theorem gossip_delivery_safe_witness:
  "\<exists>w src mid data sm.
     (w, SwarmInput (SwarmBehaviour (BGossipsub (GossipsubMessage src mid data)))) \<in>
       set [(example_world, SwarmInput (SwarmBehaviour (BGossipsub
              (GossipsubMessage (PeerId [1]) [6] example_wire))))] \<and>
     signed_from_slice (example_codec example_gossip) data = Some sm \<and> gm_message (sm_message sm) = [42]"
  using gossip_delivery_safe [OF single_run [OF example_gossip_step], of "[42]"] by auto

text \<open>C2: A request payload reaches the application only if its envelope is validly signed, addressed to
  this node, dated inside the window, with the right protocol id and version, and, in a BYOS build, signed
  by the very key that the sending peer announced in its handshake, which must be on the allowlist.\<close>

theorem request_delivery_safe:
  assumes "run e s0 tr s st" and "list_all control_call (calls s0)"
    and "SendReqRespEvent (ReceivedRequest b) \<in> set (calls s)"
    and "\<forall>x \<in> set tr. skew_fits (clock_skew_of (config s0)) (unix_secs (clk (fst x) 1))"
  shows "\<exists>pre w peer channel data post s1 sm.
     tr = pre @ (w, SwarmInput (SwarmBehaviour (BRequestResponse
            (RRMessage peer (RRRequest data channel))))) # post \<and> run e s0 pre s1 Running \<and>
     signed_from_slice (request_codec e) data = Some sm \<and> rq_message (sm_message sm) = b \<and>
     authentic (request_codec e) (keys e) rq_public_key sm \<and>
     rq_destination_peer_id (sm_message sm) = local_peer_id w \<and>
     (byos e \<longrightarrow> rq_public_key (sm_message sm) \<in> app_allowlist s0 \<and>
        get_app_public_key_by_transport_id (setup_state s1) peer = Some (rq_public_key (sm_message sm))) \<and>
     not_future (clock_skew_of (config s0)) (unix_secs (clk w 1)) (rq_date (sm_message sm)) \<and>
     not_stale (max_age_of (config s0)) (unix_secs (clk w 6)) (rq_date (sm_message sm)) \<and>
     rq_protocol (sm_message sm) = RequestResponse \<and> rq_version (sm_message sm) = ReqRespV2"
proof -
  from run_new_call [OF assms(1-3) message_calls(2)] obtain pre w i post s1 where
    tr: "tr = pre @ (w, i) # post" and r: "run e s0 pre s1 Running"
    and j: "call_justified e w i s1 (SendReqRespEvent (ReceivedRequest b))"
    by blast
  note set1 = settings_eqD [OF run_settings [OF r]]
  have fits: "skew_fits (clock_skew_of (config s0)) (unix_secs (clk w 1))"
    using assms(4) tr by simp
  from j obtain peer channel data m where
    i: "i = SwarmInput (SwarmBehaviour (BRequestResponse (RRMessage peer (RRRequest data channel))))"
    and ok: "request_envelope_ok e w s1 peer data m" and b: "b = rq_message m"
    and fresh: "\<not> message_stale (max_age_of (config s1)) (unix_secs (clk w 6)) (rq_date m)"
    by auto
  from ok [unfolded request_envelope_ok_def set1 message_from_future_exact [OF fits]]
    fresh [unfolded set1 message_stale_iff] b r tr [unfolded i] show ?thesis by blast
qed

theorem request_delivery_safe_witness:
  "\<exists>pre w peer channel data post s1 sm.
     [(example_world, SwarmInput (SwarmBehaviour (BRequestResponse
            (RRMessage (PeerId [1]) (RRRequest example_wire 3)))))] =
       pre @ (w, SwarmInput (SwarmBehaviour (BRequestResponse
            (RRMessage peer (RRRequest data channel))))) # post \<and>
     run (example_env True) example_state pre s1 Running \<and>
     signed_from_slice (example_codec example_request) data = Some sm \<and> rq_message (sm_message sm) = [43] \<and>
     get_app_public_key_by_transport_id (setup_state s1) peer = Some (rq_public_key (sm_message sm))"
  using request_delivery_safe [OF single_run [OF example_request_step], of "[43]"] by fastforce

text \<open>C3: A response payload reaches the application only if its envelope is validly signed, dated
  inside the window, with the right protocol id and version, and, in a BYOS build, signed by the
  allowlisted key the responding peer announced in its handshake. The peer is not muted.\<close>

theorem response_delivery_safe:
  assumes "run e s0 tr s st" and "list_all control_call (calls s0)"
    and "SendReqRespEvent (ReceivedResponse b) \<in> set (calls s)"
    and "\<forall>x \<in> set tr. skew_fits (clock_skew_of (config s0)) (unix_secs (clk (fst x) 1))"
  shows "\<exists>pre w peer data post s1 sm.
     tr = pre @ (w, SwarmInput (SwarmBehaviour (BRequestResponse (RRMessage peer (RRResponse data))))) # post \<and>
     run e s0 pre s1 Running \<and>
     signed_from_slice (response_codec e) data = Some sm \<and> rs_message (sm_message sm) = b \<and>
     authentic (response_codec e) (keys e) rs_app_public_key sm \<and>
     (byos e \<longrightarrow> rs_app_public_key (sm_message sm) \<in> app_allowlist s0 \<and>
        get_app_public_key_by_transport_id (setup_state s1) peer = Some (rs_app_public_key (sm_message sm))) \<and>
     (\<not> byos e \<longrightarrow> \<not> is_req_resp_muted (clk w 0) (peer_penalty_storage s1) peer) \<and>
     not_future (clock_skew_of (config s0)) (unix_secs (clk w 1)) (rs_date (sm_message sm)) \<and>
     not_stale (max_age_of (config s0)) (unix_secs (clk w 6)) (rs_date (sm_message sm)) \<and>
     rs_protocol (sm_message sm) = RequestResponse \<and> rs_version (sm_message sm) = ReqRespV2"
proof -
  from run_new_call [OF assms(1-3) message_calls(2)] obtain pre w i post s1 where
    tr: "tr = pre @ (w, i) # post" and r: "run e s0 pre s1 Running"
    and j: "call_justified e w i s1 (SendReqRespEvent (ReceivedResponse b))"
    by blast
  note set1 = settings_eqD [OF run_settings [OF r]]
  have fits: "skew_fits (clock_skew_of (config s0)) (unix_secs (clk w 1))"
    using assms(4) tr by simp
  from j obtain peer data m where
    i: "i = SwarmInput (SwarmBehaviour (BRequestResponse (RRMessage peer (RRResponse data))))"
    and ok: "response_envelope_ok e w s1 peer data m" and b: "b = rs_message m"
    and fresh: "\<not> message_stale (max_age_of (config s1)) (unix_secs (clk w 6)) (rs_date m)"
    and mute: "byos e \<or> \<not> is_req_resp_muted (clk w 0) (peer_penalty_storage s1) peer"
    by auto
  from ok [unfolded response_envelope_ok_def set1 message_from_future_exact [OF fits]]
    fresh [unfolded set1 message_stale_iff] mute b r tr [unfolded i] show ?thesis by blast
qed

theorem response_delivery_safe_witness:
  "\<exists>pre w peer data post s1 sm.
     [(example_world, SwarmInput (SwarmBehaviour (BRequestResponse
            (RRMessage (PeerId [1]) (RRResponse example_wire)))))] =
       pre @ (w, SwarmInput (SwarmBehaviour (BRequestResponse (RRMessage peer (RRResponse data))))) # post \<and>
     run (example_env True) example_state pre s1 Running \<and>
     signed_from_slice (example_codec example_response) data = Some sm \<and> rs_message (sm_message sm) = [44]"
  using response_delivery_safe [OF single_run [OF example_response_step], of "[44]"] by fastforce

section \<open>What the node sends\<close>

text \<open>C7: A response leaves the node only on the channel of a request that passed every check: the
  envelope checks (signature, destination, sender, not from the future, protocol and version), the test of
  its age, and, outside BYOS builds, the mute test of its sender. It carries the application's answer
  in an envelope that every receiver with the same encoding decodes and verifies under the node's own
  key.\<close>

theorem response_sent_safe:
  assumes "run e s0 tr s st" and "list_all control_call (calls s0)" and "SendResponse channel d \<in> set (calls s)"
    and "codec_roundtrip (response_codec e)"
    and "signer_matches (keys e) (p2p_signer s0) (own_public_key e s0)"
  shows "\<exists>pre w peer data post s1 m sm.
     tr = pre @ (w, SwarmInput (SwarmBehaviour (BRequestResponse
            (RRMessage peer (RRRequest data channel))))) # post \<and> run e s0 pre s1 Running \<and>
     request_envelope_ok e w s1 peer data m \<and>
     not_stale (max_age_of (config s0)) (unix_secs (clk w 6)) (rq_date m) \<and>
     (\<not> byos e \<longrightarrow> \<not> is_req_resp_muted (clk w 0) (peer_penalty_storage s1) peer) \<and>
     signed_from_slice (response_codec e) d = Some sm \<and>
     signed_message_verify (response_codec e) (keys e) rs_app_public_key sm = Inr True \<and>
     rs_app_public_key (sm_message sm) = own_public_key e s0 \<and>
     app_response w = Responded (rs_message (sm_message sm))"
proof -
  from run_new_call [OF assms(1-3) message_calls(5)] obtain pre w i post s1 where
    tr: "tr = pre @ (w, i) # post" and r: "run e s0 pre s1 Running"
    and j: "call_justified e w i s1 (SendResponse channel d)"
    by blast
  note set1 = settings_eqD [OF run_settings [OF r]]
  from j obtain peer data m where
    i: "i = SwarmInput (SwarmBehaviour (BRequestResponse (RRMessage peer (RRRequest data channel))))"
    and ok: "request_envelope_ok e w s1 peer data m" and own: "own_response e w s1 d"
    and fresh: "\<not> message_stale (max_age_of (config s1)) (unix_secs (clk w 6)) (rq_date m)"
    and mute: "byos e \<or> \<not> is_req_resp_muted (clk w 0) (peer_penalty_storage s1) peer"
    by auto
  from own obtain answer a sm where a: "app_response w = Responded answer"
    "response_message_new (clk w 7) (own_public_key e s1) answer = Some a"
    "signed_message_new (response_codec e) (p2p_signer s1) a = Inr sm"
    "signed_to_vec (response_codec e) sm = Some d"
    by (auto simp: own_response_def)
  have "signer_matches (keys e) (p2p_signer s1) (own_public_key e s1)"
    using assms(5) set1(2,7) by metis
  note new = response_type.signed_new_authentic [OF a(2,3) this]
  have "rs_message a = answer" using a(2) by (auto simp: response_message_new_def split: option.splits)
  moreover have "rs_app_public_key a = own_public_key e s0"
    using response_type.new_key [OF a(2)] set1(7) by metis
  moreover have "signed_from_slice (response_codec e) d = Some sm"
    using assms(4) a(4) by (simp add: codec_roundtrip_def)
  ultimately show ?thesis
    using tr [unfolded i] r ok a(1) new fresh [unfolded set1 message_stale_iff] mute
    by (metis signed_message_verify_authentic)
qed

theorem response_sent_safe_witness:
  "\<exists>sm. signed_from_slice (example_codec example_response) example_wire = Some sm \<and>
     signed_message_verify (example_codec example_response) example_keys rs_app_public_key sm = Inr True \<and>
     rs_app_public_key (sm_message sm) = PublicKey [5]"
  using response_sent_safe [OF single_run [OF example_request_step], of 3 example_wire]
  by (simp add: example_codec_roundtrip example_signer_matches) blast

lemma published_own:
  assumes "run e s0 tr s st" and "list_all control_call (calls s0)" and c: "Publish t d \<in> set (calls s)"
    and "codec_roundtrip (gossip_codec e)"
    and "signer_matches (keys e) (p2p_signer s0) (own_public_key e s0)"
  shows "t = topic s0"
    and "\<exists>w cmd sm. (w, GossipCommandInput cmd) \<in> set tr \<and> signed_from_slice (gossip_codec e) d = Some sm \<and>
      gm_message (sm_message sm) = gc_data cmd \<and> gm_public_key (sm_message sm) = own_public_key e s0 \<and>
      authentic (gossip_codec e) (keys e) gm_public_key sm"
proof -
  from run_new_call [OF assms(1,2) c message_calls(3)] obtain pre w i post s1 where
    tr: "tr = pre @ (w, i) # post" and r: "run e s0 pre s1 Running"
    and j: "call_justified e w i s1 (Publish t d)" by blast
  note set1 = settings_eqD [OF run_settings [OF r]]
  from j obtain cmd m sm where i: "i = GossipCommandInput cmd" and t: "t = topic s1"
    and m: "gossip_message_new (clk w 0) (own_public_key e s1) (gc_data cmd) = Some m"
    "signed_message_new (gossip_codec e) (p2p_signer s1) m = Inr sm"
    "signed_to_vec (gossip_codec e) sm = Some d" by auto
  have sg: "signer_matches (keys e) (p2p_signer s1) (own_public_key e s1)"
    using assms(5) set1(2,7) by metis
  show "t = topic s0" using t set1(3) by simp
  have "gm_message m = gc_data cmd" using m(1) by (auto simp: gossip_message_new_def split: option.splits)
  moreover have "signed_from_slice (gossip_codec e) d = Some sm"
    using assms(4) m(3) by (simp add: codec_roundtrip_def)
  moreover have "(w, GossipCommandInput cmd) \<in> set tr" using tr i by simp
  ultimately show "\<exists>w cmd sm. (w, GossipCommandInput cmd) \<in> set tr \<and>
      signed_from_slice (gossip_codec e) d = Some sm \<and>
      gm_message (sm_message sm) = gc_data cmd \<and> gm_public_key (sm_message sm) = own_public_key e s0 \<and>
      authentic (gossip_codec e) (keys e) gm_public_key sm"
    using gossip_type.signed_new_authentic [OF m(1,2) sg] gossip_type.new_key [OF m(1)] set1(7) by metis
qed

lemma requested_own:
  assumes "run e s0 tr s st" and "list_all control_call (calls s0)" and c: "SendRequest peer d \<in> set (calls s)"
    and "codec_roundtrip (request_codec e)"
    and "signer_matches (keys e) (p2p_signer s0) (own_public_key e s0)"
  shows "\<exists>pre w cmd post s1 sm. tr = pre @ (w, ReqRespCommandInput cmd) # post \<and> run e s0 pre s1 Running \<and>
      (if byos e then get_transport_id_by_application_key (setup_state s1) (rc_target_app_public_key cmd) = Some peer
       else rc_target_transport_id cmd = peer) \<and> is_connected w peer \<and>
      signed_from_slice (request_codec e) d = Some sm \<and>
      rq_message (sm_message sm) = rc_data cmd \<and> rq_destination_peer_id (sm_message sm) = peer \<and>
      rq_public_key (sm_message sm) = own_public_key e s0 \<and>
      authentic (request_codec e) (keys e) rq_public_key sm"
proof -
  from run_new_call [OF assms(1,2) c message_calls(4)] obtain pre w i post s1 where
    tr: "tr = pre @ (w, i) # post" and r: "run e s0 pre s1 Running"
    and j: "call_justified e w i s1 (SendRequest peer d)" by blast
  note set1 = settings_eqD [OF run_settings [OF r]]
  from j obtain cmd m sm where i: "i = ReqRespCommandInput cmd" and conn: "is_connected w peer"
    and target: "request_target e s1 cmd = Some peer"
    and m: "request_message_new (clk w 0) (own_public_key e s1) (rc_data cmd, peer) = Some m"
    "signed_message_new (request_codec e) (p2p_signer s1) m = Inr sm"
    "signed_to_vec (request_codec e) sm = Some d" by auto
  have sg: "signer_matches (keys e) (p2p_signer s1) (own_public_key e s1)"
    using assms(5) set1(2,7) by metis
  have "rq_message m = rc_data cmd" "rq_destination_peer_id m = peer"
    using m(1) by (auto simp: request_message_new_def split: option.splits)
  moreover have "signed_from_slice (request_codec e) d = Some sm"
    using assms(4) m(3) by (simp add: codec_roundtrip_def)
  moreover have "if byos e
      then get_transport_id_by_application_key (setup_state s1) (rc_target_app_public_key cmd) = Some peer
      else rc_target_transport_id cmd = peer"
    using target by (simp add: request_target_def split: if_splits)
  ultimately show "\<exists>pre w cmd post s1 sm. tr = pre @ (w, ReqRespCommandInput cmd) # post \<and> run e s0 pre s1 Running \<and>
      (if byos e then get_transport_id_by_application_key (setup_state s1) (rc_target_app_public_key cmd) = Some peer
       else rc_target_transport_id cmd = peer) \<and> is_connected w peer \<and>
      signed_from_slice (request_codec e) d = Some sm \<and>
      rq_message (sm_message sm) = rc_data cmd \<and> rq_destination_peer_id (sm_message sm) = peer \<and>
      rq_public_key (sm_message sm) = own_public_key e s0 \<and>
      authentic (request_codec e) (keys e) rq_public_key sm"
    using request_type.signed_new_authentic [OF m(1,2) sg] request_type.new_key [OF m(1)] set1(7) conn tr [unfolded i] r by metis
qed

text \<open>C8: Whatever the node publishes is the data of a gossip command it was given, in an envelope signed
  with its own key, on its own topic; likewise every request it sends carries the data of a request
  command, and goes to the peer that command asks for: the peer whose handshake announced the command's
  key when the command was handled (BYOS), or the peer id of the command. That peer is connected and is named in the
  message as its destination.\<close>

theorem outgoing_messages_own:
  assumes "run e s0 tr s st" and "list_all control_call (calls s0)"
    and "codec_roundtrip (gossip_codec e)" and "codec_roundtrip (request_codec e)"
    and "signer_matches (keys e) (p2p_signer s0) (own_public_key e s0)"
  shows "(\<forall>t d. Publish t d \<in> set (calls s) \<longrightarrow> t = topic s0 \<and>
       (\<exists>w cmd sm. (w, GossipCommandInput cmd) \<in> set tr \<and> signed_from_slice (gossip_codec e) d = Some sm \<and>
          gm_message (sm_message sm) = gc_data cmd \<and> gm_public_key (sm_message sm) = own_public_key e s0 \<and>
          authentic (gossip_codec e) (keys e) gm_public_key sm)) \<and>
     (\<forall>peer d. SendRequest peer d \<in> set (calls s) \<longrightarrow>
       (\<exists>pre w cmd post s1 sm. tr = pre @ (w, ReqRespCommandInput cmd) # post \<and> run e s0 pre s1 Running \<and>
          (if byos e then get_transport_id_by_application_key (setup_state s1) (rc_target_app_public_key cmd) = Some peer
           else rc_target_transport_id cmd = peer) \<and> is_connected w peer \<and>
          signed_from_slice (request_codec e) d = Some sm \<and>
          rq_message (sm_message sm) = rc_data cmd \<and> rq_destination_peer_id (sm_message sm) = peer \<and>
          rq_public_key (sm_message sm) = own_public_key e s0 \<and>
          authentic (request_codec e) (keys e) rq_public_key sm))"
  using published_own [OF assms(1,2) _ assms(3,5)] requested_own [OF assms(1,2) _ assms(4,5)]
  by blast

lemma example_command_step:
  "listen_step (example_env True) example_world (ReqRespCommandInput
     \<lparr>rc_target_app_public_key = PublicKey [5], rc_target_transport_id = PeerId [], rc_data = [43]\<rparr>)
     example_sender = (emit (SendRequest (PeerId [2]) example_wire) example_sender, Running)"
  by (simp add: listen_step_def loop_result_def example_request_sent)

theorem outgoing_messages_own_witness:
  "\<exists>sm. signed_from_slice (example_codec example_request) example_wire = Some sm \<and>
     rq_message (sm_message sm) = [43] \<and> rq_destination_peer_id (sm_message sm) = PeerId [2] \<and>
     rq_public_key (sm_message sm) = PublicKey [5]"
proof -
  have own: "own_public_key (example_env True) example_sender = PublicKey [5]"
    "p2p_signer example_sender = example_sign (PublicKey [5])" "calls example_sender = []"
    by (simp_all add: example_sender_def own_public_key_def) (simp add: example_config_def)
  have "SendRequest (PeerId [2]) example_wire \<in> set (calls (emit (SendRequest (PeerId [2]) example_wire) example_sender))"
    by simp
  with outgoing_messages_own [OF single_run [OF example_command_step]] show ?thesis
    by (fastforce simp: example_codec_roundtrip example_signer_matches own Cons_eq_append_conv)
qed

section \<open>Penalties at work\<close>

text \<open>C15: A peer muted on both protocols is not heard: from the moment the mute is imposed until its
  deadline every gossip message, request and response of the peer is dropped without any effect on the
  node's state.\<close>

theorem mute_silences_peer:
  assumes "apply_penalty ck p (MuteBoth d) s = (s', Ok)" and "\<not> byos e"
    and "ck 1 \<le> clk w 0" and "ck 2 \<le> clk w 0" and "clk w 0 < ck 0 + int d"
  shows "handle_gossip_event e w (GossipsubMessage p mid data) s' = (s', Ok) \<and>
         handle_request_response_event e w (RRMessage p msg) s' = (s', Ok)"
proof -
  let ?u = "ck 0 + int d"
  have s': "peer_penalty_storage s' = fst (mute_peer_req_resp (ck 2) p ?u
      (fst (mute_peer_gossip (ck 1) p ?u (peer_penalty_storage s))))"
    using assms(1)
    by (auto simp: apply_penalty_mute system_time_add_def split: option.splits if_splits)
  have "is_gossip_muted (clk w 0) (fst (mute_peer_gossip (ck 1) p ?u (peer_penalty_storage s))) p"
    using gossip_mute.active_impose [OF assms(3), of p ?u "peer_penalty_storage s" p] assms(5) by simp
  then have "is_gossip_muted (clk w 0) (peer_penalty_storage s') p"
    by (simp add: s' gossip_mute.active_iff)
  moreover have "is_req_resp_muted (clk w 0) (peer_penalty_storage s') p"
    using req_resp_mute.active_impose [OF assms(4)] assms(5) by (simp add: s')
  ultimately show ?thesis
    using assms(2)
    by (simp add: handle_gossip_event_def handle_gossip_msg_def handle_request_response_event_def
        handle_message_event_def handle_request_def handle_response_def split: rr_message.split)
qed

theorem mute_silences_peer_witness:
  "handle_gossip_event (example_env False) example_world (GossipsubMessage (PeerId [1]) [6] example_wire)
     (fst (apply_penalty (\<lambda>_. 1000000000000) (PeerId [1]) (MuteBoth 60) example_state)) =
   (fst (apply_penalty (\<lambda>_. 1000000000000) (PeerId [1]) (MuteBoth 60) example_state), Ok)"
proof -
  have "apply_penalty (\<lambda>_. 1000000000000) (PeerId [1]) (MuteBoth 60) example_state =
      (fst (apply_penalty (\<lambda>_. 1000000000000) (PeerId [1]) (MuteBoth 60) example_state), Ok)"
    by (simp add: apply_penalty_mute system_time_add_def system_time_limit_def)
  from mute_silences_peer [OF this, of "example_env False" example_world "[6]" example_wire] show ?thesis
    by simp
qed

section \<open>Dialing and the DHT over a run\<close>

text \<open>C12: The dial manager of a BYOS build tracks the attempts whose outcome has not been reported.
  Starting without dials in progress, and with the connection ids handed out all different, at every
  point of every run: a connection id is registered for a key exactly if some step called \<^verbatim>\<open>swarm.dial\<close>
  with that id for that key (on a command for the key, or after the failure of its previous attempt) and
  neither the establishment nor the failure of that connection has been reported since; a key has an
  address queue exactly if it has one such attempt, and it never has two; and as long as it has one,
  further commands to connect to the key do nothing. An attempt that \<^verbatim>\<open>swarm.dial\<close> refuses at once counts
  like any other: the code only logs the refusal, so unless an event for its id arrives the key stays blocked.\<close>

theorem dial_invariant:
  assumes "run e s0 tr s st" and "dial_manager s0 = dial_manager_new" and "fresh_connection_ids tr" and "byos e"
  shows "(\<forall>c k. get_app_public_key_by_connection_id (dial_manager s) c = Some k \<longleftrightarrow>
       (\<exists>pre w i post s1. tr = pre @ (w, i) # post \<and> run e s0 pre s1 Running \<and>
          dial_attempt e w i s1 c k \<and> (\<forall>x \<in> set post. \<not> attempt_reported c (snd x)))) \<and>
     (\<forall>k. has_app_public_key (dial_manager s) k \<longleftrightarrow>
       (\<exists>!c. get_app_public_key_by_connection_id (dial_manager s) c = Some k)) \<and>
     (\<forall>c d k. get_app_public_key_by_connection_id (dial_manager s) c = Some k \<longrightarrow>
        get_app_public_key_by_connection_id (dial_manager s) d = Some k \<longrightarrow> c = d) \<and>
     (\<forall>w c k p addrs. get_app_public_key_by_connection_id (dial_manager s) c = Some k \<longrightarrow>
        listen_step e w (CommandInput (ConnectToPeer k p addrs)) s = (s, Running))"
proof (intro conjI)
  have inv: "dial_inv (dial_manager s)" using run_dial [OF assms(1-3)] by blast
  note queue = dial_inv_queue [OF inv] and unique = dial_inv_unique [OF inv]
  show "\<forall>c k. get_app_public_key_by_connection_id (dial_manager s) c = Some k \<longleftrightarrow>
       (\<exists>pre w i post s1. tr = pre @ (w, i) # post \<and> run e s0 pre s1 Running \<and>
          dial_attempt e w i s1 c k \<and> (\<forall>x \<in> set post. \<not> attempt_reported c (snd x)))"
    using run_attempts [OF assms] unfolding get_app_public_key_by_connection_id_def attempt_open_def by blast
  have "k \<in> ran (conn_to_dial (dial_manager s))" if "dial_queues (dial_manager s) k \<noteq> None" for k
    using inv that by (auto simp: dial_inv_def)
  then show "\<forall>k. has_app_public_key (dial_manager s) k \<longleftrightarrow>
       (\<exists>!c. get_app_public_key_by_connection_id (dial_manager s) c = Some k)"
    unfolding has_app_public_key_def get_app_public_key_by_connection_id_def ran_def
    using queue unique by blast
  show "\<forall>c d k. get_app_public_key_by_connection_id (dial_manager s) c = Some k \<longrightarrow>
        get_app_public_key_by_connection_id (dial_manager s) d = Some k \<longrightarrow> c = d"
    unfolding get_app_public_key_by_connection_id_def using unique by blast
  show "\<forall>w c k p addrs. get_app_public_key_by_connection_id (dial_manager s) c = Some k \<longrightarrow>
        listen_step e w (CommandInput (ConnectToPeer k p addrs)) s = (s, Running)"
    using queue assms(4)
    by (simp add: listen_step_def handle_command_def connect_to_peer_def loop_result_def
        has_app_public_key_def get_app_public_key_by_connection_id_def)
qed

theorem dial_invariant_witness:
  "\<exists>s. get_app_public_key_by_connection_id (dial_manager s) 1 = Some (PublicKey [9]) \<and>
     calls s = [Dial (DialUnknownPeer (Multiaddr [7]) 1)] \<and>
     listen_step (example_env True) example_world
       (CommandInput (ConnectToPeer (PublicKey [9]) (PeerId []) [Multiaddr [3]])) s = (s, Running)"
proof -
  let ?i = "CommandInput (ConnectToPeer (PublicKey [9]) (PeerId []) [Multiaddr [7]])"
  let ?s = "fst (listen_step (example_env True) example_world ?i example_state)"
  have step: "listen_step (example_env True) example_world ?i example_state = (?s, Running)"
    and calls: "calls ?s = [Dial (DialUnknownPeer (Multiaddr [7]) 1)]"
    by (simp_all add: listen_step_def handle_command_def connect_to_peer_def sort_addresses_def loop_result_def
        has_app_public_key_def dial_manager_new_def) (simp_all add: example_queues_def dial_and_map_def)
  have "dial_attempt (example_env True) example_world ?i example_state 1 (PublicKey [9])"
    using calls by (simp add: dial_attempt_def)
  then have "\<exists>pre w i post s1. [(example_world, ?i)] = pre @ (w, i) # post \<and>
      run (example_env True) example_state pre s1 Running \<and>
      dial_attempt (example_env True) w i s1 1 (PublicKey [9]) \<and> (\<forall>x \<in> set post. \<not> attempt_reported 1 (snd x))"
    using run_start by force
  with dial_invariant [OF single_run [OF step]] have
    "get_app_public_key_by_connection_id (dial_manager ?s) 1 = Some (PublicKey [9])"
    by (simp add: fresh_connection_ids_def)
  with calls dial_invariant [OF single_run [OF step]] show ?thesis
    by (intro exI [of _ ?s]) (simp add: fresh_connection_ids_def)
qed

text \<open>C10: A record another node wants stored reaches the store only if it is validly signed by the key
  it is about, is stored under that key's name, is dated inside the window, and is strictly newer than the
  record already stored there: a replayed or outdated record never replaces one.\<close>

theorem stored_records_newer:
  assumes "run e s0 tr s st" and "list_all control_call (calls s0)" and "StorePut r \<in> set (calls s)"
    and "\<forall>x \<in> set tr. skew_fits (clock_skew_of (config s0)) (unix_secs (clk (fst x) 0))"
    and "valid_duration (max_age_of (config s0))"
  shows "\<exists>w sm. (w, SwarmInput (SwarmBehaviour (BKademlia (InboundPutRecord (Some r))))) \<in> set tr \<and>
     signed_from_slice (record_codec e) (kr_value r) = Some sm \<and>
     authentic (record_codec e) (keys e) rd_public_key sm \<and>
     record_key_belongs e (kr_key r) (rd_public_key (sm_message sm)) \<and>
     in_window (clock_skew_of (config s0)) (max_age_of (config s0)) (unix_secs (clk w 0))
       (rd_date (sm_message sm)) \<and>
     (\<forall>old osm. store_get w (kr_key r) = Some old \<longrightarrow>
        signed_from_slice (record_codec e) (kr_value old) = Some osm \<longrightarrow>
        rd_date (sm_message osm) < rd_date (sm_message sm))"
proof -
  from run_new_call [OF assms(1-3) message_calls(6)] obtain pre w i post s1 where
    tr: "tr = pre @ (w, i) # post" and r: "run e s0 pre s1 Running"
    and j: "call_justified e w i s1 (StorePut r)" by blast
  note set1 = settings_eqD [OF run_settings [OF r]]
  from j obtain sm where i: "i = SwarmInput (SwarmBehaviour (BKademlia (InboundPutRecord (Some r))))"
    and ok: "check_inbound_record e w s1 r = RecordAccepted sm" by auto
  have fits: "skew_fits (clock_skew_of (config s1)) (unix_secs (clk w 0))"
    "valid_duration (max_age_of (config s1))"
    using assms(4,5) tr set1(5,6) by simp_all
  have "(w, SwarmInput (SwarmBehaviour (BKademlia (InboundPutRecord (Some r))))) \<in> set tr"
    using tr i by simp
  with ok [unfolded check_inbound_record_accepts validate_record_date_ok [OF fits] check_record_newer_None set1]
  show ?thesis by blast
qed

lemma example_put_step:
  "listen_step (example_env True) example_world (SwarmInput (SwarmBehaviour (BKademlia
     (InboundPutRecord (Some \<lparr>kr_key = [5], kr_value = example_wire\<rparr>))))) example_state =
   (emit (StorePut \<lparr>kr_key = [5], kr_value = example_wire\<rparr>) example_state, Running)"
proof -
  have f: "rd_public_key example_record = PublicKey [5]" "rd_date example_record = 1000"
    by (simp_all add: example_record_def)
  have k: "record_key_belongs (example_env True) [5] (PublicKey [5])"
    by (simp add: record_key_belongs_def example_keys_def)
  have "check_inbound_record (example_env True) example_world example_state
      \<lparr>kr_key = [5], kr_value = example_wire\<rparr> =
      RecordAccepted \<lparr>sm_message = example_record, sm_signature = example_signature\<rparr>"
    by (simp add: check_inbound_record_accepts check_record_newer_None example_authentic f k
        validate_record_date_ok valid_duration_def example_in_window)
  then show ?thesis
    by (simp add: listen_step_def handle_swarm_event_def handle_behaviour_event_def
        handle_kademlia_event_def handle_inbound_put_record_def loop_result_def)
qed

theorem stored_records_newer_witness:
  "\<exists>sm. signed_from_slice (example_codec example_record) example_wire = Some sm \<and>
     record_key_belongs (example_env True) [5] (rd_public_key (sm_message sm))"
  using stored_records_newer [OF single_run [OF example_put_step], of "\<lparr>kr_key = [5], kr_value = example_wire\<rparr>"]
  by (simp add: valid_duration_def)

text \<open>C11: The addresses a lookup reports were vouched for. When a query ends during a run that started
  with no lookups in progress, the node reports nothing exactly if it has collected no record for that query;
  otherwise it reports the addresses of one of the collected records, and every collected record came
  in an answer to that query during the run: decoded from the bytes of the answer, with a valid
  signature of the key it is about, under that key's name, and dated inside the window (and not the
  largest \<^verbatim>\<open>u64\<close>) when the answer was handled.\<close>

theorem lookup_results_authentic:
  assumes "run e s0 tr s Running" and "kademlia_map_received_records s0 = Map.empty"
    and "kademlia_map_received_records s qid = Some records"
    and "result \<in> {FinishedWithNoAdditionalRecord, GetRecordTimeout, GetRecordNotFound}"
    and "\<forall>x \<in> set tr. skew_fits (clock_skew_of (config s0)) (unix_secs (clk (fst x) 0))"
    and "valid_duration (max_age_of (config s0))"
  shows "(\<exists>found. calls (fst (listen_step e w
           (SwarmInput (SwarmBehaviour (BKademlia (OutboundQueryProgressed qid result)))) s)) =
         calls s @ [SendCommandEvent (ResultFindMultiaddress found)] \<and>
       (found = None \<longleftrightarrow> records = []) \<and>
       (\<forall>addrs. found = Some addrs \<longrightarrow> (\<exists>sm \<in> set records. rd_multiaddresses (sm_message sm) = addrs))) \<and>
     (\<forall>sm \<in> set records. \<exists>w' r.
        (w', SwarmInput (SwarmBehaviour (BKademlia (OutboundQueryProgressed qid (FoundRecord r))))) \<in> set tr \<and>
        signed_from_slice (record_codec e) (kr_value r) = Some sm \<and>
        authentic (record_codec e) (keys e) rd_public_key sm \<and>
        record_key_belongs e (kr_key r) (rd_public_key (sm_message sm)) \<and> rd_date (sm_message sm) \<noteq> - 1 \<and>
        in_window (clock_skew_of (config s0)) (max_age_of (config s0)) (unix_secs (clk w' 0))
          (rd_date (sm_message sm)))"
proof -
  have found: "\<forall>sm \<in> set records. found_in e (config s0) tr qid sm"
    using run_collected [OF assms(1,2)] assms(3) unfolding records_all_def by blast
  have fits: "skew_fits (clock_skew_of (config s0)) (unix_secs (clk w' 0))" if "(w', i) \<in> set tr" for w' i
    using assms(5) that by fastforce
  have step: "fst (listen_step e w
         (SwarmInput (SwarmBehaviour (BKademlia (OutboundQueryProgressed qid result)))) s) =
      finish_looking_for_dht_record qid s"
    using assms(4) by (auto simp: listen_step_def handle_swarm_event_def handle_behaviour_event_def
        handle_kademlia_event_def)
  show ?thesis
  proof (rule conjI, goal_cases)
    case 1
    show ?case
    proof (cases records)
      case (Cons x xs)
      with max_by_date_in [of x xs] show ?thesis
        unfolding step using assms(3) by (auto simp: finish_looking_for_dht_record_def Let_def)
    qed (use assms(3) in \<open>simp add: step finish_looking_for_dht_record_def Let_def\<close>)
  next
    case 2
    show ?case
      using found validate_record_date_ok [OF fits assms(6)] unfolding found_in_def by blast
  qed
qed

lemma example_lookup_run:
  "\<exists>s. run (example_env True) example_state
     [(example_world, CommandInput (FindMultiaddr (PublicKey [5]) (PeerId [5]))),
      (example_world, found_input 0 \<lparr>kr_key = [5], kr_value = example_wire\<rparr>)] s Running \<and>
     calls s = [KadGetRecord [5]] \<and>
     kademlia_map_received_records s 0 = Some [\<lparr>sm_message = example_record, sm_signature = example_signature\<rparr>]"
proof -
  define s1 where
    "s1 = ask_kademlia_get_record (example_env True) example_world (PublicKey [5]) (PeerId [5]) example_state"
  have s1: "kademlia_map_received_records s1 0 = Some []" "config s1 = example_config"
    "calls s1 = [KadGetRecord [5]]"
    by (simp_all add: s1_def ask_kademlia_get_record_def Let_def record_key_def example_keys_def)
  have f: "rd_public_key example_record = PublicKey [5]" "rd_date example_record = 1000"
    by (simp_all add: example_record_def)
  have "check_found_record (example_env True) example_world s1 0 \<lparr>kr_key = [5], kr_value = example_wire\<rparr> =
      RecordAccepted \<lparr>sm_message = example_record, sm_signature = example_signature\<rparr>"
    by (simp add: check_found_record_accepts s1 example_authentic f record_key_belongs_def
        validate_record_date_ok valid_duration_def example_in_window) (simp add: example_keys_def)
  then have step: "\<exists>s. listen_step (example_env True) example_world
        (found_input 0 \<lparr>kr_key = [5], kr_value = example_wire\<rparr>) s1 = (s, Running) \<and> calls s = [KadGetRecord [5]] \<and>
      kademlia_map_received_records s 0 = Some [\<lparr>sm_message = example_record, sm_signature = example_signature\<rparr>]"
    by (simp add: listen_step_def handle_swarm_event_def handle_behaviour_event_def
        handle_kademlia_event_def handle_found_record_def loop_result_def s1)
  have "run (example_env True) example_state
     [(example_world, CommandInput (FindMultiaddr (PublicKey [5]) (PeerId [5])))] s1 Running"
    by (rule single_run) (simp add: listen_step_def handle_command_def loop_result_def s1_def)
  from run_step [OF this] step show ?thesis by force
qed

theorem lookup_results_authentic_witness:
  "\<exists>s. calls (fst (listen_step (example_env True) example_world
         (SwarmInput (SwarmBehaviour (BKademlia (OutboundQueryProgressed 0 GetRecordTimeout)))) s)) =
       [KadGetRecord [5], SendCommandEvent (ResultFindMultiaddress (Some [Multiaddr [8]]))]"
proof -
  obtain s where s: "run (example_env True) example_state
     [(example_world, CommandInput (FindMultiaddr (PublicKey [5]) (PeerId [5]))),
      (example_world, found_input 0 \<lparr>kr_key = [5], kr_value = example_wire\<rparr>)] s Running"
     "calls s = [KadGetRecord [5]]"
     "kademlia_map_received_records s 0 = Some [\<lparr>sm_message = example_record, sm_signature = example_signature\<rparr>]"
    using example_lookup_run by blast
  have "rd_multiaddresses example_record = [Multiaddr [8]]" by (simp add: example_record_def)
  then show ?thesis
    using lookup_results_authentic [OF s(1) _ s(3), of GetRecordTimeout example_world]
    by (intro exI [of _ s]) (auto simp: s(2) valid_duration_def)
qed

section \<open>From the configuration to the event loop\<close>

text \<open>C9: A node that was built from a configuration and has gone through start-up satisfies what the
  theorems on runs assume of their first state, whatever happened on the network meanwhile: no message
  was sent or delivered, no dial or lookup is in progress, no peer is penalised, and it signs with the key
  it names as its own. It listens on exactly the configured addresses, and its gossip filter admits
  exactly the topic it publishes on.\<close>

theorem started_node_ready:
  assumes "finish_swarm blib (keys e) built cfg sg l = Some (Inr sw, l')"
    and "from_config lib listen_error e cfg sw allowlist buf sg vo ms = (Some (Inr (s0, ch, h)), ms')"
    and "s1 = w_state (establish_connections e accepts answer fin xs s0)"
    and "signer_matches (keys e) (if byos e then sg else kp_sign (transport_keypair cfg))
           (if byos e then cfg_app_public_key cfg else kp_public (transport_keypair cfg))"
  shows "list_all control_call (calls s1) \<and> {a. ListenOn a \<in> set (calls s1)} = set (listening_addrs cfg) \<and>
     dial_manager s1 = dial_manager_new \<and> kademlia_map_received_records s1 = Map.empty \<and>
     peer_penalty_storage s1 = penalty_peer_storage_new \<and>
     signer_matches (keys e) (p2p_signer s1) (own_public_key e s1) \<and>
     app_allowlist s1 = (if byos e then set allowlist else {}) \<and>
     max_age_of (config s1) = sb_envelope_max_age (setup_state s0) \<and>
     clock_skew_of (config s1) = sb_max_clock_skew (setup_state s0) \<and>
     gs_filter (bh_gossipsub (sw_behaviour sw)) = {topic_hash blib (topic s1)}"
proof -
  note node = from_config_built [OF assms(2)] and swarm = finish_swarm_built [OF assms(1)]
  obtain cs where cs: "calls s1 = calls s0 @ cs" "list_all control_call cs" "\<forall>a. ListenOn a \<notin> set cs"
    and un: "unscored s1 = unscored (s0\<lparr>setup_state := setup_state s1\<rparr>)"
    and "score_manager s1 = score_manager s0" and pen: "peer_penalty_storage s1 = peer_penalty_storage s0"
    by (rule establish_connections_keeps [OF assms(3)])
  note same = unscored_eqD [OF un]
  have set: "settings s1 = settings s0" using same(1) by simp
  note set1 = settings_eqD [OF set]
  have "signer_matches (keys e) (p2p_signer s1) (own_public_key e s1)"
    unfolding set1(2,7) using assms(4) transport_signer_matches
    by (simp add: node own_public_key_def split: if_splits)
  moreover have "list_all control_call (calls s1)" "{a. ListenOn a \<in> set (calls s1)} = set (listening_addrs cfg)"
    using cs(2,3) by (auto simp: cs(1) node list_all_iff)
  moreover have "dial_manager s1 = dial_manager_new" "kademlia_map_received_records s1 = Map.empty"
    using same(2,4) node by simp_all
  moreover have "sb_envelope_max_age (setup_state s0) = max_age_of cfg"
    "sb_max_clock_skew (setup_state s0) = clock_skew_of cfg"
    by (simp_all add: node swarm setup_behaviour_new_def)
  ultimately show ?thesis by (simp add: pen node set1 swarm)
qed

definition example_lib :: behaviour_lib where
  "example_lib = \<lparr>topic_hash = map of_char, default_score_params = PeerScoreParams [],
     with_topic_params = (\<lambda>_ ps. ps), default_score_thresholds = PeerScoreThresholds [],
     config_valid = (\<lambda>_. True), gossipsub_error = (\<lambda>_. None), scoring_ok = (\<lambda>_ _. True)\<rparr>"

definition example_channel_lib :: channel_lib where
  "example_channel_lib = \<lparr>mpsc_capacity_ok = (\<lambda>n. 0 < n), broadcast_capacity_ok = (\<lambda>n. 0 < n)\<rparr>"

definition example_swarm :: swarm where
  "example_swarm = (case finish_swarm example_lib example_keys (Inr InMemory) example_config
       (example_sign (PublicKey [5])) raw_limits_default of Some (Inr sw, _) \<Rightarrow> sw)"

definition example_node :: p2p where
  "example_node = (case fst (from_config example_channel_lib (\<lambda>_. None) (example_env True) example_config
       example_swarm [PublicKey [5]] None (example_sign (PublicKey [5])) None 1000) of
     Some (Inr (s, _, _)) \<Rightarrow> s)"

lemma example_swarm_built:
  "finish_swarm example_lib example_keys (Inr InMemory) example_config (example_sign (PublicKey [5])) raw_limits_default =
     Some (Inr example_swarm, apply_codec_limits example_config raw_limits_default)"
proof -
  have "\<exists>sw l. finish_swarm example_lib example_keys (Inr InMemory) example_config (example_sign (PublicKey [5]))
      raw_limits_default = Some (Inr sw, l)"
    by (simp add: finish_swarm_def behaviour_new_def create_gossipsub_def create_kademlia_behaviour_def
        duration_add_def valid_duration_def example_lib_def example_config_def DEFAULT_KAD_RECORD_TTL_def Let_def)
  then show ?thesis by (auto simp: example_swarm_def dest: finish_swarm_built(2))
qed

lemma example_node_built:
  "\<exists>ch h. from_config example_channel_lib (\<lambda>_. None) (example_env True) example_config example_swarm
      [PublicKey [5]] None (example_sign (PublicKey [5])) None 1000 = (Some (Inr (example_node, ch, h)), 1000)"
proof -
  have "\<exists>s ch h. from_config example_channel_lib (\<lambda>_. None) (example_env True) example_config example_swarm
      [PublicKey [5]] None (example_sign (PublicKey [5])) None 1000 = (Some (Inr (s, ch, h)), 1000)"
    by (simp add: from_config_def create_channels_def example_channel_lib_def example_config_def Let_def
        DEFAULT_COMMAND_EVENT_BUFFER_SIZE_def DEFAULT_COMMAND_BUFFER_SIZE_def
        DEFAULT_REQ_RESP_EVENT_BUFFER_SIZE_def DEFAULT_REQ_RESP_COMMAND_BUFFER_SIZE_def
        DEFAULT_GOSSIP_EVENT_BUFFER_SIZE_def DEFAULT_GOSSIP_COMMAND_BUFFER_SIZE_def)
  then show ?thesis by (auto simp: example_node_def)
qed

theorem started_node_ready_witness:
  "list_all control_call (calls (w_state (establish_connections (example_env True) (\<lambda>_. True)
     (\<lambda>_. SubscribeOk) TimeRanOut [] example_node)))"
proof -
  obtain ch h where s: "from_config example_channel_lib (\<lambda>_. None) (example_env True) example_config example_swarm
      [PublicKey [5]] None (example_sign (PublicKey [5])) None 1000 = (Some (Inr (example_node, ch, h)), 1000)"
    using example_node_built by blast
  have sw: "finish_swarm example_lib (keys (example_env True)) (Inr InMemory) example_config (example_sign (PublicKey [5]))
      raw_limits_default = Some (Inr example_swarm, apply_codec_limits example_config raw_limits_default)"
    by (simp add: example_swarm_built)
  show ?thesis
    by (rule conjunct1 [OF started_node_ready [OF sw s refl]])
      (simp add: example_signer_matches example_config_def)
qed



section \<open>Renewing the node's own record\<close>

abbreviation kad_input :: "kademlia_event \<Rightarrow> input" where
  "kad_input ev \<equiv> SwarmInput (SwarmBehaviour (BKademlia ev))"

lemma own_record_config:
  "config s' = config s \<Longrightarrow> own_record e w s' r sm \<longleftrightarrow> own_record e w s r sm"
  by (simp add: own_record_def own_public_key_def)

lemma republish_same:
  assumes "listen_step e w RepublishInput s = (emit (KadPutRecord r) s, Running)"
    and "config s' = config s" and "p2p_signer s' = p2p_signer s"
  shows "listen_step e w RepublishInput s' = (emit (KadPutRecord r) s', Running)"
proof -
  have own: "own_public_key e s' = own_public_key e s" using assms(2) by (simp add: own_public_key_def)
  show ?thesis
    using assms(1) unfolding listen_step_def ask_kademlia_put_record_def own assms(2,3) input.case
    by (auto simp: emit_def split: option.splits sum.splits dest: arg_cong [where f = calls])
qed

text \<open>One publication, in a state with the same configuration and signer as \<open>s\<close>.\<close>

lemma republish_step:
  assumes "can_publish e w s" and "codec_roundtrip (record_codec e)"
    and "signer_matches (keys e) (p2p_signer s) (own_public_key e s)"
    and "config s' = config s" and "p2p_signer s' = p2p_signer s"
  obtains r sm where "listen_step e w RepublishInput s' = (emit (KadPutRecord r) s', Running)"
    and "own_record e w s r sm"
proof -
  have own: "own_public_key e s' = own_public_key e s" using assms(4) by (simp add: own_public_key_def)
  have "can_publish e w s'" using assms(1,5) by (simp add: can_publish_def own)
  then obtain r where r: "ask_kademlia_put_record e w s' = (emit (KadPutRecord r) s', Ok)"
    by (rule ask_kademlia_put_record_publishes)
  moreover have "calls (emit (KadPutRecord r) s') = calls s' @ [KadPutRecord r]" by simp
  ultimately obtain sm where "own_record e w s' r sm"
    by (rule published_own_record) (use assms(2,3,5) own in simp_all)
  with r that show thesis by (simp add: listen_step_def own_record_config [OF assms(4)])
qed

text \<open>C32: The life of the node's own record. When the routing table first gets a peer, a publication is
  requested at once. Each requested publication puts exactly one record into the DHT, under the node's
  own key, signed by it, with its current addresses and date. A confirmed publication schedules the
  next one after the time to live, a failed one after the error timer. The expiry the DHT was built with
  leaves five minutes: if the confirmation and the renewal together are at most that late, the record
  is published again before the previous one expires. And the renewed record is accepted for storage by
  every node with the same encoding that still holds the previous one or none, if it is at least a second
  newer and inside that node's window.\<close>

theorem record_renewal_cycle:
  assumes "finish_swarm blib (keys e) built cfg sg l = Some (Inr sw, l')"
    and "kad_record_ttl (config s) = kad_record_ttl cfg"
    and "codec_roundtrip (record_codec e)" and "key_encoding_lawful (keys e)"
    and "signer_matches (keys e) (p2p_signer s) (own_public_key e s)"
    and "can_publish e w1 s" and "can_publish e w3 s"
    and "failure \<in> {PutRecordTimeout, PutRecordQuorumFailed}"
  shows "\<exists>s' s'' r1 r3 sm1 sm3 expiry.
     listen e [(w0, kad_input RoutingUpdated), (w1, RepublishInput),
       (w2, kad_input (OutboundQueryProgressed qid PutRecordOk)), (w3, RepublishInput)] s = (s', Running) \<and>
     calls s' = calls s @ (if kademlia_is_routing_updated_first_time s then [RepublishNow] else []) @
       [KadPutRecord r1, RepublishAfter (unwrap_or DEFAULT_KAD_RECORD_TTL (kad_record_ttl (config s))),
        KadPutRecord r3] \<and>
     listen e [(w1, RepublishInput), (w2, kad_input (OutboundQueryProgressed qid failure))] s = (s'', Running) \<and>
     calls s'' = calls s @ [KadPutRecord r1, RepublishAfter
       (unwrap_or DEFAULT_KAD_TIMER_PUT_RECORD_ERROR (kad_timer_putrecorderror (config s)))] \<and>
     own_record e w1 s r1 sm1 \<and> own_record e w3 s r3 sm3 \<and>
     kad_expiry (bh_kademlia (sw_behaviour sw)) = Some expiry \<and>
     (\<forall>late. clk w2 0 + late \<le> clk w1 0 + int (300 * nanos_per_sec) \<longrightarrow>
        clk w3 0 \<le> clk w2 0 + int (unwrap_or DEFAULT_KAD_RECORD_TTL (kad_record_ttl (config s))) + late \<longrightarrow>
        clk w3 0 \<le> clk w1 0 + int expiry) \<and>
     (\<forall>eB wB sB. record_codec eB = record_codec e \<longrightarrow> keys eB = keys e \<longrightarrow> byos eB = byos e \<longrightarrow>
        skew_fits (clock_skew_of (config sB)) (unix_secs (clk wB 0)) \<longrightarrow>
        valid_duration (max_age_of (config sB)) \<longrightarrow> 0 \<le> clk wB 0 \<longrightarrow> unix_secs (clk w3 0) \<noteq> - 1 \<longrightarrow>
        in_window (clock_skew_of (config sB)) (max_age_of (config sB)) (unix_secs (clk wB 0))
          (unix_secs (clk w3 0)) \<longrightarrow>
        store_get wB (kr_key r3) \<in> {None, Some r1} \<longrightarrow> unix_secs (clk w1 0) < unix_secs (clk w3 0) \<longrightarrow>
        handle_kademlia_event eB wB (InboundPutRecord (Some r3)) sB = (emit (StorePut r3) sB, Ok))"
proof -
  let ?d = "unwrap_or DEFAULT_KAD_RECORD_TTL (kad_record_ttl (config s))"
  let ?first = "kademlia_is_routing_updated_first_time s"
  define t0 where "t0 = (if ?first then emit RepublishNow (s\<lparr>kademlia_is_routing_updated_first_time := False\<rparr>) else s)"
  have t0: "config t0 = config s" "p2p_signer t0 = p2p_signer s"
    "calls t0 = calls s @ (if ?first then [RepublishNow] else [])"
    by (simp_all add: t0_def)
  note kad_step = listen_step_def handle_swarm_event_def handle_behaviour_event_def handle_kademlia_event_def
    loop_result_def
  have step0: "listen_step e w0 (kad_input RoutingUpdated) s = (t0, Running)"
    by (simp add: kad_step t0_def)
  obtain r1 sm1 where r1: "listen_step e w1 RepublishInput s = (emit (KadPutRecord r1) s, Running)"
    "own_record e w1 s r1 sm1"
    by (rule republish_step [OF assms(6,3,5) refl refl])
  have r1': "listen_step e w1 RepublishInput t0 = (emit (KadPutRecord r1) t0, Running)"
    using republish_same [OF r1(1) t0(1,2)] .
  let ?t2 = "emit (RepublishAfter ?d) (emit (KadPutRecord r1) t0)"
  have step2: "listen_step e w2 (kad_input (OutboundQueryProgressed qid PutRecordOk)) (emit (KadPutRecord r1) t0) =
      (?t2, Running)"
    by (simp add: kad_step t0)
  obtain r3 sm3 where r3: "listen_step e w3 RepublishInput ?t2 = (emit (KadPutRecord r3) ?t2, Running)"
    "own_record e w3 s r3 sm3"
    by (rule republish_step [OF assms(7,3,5), of ?t2]) (simp_all add: t0)
  have cycle: "listen e [(w0, kad_input RoutingUpdated), (w1, RepublishInput),
      (w2, kad_input (OutboundQueryProgressed qid PutRecordOk)), (w3, RepublishInput)] s =
      (emit (KadPutRecord r3) ?t2, Running)"
    by (simp add: step0 r1' step2 r3(1))
  let ?err = "unwrap_or DEFAULT_KAD_TIMER_PUT_RECORD_ERROR (kad_timer_putrecorderror (config s))"
  have failed: "listen e [(w1, RepublishInput), (w2, kad_input (OutboundQueryProgressed qid failure))] s =
      (emit (RepublishAfter ?err) (emit (KadPutRecord r1) s), Running)"
    using assms(8) r1(1) by (auto simp: kad_step)
  have accepted: "handle_kademlia_event eB wB (InboundPutRecord (Some r3)) sB = (emit (StorePut r3) sB, Ok)"
    if "record_codec eB = record_codec e" "keys eB = keys e" "byos eB = byos e"
      "skew_fits (clock_skew_of (config sB)) (unix_secs (clk wB 0))" "valid_duration (max_age_of (config sB))"
      "0 \<le> clk wB 0" "unix_secs (clk w3 0) \<noteq> - 1"
      "in_window (clock_skew_of (config sB)) (max_age_of (config sB)) (unix_secs (clk wB 0)) (unix_secs (clk w3 0))"
      "store_get wB (kr_key r3) \<in> {None, Some r1}" "unix_secs (clk w1 0) < unix_secs (clk w3 0)" for eB wB sB
    by (rule own_record_stored [OF r3(2) that(1-3) assms(4) that(4-8)])
      (use that(9,10) r1(2) in \<open>auto simp: own_record_def\<close>)
  have calls: "calls (emit (KadPutRecord r3) ?t2) = calls s @ (if ?first then [RepublishNow] else []) @
      [KadPutRecord r1, RepublishAfter ?d, KadPutRecord r3]"
    "calls (emit (RepublishAfter ?err) (emit (KadPutRecord r1) s)) =
       calls s @ [KadPutRecord r1, RepublishAfter ?err]"
    by (simp_all add: t0(3))
  have late: "clk w3 0 \<le> clk w1 0 + int (?d + 5 * 60 * nanos_per_sec)"
    if "clk w2 0 + late \<le> clk w1 0 + int (300 * nanos_per_sec)" "clk w3 0 \<le> clk w2 0 + int ?d + late" for late
    using that by simp
  show ?thesis
    by (intro exI conjI)
      (rule cycle, rule calls(1), rule failed, rule calls(2), rule r1(2), rule r3(2),
        rule finish_swarm_built(11) [OF assms(1), folded assms(2)], use late in blast, use accepted in blast)
qed

definition example_codec2 :: "'m \<Rightarrow> 'm \<Rightarrow> 'm codec" where
  "example_codec2 m0 m1 =
     \<lparr>to_vec = (\<lambda>m. Some [0]),
      signed_to_vec = (\<lambda>sm. if sm_message sm = m0 then Some (1 # sm_signature sm)
         else if sm_message sm = m1 then Some (2 # sm_signature sm) else None),
      signed_from_slice = (\<lambda>b. case b of
          [] \<Rightarrow> None
        | x # sig \<Rightarrow> if x = 1 then Some \<lparr>sm_message = m0, sm_signature = sig\<rparr>
                    else if x = 2 then Some \<lparr>sm_message = m1, sm_signature = sig\<rparr> else None)\<rparr>"

definition example_later :: world where
  "example_later = example_world\<lparr>clk := (\<lambda>_. 4600000000000)\<rparr>"

definition example_renewing_env :: env where
  "example_renewing_env = (example_env True)\<lparr>record_codec :=
     example_codec2 example_record (example_record\<lparr>rd_date := 4600\<rparr>)\<rparr>"

lemma example_can_publish:
  "can_publish example_renewing_env example_world example_state"
  "can_publish example_renewing_env example_later example_state"
proof -
  have own: "own_public_key example_renewing_env example_state = PublicKey [5]"
    by (simp add: own_public_key_def example_config_def example_renewing_env_def)
  have secs: "unix_secs 4600000000000 = 4600"
    by (simp add: unix_secs_def duration_since_def as_secs_def)
  have sign: "example_sign (PublicKey [5]) [0] = Some example_signature" by (rule example_sign_0)
  have "record_data_new 1000000000000 (PublicKey [5]) [Multiaddr [8]] = Some example_record"
    "record_data_new 4600000000000 (PublicKey [5]) [Multiaddr [8]] = Some (example_record\<lparr>rd_date := 4600\<rparr>)"
    by (simp_all add: record_data_new_def get_timestamp_eq example_record_def secs)
  then show "can_publish example_renewing_env example_world example_state"
    "can_publish example_renewing_env example_later example_state"
    by (simp_all add: can_publish_def own example_later_def)
      (simp_all add: example_renewing_env_def signed_message_new_def example_codec2_def sign)
qed

theorem record_renewal_cycle_witness:
  "\<exists>s' r1 r3. listen example_renewing_env
     [(example_world, kad_input RoutingUpdated), (example_world, RepublishInput),
      (example_world, kad_input (OutboundQueryProgressed 0 PutRecordOk)), (example_later, RepublishInput)]
     example_state = (s', Running) \<and>
   calls s' = [RepublishNow, KadPutRecord r1, RepublishAfter DEFAULT_KAD_RECORD_TTL, KadPutRecord r3]"
proof -
  have rt: "codec_roundtrip (record_codec example_renewing_env)"
    by (auto simp: example_renewing_env_def codec_roundtrip_def example_codec2_def split: if_splits)
  have e: "keys example_renewing_env = example_keys"
    "own_public_key example_renewing_env example_state = PublicKey [5]"
    by (simp_all add: own_public_key_def example_renewing_env_def) (simp add: example_config_def)
  have sw: "finish_swarm example_lib (keys example_renewing_env) (Inr InMemory) example_config
      (example_sign (PublicKey [5])) raw_limits_default =
      Some (Inr example_swarm, apply_codec_limits example_config raw_limits_default)"
    by (simp add: e example_swarm_built)
  have k: "key_encoding_lawful (keys example_renewing_env)"
    "signer_matches (keys example_renewing_env) (p2p_signer example_state)
       (own_public_key example_renewing_env example_state)"
    by (simp_all add: e example_keys_lawful example_signer_matches)
  have "kad_record_ttl example_config = None" by (simp add: example_config_def)
  with record_renewal_cycle [OF sw _ rt k example_can_publish, of PutRecordTimeout example_world example_world 0]
  show ?thesis by (simp del: listen.simps) blast
qed

section \<open>Scores across protocols\<close>

lemma req_resp_decay_value:
  assumes "last_scoring_decay_time (score_manager s) p = Some t" and "t \<le> now"
    and "req_resp_app_score (score_manager s) p = Some r"
  shows "get_req_resp_score (score_manager (decay_request_response_score w now p s)) p =
     Some (if now = t then r else apply_decay (p2p_validator s) r (nat (now - t)))"
proof -
  have el: "get_elapsed_decay_time now p s =
      (nat (now - t), s\<lparr>score_manager := (score_manager s)\<lparr>last_scoring_decay_time :=
         (last_scoring_decay_time (score_manager s))(p \<mapsto> now)\<rparr>\<rparr>)"
    using assms(1,2)
    by (simp add: get_elapsed_decay_time_def update_last_scoring_decay_time_def map_insert_def
        duration_since_def)
  show ?thesis
    using assms(2,3) unfolding decay_request_response_score_def el
    by (simp add: Let_def get_all_scores_def get_req_resp_score_def update_req_resp_app_score_def)
qed

text \<open>C39: Gossip and request-response scores share one decay timestamp per peer. A gossip message, valid or
  not, uses up the time since the last decay: when the peer's request-response score is decayed later,
  it recovers only for the time since that gossip message, and for nothing at all if both happen at the
  same instant, although it would have recovered for the whole time without the message.\<close>

theorem shared_decay_timestamp:
  assumes "\<not> byos e" and "\<not> is_gossip_muted (clk w 0) (peer_penalty_storage s) p"
    and "last_scoring_decay_time (score_manager s) p = Some t0" and "t0 < clk w 1" and "clk w 1 \<le> t2"
    and "req_resp_app_score (score_manager s) p = Some r"
  shows "get_req_resp_score (score_manager (decay_request_response_score w' t2 p s)) p =
           Some (apply_decay (p2p_validator s) r (nat (t2 - t0))) \<and>
         get_req_resp_score (score_manager (decay_request_response_score w' t2 p
             (fst (handle_gossip_event e w (GossipsubMessage p mid data) s)))) p =
           Some (if t2 = clk w 1 then r else apply_decay (p2p_validator s) r (nat (t2 - clk w 1)))"
proof -
  let ?s = "fst (handle_gossip_event e w (GossipsubMessage p mid data) s)"
  have s1: "?s = fst (handle_gossip_msg e w p mid data s)" by (simp add: handle_gossip_event_def)
  note sc = handle_gossip_msg_scores [OF assms(1,2) s1]
  have "p2p_validator ?s = p2p_validator s"
    using unscored_eqD(1) [OF handle_gossip_event_unscored] by (rule settings_eqD(4))
  then show ?thesis
    using assms(3-6) req_resp_decay_value [of s p t0 t2 r w']
      req_resp_decay_value [of ?s p "clk w 1" t2 r w'] sc
    by (simp del: One_nat_def)
qed

theorem shared_decay_timestamp_witness:
  "get_req_resp_score (score_manager (decay_request_response_score example_world 1000000000000 (PeerId [1])
     (fst (handle_gossip_event (example_env False) example_world (GossipsubMessage (PeerId [1]) [6] [1, 2, 3])
       (example_state\<lparr>score_manager := score_manager_new\<lparr>req_resp_app_score := [PeerId [1] \<mapsto> Fin (- 50)],
           last_scoring_decay_time := [PeerId [1] \<mapsto> 3]\<rparr>\<rparr>))))) (PeerId [1]) = Some (Fin (- 50))"
proof -
  let ?s = "example_state\<lparr>score_manager := score_manager_new\<lparr>req_resp_app_score := [PeerId [1] \<mapsto> Fin (- 50)],
           last_scoring_decay_time := [PeerId [1] \<mapsto> 3]\<rparr>\<rparr>"
  have "\<not> is_gossip_muted (clk example_world 0) (peer_penalty_storage ?s) (PeerId [1])"
    by (simp add: gossip_mute.active_iff gossip_mute.new_deadline)
  from shared_decay_timestamp [OF _ this, of "example_env False" 3 1000000000000 "Fin (- 50)" example_world
      "[6]" "[1, 2, 3]"]
  show ?thesis by simp
qed

end
